(* ===== verification/Go_Prelude.thy ===== *)
theory Go_Prelude
  imports Main "HOL-Library.AList" "HOL-Library.Multiset" "HOL-Library.Sublist"
    "HOL-Library.Char_ord" "HOL-Library.List_Lexorder"
begin

text \<open>
  The Go run time and standard library as far as the modelled packages use them: errors,
  the string functions of \<^verbatim>\<open>strings\<close>, \<^verbatim>\<open>strconv\<close> and \<^verbatim>\<open>fmt\<close>, maps with their
  unspecified iteration order, and the generic list lemmas the component theories share.

  A Go string is a byte sequence, here a \<open>string\<close> (list of 8-bit characters). The case
  mapping and white space functions are those of ASCII text: cloud resource names, identifiers
  and host addresses are ASCII, and the multi-byte cases of the Unicode tables are not modelled.
\<close>

named_theorems go_simps \<open>computation rules of the Go library functions\<close>
named_theorems gomap_simps \<open>lookup after update, deletion and folds of Go maps\<close>

section \<open>Errors\<close>

text \<open>
  The \<^verbatim>\<open>error\<close> interface: \<open>None\<close> is \<^verbatim>\<open>nil\<close>. \<open>InProgress\<close> is the one error type of
  the controller that is recognised by a type assertion, \<open>NotFound\<close> the one the Kubernetes
  client's errors are tested for; every other error is its message.
\<close>

datatype go_error = InProgress | NotFound string | Err string

type_synonym error = "go_error option"

fun Error :: "go_error \<Rightarrow> string" where
  "Error InProgress = ''in-progress''"
| "Error (NotFound s) = s"
| "Error (Err s) = s"

text \<open>A call returns, dereferences nil or reads out of range, or waits for ever.\<close>

datatype 'a outcome = Returns 'a | Panics | Hangs

text \<open>\<^verbatim>\<open>multierr.Append\<close> of a sequence of errors.\<close>

definition multierr :: "go_error list \<Rightarrow> (string list \<Rightarrow> string) \<Rightarrow> error" where
  "multierr errs join = (case errs of [] \<Rightarrow> None | [e] \<Rightarrow> Some e | _ \<Rightarrow> Some (Err (join (map Error errs))))"

section \<open>Strings\<close>

definition lower_char :: "char \<Rightarrow> char" where
  "lower_char c = (let n = (of_char c :: nat) in
     if 65 \<le> n \<and> n \<le> 90 then char_of (n + 32) else c)"

definition ToLower :: "string \<Rightarrow> string" where
  "ToLower s = map lower_char s"

definition HasPrefix :: "string \<Rightarrow> string \<Rightarrow> bool" where
  "HasPrefix s p \<longleftrightarrow> take (length p) s = p"

definition TrimPrefix :: "string \<Rightarrow> string \<Rightarrow> string" where
  "TrimPrefix s p = (if HasPrefix s p then drop (length p) s else s)"

definition Contains :: "string \<Rightarrow> string \<Rightarrow> bool" where
  "Contains s sub \<longleftrightarrow> sublist sub s"

definition Trim :: "string \<Rightarrow> string \<Rightarrow> string" where
  "Trim s cutset = rev (dropWhile (\<lambda>c. c \<in> set cutset) (rev (dropWhile (\<lambda>c. c \<in> set cutset) s)))"

definition space_chars :: string where
  "space_chars = map char_of [9, 10, 11, 12, 13, 32 :: nat]"

definition TrimSpace :: "string \<Rightarrow> string" where
  "TrimSpace s = Trim s space_chars"

text \<open>\<^verbatim>\<open>strings.Split(s, sep)\<close> for a one-character separator.\<close>

fun Split :: "string \<Rightarrow> char \<Rightarrow> string list" where
  "Split [] sep = [[]]"
| "Split (c # s) sep =
     (if c = sep then [] # Split s sep
      else (case Split s sep of [] \<Rightarrow> [[c]] | t # ts \<Rightarrow> (c # t) # ts))"

fun Join :: "string list \<Rightarrow> string \<Rightarrow> string" where
  "Join [] sep = []"
| "Join [s] sep = s"
| "Join (s # t # ss) sep = s @ sep @ Join (t # ss) sep"

text \<open>\<^verbatim>\<open>fmt.Sprintf("%v", ...)\<close> of a slice of strings.\<close>

definition fmt_strings :: "string list \<Rightarrow> string" where
  "fmt_strings ss = ''['' @ Join ss '' '' @ '']''"

text \<open>The verb \<^verbatim>\<open>%q\<close> of an error: its message in quotes, with quotes and backslashes escaped.\<close>

definition quoted :: "string \<Rightarrow> string" where
  "quoted s = CHR 0x22 # concat (map (\<lambda>c. if c = CHR 0x22 \<or> c = CHR 0x5C then [CHR 0x5C, c] else [c]) s) @ [CHR 0x22]"

definition digit_char :: "nat \<Rightarrow> char" where
  "digit_char d = char_of (48 + d)"

fun nat_string :: "nat \<Rightarrow> string" where
  "nat_string n = (if n < 10 then [digit_char n] else nat_string (n div 10) @ [digit_char (n mod 10)])"

declare nat_string.simps [simp del]

text \<open>\<^verbatim>\<open>strconv.Itoa\<close>, \<^verbatim>\<open>strconv.FormatInt(_, 10)\<close> and the verb \<^verbatim>\<open>%v\<close> of an integer.\<close>

definition Itoa :: "int \<Rightarrow> string" where
  "Itoa i = (if i < 0 then CHR ''-'' # nat_string (nat (- i)) else nat_string (nat i))"

definition char_digit :: "char \<Rightarrow> nat option" where
  "char_digit c = (let n = (of_char c :: nat) in if 48 \<le> n \<and> n \<le> 57 then Some (n - 48) else None)"

fun digits_value :: "nat \<Rightarrow> string \<Rightarrow> nat option" where
  "digits_value acc [] = Some acc"
| "digits_value acc (c # s) =
     (case char_digit c of None \<Rightarrow> None | Some d \<Rightarrow> digits_value (10 * acc + d) s)"

definition parse_nat :: "string \<Rightarrow> nat option" where
  "parse_nat s = (if s = [] then None else digits_value 0 s)"

text \<open>
  \<^verbatim>\<open>strconv.ParseInt(s, 10, 32)\<close>: an optional sign, decimal digits, and a range error outside
  the 32-bit integers.
\<close>

definition ParseInt32 :: "string \<Rightarrow> int option" where
  "ParseInt32 s =
     (let (neg, t) = (case s of [] \<Rightarrow> (False, [])
        | c # cs \<Rightarrow> if c = CHR ''+'' then (False, cs) else if c = CHR ''-'' then (True, cs) else (False, s))
      in case parse_nat t of None \<Rightarrow> None
         | Some n \<Rightarrow> let i = (if neg then - int n else int n) in
             if - (2 ^ 31) \<le> i \<and> i < 2 ^ 31 then Some i else None)"

section \<open>Maps\<close>

text \<open>
  A Go map is an association list with distinct keys. A \<^verbatim>\<open>range\<close> loop visits the entries in
  an order the language leaves open: \<open>order\<close> picks, for a map of \<open>n\<close> entries, a list of
  the positions \<open>0 .. n - 1\<close>, and \<open>is_order\<close> says it is a permutation of them.
\<close>

type_synonym ('k, 'v) gomap = "('k \<times> 'v) list"
type_synonym order = "nat \<Rightarrow> nat list"

definition is_order :: "order \<Rightarrow> bool" where
  "is_order ord \<longleftrightarrow> (\<forall>n. mset (ord n) = mset [0..<n])"

definition in_order :: order where
  "in_order n = [0..<n]"

definition range_map :: "order \<Rightarrow> ('k, 'v) gomap \<Rightarrow> ('k \<times> 'v) list" where
  "range_map ord m = map (nth m) (ord (length m))"

definition has_key :: "('k, 'v) gomap \<Rightarrow> 'k \<Rightarrow> bool" where
  "has_key m k \<longleftrightarrow> map_of m k \<noteq> None"

definition get_or :: "'v \<Rightarrow> ('k, 'v) gomap \<Rightarrow> 'k \<Rightarrow> 'v" where
  "get_or z m k = (case map_of m k of None \<Rightarrow> z | Some v \<Rightarrow> v)"

definition put :: "'k \<Rightarrow> 'v \<Rightarrow> ('k, 'v) gomap \<Rightarrow> ('k, 'v) gomap" where
  "put = AList.update"

definition del :: "'k \<Rightarrow> ('k, 'v) gomap \<Rightarrow> ('k, 'v) gomap" where
  "del = AList.delete"

text \<open>\<^verbatim>\<open>m[k] += d\<close> and \<^verbatim>\<open>m[k] = append(m[k], xs...)\<close>: a missing key reads as the zero value.\<close>

definition add_at :: "'k \<Rightarrow> int \<Rightarrow> ('k, int) gomap \<Rightarrow> ('k, int) gomap" where
  "add_at k d m = put k (get_or 0 m k + d) m"

definition append_at :: "'k \<Rightarrow> 'v list \<Rightarrow> ('k, 'v list) gomap \<Rightarrow> ('k, 'v list) gomap" where
  "append_at k xs m = put k (get_or [] m k @ xs) m"

definition wf_map :: "('k, 'v) gomap \<Rightarrow> bool" where
  "wf_map m \<longleftrightarrow> distinct (map fst m)"

definition keys :: "('k, 'v) gomap \<Rightarrow> 'k set" where
  "keys m = fst ` set m"

definition vals :: "('k, 'v) gomap \<Rightarrow> 'v set" where
  "vals m = snd ` set m"

section \<open>Lemmas on strings\<close>

lemma lower_char_idem [simp]: "lower_char (lower_char c) = lower_char c"
  by (auto simp: lower_char_def Let_def)

lemma ToLower_idem [simp]: "ToLower (ToLower s) = ToLower s"
  by (simp add: ToLower_def)

lemma ToLower_append [simp]: "ToLower (s @ t) = ToLower s @ ToLower t"
  by (simp add: ToLower_def)

lemma ToLower_Nil [simp]: "ToLower [] = []"
  by (simp add: ToLower_def)

lemma length_ToLower [simp]: "length (ToLower s) = length s"
  by (simp add: ToLower_def)

lemma HasPrefix_append [simp]: "HasPrefix (p @ s) p"
  by (simp add: HasPrefix_def)

lemma HasPrefix_iff: "HasPrefix s p \<longleftrightarrow> (\<exists>t. s = p @ t)"
  by (auto simp: HasPrefix_def) (metis append_take_drop_id)

lemma TrimPrefix_append [simp]: "TrimPrefix (p @ s) p = s"
  by (simp add: TrimPrefix_def)

lemma TrimPrefix_shorter: "length (TrimPrefix s p) < length s \<longleftrightarrow> p \<noteq> [] \<and> HasPrefix s p"
  by (cases p; cases s) (auto simp: TrimPrefix_def HasPrefix_def)

lemma append_sep_inject:
  "sep \<notin> set s \<Longrightarrow> sep \<notin> set s' \<Longrightarrow> s @ sep # t = s' @ sep # t' \<longleftrightarrow> s = s' \<and> t = t'"
proof (induction s arbitrary: s')
  case Nil
  then show ?case by (cases s') auto
next
  case (Cons c s)
  then show ?case by (cases s') auto
qed

lemma nat_string_not_Nil [simp]: "nat_string n \<noteq> []"
  by (subst nat_string.simps) simp

lemma char_digit_digit_char [simp]: "d < 10 \<Longrightarrow> char_digit (digit_char d) = Some d"
  by (simp add: char_digit_def digit_char_def Let_def)

lemma digits_value_append:
  "digits_value acc (s @ t) = (case digits_value acc s of None \<Rightarrow> None | Some v \<Rightarrow> digits_value v t)"
  by (induction s arbitrary: acc) (auto split: option.splits)

lemma digits_value_nat_string: "digits_value 0 (nat_string n) = Some n"
proof (induction n rule: nat_string.induct)
  case (1 n)
  show ?case
  proof (cases "n < 10")
    case True
    then show ?thesis by (subst nat_string.simps) simp
  next
    case False
    with "1.IH" show ?thesis
      by (subst nat_string.simps) (simp add: digits_value_append)
  qed
qed

lemma parse_nat_nat_string [simp]: "parse_nat (nat_string n) = Some n"
  by (simp add: parse_nat_def digits_value_nat_string)

lemma nat_string_inject [simp]: "nat_string m = nat_string n \<longleftrightarrow> m = n"
  by (metis option.inject parse_nat_nat_string)

lemma digits_value_digits: "digits_value acc s = Some v \<Longrightarrow> c \<in> set s \<Longrightarrow> char_digit c \<noteq> None"
  by (induction s arbitrary: acc) (auto split: option.splits)

lemma nat_string_digits: "c \<in> set (nat_string n) \<Longrightarrow> char_digit c \<noteq> None"
  using digits_value_digits digits_value_nat_string by blast

lemma nat_string_no_sign [simp]:
  "CHR ''-'' \<notin> set (nat_string n)" "CHR ''+'' \<notin> set (nat_string n)"
  "CHR ''.'' \<notin> set (nat_string n)" "CHR ''/'' \<notin> set (nat_string n)"
  using nat_string_digits by (fastforce simp: char_digit_def)+

lemma Itoa_of_nat [simp]: "Itoa (int n) = nat_string n"
  by (simp add: Itoa_def)

lemma Itoa_inject [simp]: "Itoa i = Itoa j \<longleftrightarrow> i = j"
proof
  assume eq: "Itoa i = Itoa j"
  have neq: "CHR ''-'' # s \<noteq> nat_string n" for s n
    using nat_string_no_sign(1) [of n] by (metis list.set_intros(1))
  from eq show "i = j"
    by (auto simp: Itoa_def neq neq [symmetric] split: if_splits)
qed simp

lemma ParseInt32_Itoa: "- (2 ^ 31) \<le> i \<Longrightarrow> i < 2 ^ 31 \<Longrightarrow> ParseInt32 (Itoa i) = Some i"
proof (cases "i < 0")
  case True
  assume "- (2 ^ 31) \<le> i" and "i < 2 ^ 31"
  with True show ?thesis by (simp add: ParseInt32_def Itoa_def)
next
  case False
  assume b: "- (2 ^ 31) \<le> i" "i < 2 ^ 31"
  obtain c cs where cs: "nat_string (nat i) = c # cs"
    by (metis nat_string_not_Nil list.exhaust)
  then have "c \<noteq> CHR ''-''" "c \<noteq> CHR ''+''"
    using nat_string_no_sign(1,2) [of "nat i"] by auto
  with False b cs show ?thesis
    using parse_nat_nat_string [of "nat i"] by (simp add: ParseInt32_def Itoa_def)
qed

section \<open>Lemmas on maps and iteration orders\<close>

lemma is_order_in_order [simp]: "is_order in_order"
  by (simp add: is_order_def in_order_def)

lemma mset_range_map [simp]: "is_order ord \<Longrightarrow> mset (range_map ord m) = mset m"
  unfolding range_map_def is_order_def by (metis map_nth mset_map)

lemma set_range_map [simp]: "is_order ord \<Longrightarrow> set (range_map ord m) = set m"
  by (metis mset_range_map set_mset_mset)

lemma length_range_map [simp]: "is_order ord \<Longrightarrow> length (range_map ord m) = length m"
  by (metis mset_range_map size_mset)

lemma range_map_in_order [simp]: "range_map in_order m = m"
  by (simp add: range_map_def in_order_def map_nth)

lemma distinct_range_map: "is_order ord \<Longrightarrow> wf_map m \<Longrightarrow> distinct (map fst (range_map ord m))"
  by (metis mset_range_map mset_map mset_eq_imp_distinct_iff wf_map_def)

lemma map_of_range_map: "is_order ord \<Longrightarrow> wf_map m \<Longrightarrow> map_of (range_map ord m) = map_of m"
  by (simp add: map_of_inject_set distinct_range_map wf_map_def)

lemma map_of_put [gomap_simps, simp]: "map_of (put k v m) = (map_of m)(k \<mapsto> v)"
  by (simp add: put_def update_conv')

lemma map_of_del [gomap_simps, simp]: "map_of (del k m) = (map_of m)(k := None)"
  by (simp add: del_def delete_conv')

lemma wf_map_Nil [simp]: "wf_map []"
  by (simp add: wf_map_def)

lemma wf_map_put [simp]: "wf_map m \<Longrightarrow> wf_map (put k v m)"
  by (simp add: wf_map_def put_def distinct_update)

lemma wf_map_del [simp]: "wf_map m \<Longrightarrow> wf_map (del k m)"
  by (simp add: wf_map_def del_def distinct_delete)

lemma keys_put [simp]: "keys (put k v m) = insert k (keys m)"
  by (simp add: keys_def put_def flip: dom_map_of_conv_image_fst) (simp add: update_conv')

lemma keys_del [simp]: "keys (del k m) = keys m - {k}"
  by (simp add: keys_def del_def flip: dom_map_of_conv_image_fst) (auto simp: delete_conv' dom_def)

lemma keys_Nil [simp]: "keys [] = {}"
  by (simp add: keys_def)

lemma keys_Cons [simp]: "keys ((k, v) # m) = insert k (keys m)"
  by (simp add: keys_def)

lemma keys_iff: "k \<in> keys m \<longleftrightarrow> map_of m k \<noteq> None"
  by (metis domIff dom_map_of_conv_image_fst keys_def)

lemma has_key_iff: "has_key m k \<longleftrightarrow> k \<in> keys m"
  by (simp add: has_key_def keys_iff)

lemma in_set_map_of: "wf_map m \<Longrightarrow> (k, v) \<in> set m \<longleftrightarrow> map_of m k = Some v"
  by (simp add: wf_map_def)

lemma vals_iff: "wf_map m \<Longrightarrow> v \<in> vals m \<longleftrightarrow> (\<exists>k. map_of m k = Some v)"
  unfolding vals_def image_iff by (metis in_set_map_of map_of_SomeD snd_conv surj_pair)

lemma length_wf_map: "wf_map m \<Longrightarrow> length m = card (keys m)"
  by (simp add: wf_map_def keys_def) (metis distinct_card length_map list.set_map)

lemma get_or_put: "get_or z (put k v m) k' = (if k' = k then v else get_or z m k')"
  by (simp add: get_or_def)

section \<open>Lemmas on lists\<close>

lemma list_all2_map: "(\<And>x. x \<in> set xs \<Longrightarrow> P x (f x)) \<Longrightarrow> list_all2 P xs (map f xs)"
  by (induction xs) auto

lemma find_SomeD: "find P xs = Some x \<Longrightarrow> x \<in> set xs \<and> P x"
  by (induction xs) (auto split: if_splits)

lemma concat_singletons: "(\<And>x. x \<in> set xs \<Longrightarrow> f x = [g x]) \<Longrightarrow> concat (map f xs) = map g xs"
  by (induction xs) auto

lemma map_of_fold_put:
  "map_of (fold (\<lambda>x. put (f x) (g x)) xs m) k =
     (case find (\<lambda>x. f x = k) (rev xs) of None \<Rightarrow> map_of m k | Some x \<Rightarrow> Some (g x))"
  by (induction xs rule: rev_induct) auto

lemma map_of_fold_putD:
  "map_of (fold (\<lambda>x. put (f x) (g x)) xs m) k = Some v \<Longrightarrow> map_of m k = Some v \<or> (\<exists>x \<in> set xs. f x = k \<and> v = g x)"
  by (induction xs rule: rev_induct) (auto split: if_splits)

lemma wf_fold_put: "wf_map m \<Longrightarrow> wf_map (fold (\<lambda>x. put (f x) (g x)) xs m)"
  by (induction xs arbitrary: m) auto

lemma keys_fold_put: "keys (fold (\<lambda>x. put (f x) (g x)) xs m) = f ` set xs \<union> keys m"
  by (induction xs arbitrary: m) auto

lemma put_only:
  assumes "keys m \<subseteq> {k}" "wf_map m"
  shows "put k v m = [(k, v)]"
  using assms by (cases m rule: list.exhaust; cases "tl m") (auto simp: keys_def wf_map_def put_def)

lemma set_fold_put:
  assumes "inj_on f (set xs)"
  shows "snd ` set (fold (\<lambda>x. put (f x) x) xs []) = set xs"
proof -
  let ?m = "fold (\<lambda>x. put (f x) x) xs []"
  have "wf_map ?m" by (rule wf_fold_put) (simp add: wf_map_def)
  then have entry: "y \<in> set xs \<and> f y = k" if "(k, y) \<in> set ?m" for k y
    using that map_of_fold_putD [of f "\<lambda>x. x" xs "[]" k y] by (auto simp: wf_map_def)
  have "x \<in> snd ` set ?m" if "x \<in> set xs" for x
  proof -
    have "f x \<in> keys ?m" using that by (simp add: keys_fold_put)
    then obtain y where y: "(f x, y) \<in> set ?m" by (auto simp: keys_def)
    with entry [OF y] assms that have "y = x" by (simp add: inj_on_def)
    with y show ?thesis by force
  qed
  with entry show ?thesis by force
qed

lemma map_of_fold_del:
  "map_of (fold (\<lambda>x. del (f x)) xs m) k = (if k \<in> f ` set xs then None else map_of m k)"
  by (induction xs arbitrary: m) auto

lemma wf_fold_del: "wf_map m \<Longrightarrow> wf_map (fold (\<lambda>x. del (f x)) xs m)"
  by (induction xs arbitrary: m) auto

lemma keys_fold_del: "keys (fold (\<lambda>x. del (f x)) xs m) = keys m - f ` set xs"
  by (induction xs arbitrary: m) auto

lemma get_or_add_at: "get_or 0 (add_at k d m) k' = get_or 0 m k' + (if k' = k then d else 0)"
  by (simp add: add_at_def get_or_put)

lemma wf_add_at [simp]: "wf_map m \<Longrightarrow> wf_map (add_at k d m)"
  by (simp add: add_at_def)

lemma get_or_fold_add_at:
  "get_or 0 (fold (\<lambda>x. add_at x d) xs m) k = get_or 0 m k + d * int (count (mset xs) k)"
  by (induction xs arbitrary: m) (auto simp: get_or_add_at algebra_simps)

lemma wf_fold_add_at: "wf_map m \<Longrightarrow> wf_map (fold (\<lambda>x. add_at x d) xs m)"
  by (induction xs arbitrary: m) auto

lemma map_of_nonzero: "wf_map m \<Longrightarrow> d \<noteq> 0 \<Longrightarrow> (k, d) \<in> set m \<longleftrightarrow> get_or 0 m k = (d :: int)"
  by (auto simp: in_set_map_of get_or_def split: option.splits)

lemma map_of_append_at:
  "map_of (append_at k xs m) = (map_of m)(k \<mapsto> get_or [] m k @ xs)"
  by (simp add: append_at_def)

lemma wf_append_at [simp]: "wf_map m \<Longrightarrow> wf_map (append_at k xs m)"
  by (simp add: append_at_def)

lemma keys_append_at [simp]: "keys (append_at k xs m) = insert k (keys m)"
  by (simp add: append_at_def)

lemma get_or_fold_append_at:
  "get_or [] (fold (\<lambda>x. append_at (f x) (g x)) xs m) k =
     get_or [] m k @ concat (map g (filter (\<lambda>x. f x = k) xs))"
  by (induction xs arbitrary: m) (auto simp: append_at_def get_or_put)

lemma wf_fold_append_at: "wf_map m \<Longrightarrow> wf_map (fold (\<lambda>x. append_at (f x) (g x)) xs m)"
  by (induction xs arbitrary: m) auto

lemma keys_fold_append_at: "keys (fold (\<lambda>x. append_at (f x) (g x)) xs m) = f ` set xs \<union> keys m"
  by (induction xs arbitrary: m) auto

lemma in_fold_append_at:
  "(k, v) \<in> set (fold (\<lambda>x. append_at (f x) (g x)) xs []) \<longleftrightarrow>
     k \<in> f ` set xs \<and> v = concat (map g (filter (\<lambda>x. f x = k) xs))"
proof -
  let ?m = "fold (\<lambda>x. append_at (f x) (g x)) xs []"
  have "(k, v) \<in> set ?m \<longleftrightarrow> map_of ?m k = Some v"
    by (simp add: in_set_map_of wf_fold_append_at)
  also have "\<dots> \<longleftrightarrow> k \<in> keys ?m \<and> get_or [] ?m k = v"
    by (auto simp: keys_iff get_or_def)
  finally show ?thesis
    by (auto simp: keys_fold_append_at get_or_fold_append_at) (auto simp: get_or_def)
qed

end
