(* ===== verification/Go_Net.thy ===== *)
theory Go_Net
  imports Go_Prelude "HOL-Library.Word"
begin

unbundle bit_operations_syntax

text \<open>
  \<^verbatim>\<open>net.IPNet\<close> of the Go standard library: an address, and a 4-byte mask that is either a prefix
  of ones or, when \<^verbatim>\<open>net.CIDRMask(_, 32)\<close> is called with a length outside \<open>0 .. 32\<close>, nil. Every
  mask the controller makes comes from \<^verbatim>\<open>CIDRMask(_, 32)\<close> or \<^verbatim>\<open>ParseCIDR\<close>. An address is an
  IPv4 address (in either of Go's two representations) or an IPv6 address; an IPv6 address with a
  4-byte mask has no network number, so it contains nothing and prints as \<^verbatim>\<open><nil>\<close>. Networks
  with 16-byte masks are not modelled: \<open>ParseCIDR\<close> rejects text that is no IPv4 prefix.
\<close>

type_synonym ip4 = "32 word"

datatype ip = V4 ip4 | V6 "128 word"

record IPNet =
  IP :: ip
  Mask :: "nat option"

definition CIDRMask :: "int \<Rightarrow> nat option" where
  "CIDRMask ones = (if 0 \<le> ones \<and> ones \<le> 32 then Some (nat ones) else None)"

definition mask32 :: "nat \<Rightarrow> ip4" where
  "mask32 l = NOT (mask (32 - l))"

definition Mask_Size :: "IPNet \<Rightarrow> nat" where
  "Mask_Size n = (case Mask n of None \<Rightarrow> 0 | Some l \<Rightarrow> l)"

definition IPNet_Contains :: "IPNet \<Rightarrow> ip \<Rightarrow> bool" where
  "IPNet_Contains n x = (case (IP n, Mask n, x) of
     (V4 b, Some l, V4 a) \<Rightarrow> b AND mask32 l = a AND mask32 l
   | _ \<Rightarrow> False)"

definition ip_octets :: "ip4 \<Rightarrow> nat list" where
  "ip_octets a = (let n = unat a in
     [n div 2 ^ 24, n div 2 ^ 16 mod 256, n div 2 ^ 8 mod 256, n mod 256])"

definition ip_string :: "ip4 \<Rightarrow> string" where
  "ip_string a = Join (map nat_string (ip_octets a)) ''.''"

definition IPNet_String :: "IPNet \<Rightarrow> string" where
  "IPNet_String n = (case (IP n, Mask n) of
     (V4 a, Some l) \<Rightarrow> ip_string a @ ''/'' @ nat_string l
   | _ \<Rightarrow> ''<nil>'')"

definition parse_octet :: "string \<Rightarrow> nat option" where
  "parse_octet s = (case parse_nat s of None \<Rightarrow> None
     | Some n \<Rightarrow> if n \<le> 255 \<and> \<not> (length s > 1 \<and> hd s = CHR ''0'') then Some n else None)"

definition octets_ip :: "nat \<Rightarrow> nat \<Rightarrow> nat \<Rightarrow> nat \<Rightarrow> ip4" where
  "octets_ip a b c d = of_nat (a * 2 ^ 24 + b * 2 ^ 16 + c * 2 ^ 8 + d)"

definition parse_ipv4 :: "string \<Rightarrow> ip4 option" where
  "parse_ipv4 s = (case Split s (CHR ''.'') of
     [a, b, c, d] \<Rightarrow> (case (parse_octet a, parse_octet b, parse_octet c, parse_octet d) of
         (Some a', Some b', Some c', Some d') \<Rightarrow> Some (octets_ip a' b' c' d')
       | _ \<Rightarrow> None)
   | _ \<Rightarrow> None)"

definition masked :: "IPNet \<Rightarrow> IPNet" where
  "masked n = (case (IP n, Mask n) of (V4 a, Some l) \<Rightarrow> n\<lparr>IP := V4 (a AND mask32 l)\<rparr> | _ \<Rightarrow> n)"

definition ParseCIDR :: "string \<Rightarrow> IPNet option" where
  "ParseCIDR s =
     (if CHR ''/'' \<notin> set s then None
      else let addr = takeWhile (\<lambda>c. c \<noteq> CHR ''/'') s;
               msk = drop (Suc (length addr)) s
           in case (parse_ipv4 addr, parse_nat msk) of
                (Some a, Some l) \<Rightarrow> if l \<le> 32 then Some (masked \<lparr>IP = V4 a, Mask = Some l\<rparr>) else None
              | _ \<Rightarrow> None)"

section \<open>The addresses of a network\<close>

definition addresses :: "IPNet \<Rightarrow> ip4 set" where
  "addresses n = {a. IPNet_Contains n (V4 a)}"

definition valid_net :: "IPNet \<Rightarrow> bool" where
  "valid_net n = (case (IP n, Mask n) of (V4 _, Some l) \<Rightarrow> l \<le> 32 | _ \<Rightarrow> False)"

lemma valid_netE [elim]:
  assumes "valid_net n"
  obtains a l where "IP n = V4 a" "Mask n = Some l" "l \<le> 32"
  using assms by (auto simp: valid_net_def split: ip.splits option.splits)

lemma mask32_mono: "l \<le> k \<Longrightarrow> mask32 k AND mask32 l = mask32 l"
  by (rule bit_word_eqI) (auto simp: mask32_def bit_simps)

lemma addresses_iff: "IP n = V4 b \<Longrightarrow> Mask n = Some l \<Longrightarrow>
    a \<in> addresses n \<longleftrightarrow> b AND mask32 l = a AND mask32 l"
  by (simp add: addresses_def IPNet_Contains_def)

lemma contains_subset:
  assumes "valid_net n" "valid_net m" "Mask_Size n \<le> Mask_Size m" "IPNet_Contains n (IP m)"
  shows "addresses m \<subseteq> addresses n"
proof
  fix a
  from assms(1,2) obtain b l c k where n: "IP n = V4 b" "Mask n = Some l"
    and m: "IP m = V4 c" "Mask m = Some k"
    by (metis valid_netE)
  with assms(3) have "l \<le> k" by (simp add: Mask_Size_def)
  assume "a \<in> addresses m"
  then have "c AND mask32 k = a AND mask32 k"
    using m by (simp add: addresses_iff)
  then have "(c AND mask32 k) AND mask32 l = (a AND mask32 k) AND mask32 l"
    by simp
  then have "c AND mask32 l = a AND mask32 l"
    using mask32_mono [OF \<open>l \<le> k\<close>] by (simp add: and.assoc)
  with assms(4) n m show "a \<in> addresses n"
    by (simp add: addresses_iff IPNet_Contains_def)
qed

lemma addresses_masked [simp]: "addresses (masked n) = addresses n"
  by (auto simp: addresses_def masked_def IPNet_Contains_def and.assoc split: option.splits ip.splits)

section \<open>Printing and parsing\<close>

lemma split_no_sep: "sep \<notin> set s \<Longrightarrow> Split s sep = [s]"
  by (induction s) auto

lemma split_append: "sep \<notin> set s \<Longrightarrow> Split (s @ sep # t) sep = s # Split t sep"
  by (induction s) auto

lemma ip_octets_bound: "d \<in> set (ip_octets a) \<Longrightarrow> d \<le> 255"
proof -
  have "unat a < 2 ^ 32"
    using unsigned_less [of a] by simp
  then have "unat a div 2 ^ 24 \<le> 255" by simp
  moreover assume "d \<in> set (ip_octets a)"
  ultimately show "d \<le> 255"
    by (auto simp: ip_octets_def Let_def intro: order.trans)
qed

lemma nat_string_head: "length (nat_string n) > 1 \<Longrightarrow> hd (nat_string n) \<noteq> CHR ''0''"
proof (induction n rule: nat_string.induct)
  case (1 n)
  show ?case
  proof (cases "n < 10")
    case True
    with "1.prems" show ?thesis by (subst (asm) nat_string.simps) simp
  next
    case False
    have hd_eq: "hd (nat_string n) = hd (nat_string (n div 10))"
      using False by (subst nat_string.simps) simp
    show ?thesis
    proof (cases "n div 10 < 10")
      case True
      have "0 < n div 10" using False by simp
      moreover have "digit_char d \<noteq> CHR ''0''" if "0 < d" "d < 10" for d
        using that char_digit_digit_char [of d] by (auto simp: char_digit_def)
      ultimately have "digit_char (n div 10) \<noteq> CHR ''0''" using True by blast
      then show ?thesis
        using hd_eq True nat_string.simps [of "n div 10"] by simp
    next
      case div10: False
      have "length (nat_string (n div 10)) > 1"
        using div10 nat_string.simps [of "n div 10"] by simp
      with "1.IH" False hd_eq show ?thesis by simp
    qed
  qed
qed

lemma parse_octet_nat_string [simp]: "n \<le> 255 \<Longrightarrow> parse_octet (nat_string n) = Some n"
  using nat_string_head [of n] by (auto simp: parse_octet_def)

lemma octets_ip_octets:
  "ip_octets a = [w, x, y, z] \<Longrightarrow> octets_ip w x y z = a"
proof -
  assume oct: "ip_octets a = [w, x, y, z]"
  define n where "n = unat a"
  define q where "q = n div 256"
  define r where "r = q div 256"
  have eqs: "n div 2 ^ 8 = q" "n div 2 ^ 16 = r" "n div 2 ^ 24 = r div 256"
    by (simp_all add: q_def r_def div_mult2_eq [symmetric])
  have "(r div 256 * 256 + r mod 256) * 256 + q mod 256 = q" "q * 256 + n mod 256 = n"
    by (simp_all add: q_def r_def)
  then have "((n div 2 ^ 24 * 256 + n div 2 ^ 16 mod 256) * 256 + n div 2 ^ 8 mod 256) * 256 + n mod 256 = n"
    by (simp only: eqs)
  moreover have "w = n div 2 ^ 24" "x = n div 2 ^ 16 mod 256" "y = n div 2 ^ 8 mod 256" "z = n mod 256"
    using oct by (simp_all add: ip_octets_def Let_def n_def)
  ultimately have "((w * 256 + x) * 256 + y) * 256 + z = n"
    by simp
  then have "w * 2 ^ 24 + x * 2 ^ 16 + y * 2 ^ 8 + z = unat a"
    unfolding n_def by simp
  then show ?thesis
    by (simp only: octets_ip_def of_nat_unat ucast_id)
qed

lemma parse_ipv4_ip_string [simp]: "parse_ipv4 (ip_string a) = Some a"
proof -
  obtain w x y z where oct: "ip_octets a = [w, x, y, z]"
    by (simp add: ip_octets_def Let_def)
  have le: "w \<le> 255" "x \<le> 255" "y \<le> 255" "z \<le> 255"
    using ip_octets_bound [of _ a] oct by auto
  have "Split (ip_string a) (CHR ''.'') = map nat_string [w, x, y, z]"
    by (simp add: ip_string_def oct split_append split_no_sep)
  with le octets_ip_octets [OF oct] show ?thesis
    by (simp add: parse_ipv4_def)
qed

lemma ip_string_inject [simp]: "ip_string a = ip_string b \<longleftrightarrow> a = b"
  by (metis option.inject parse_ipv4_ip_string)

lemma ip_string_no_slash [simp]: "CHR ''/'' \<notin> set (ip_string a)"
  by (simp add: ip_string_def ip_octets_def Let_def)

lemma ParseCIDR_String:
  assumes "valid_net n"
  shows "ParseCIDR (IPNet_String n) = Some (masked n)"
proof -
  from assms obtain a l where n: "IP n = V4 a" "Mask n = Some l" "l \<le> 32"
    by blast
  have "takeWhile (\<lambda>c. c \<noteq> CHR ''/'') (ip_string a @ CHR ''/'' # nat_string l) = ip_string a"
    using ip_string_no_slash [of a] by (auto simp: takeWhile_append)
  moreover have "masked \<lparr>IP = V4 a, Mask = Some l\<rparr> = masked n"
    using n by (simp add: masked_def)
  ultimately show ?thesis
    using n by (simp add: ParseCIDR_def IPNet_String_def Let_def)
qed

lemma IPNet_String_inject:
  assumes "IPNet_String n = IPNet_String m" "valid_net n" "valid_net m"
  shows "n = m"
proof -
  from assms(2,3) obtain a l b k where n: "IP n = V4 a" "Mask n = Some l"
    and m: "IP m = V4 b" "Mask m = Some k"
    by (metis valid_netE)
  with assms(1) have "a = b" "l = k"
    by (simp_all add: IPNet_String_def append_sep_inject)
  with n m show ?thesis by simp
qed

end
