(* ===== verification/Security_Group.thy ===== *)
theory Security_Group
  imports Go_Net
begin

text \<open>
  The data model the controller and the cloud plug-ins share
  (\<^verbatim>\<open>pkg/cloud-provider/securitygroup\<close>): cloud resources and their identifiers, ingress and
  egress rules, the content of a security group as the cloud reports it, and the naming scheme
  that tells the security groups made by Nephe from all others.
\<close>

section \<open>Names\<close>

text \<open>A Kubernetes name, which the controllers and the cloud plug-ins use alike.\<close>

record NamespacedName =
  nn_Namespace :: string
  nn_Name :: string

definition NamespacedName_String :: "NamespacedName \<Rightarrow> string" where
  "NamespacedName_String n = nn_Namespace n @ ''/'' @ nn_Name n"

text \<open>The annotations of a virtual machine (\<^verbatim>\<open>cloudapi/common/cloud.go\<close>).\<close>

definition AnnotationCloudAssignedIDKey :: string where
  "AnnotationCloudAssignedIDKey = ''cloud-assigned-id''"

definition AnnotationCloudAssignedVPCIDKey :: string where
  "AnnotationCloudAssignedVPCIDKey = ''cloud-assigned-vpc-id''"

definition AnnotationCloudAssignedNameKey :: string where
  "AnnotationCloudAssignedNameKey = ''cloud-assigned-name''"

section \<open>Cloud resources\<close>

definition CloudResourceTypeVM :: string where
  "CloudResourceTypeVM = ''VirtualMachine''"

definition CloudResourceTypeNIC :: string where
  "CloudResourceTypeNIC = ''NetworkInterface''"

record CloudResourceID =
  id_Name :: string
  id_Vpc :: string

record CloudResource =
  rsc_Type :: string
  rsc_Name :: CloudResourceID

definition CloudResourceID_String :: "CloudResourceID \<Rightarrow> string" where
  "CloudResourceID_String c = id_Name c @ ''/'' @ id_Vpc c"

definition CloudResource_String :: "CloudResource \<Rightarrow> string" where
  "CloudResource_String c = rsc_Type c @ ''/'' @ CloudResourceID_String (rsc_Name c)"

definition NepheControllerPrefix :: string where
  "NepheControllerPrefix = ''nephe-''"

definition NepheControllerAddressGroupPrefix :: string where
  "NepheControllerAddressGroupPrefix = NepheControllerPrefix @ ''ag-''"

definition NepheControllerAppliedToPrefix :: string where
  "NepheControllerAppliedToPrefix = NepheControllerPrefix @ ''at-''"

definition GetCloudName :: "CloudResourceID \<Rightarrow> bool \<Rightarrow> string" where
  "GetCloudName c membershipOnly =
     (if membershipOnly then NepheControllerAddressGroupPrefix @ ToLower (id_Name c)
      else NepheControllerAppliedToPrefix @ ToLower (id_Name c))"

definition ProtocolNameNumMap :: "(string, int) gomap" where
  "ProtocolNameNumMap = [(''icmp'', 1), (''igmp'', 2), (''tcp'', 6), (''udp'', 17), (''icmpv6'', 58)]"

section \<open>Rules and group contents\<close>

record IngressRule =
  FromPort :: "int option"
  FromSrcIP :: "IPNet list"
  FromSecurityGroups :: "CloudResourceID list"
  in_Protocol :: "int option"

record EgressRule =
  ToPort :: "int option"
  ToDstIP :: "IPNet list"
  ToSecurityGroups :: "CloudResourceID list"
  eg_Protocol :: "int option"

record SynchronizationContent =
  Resource :: CloudResourceID
  MembershipOnly :: bool
  Members :: "CloudResource list"
  MembersWithOtherSGAttached :: "CloudResource list"
  IngressRules :: "IngressRule list"
  EgressRules :: "EgressRule list"

text \<open>
  The meaning of a computed rule: it permits traffic of its port and protocol (any, when absent)
  from or to an address of its blocks or a member of one of its groups. A rule with neither
  blocks nor groups stands for any peer.
\<close>

definition peer_matches :: "IPNet list \<Rightarrow> CloudResourceID list \<Rightarrow> ip4 \<Rightarrow> CloudResourceID set \<Rightarrow> bool" where
  "peer_matches ips sgs a gs \<longleftrightarrow>
     ips = [] \<and> sgs = [] \<or> a \<in> \<Union> (addresses ` set ips) \<or> gs \<inter> set sgs \<noteq> {}"

definition matches_opt :: "int option \<Rightarrow> int \<Rightarrow> bool" where
  "matches_opt p v \<longleftrightarrow> p = None \<or> p = Some v"

definition ingress_permits :: "IngressRule \<Rightarrow> int \<Rightarrow> int \<Rightarrow> ip4 \<Rightarrow> CloudResourceID set \<Rightarrow> bool" where
  "ingress_permits r port proto a gs \<longleftrightarrow> matches_opt (FromPort r) port \<and> matches_opt (in_Protocol r) proto \<and>
     peer_matches (FromSrcIP r) (FromSecurityGroups r) a gs"

definition egress_permits :: "EgressRule \<Rightarrow> int \<Rightarrow> int \<Rightarrow> ip4 \<Rightarrow> CloudResourceID set \<Rightarrow> bool" where
  "egress_permits r port proto a gs \<longleftrightarrow> matches_opt (ToPort r) port \<and> matches_opt (eg_Protocol r) proto \<and>
     peer_matches (ToDstIP r) (ToSecurityGroups r) a gs"

section \<open>Helpers\<close>

text \<open>The result is the group name, whether it is an address group, and whether it is an
  applied-to group.\<close>

definition IsNepheControllerCreatedSG :: "string \<Rightarrow> string \<times> bool \<times> bool" where
  "IsNepheControllerCreatedSG cloudSgName =
     (let suffix = TrimPrefix cloudSgName NepheControllerAddressGroupPrefix
      in if length suffix < length cloudSgName then (ToLower suffix, True, False)
         else let suffix = TrimPrefix cloudSgName NepheControllerAppliedToPrefix
              in if length suffix < length cloudSgName then (ToLower suffix, False, True)
                 else ([], False, False))"

definition add_if_type :: "string \<Rightarrow> CloudResource \<Rightarrow> (string, unit) gomap \<Rightarrow> (string, unit) gomap" where
  "add_if_type t r m = (if rsc_Type r = t then put (ToLower (id_Name (rsc_Name r))) () m else m)"

definition FindResourcesBasedOnKind ::
    "CloudResource list \<Rightarrow> (string, unit) gomap \<times> (string, unit) gomap" where
  "FindResourcesBasedOnKind cloudResources =
     fold (\<lambda>r (vms, nics). (add_if_type CloudResourceTypeVM r vms, add_if_type CloudResourceTypeNIC r nics))
       cloudResources ([], [])"

section \<open>The naming scheme\<close>

lemmas prefix_defs = NepheControllerAddressGroupPrefix_def NepheControllerAppliedToPrefix_def
  NepheControllerPrefix_def

lemma ag_not_at [simp]:
  "\<not> HasPrefix (NepheControllerAppliedToPrefix @ s) NepheControllerAddressGroupPrefix"
  "\<not> HasPrefix (NepheControllerAddressGroupPrefix @ s) NepheControllerAppliedToPrefix"
  by (simp_all add: HasPrefix_def prefix_defs)

lemma prefixes_not_Nil [simp]:
  "NepheControllerAddressGroupPrefix \<noteq> []" "NepheControllerAppliedToPrefix \<noteq> []"
  by (simp_all add: prefix_defs)

lemma IsNephe_iff:
  "IsNepheControllerCreatedSG s =
     (if HasPrefix s NepheControllerAddressGroupPrefix
        then (ToLower (TrimPrefix s NepheControllerAddressGroupPrefix), True, False)
      else if HasPrefix s NepheControllerAppliedToPrefix
        then (ToLower (TrimPrefix s NepheControllerAppliedToPrefix), False, True)
      else ([], False, False))"
  by (simp add: IsNepheControllerCreatedSG_def Let_def TrimPrefix_shorter)

lemma IsNephe_GetCloudName [simp]:
  "IsNepheControllerCreatedSG (GetCloudName c m) = (ToLower (id_Name c), m, \<not> m)"
  by (simp add: IsNephe_iff GetCloudName_def)

lemma ToLower_GetCloudName: "ToLower (GetCloudName c m) = GetCloudName c m"
proof -
  have "ToLower NepheControllerAddressGroupPrefix = NepheControllerAddressGroupPrefix"
      "ToLower NepheControllerAppliedToPrefix = NepheControllerAppliedToPrefix"
    by code_simp+
  then show ?thesis by (simp add: GetCloudName_def)
qed

lemma IsNephe_exclusive: "IsNepheControllerCreatedSG s = (n, ag, at) \<Longrightarrow> \<not> (ag \<and> at)"
  by (auto simp: IsNephe_iff split: if_splits)

lemma IsNephe_lower: "IsNepheControllerCreatedSG s = (n, ag, at) \<Longrightarrow> ToLower n = n"
  by (auto simp: IsNephe_iff split: if_splits)

text \<open>
  C32: the naming scheme round-trips. The name the plug-ins give the cloud security group of a
  Nephe group is recognised as made by Nephe, with the kind (address or applied-to) it was made
  with and the lower-cased group name; two groups get the same cloud name exactly when they are
  of the same kind and their names agree up to case, so the two kinds never collide.
\<close>

theorem cloud_name_roundtrip:
  "IsNepheControllerCreatedSG (GetCloudName c m) = (ToLower (id_Name c), m, \<not> m) \<and>
   (GetCloudName c m = GetCloudName c' m' \<longleftrightarrow> m = m' \<and> ToLower (id_Name c) = ToLower (id_Name c'))"
proof
  show "GetCloudName c m = GetCloudName c' m' \<longleftrightarrow> m = m' \<and> ToLower (id_Name c) = ToLower (id_Name c')"
    (is "?L \<longleftrightarrow> ?R")
  proof
    assume ?L
    then have "IsNepheControllerCreatedSG (GetCloudName c m) = IsNepheControllerCreatedSG (GetCloudName c' m')"
      by simp
    then show ?R by simp
  next
    assume ?R
    then show ?L by (simp add: GetCloudName_def)
  qed
qed (rule IsNephe_GetCloudName)

lemma CloudResourceID_String_inject:
  "CHR ''/'' \<notin> set (id_Name c) \<Longrightarrow> CHR ''/'' \<notin> set (id_Name c') \<Longrightarrow>
   CloudResourceID_String c = CloudResourceID_String c' \<longleftrightarrow> c = c'"
  by (auto simp: CloudResourceID_String_def append_sep_inject)

lemma keys_add_if_type: "keys (add_if_type t r m) =
    (if rsc_Type r = t then insert (ToLower (id_Name (rsc_Name r))) (keys m) else keys m)"
  by (simp add: add_if_type_def)

lemma FindResources_fold:
  "keys (fst (fold (\<lambda>r (vms, nics). (add_if_type t r vms, add_if_type t' r nics)) rs (a, b))) =
     keys a \<union> {ToLower (id_Name (rsc_Name r)) |r. r \<in> set rs \<and> rsc_Type r = t} \<and>
   keys (snd (fold (\<lambda>r (vms, nics). (add_if_type t r vms, add_if_type t' r nics)) rs (a, b))) =
     keys b \<union> {ToLower (id_Name (rsc_Name r)) |r. r \<in> set rs \<and> rsc_Type r = t'}"
  by (induction rs arbitrary: a b) (auto simp: keys_add_if_type)

lemma keys_FindResources:
  "keys (fst (FindResourcesBasedOnKind rs)) =
     {ToLower (id_Name (rsc_Name r)) |r. r \<in> set rs \<and> rsc_Type r = CloudResourceTypeVM}"
  "keys (snd (FindResourcesBasedOnKind rs)) =
     {ToLower (id_Name (rsc_Name r)) |r. r \<in> set rs \<and> rsc_Type r = CloudResourceTypeNIC}"
  unfolding FindResourcesBasedOnKind_def
  using FindResources_fold [of CloudResourceTypeVM CloudResourceTypeNIC rs "[]" "[]"] by simp_all

text \<open>A machine or interface, by its identifiers in lower case, is named by a list of members.\<close>

definition is_member :: "CloudResource list \<Rightarrow> string \<Rightarrow> string \<Rightarrow> bool" where
  "is_member members i nic \<longleftrightarrow>
     (\<exists>r \<in> set members. rsc_Type r = CloudResourceTypeVM \<and> ToLower (id_Name (rsc_Name r)) = i \<or>
        rsc_Type r = CloudResourceTypeNIC \<and> ToLower (id_Name (rsc_Name r)) = nic)"

lemma is_member_iff:
  "is_member members i nic \<longleftrightarrow>
     has_key (fst (FindResourcesBasedOnKind members)) i \<or> has_key (snd (FindResourcesBasedOnKind members)) nic"
  by (auto simp: is_member_def has_key_iff keys_FindResources)

end
