(* ===== verification/Np_Rules.thy ===== *)
theory Np_Rules
  imports Security_Group
begin

text \<open>
  The pure helper functions of the network policy controller
  (\<^verbatim>\<open>pkg/controllers/cloud/networkpolicy.go\<close>): group names, differences between the groups of
  two policies, merging and comparing member lists, and the deduplication of address blocks,
  security groups and rules before they are handed to a cloud plug-in.

  Loops over Go maps take the iteration order as an argument; the lemmas hold for every order.
\<close>

section \<open>Antrea network policies\<close>

text \<open>The fields of the Antrea control plane types the controller reads.\<close>

record IntOrString =
  IntVal :: int
  StrVal :: string

record Service =
  svc_Protocol :: "string option"
  svc_Port :: "IntOrString option"

record NetworkPolicyPeer =
  AddressGroups :: "string list"
  IPBlocks :: "(ip \<times> int) list"

datatype Direction = DirectionIn | DirectionOut

record NetworkPolicyRule =
  rule_Direction :: Direction
  From :: NetworkPolicyPeer
  To :: NetworkPolicyPeer
  Services :: "Service list option"
  Action :: "string option"

definition AntreaProtocolMap :: "(string, int) gomap" where
  "AntreaProtocolMap = [(''TCP'', 6), (''UDP'', 17), (''SCTP'', 132)]"

section \<open>Group names\<close>

definition uniqueGroupNameMemberPrefix :: string where
  "uniqueGroupNameMemberPrefix = ''mm_''"

definition getGroupUniqueName :: "string \<Rightarrow> bool \<Rightarrow> string" where
  "getGroupUniqueName name memberOnly =
     (if memberOnly then uniqueGroupNameMemberPrefix @ name else name)"

definition getGroupIDFromUniqueName :: "string \<Rightarrow> string \<times> bool" where
  "getGroupIDFromUniqueName name =
     (if HasPrefix name uniqueGroupNameMemberPrefix
      then (drop (length uniqueGroupNameMemberPrefix) name, True)
      else (name, False))"

section \<open>Differences and merges\<close>

definition split_diff :: "order \<Rightarrow> (string, int) gomap \<Rightarrow> string list \<times> string list" where
  "split_diff ord temp =
     fold (\<lambda>(s, v) (added, removed).
         if v > 0 then (added, removed @ [s]) else if v < 0 then (added @ [s], removed)
         else (added, removed))
       (range_map ord temp) ([], [])"

definition diffAppliedToGrp :: "order \<Rightarrow> string list \<Rightarrow> string list \<Rightarrow> string list \<times> string list" where
  "diffAppliedToGrp ord a b =
     (let temp = fold (\<lambda>s. add_at s 1) a [];
          temp = fold (\<lambda>s. add_at s (-1)) b temp
      in split_diff ord temp)"

definition count_rule_groups ::
    "int \<Rightarrow> NetworkPolicyRule \<Rightarrow> (string, int) gomap \<Rightarrow> (string, int) gomap" where
  "count_rule_groups d r temp =
     fold (\<lambda>g. add_at g d) (AddressGroups (To r)) (fold (\<lambda>g. add_at g d) (AddressGroups (From r)) temp)"

definition diffAddressGrp ::
    "order \<Rightarrow> NetworkPolicyRule list \<Rightarrow> NetworkPolicyRule list \<Rightarrow> string list \<times> string list" where
  "diffAddressGrp ord a b =
     (let temp = fold (count_rule_groups 1) a [];
          temp = fold (count_rule_groups (-1)) b temp
      in split_diff ord temp)"

definition mergeCloudResources ::
    "order \<Rightarrow> CloudResource list \<Rightarrow> CloudResource list \<Rightarrow> CloudResource list \<Rightarrow> CloudResource list" where
  "mergeCloudResources ord src added removed =
     (let srcMap = fold (\<lambda>s. put (CloudResourceID_String (rsc_Name s)) s) src [];
          srcMap = fold (\<lambda>r. del (CloudResourceID_String (rsc_Name r))) removed srcMap;
          srcMap = fold (\<lambda>a. put (CloudResourceID_String (rsc_Name a)) a) added srcMap
      in map snd (range_map ord srcMap))"

definition compareCloudResources :: "order \<Rightarrow> CloudResource list \<Rightarrow> CloudResource list \<Rightarrow> bool" where
  "compareCloudResources ord s1 s2 =
     (if length s1 \<noteq> length s2 then False else length (mergeCloudResources ord s1 [] s2) = 0)"

definition mergeIPs :: "order \<Rightarrow> IPNet list \<Rightarrow> IPNet list \<Rightarrow> IPNet list \<Rightarrow> IPNet list" where
  "mergeIPs ord src added removed =
     (let srcMap = fold (\<lambda>s. put (IPNet_String s) s) src [];
          srcMap = fold (\<lambda>r. del (IPNet_String r)) removed srcMap;
          srcMap = fold (\<lambda>a. put (IPNet_String a) a) added srcMap
      in map snd (range_map ord srcMap))"

section \<open>Deduplication\<close>

definition overlap :: "IPNet \<Rightarrow> IPNet \<Rightarrow> IPNet option" where
  "overlap ip1 ip2 =
     (if Mask_Size ip1 < Mask_Size ip2
      then if IPNet_Contains ip1 (IP ip2) then Some ip2 else None
      else if IPNet_Contains ip2 (IP ip1) then Some ip1 else None)"

text \<open>The pairs \<open>(xs ! i, xs ! j)\<close> with \<open>i < j\<close>, in the order of the nested loops.\<close>

fun pairs :: "'a list \<Rightarrow> ('a \<times> 'a) list" where
  "pairs [] = []"
| "pairs (x # xs) = map (Pair x) xs @ pairs xs"

definition deduplicateIP :: "order \<Rightarrow> IPNet list \<Rightarrow> IPNet list" where
  "deduplicateIP ord inputIP =
     (let (existing, ipList) =
            fold (\<lambda>ip (existing, ipList).
                if has_key existing (IPNet_String ip) then (existing, ipList)
                else (put (IPNet_String ip) ip existing, ipList @ [ip]))
              inputIP ([], []);
          existing =
            fold (\<lambda>(a, b) existing. case overlap a b of
                None \<Rightarrow> existing
              | Some smallerIP \<Rightarrow> del (IPNet_String smallerIP) existing)
              (pairs ipList) existing
      in map snd (range_map ord existing))"

definition deduplicateSG :: "CloudResourceID list \<Rightarrow> CloudResourceID list" where
  "deduplicateSG inputSG =
     snd (fold (\<lambda>sg (existing, outputSG).
         if has_key existing (CloudResourceID_String sg) then (existing, outputSG)
         else (put (CloudResourceID_String sg) () existing, outputSG @ [sg]))
       inputSG ([], []))"

type_synonym deduplicateKey = "int \<times> int"

definition key_part :: "int option \<Rightarrow> int" where
  "key_part p = (case p of None \<Rightarrow> 0 | Some v \<Rightarrow> v)"

definition key_pointer :: "int \<Rightarrow> int option" where
  "key_pointer v = (if v \<noteq> 0 then Some v else None)"

definition in_key :: "IngressRule \<Rightarrow> deduplicateKey" where
  "in_key r = (key_part (FromPort r), key_part (in_Protocol r))"

definition eg_key :: "EgressRule \<Rightarrow> deduplicateKey" where
  "eg_key r = (key_part (ToPort r), key_part (eg_Protocol r))"

definition deduplicateIngressRules :: "order \<Rightarrow> IngressRule list \<Rightarrow> IngressRule list" where
  "deduplicateIngressRules ord ingressRules =
     (let inRuleIPSet = fold (\<lambda>r. append_at (in_key r) (FromSrcIP r)) ingressRules [];
          inRuleSGSet = fold (\<lambda>r. append_at (in_key r) (FromSecurityGroups r)) ingressRules []
      in map (\<lambda>(k, v).
           \<lparr>FromPort = key_pointer (fst k), FromSrcIP = deduplicateIP ord v,
            FromSecurityGroups = deduplicateSG (get_or [] inRuleSGSet k),
            in_Protocol = key_pointer (snd k)\<rparr>)
         (range_map ord inRuleIPSet))"

definition deduplicateEgressRules :: "order \<Rightarrow> EgressRule list \<Rightarrow> EgressRule list" where
  "deduplicateEgressRules ord egressRules =
     (let eRuleIPSet = fold (\<lambda>r. append_at (eg_key r) (ToDstIP r)) egressRules [];
          eRuleSGSet = fold (\<lambda>r. append_at (eg_key r) (ToSecurityGroups r)) egressRules []
      in map (\<lambda>(k, v).
           \<lparr>ToPort = key_pointer (fst k), ToDstIP = deduplicateIP ord v,
            ToSecurityGroups = deduplicateSG (get_or [] eRuleSGSet k),
            eg_Protocol = key_pointer (snd k)\<rparr>)
         (range_map ord eRuleIPSet))"

section \<open>Group names and differences\<close>

text \<open>
  C33: the key under which a group waits in the controller's queues determines the group. Reading
  the unique name of a group back gives its name and kind, for every address group and for every
  applied-to group whose name does not itself start with the address group marker.
\<close>

theorem group_unique_name_roundtrip:
  assumes "memberOnly \<or> \<not> HasPrefix name uniqueGroupNameMemberPrefix"
  shows "getGroupIDFromUniqueName (getGroupUniqueName name memberOnly) = (name, memberOnly)"
  using assms by (auto simp: getGroupIDFromUniqueName_def getGroupUniqueName_def)

theorem group_unique_name_roundtrip_witness:
  "getGroupIDFromUniqueName (getGroupUniqueName ''ag1'' True) = (''ag1'', True) \<and>
   getGroupIDFromUniqueName (getGroupUniqueName ''at1'' False) = (''at1'', False)"
  using group_unique_name_roundtrip [of True "''ag1''"] group_unique_name_roundtrip [of False "''at1''"]
  by (simp add: HasPrefix_def uniqueGroupNameMemberPrefix_def)

lemma split_diff_fold:
  "fold (\<lambda>(s, v) (added, removed).
      if v > (0 :: int) then (added, removed @ [s]) else if v < 0 then (added @ [s], removed)
      else (added, removed)) xs (a, r) =
   (a @ map fst (filter (\<lambda>(s, v). v < 0) xs), r @ map fst (filter (\<lambda>(s, v). 0 < v) xs))"
  by (induction xs arbitrary: a r) auto

lemma split_diff_spec:
  assumes "is_order ord" "wf_map temp" "split_diff ord temp = (added, removed)"
  shows "set added = {s. get_or 0 temp s < 0}" "set removed = {s. get_or 0 temp s > 0}"
    "distinct added" "distinct removed"
proof -
  let ?r = "range_map ord temp"
  have eq: "added = map fst (filter (\<lambda>(s, v). v < 0) ?r)" "removed = map fst (filter (\<lambda>(s, v). 0 < v) ?r)"
    using assms(3) by (auto simp: split_diff_def split_diff_fold)
  have mem: "(k, v) \<in> set ?r \<longleftrightarrow> map_of temp k = Some v" for k v
    using assms(1,2) by (simp add: in_set_map_of)
  show "set added = {s. get_or 0 temp s < 0}"
    by (force simp: eq mem get_or_def image_iff split: option.splits)
  show "set removed = {s. get_or 0 temp s > 0}"
    by (force simp: eq mem get_or_def image_iff split: option.splits)
  have "distinct (map fst ?r)"
    using assms(1,2) by (rule distinct_range_map)
  then show "distinct added" "distinct removed"
    by (simp_all add: eq distinct_map_filter)
qed

definition rules_groups :: "NetworkPolicyRule list \<Rightarrow> string list" where
  "rules_groups rs = concat (map (\<lambda>r. AddressGroups (From r) @ AddressGroups (To r)) rs)"

text \<open>An ingress rule from the given address groups, for the examples below.\<close>

definition ingress_from :: "string list \<Rightarrow> NetworkPolicyRule" where
  "ingress_from gs =
     \<lparr>rule_Direction = DirectionIn, From = \<lparr>AddressGroups = gs, IPBlocks = []\<rparr>,
      To = \<lparr>AddressGroups = [], IPBlocks = []\<rparr>, Services = None, Action = None\<rparr>"

lemma count_rule_groups_eq:
  "count_rule_groups d r = fold (\<lambda>g. add_at g d) (AddressGroups (From r) @ AddressGroups (To r))"
  by (simp add: count_rule_groups_def fun_eq_iff)

lemma fold_count_rule_groups:
  "fold (count_rule_groups d) rs = fold (\<lambda>g. add_at g d) (rules_groups rs)"
  by (induction rs) (simp_all add: rules_groups_def count_rule_groups_eq)

lemma diffAddressGrp_eq: "diffAddressGrp ord a b = diffAppliedToGrp ord (rules_groups a) (rules_groups b)"
  by (simp add: diffAddressGrp_def diffAppliedToGrp_def fold_count_rule_groups)

lemma diffAppliedToGrp_spec:
  assumes "is_order ord" "diffAppliedToGrp ord a b = (added, removed)"
  shows "set added = {s. count (mset a) s < count (mset b) s}"
    "set removed = {s. count (mset b) s < count (mset a) s}"
    "distinct added" "distinct removed"
proof -
  let ?t = "fold (\<lambda>s. add_at s (-1)) b (fold (\<lambda>s. add_at s 1) a [])"
  have "wf_map ?t" by (simp add: wf_fold_add_at)
  moreover have "split_diff ord ?t = (added, removed)"
    using assms(2) by (simp add: diffAppliedToGrp_def Let_def)
  ultimately have *: "set added = {s. get_or 0 ?t s < 0}" "set removed = {s. get_or 0 ?t s > 0}"
    "distinct added" "distinct removed"
    using split_diff_spec assms(1) by blast+
  have "get_or 0 ?t s = int (count (mset a) s) - int (count (mset b) s)" for s
    by (simp add: get_or_fold_add_at) (simp add: get_or_def)
  with * show "set added = {s. count (mset a) s < count (mset b) s}"
    "set removed = {s. count (mset b) s < count (mset a) s}" "distinct added" "distinct removed"
    by simp_all
qed

text \<open>
  C34: the applied-to groups of an updated policy are compared exactly. When neither policy lists
  a group twice, the added groups are those only the new policy has, the removed ones those only
  the old policy has, each reported once, in whatever order the map is iterated.
\<close>

theorem diffAppliedToGrp_exact:
  assumes "is_order ord" "distinct a" "distinct b" "diffAppliedToGrp ord a b = (added, removed)"
  shows "set added = set b - set a \<and> set removed = set a - set b \<and> distinct added \<and> distinct removed"
proof -
  have "count (mset xs) s = (if s \<in> set xs then 1 else 0)" if "distinct xs" for xs :: "string list" and s
    using that by (simp add: distinct_count_atmost_1)
  with diffAppliedToGrp_spec [OF assms(1,4)] assms(2,3) show ?thesis by auto
qed

theorem diffAppliedToGrp_exact_witness:
  "diffAppliedToGrp in_order [''a'', ''b''] [''b'', ''c''] = ([''c''], [''a'']) \<and>
   set [''c''] = set [''b'', ''c''] - set [''a'', ''b'']"
proof -
  have d: "diffAppliedToGrp in_order [''a'', ''b''] [''b'', ''c''] = ([''c''], [''a''])"
    by code_simp
  show ?thesis
    using d diffAppliedToGrp_exact [OF is_order_in_order _ _ d] by simp
qed

text \<open>
  C35: a group that leaves one rule of a policy but stays in another is reported as removed. The
  difference of the address groups counts references, so a group is removed when the new rules
  refer to it less often, whether or not they still refer to it, and every group no longer
  referred to is among them.
\<close>

theorem diffAddressGrp_counts:
  assumes "is_order ord" "diffAddressGrp ord a b = (added, removed)"
  shows "set removed = {g. count (mset (rules_groups b)) g < count (mset (rules_groups a)) g} \<and>
    set (rules_groups a) - set (rules_groups b) \<subseteq> set removed"
proof -
  have "set removed = {g. count (mset (rules_groups b)) g < count (mset (rules_groups a)) g}"
    using diffAppliedToGrp_spec(2) assms by (simp add: diffAddressGrp_eq)
  moreover have "count (mset (rules_groups b)) g < count (mset (rules_groups a)) g"
    if "g \<in> set (rules_groups a)" "g \<notin> set (rules_groups b)" for g
    using that by (simp add: not_in_iff [THEN iffD1] flip: set_mset_mset)
  ultimately show ?thesis by auto
qed

theorem diffAddressGrp_counts_witness:
  "diffAddressGrp in_order [ingress_from [''g''], ingress_from [''g'']] [ingress_from [''g'']] = ([], [''g'']) \<and>
    {g. count (mset (rules_groups [ingress_from [''g'']])) g <
        count (mset (rules_groups [ingress_from [''g''], ingress_from [''g'']])) g} = {''g''}"
proof -
  have d: "diffAddressGrp in_order [ingress_from [''g''], ingress_from [''g'']] [ingress_from [''g'']] = ([], [''g''])"
    by code_simp
  show ?thesis using d diffAddressGrp_counts [OF is_order_in_order d] by auto
qed

section \<open>Merging and comparing resource lists\<close>

text \<open>
  The merge functions differ only in the key of an element. The key determines which of several
  elements stays: the last one added, or the last one of the source that is not removed.
\<close>

definition merge_map ::
    "('a \<Rightarrow> string) \<Rightarrow> 'a list \<Rightarrow> 'a list \<Rightarrow> 'a list \<Rightarrow> (string, 'a) gomap" where
  "merge_map key src added removed =
     fold (\<lambda>a. put (key a) a) added
       (fold (\<lambda>r. del (key r)) removed (fold (\<lambda>s. put (key s) s) src []))"

lemma mergeCloudResources_eq:
  "mergeCloudResources ord src added removed =
   map snd (range_map ord (merge_map (\<lambda>r. CloudResourceID_String (rsc_Name r)) src added removed))"
  by (simp add: mergeCloudResources_def merge_map_def Let_def)

lemma mergeIPs_eq:
  "mergeIPs ord src added removed = map snd (range_map ord (merge_map IPNet_String src added removed))"
  by (simp add: mergeIPs_def merge_map_def Let_def)

lemma find_rev_distinct:
  assumes "distinct (map key xs)"
  shows "find (\<lambda>x. key x = k) (rev xs) = Some x \<longleftrightarrow> x \<in> set xs \<and> key x = k"
proof
  assume "find (\<lambda>x. key x = k) (rev xs) = Some x"
  then show "x \<in> set xs \<and> key x = k" by (auto dest: find_SomeD)
next
  assume x: "x \<in> set xs \<and> key x = k"
  then have "find (\<lambda>x. key x = k) (rev xs) \<noteq> None" by (auto simp: find_None_iff)
  then obtain y where y: "find (\<lambda>x. key x = k) (rev xs) = Some y" by blast
  then have "y \<in> set xs" "key y = k" by (auto dest: find_SomeD)
  moreover have "inj_on key (set xs)" using assms by (simp add: distinct_map)
  ultimately have "y = x" using x by (auto dest: inj_onD)
  with y show "find (\<lambda>x. key x = k) (rev xs) = Some x" by simp
qed

lemma wf_merge_map [simp]: "wf_map (merge_map key src added removed)"
  by (simp add: merge_map_def wf_fold_put wf_fold_del)

lemma keys_merge_map:
  "keys (merge_map key src added removed) = key ` set added \<union> (key ` set src - key ` set removed)"
  by (simp add: merge_map_def keys_fold_put keys_fold_del)

lemma map_of_merge_map:
  "map_of (merge_map key src added removed) k =
     (case find (\<lambda>x. key x = k) (rev added) of
        Some a \<Rightarrow> Some a
      | None \<Rightarrow> if k \<in> key ` set removed then None else find (\<lambda>x. key x = k) (rev src))"
  by (auto simp: merge_map_def map_of_fold_put map_of_fold_del split: option.splits)

lemma map_of_merge_map_distinct:
  assumes "distinct (map key src)" "distinct (map key added)"
  shows "map_of (merge_map key src added removed) k = Some v \<longleftrightarrow>
    key v = k \<and> (v \<in> set added \<or> v \<in> set src \<and> k \<notin> key ` (set added \<union> set removed))"
proof (cases "find (\<lambda>x. key x = k) (rev added)")
  case None
  then have "k \<notin> key ` set added" by (auto simp: find_None_iff)
  with None show ?thesis
    using find_rev_distinct [OF assms(1), of k v]
    by (simp add: map_of_merge_map) (metis imageI image_Un Un_iff)
next
  case (Some a)
  then have a: "a \<in> set added" "key a = k" using assms(2) by (simp_all add: find_rev_distinct)
  have "v \<in> set added \<and> key v = k \<longleftrightarrow> a = v"
    using Some find_rev_distinct [OF assms(2), of k v] by simp
  moreover have "map_of (merge_map key src added removed) k = Some v \<longleftrightarrow> a = v"
    using Some by (simp add: map_of_merge_map)
  moreover have "k \<in> key ` (set added \<union> set removed)" using a by blast
  ultimately show ?thesis by metis
qed

lemma vals_merge_map:
  assumes "distinct (map key src)" "distinct (map key added)"
  shows "vals (merge_map key src added removed) =
    set added \<union> {s \<in> set src. key s \<notin> key ` (set added \<union> set removed)}"
  unfolding set_eq_iff vals_iff [OF wf_merge_map] map_of_merge_map_distinct [OF assms] by blast

lemma key_map_of_merge_map: "map_of (merge_map key src added removed) k = Some v \<Longrightarrow> key v = k"
  by (auto simp: map_of_merge_map dest: find_SomeD split: option.splits if_splits)

lemma distinct_merge_map:
  assumes "is_order ord"
  shows "distinct (map key (map snd (range_map ord (merge_map key src added removed))))"
proof -
  let ?r = "range_map ord (merge_map key src added removed)"
  have "map (key \<circ> snd) ?r = map fst ?r"
  proof (rule map_cong [OF refl], clarify)
    fix k v
    assume "(k, v) \<in> set ?r"
    then show "(key \<circ> snd) (k, v) = fst (k, v)"
      using assms by (simp add: in_set_map_of key_map_of_merge_map)
  qed
  then show ?thesis
    using distinct_range_map [OF assms wf_merge_map, of key src added removed] by (simp only: map_map)
qed

text \<open>
  C30: an incremental update of a group's members is a set update. For lists without two
  resources of the same identifier, the merged members are the added ones together with the old
  ones neither added nor removed, and no identifier occurs twice in them; a resource both added
  and removed stays.
\<close>

theorem mergeCloudResources_spec:
  assumes "is_order ord"
    and "distinct (map (CloudResourceID_String \<circ> rsc_Name) src)"
    and "distinct (map (CloudResourceID_String \<circ> rsc_Name) added)"
  shows "set (mergeCloudResources ord src added removed) =
      set added \<union> {s \<in> set src. CloudResourceID_String (rsc_Name s) \<notin>
        (CloudResourceID_String \<circ> rsc_Name) ` (set added \<union> set removed)} \<and>
    distinct (map (CloudResourceID_String \<circ> rsc_Name) (mergeCloudResources ord src added removed))"
  using vals_merge_map [OF assms(2,3)] distinct_merge_map [OF assms(1)] assms(1)
  by (simp add: mergeCloudResources_eq vals_def comp_def)

definition vm_resource :: "string \<Rightarrow> CloudResource" where
  "vm_resource n = \<lparr>rsc_Type = CloudResourceTypeVM, rsc_Name = \<lparr>id_Name = n, id_Vpc = ''vpc''\<rparr>\<rparr>"

theorem mergeCloudResources_spec_witness:
  "mergeCloudResources in_order [vm_resource ''a'', vm_resource ''b''] [vm_resource ''c''] [vm_resource ''a''] =
    [vm_resource ''b'', vm_resource ''c''] \<and>
   distinct (map (CloudResourceID_String \<circ> rsc_Name)
     (mergeCloudResources in_order [vm_resource ''a'', vm_resource ''b''] [vm_resource ''c''] [vm_resource ''a'']))"
proof
  show "mergeCloudResources in_order [vm_resource ''a'', vm_resource ''b''] [vm_resource ''c''] [vm_resource ''a''] =
      [vm_resource ''b'', vm_resource ''c'']"
    by code_simp
  have "distinct (map (CloudResourceID_String \<circ> rsc_Name) [vm_resource ''a'', vm_resource ''b''])"
    "distinct (map (CloudResourceID_String \<circ> rsc_Name) [vm_resource ''c''])"
    by code_simp+
  then show "distinct (map (CloudResourceID_String \<circ> rsc_Name)
     (mergeCloudResources in_order [vm_resource ''a'', vm_resource ''b''] [vm_resource ''c''] [vm_resource ''a'']))"
    using mergeCloudResources_spec [OF is_order_in_order] by blast
qed

lemma length_merge: "is_order ord \<Longrightarrow> length (mergeCloudResources ord src added removed) =
    card (keys (merge_map (\<lambda>r. CloudResourceID_String (rsc_Name r)) src added removed))"
  by (simp add: mergeCloudResources_eq length_wf_map)

lemma compareCloudResources_iff:
  assumes "is_order ord"
  shows "compareCloudResources ord s1 s2 \<longleftrightarrow> length s1 = length s2 \<and>
    (CloudResourceID_String \<circ> rsc_Name) ` set s1 \<subseteq> (CloudResourceID_String \<circ> rsc_Name) ` set s2"
  using assms by (auto simp: compareCloudResources_def length_merge keys_merge_map)

text \<open>
  C31: the comparison of two member lists decides equality of the sets of identifiers, for lists
  that hold no identifier twice. This is the test by which the synchronization decides whether
  the cloud's members are the desired ones.
\<close>

theorem compareCloudResources_distinct:
  assumes "is_order ord"
    and "distinct (map (CloudResourceID_String \<circ> rsc_Name) s1)"
    and "distinct (map (CloudResourceID_String \<circ> rsc_Name) s2)"
  shows "compareCloudResources ord s1 s2 \<longleftrightarrow>
    (CloudResourceID_String \<circ> rsc_Name) ` set s1 = (CloudResourceID_String \<circ> rsc_Name) ` set s2"
proof -
  let ?k = "CloudResourceID_String \<circ> rsc_Name"
  have "card (?k ` set s1) = length s1" "card (?k ` set s2) = length s2"
    using distinct_card [OF assms(2)] distinct_card [OF assms(3)] by (simp_all only: list.set_map length_map)
  then show ?thesis
    unfolding compareCloudResources_iff [OF assms(1)]
    using card_subset_eq [of "?k ` set s2" "?k ` set s1"] by auto
qed

theorem compareCloudResources_distinct_witness:
  "compareCloudResources in_order [vm_resource ''a'', vm_resource ''b''] [vm_resource ''b'', vm_resource ''a''] \<and>
   \<not> compareCloudResources in_order [vm_resource ''a''] [vm_resource ''b'']"
  using compareCloudResources_distinct [OF is_order_in_order,
      of "[vm_resource ''a'', vm_resource ''b'']" "[vm_resource ''b'', vm_resource ''a'']"]
    compareCloudResources_distinct [OF is_order_in_order, of "[vm_resource ''a'']" "[vm_resource ''b'']"]
  by (auto simp: vm_resource_def CloudResourceID_String_def)

text \<open>With repeated identifiers the comparison is not symmetric.\<close>

lemma compareCloudResources_not_symmetric:
  "compareCloudResources in_order [vm_resource ''a'', vm_resource ''a''] [vm_resource ''a'', vm_resource ''b''] \<and>
   \<not> compareCloudResources in_order [vm_resource ''a'', vm_resource ''b''] [vm_resource ''a'', vm_resource ''a'']"
  by (auto simp: compareCloudResources_iff vm_resource_def CloudResourceID_String_def)

section \<open>Deduplicated address blocks\<close>

lemma put_new: "k \<notin> keys m \<Longrightarrow> put k v m = m @ [(k, v)]"
  unfolding put_def keys_def by (induction m) auto

lemma pairs_iff: "(a, b) \<in> set (pairs xs) \<longleftrightarrow> (\<exists>p q. p < q \<and> q < length xs \<and> a = xs ! p \<and> b = xs ! q)"
proof (induction xs)
  case (Cons x xs)
  show ?case
  proof
    assume "(a, b) \<in> set (pairs (x # xs))"
    then consider "a = x" "b \<in> set xs" | "(a, b) \<in> set (pairs xs)" by auto
    then show "\<exists>p q. p < q \<and> q < length (x # xs) \<and> a = (x # xs) ! p \<and> b = (x # xs) ! q"
    proof cases
      case 1
      then obtain q where "q < length xs" "b = xs ! q" by (auto simp: in_set_conv_nth)
      with 1 show ?thesis by (intro exI [of _ 0] exI [of _ "Suc q"]) simp
    next
      case 2
      with Cons.IH obtain p q where "p < q \<and> q < length xs \<and> a = xs ! p \<and> b = xs ! q" by blast
      then show ?thesis by (intro exI [of _ "Suc p"] exI [of _ "Suc q"]) simp
    qed
  next
    assume "\<exists>p q. p < q \<and> q < length (x # xs) \<and> a = (x # xs) ! p \<and> b = (x # xs) ! q"
    then obtain p q where pq: "p < q" "q < length (x # xs)" "a = (x # xs) ! p" "b = (x # xs) ! q" by blast
    then obtain q' where q': "q = Suc q'" by (cases q) auto
    show "(a, b) \<in> set (pairs (x # xs))"
    proof (cases p)
      case 0
      with pq q' show ?thesis by auto
    next
      case (Suc p')
      with pq q' have "p' < q' \<and> q' < length xs \<and> a = xs ! p' \<and> b = xs ! q'" by simp
      then have "(a, b) \<in> set (pairs xs)" using Cons.IH by blast
      then show ?thesis by simp
    qed
  qed
qed simp

text \<open>The first loop keeps the first block of each spelling, in the map and in the list alike.\<close>

definition first_blocks :: "IPNet list \<Rightarrow> IPNet list" where
  "first_blocks ips = snd (fold (\<lambda>ip (existing, ipList).
      if has_key existing (IPNet_String ip) then (existing, ipList)
      else (put (IPNet_String ip) ip existing, ipList @ [ip])) ips ([], []))"

lemma fold_first_by:
  "\<exists>l. fold (\<lambda>x (existing, out).
      if has_key existing (key x) then (existing, out) else (put (key x) (v x) existing, out @ [x])) xs ([], []) =
     (map (\<lambda>x. (key x, v x)) l, l) \<and>
    distinct (map key l) \<and> set l \<subseteq> set xs \<and> key ` set l = key ` set xs"
proof (induction xs rule: rev_induct)
  case (snoc x xs)
  then obtain l where l: "fold (\<lambda>x (existing, out).
      if has_key existing (key x) then (existing, out) else (put (key x) (v x) existing, out @ [x])) xs ([], []) =
     (map (\<lambda>x. (key x, v x)) l, l)"
    "distinct (map key l)" "set l \<subseteq> set xs" "key ` set l = key ` set xs"
    by blast
  have k: "keys (map (\<lambda>x. (key x, v x)) l) = key ` set l"
    by (simp add: keys_def image_image)
  show ?case
  proof (cases "key x \<in> key ` set l")
    case True
    with l k show ?thesis by (intro exI [of _ l]) (auto simp: has_key_iff)
  next
    case False
    with l k show ?thesis by (intro exI [of _ "l @ [x]"]) (auto simp: has_key_iff put_new)
  qed
qed simp

lemmas first_blocks_fold = fold_first_by [where key = IPNet_String and v = "\<lambda>ip. ip"]

lemma first_blocks_props:
  "distinct (map IPNet_String (first_blocks ips))" "set (first_blocks ips) \<subseteq> set ips"
  "IPNet_String ` set (first_blocks ips) = IPNet_String ` set ips"
  using first_blocks_fold [of ips] by (auto simp: first_blocks_def)

lemma deduplicateIP_eq:
  "deduplicateIP ord ips = map snd (range_map ord
     (fold (\<lambda>(a, b) existing. case overlap a b of
         None \<Rightarrow> existing | Some smallerIP \<Rightarrow> del (IPNet_String smallerIP) existing)
       (pairs (first_blocks ips)) (map (\<lambda>ip. (IPNet_String ip, ip)) (first_blocks ips))))"
  using first_blocks_fold [of ips] by (auto simp: deduplicateIP_def first_blocks_def)

lemma fold_del_overlap:
  "fold (\<lambda>(a, b) existing. case overlap a b of
       None \<Rightarrow> existing | Some smallerIP \<Rightarrow> del (IPNet_String smallerIP) existing) ps m =
   fold (\<lambda>s. del (IPNet_String s)) (List.map_filter (\<lambda>(a, b). overlap a b) ps) m"
  by (induction ps arbitrary: m) (auto simp: map_filter_simps split: option.splits)

lemma set_map_filter_iff: "set (List.map_filter f xs) = {y. \<exists>x \<in> set xs. f x = Some y}"
  by (induction xs) (auto simp: map_filter_simps split: option.splits)

lemma pairs_subset: "(a, b) \<in> set (pairs xs) \<Longrightarrow> a \<in> set xs \<and> b \<in> set xs"
  by (induction xs) auto

lemma overlap_cases: "overlap a b = Some s \<Longrightarrow> s = a \<or> s = b"
  by (auto simp: overlap_def split: if_splits)

lemma set_deduplicateIP:
  assumes "is_order ord" "inj_on IPNet_String (set ips)"
  shows "set (deduplicateIP ord ips) =
      {n \<in> set ips. \<forall>(a, b) \<in> set (pairs (first_blocks ips)). overlap a b \<noteq> Some n}"
    "distinct (deduplicateIP ord ips)" "set (first_blocks ips) = set ips"
proof -
  let ?l = "first_blocks ips"
  let ?m = "map (\<lambda>ip. (IPNet_String ip, ip)) ?l"
  let ?d = "List.map_filter (\<lambda>(a, b). overlap a b) (pairs ?l)"
  let ?e = "fold (\<lambda>s. del (IPNet_String s)) ?d ?m"
  show l: "set ?l = set ips"
    using inj_on_image_eq_iff [OF assms(2) first_blocks_props(2) order_refl] first_blocks_props(3) by simp
  have wf: "wf_map ?m" using first_blocks_props(1) by (simp add: wf_map_def comp_def)
  then have wfe: "wf_map ?e" by (rule wf_fold_del)
  have d: "set ?d = {s. \<exists>(a, b) \<in> set (pairs ?l). overlap a b = Some s}"
    by (simp add: set_map_filter_iff case_prod_beta)
  have dl: "set ?d \<subseteq> set ips"
    unfolding d using l by (fastforce dest: pairs_subset overlap_cases)
  have m: "map_of ?m k = Some n \<longleftrightarrow> n \<in> set ips \<and> k = IPNet_String n" for k n
    using in_set_map_of [OF wf, of k n] l by auto
  have "map_of ?e k = Some n \<longleftrightarrow> n \<in> set ips \<and> k = IPNet_String n \<and> n \<notin> set ?d" for k n
    using assms(2) dl by (auto simp: map_of_fold_del m dest: inj_onD)
  then have "vals ?e = {n \<in> set ips. n \<notin> set ?d}" using wfe by (auto simp: vals_iff)
  then show "set (deduplicateIP ord ips) =
      {n \<in> set ips. \<forall>(a, b) \<in> set (pairs ?l). overlap a b \<noteq> Some n}"
    using assms(1) by (auto simp: deduplicateIP_eq fold_del_overlap vals_def d)
  have r: "distinct (map fst (range_map ord ?e))"
    using assms(1) wfe by (rule distinct_range_map)
  have "map IPNet_String (map snd (range_map ord ?e)) = map fst (range_map ord ?e)"
    using assms(1) wfe by (auto simp: in_set_map_of map_of_fold_del m split: if_splits)
  then show "distinct (deduplicateIP ord ips)"
    using r by (metis deduplicateIP_eq distinct_map fold_del_overlap)
qed

lemma overlap_SomeD:
  assumes "overlap a b = Some s"
  shows "s = b \<and> Mask_Size a < Mask_Size b \<and> IPNet_Contains a (IP b) \<or>
    s = a \<and> Mask_Size b \<le> Mask_Size a \<and> IPNet_Contains b (IP a)"
  using assms by (auto simp: overlap_def split: if_splits)

text \<open>
  A block dropped from a list without repetitions lies in a block with a shorter mask, or in one
  with an equal mask later in the list. So the search for a kept block around it ends.
\<close>

lemma overlap_dropped:
  assumes "distinct xs" "\<forall>n \<in> set xs. valid_net n" "i < length xs"
    and "(a, b) \<in> set (pairs xs)" "overlap a b = Some (xs ! i)"
  obtains j where "j < length xs" "addresses (xs ! i) \<subseteq> addresses (xs ! j)"
    "Mask_Size (xs ! j) < Mask_Size (xs ! i) \<or> Mask_Size (xs ! j) = Mask_Size (xs ! i) \<and> i < j"
proof -
  from assms(4) obtain p q where pq: "p < q" "q < length xs" "a = xs ! p" "b = xs ! q"
    by (auto simp: pairs_iff)
  then have v: "valid_net a" "valid_net b" using assms(2) by simp_all
  from overlap_SomeD [OF assms(5)] consider
      "xs ! i = b" "Mask_Size a < Mask_Size b" "IPNet_Contains a (IP b)"
    | "xs ! i = a" "Mask_Size b \<le> Mask_Size a" "IPNet_Contains b (IP a)" by blast
  then show thesis
  proof cases
    case 1
    then show thesis
      using that [of p] pq v contains_subset [of a b] by simp
  next
    case 2
    then have "i = p" using pq assms(1,3) by (simp add: nth_eq_iff_index_eq)
    with 2 show thesis
      using that [of q] pq v contains_subset [of b a] by (auto simp: le_less)
  qed
qed

lemma deduplicate_cover:
  assumes "distinct xs" "\<forall>n \<in> set xs. valid_net n" "i < length xs"
  shows "\<exists>n \<in> set xs. (\<forall>(a, b) \<in> set (pairs xs). overlap a b \<noteq> Some n) \<and> addresses (xs ! i) \<subseteq> addresses n"
  using assms(3)
proof (induction "(Mask_Size (xs ! i), length xs - i)" arbitrary: i rule: wf_induct_rule [OF wf_lex_prod [OF wf_less_than wf_less_than]])
  case (1 i)
  show ?case
  proof (cases "\<forall>(a, b) \<in> set (pairs xs). overlap a b \<noteq> Some (xs ! i)")
    case True
    with 1(2) show ?thesis by (intro bexI [of _ "xs ! i"]) auto
  next
    case False
    then obtain a b where "(a, b) \<in> set (pairs xs)" "overlap a b = Some (xs ! i)" by auto
    then obtain j where j: "j < length xs" "addresses (xs ! i) \<subseteq> addresses (xs ! j)"
        "Mask_Size (xs ! j) < Mask_Size (xs ! i) \<or> Mask_Size (xs ! j) = Mask_Size (xs ! i) \<and> i < j"
      by (rule overlap_dropped [OF assms(1,2) 1(2)])
    then have "((Mask_Size (xs ! j), length xs - j), (Mask_Size (xs ! i), length xs - i)) \<in> less_than <*lex*> less_than"
      by auto
    from 1(1) [OF this j(1)] j(2) show ?thesis by blast
  qed
qed

lemma valid_inj_on: "\<forall>n \<in> A. valid_net n \<Longrightarrow> inj_on IPNet_String A"
  by (auto intro: inj_onI IPNet_String_inject)

lemma deduplicateIP_subset:
  assumes "is_order ord" "\<forall>n \<in> set ips. valid_net n"
  shows "set (deduplicateIP ord ips) \<subseteq> set ips" "distinct (deduplicateIP ord ips)"
  using set_deduplicateIP [OF assms(1) valid_inj_on [OF assms(2)]] by blast+

lemma distinct_first_blocks: "distinct (first_blocks ips)"
  using first_blocks_props(1) by (simp add: distinct_map)

lemma deduplicateIP_addresses:
  assumes "is_order ord" "\<forall>n \<in> set ips. valid_net n"
  shows "\<Union> (addresses ` set (deduplicateIP ord ips)) = \<Union> (addresses ` set ips)"
proof
  note eq = set_deduplicateIP [OF assms(1) valid_inj_on [OF assms(2)]]
  show "\<Union> (addresses ` set (deduplicateIP ord ips)) \<subseteq> \<Union> (addresses ` set ips)"
    using deduplicateIP_subset(1) [OF assms] by blast
  show "\<Union> (addresses ` set ips) \<subseteq> \<Union> (addresses ` set (deduplicateIP ord ips))"
  proof
    fix x
    assume "x \<in> \<Union> (addresses ` set ips)"
    then obtain i where i: "i < length (first_blocks ips)" "x \<in> addresses (first_blocks ips ! i)"
      using eq(3) by (metis UN_iff in_set_conv_nth)
    have "\<forall>n \<in> set (first_blocks ips). valid_net n" using eq(3) assms(2) by simp
    from deduplicate_cover [OF distinct_first_blocks this i(1)] i(2)
    show "x \<in> \<Union> (addresses ` set (deduplicateIP ord ips))"
      unfolding eq(1) eq(3) by blast
  qed
qed

lemma overlap_None_sym:
  assumes "overlap a b = None" "valid_net a" "valid_net b"
  shows "overlap b a = None"
proof -
  from assms(2,3) obtain x l y k where "IP a = V4 x" "Mask a = Some l" "IP b = V4 y" "Mask b = Some k"
    by (metis valid_netE)
  with assms(1) show ?thesis
    by (cases "l = k") (auto simp: overlap_def IPNet_Contains_def Mask_Size_def split: if_splits)
qed

lemma deduplicateIP_overlap:
  assumes "is_order ord" "\<forall>n \<in> set ips. valid_net n"
    and "a \<in> set (deduplicateIP ord ips)" "b \<in> set (deduplicateIP ord ips)" "a \<noteq> b"
  shows "overlap a b = None"
proof -
  note eq = set_deduplicateIP [OF assms(1) valid_inj_on [OF assms(2)]]
  from assms(3,4) eq have "a \<in> set (first_blocks ips)" "b \<in> set (first_blocks ips)" by blast+
  then obtain p q where pq: "p < length (first_blocks ips)" "q < length (first_blocks ips)"
      "a = first_blocks ips ! p" "b = first_blocks ips ! q"
    by (metis in_set_conv_nth)
  then have "(a, b) \<in> set (pairs (first_blocks ips)) \<or> (b, a) \<in> set (pairs (first_blocks ips))"
    using assms(5) by (metis linorder_less_linear pairs_iff)
  moreover have "overlap x y \<noteq> Some a \<and> overlap x y \<noteq> Some b" if "(x, y) \<in> set (pairs (first_blocks ips))" for x y
    using assms(3,4) eq(1) that by blast
  ultimately have "overlap a b = None \<or> overlap b a = None"
    using overlap_cases by (metis not_None_eq)
  moreover have "valid_net a" "valid_net b"
    using assms deduplicateIP_subset(1) by blast+
  ultimately show ?thesis using overlap_None_sym by blast
qed


definition net4 :: "ip4 \<Rightarrow> nat \<Rightarrow> IPNet" where
  "net4 a l = \<lparr>IP = V4 a, Mask = Some l\<rparr>"

lemma valid_net4 [simp]: "valid_net (net4 a l) \<longleftrightarrow> l \<le> 32"
  by (simp add: valid_net_def net4_def)


section \<open>Deduplicated rules\<close>

lemmas deduplicateSG_fold = fold_first_by [where key = CloudResourceID_String and v = "\<lambda>_. ()"]

lemma deduplicateSG_spec:
  "distinct (map CloudResourceID_String (deduplicateSG sgs))" "set (deduplicateSG sgs) \<subseteq> set sgs"
  "CloudResourceID_String ` set (deduplicateSG sgs) = CloudResourceID_String ` set sgs"
  using deduplicateSG_fold [of sgs] by (auto simp: deduplicateSG_def)

lemma set_deduplicateSG:
  assumes "inj_on CloudResourceID_String (set sgs)"
  shows "set (deduplicateSG sgs) = set sgs"
  using inj_on_image_eq_iff [OF assms deduplicateSG_spec(2) order_refl] deduplicateSG_spec(3) by simp

text \<open>
  The peers the reconciler computes: some block or group, valid blocks, and group names without
  the separator of the printed identifier.
\<close>

definition proper_peer :: "IPNet list \<Rightarrow> CloudResourceID list \<Rightarrow> bool" where
  "proper_peer ips sgs \<longleftrightarrow> (ips \<noteq> [] \<or> sgs \<noteq> []) \<and> (\<forall>n \<in> set ips. valid_net n) \<and>
     (\<forall>g \<in> set sgs. CHR ''/'' \<notin> set (id_Name g))"

definition proper_ingress :: "IngressRule \<Rightarrow> bool" where
  "proper_ingress r \<longleftrightarrow> FromPort r \<noteq> Some 0 \<and> in_Protocol r \<noteq> Some 0 \<and>
     proper_peer (FromSrcIP r) (FromSecurityGroups r)"

definition proper_egress :: "EgressRule \<Rightarrow> bool" where
  "proper_egress r \<longleftrightarrow> ToPort r \<noteq> Some 0 \<and> eg_Protocol r \<noteq> Some 0 \<and>
     proper_peer (ToDstIP r) (ToSecurityGroups r)"

lemma key_pointer_part: "p \<noteq> Some 0 \<Longrightarrow> key_pointer (key_part p) = p"
  by (auto simp: key_pointer_def key_part_def split: option.splits)

lemma addresses_nonempty: "valid_net n \<Longrightarrow> addresses n \<noteq> {}"
  by (erule valid_netE) (auto simp: addresses_def IPNet_Contains_def)

lemma deduplicateIP_Nil_iff:
  assumes "is_order ord" "\<forall>n \<in> set ips. valid_net n"
  shows "deduplicateIP ord ips = [] \<longleftrightarrow> ips = []"
proof -
  have "ips = [] \<longleftrightarrow> \<Union> (addresses ` set ips) = {}"
    using assms(2) addresses_nonempty by (cases ips) auto
  moreover have "deduplicateIP ord ips = [] \<longleftrightarrow> \<Union> (addresses ` set (deduplicateIP ord ips)) = {}"
    using assms deduplicateIP_subset(1) [OF assms] addresses_nonempty by (cases "deduplicateIP ord ips") auto
  ultimately show ?thesis by (simp add: deduplicateIP_addresses [OF assms])
qed

lemma peer_matches_deduplicated:
  assumes "is_order ord" "R \<noteq> []" "\<forall>r \<in> set R. proper_peer (ips r) (sgs r)"
  shows "peer_matches (deduplicateIP ord (concat (map ips R))) (deduplicateSG (concat (map sgs R))) a gs \<longleftrightarrow>
    (\<exists>r \<in> set R. peer_matches (ips r) (sgs r) a gs)"
proof -
  let ?ips = "concat (map ips R)" and ?sgs = "concat (map sgs R)"
  have v: "\<forall>n \<in> set ?ips. valid_net n" using assms(3) by (auto simp: proper_peer_def)
  have "inj_on CloudResourceID_String (set ?sgs)"
    using assms(3) by (intro inj_onI) (auto simp: proper_peer_def CloudResourceID_String_inject)
  then have sg: "set (deduplicateSG ?sgs) = set ?sgs" by (rule set_deduplicateSG)
  obtain r where r: "r \<in> set R" using assms(2) by (cases R) auto
  then have "ips r \<noteq> [] \<or> sgs r \<noteq> []" using assms(3) by (simp add: proper_peer_def)
  then have "?ips \<noteq> [] \<or> ?sgs \<noteq> []" using r by auto
  then have "deduplicateIP ord ?ips \<noteq> [] \<or> deduplicateSG ?sgs \<noteq> []"
    using sg by (metis assms(1) deduplicateIP_Nil_iff set_empty v)
  then have "peer_matches (deduplicateIP ord ?ips) (deduplicateSG ?sgs) a gs \<longleftrightarrow>
      a \<in> \<Union> (addresses ` set ?ips) \<or> gs \<inter> set ?sgs \<noteq> {}"
    by (auto simp only: peer_matches_def deduplicateIP_addresses [OF assms(1) v] sg)
  also have "\<dots> \<longleftrightarrow> (\<exists>r \<in> set R. a \<in> \<Union> (addresses ` set (ips r)) \<or> gs \<inter> set (sgs r) \<noteq> {})"
    by auto
  also have "\<dots> \<longleftrightarrow> (\<exists>r \<in> set R. peer_matches (ips r) (sgs r) a gs)"
    using assms(3) by (auto simp: peer_matches_def proper_peer_def)
  finally show ?thesis .
qed

lemma set_fold_append_at:
  "set (fold (\<lambda>x. append_at (f x) (g x)) xs []) =
     (\<lambda>k. (k, concat (map g (filter (\<lambda>x. f x = k) xs)))) ` f ` set xs"
  unfolding set_eq_iff split_paired_All in_fold_append_at by auto

lemma get_or_Nil [simp]: "get_or z [] k = z"
  by (simp add: get_or_def)

lemma set_deduplicateIngressRules:
  assumes "is_order ord"
  shows "set (deduplicateIngressRules ord rs) = (\<lambda>k.
    \<lparr>FromPort = key_pointer (fst k),
     FromSrcIP = deduplicateIP ord (concat (map FromSrcIP (filter (\<lambda>r. in_key r = k) rs))),
     FromSecurityGroups = deduplicateSG (concat (map FromSecurityGroups (filter (\<lambda>r. in_key r = k) rs))),
     in_Protocol = key_pointer (snd k)\<rparr>) ` in_key ` set rs"
  using assms unfolding deduplicateIngressRules_def Let_def
  by (simp add: set_fold_append_at image_image get_or_fold_append_at)

lemma set_deduplicateEgressRules:
  assumes "is_order ord"
  shows "set (deduplicateEgressRules ord rs) = (\<lambda>k.
    \<lparr>ToPort = key_pointer (fst k),
     ToDstIP = deduplicateIP ord (concat (map ToDstIP (filter (\<lambda>r. eg_key r = k) rs))),
     ToSecurityGroups = deduplicateSG (concat (map ToSecurityGroups (filter (\<lambda>r. eg_key r = k) rs))),
     eg_Protocol = key_pointer (snd k)\<rparr>) ` eg_key ` set rs"
  using assms unfolding deduplicateEgressRules_def Let_def
  by (simp add: set_fold_append_at image_image get_or_fold_append_at)

text \<open>
  Grouping the rules by key and asking the groups is the same as asking the rules, when the key
  decides one part of the question and a group answers the other part for its members.
\<close>

lemma grouped_iff:
  assumes "\<And>r. r \<in> set rs \<Longrightarrow> P (key r) \<longleftrightarrow> Q r"
    and "\<And>r. r \<in> set rs \<Longrightarrow> G (key r) \<longleftrightarrow> (\<exists>x \<in> set (filter (\<lambda>x. key x = key r) rs). m x)"
  shows "(\<exists>k \<in> key ` set rs. P k \<and> G k) \<longleftrightarrow> (\<exists>r \<in> set rs. Q r \<and> m r)"
proof
  assume "\<exists>k \<in> key ` set rs. P k \<and> G k"
  then obtain r where r: "r \<in> set rs" "P (key r)" "G (key r)" by blast
  with assms(2) obtain x where "x \<in> set rs" "key x = key r" "m x" by auto
  with r assms(1) show "\<exists>r \<in> set rs. Q r \<and> m r" by metis
next
  assume "\<exists>r \<in> set rs. Q r \<and> m r"
  then obtain r where r: "r \<in> set rs" "Q r" "m r" by blast
  then have "P (key r)" "G (key r)" using assms by auto
  with r show "\<exists>k \<in> key ` set rs. P k \<and> G k" by blast
qed

text \<open>
  Deduplication of rules permits the same traffic. For rules as the reconciler computes them (some
  peer, valid blocks, no port or protocol zero), some deduplicated rule permits a packet exactly
  when some given rule does, for every port, protocol, peer address and set of groups the peer
  belongs to.
\<close>

lemma deduplicateIngressRules_permits:
  assumes "is_order ord" "\<forall>r \<in> set rs. proper_ingress r"
  shows "(\<exists>r \<in> set (deduplicateIngressRules ord rs). ingress_permits r port proto a gs) \<longleftrightarrow>
    (\<exists>r \<in> set rs. ingress_permits r port proto a gs)"
proof -
  let ?P = "\<lambda>k. matches_opt (key_pointer (fst k)) port \<and> matches_opt (key_pointer (snd k)) proto"
  let ?R = "\<lambda>k. filter (\<lambda>r. in_key r = k) rs"
  let ?G = "\<lambda>k. peer_matches (deduplicateIP ord (concat (map FromSrcIP (?R k))))
      (deduplicateSG (concat (map FromSecurityGroups (?R k)))) a gs"
  have key: "?P (in_key r) \<longleftrightarrow> matches_opt (FromPort r) port \<and> matches_opt (in_Protocol r) proto" if "r \<in> set rs" for r
    using assms(2) that by (simp add: in_key_def proper_ingress_def key_pointer_part)
  have group: "?G (in_key r) \<longleftrightarrow> (\<exists>x \<in> set (?R (in_key r)). peer_matches (FromSrcIP x) (FromSecurityGroups x) a gs)"
    if "r \<in> set rs" for r
  proof (rule peer_matches_deduplicated [OF assms(1)])
    show "?R (in_key r) \<noteq> []" using that by (auto simp: filter_empty_conv)
    show "\<forall>x \<in> set (?R (in_key r)). proper_peer (FromSrcIP x) (FromSecurityGroups x)"
      using assms(2) by (simp add: proper_ingress_def)
  qed
  have "(\<exists>r \<in> set (deduplicateIngressRules ord rs). ingress_permits r port proto a gs) \<longleftrightarrow>
      (\<exists>k \<in> in_key ` set rs. ?P k \<and> ?G k)"
    unfolding set_deduplicateIngressRules [OF assms(1)] by (simp add: ingress_permits_def)
  also have "\<dots> \<longleftrightarrow> (\<exists>r \<in> set rs. ingress_permits r port proto a gs)"
    using grouped_iff [where P = ?P and G = ?G and key = in_key, OF key group] by (simp add: ingress_permits_def)
  finally show ?thesis .
qed

lemma deduplicateEgressRules_permits:
  assumes "is_order ord" "\<forall>r \<in> set rs. proper_egress r"
  shows "(\<exists>r \<in> set (deduplicateEgressRules ord rs). egress_permits r port proto a gs) \<longleftrightarrow>
    (\<exists>r \<in> set rs. egress_permits r port proto a gs)"
proof -
  let ?P = "\<lambda>k. matches_opt (key_pointer (fst k)) port \<and> matches_opt (key_pointer (snd k)) proto"
  let ?R = "\<lambda>k. filter (\<lambda>r. eg_key r = k) rs"
  let ?G = "\<lambda>k. peer_matches (deduplicateIP ord (concat (map ToDstIP (?R k))))
      (deduplicateSG (concat (map ToSecurityGroups (?R k)))) a gs"
  have key: "?P (eg_key r) \<longleftrightarrow> matches_opt (ToPort r) port \<and> matches_opt (eg_Protocol r) proto" if "r \<in> set rs" for r
    using assms(2) that by (simp add: eg_key_def proper_egress_def key_pointer_part)
  have group: "?G (eg_key r) \<longleftrightarrow> (\<exists>x \<in> set (?R (eg_key r)). peer_matches (ToDstIP x) (ToSecurityGroups x) a gs)"
    if "r \<in> set rs" for r
  proof (rule peer_matches_deduplicated [OF assms(1)])
    show "?R (eg_key r) \<noteq> []" using that by (auto simp: filter_empty_conv)
    show "\<forall>x \<in> set (?R (eg_key r)). proper_peer (ToDstIP x) (ToSecurityGroups x)"
      using assms(2) by (simp add: proper_egress_def)
  qed
  have "(\<exists>r \<in> set (deduplicateEgressRules ord rs). egress_permits r port proto a gs) \<longleftrightarrow>
      (\<exists>k \<in> eg_key ` set rs. ?P k \<and> ?G k)"
    unfolding set_deduplicateEgressRules [OF assms(1)] by (simp add: egress_permits_def)
  also have "\<dots> \<longleftrightarrow> (\<exists>r \<in> set rs. egress_permits r port proto a gs)"
    using grouped_iff [where P = ?P and G = ?G and key = eg_key, OF key group] by (simp add: egress_permits_def)
  finally show ?thesis .
qed

definition example_ingress :: "int option \<Rightarrow> IPNet list \<Rightarrow> IngressRule" where
  "example_ingress port ips = \<lparr>FromPort = port, FromSrcIP = ips, FromSecurityGroups = [], in_Protocol = Some 6\<rparr>"

definition example_egress :: "int option \<Rightarrow> IPNet list \<Rightarrow> EgressRule" where
  "example_egress port ips = \<lparr>ToPort = port, ToDstIP = ips, ToSecurityGroups = [], eg_Protocol = Some 6\<rparr>"

lemma addresses_net4: "a \<in> addresses (net4 b l) \<longleftrightarrow> b AND mask32 l = a AND mask32 l"
  by (simp add: addresses_iff net4_def)

lemma example_proper:
  "proper_ingress (example_ingress (Some 80) [net4 0x0A000000 8])"
  "proper_ingress (example_ingress (Some 80) [net4 0x0A010000 16])"
  "proper_egress (example_egress (Some 443) [net4 0x0A000000 8])"
  "proper_egress (example_egress None [net4 0x0A010000 16])"
  by (simp_all add: example_ingress_def example_egress_def proper_ingress_def proper_egress_def proper_peer_def)

lemma example_permits:
  "ingress_permits (example_ingress (Some 80) [net4 0x0A000000 8]) 80 6 0x0A010203 {}"
  "egress_permits (example_egress (Some 443) [net4 0x0A000000 8]) 443 6 0x0A010203 {}"
  by (simp_all add: example_ingress_def example_egress_def ingress_permits_def egress_permits_def matches_opt_def
      peer_matches_def addresses_net4 mask32_def mask_eq_exp_minus_1)

text \<open>
  A rule for port zero, which is what a named port becomes, loses its port: the deduplicated
  rule permits every port.
\<close>

lemma deduplicate_port_zero:
  "\<forall>r \<in> set (deduplicateIngressRules in_order [example_ingress (Some 0) [net4 0x0A000000 8]]). FromPort r = None"
  "\<not> ingress_permits (example_ingress (Some 0) [net4 0x0A000000 8]) 22 6 0x0A010203 {}"
  by (simp_all add: set_deduplicateIngressRules example_ingress_def in_key_def key_part_def key_pointer_def
      ingress_permits_def matches_opt_def)

end
