(* ===== verification/Go_Monad.thy ===== *)
theory Go_Monad
  imports Go_Prelude "HOL-Library.State_Monad"
begin

text \<open>
  Methods that change the controller's state are state monad programs. This theory names the
  operations the models use (reading and changing the state, the three shapes of Go loops) and
  has the rules by which a relation between the state before and after a program is proved
  along its structure.
\<close>

abbreviation ret :: "'a \<Rightarrow> ('s, 'a) state" where
  "ret \<equiv> State_Monad.return"

abbreviation modify :: "('s \<Rightarrow> 's) \<Rightarrow> ('s, unit) state" where
  "modify \<equiv> State_Monad.update"

definition gets :: "('s \<Rightarrow> 'a) \<Rightarrow> ('s, 'a) state" where
  "gets f = State (\<lambda>s. (f s, s))"

text \<open>\<open>for_each\<close> is a loop whose body never leaves it, \<open>for_return\<close> one whose body may return
  from the function with a value, \<open>for_fold\<close> one that changes local variables.\<close>

primrec for_each :: "'a list \<Rightarrow> ('a \<Rightarrow> ('s, unit) state) \<Rightarrow> ('s, unit) state" where
  "for_each [] f = ret ()"
| "for_each (x # xs) f = do { f x; for_each xs f }"

primrec for_return :: "'a list \<Rightarrow> ('a \<Rightarrow> ('s, 'b option) state) \<Rightarrow> ('s, 'b option) state" where
  "for_return [] f = ret None"
| "for_return (x # xs) f = do { v \<leftarrow> f x; case v of None \<Rightarrow> for_return xs f | Some b \<Rightarrow> ret (Some b) }"

primrec for_fold :: "'a list \<Rightarrow> 'b \<Rightarrow> ('a \<Rightarrow> 'b \<Rightarrow> ('s, 'b) state) \<Rightarrow> ('s, 'b) state" where
  "for_fold [] b f = ret b"
| "for_fold (x # xs) b f = do { b' \<leftarrow> f x b; for_fold xs b' f }"

definition if_do :: "bool \<Rightarrow> ('s, unit) state \<Rightarrow> ('s, unit) state" where
  "if_do b m = (if b then m else ret ())"

lemma run_gets [simp]: "run_state (gets f) s = (f s, s)"
  by (simp add: gets_def)

lemma run_gets_bind: "run_state (State_Monad.bind (gets f) g) s = run_state (g (f s)) s"
  by simp

lemma run_modify [simp]: "run_state (modify f) s = ((), f s)"
  by (simp add: State_Monad.update_def)

lemma run_if_do [simp]: "run_state (if_do b m) s = (if b then run_state m s else ((), s))"
  by (simp add: if_do_def)

text \<open>Programs that return a value or an error, or panic: the first error or panic ends them.\<close>

definition and_then ::
    "('s, (go_error + 'a) outcome) state \<Rightarrow> ('a \<Rightarrow> ('s, (go_error + 'b) outcome) state) \<Rightarrow> ('s, (go_error + 'b) outcome) state" where
  "and_then m f = do {
     r \<leftarrow> m;
     case r of
       Returns (Inr x) \<Rightarrow> f x
     | Returns (Inl err) \<Rightarrow> ret (Returns (Inl err))
     | Panics \<Rightarrow> ret Panics
     | Hangs \<Rightarrow> ret Hangs
   }"

abbreviation succeed :: "'a \<Rightarrow> ('s, (go_error + 'a) outcome) state" where
  "succeed x \<equiv> ret (Returns (Inr x))"

abbreviation fail :: "go_error \<Rightarrow> ('s, (go_error + 'a) outcome) state" where
  "fail err \<equiv> ret (Returns (Inl err))"

abbreviation panic :: "('s, (go_error + 'a) outcome) state" where
  "panic \<equiv> ret Panics"

lemma run_and_then:
  "run_state (and_then m f) s = (case run_state m s of
     (Returns (Inr x), t) \<Rightarrow> run_state (f x) t
   | (Returns (Inl err), t) \<Rightarrow> (Returns (Inl err), t)
   | (Panics, t) \<Rightarrow> (Panics, t)
   | (Hangs, t) \<Rightarrow> (Hangs, t))"
  by (simp add: and_then_def split: prod.splits outcome.splits sum.splits)

lemma and_then_succeed:
  "run_state (and_then m f) s = (Returns (Inr y), u) \<longleftrightarrow>
     (\<exists>x t. run_state m s = (Returns (Inr x), t) \<and> run_state (f x) t = (Returns (Inr y), u))"
  by (auto simp: run_and_then split: prod.splits outcome.splits sum.splits)

section \<open>Relations along a program\<close>

text \<open>
  A preorder on states is respected by a program when it relates the state before and after
  every run. It is enough that the elementary changes respect it.
\<close>

definition keeps :: "('s \<Rightarrow> 's \<Rightarrow> bool) \<Rightarrow> ('s, 'a) state \<Rightarrow> bool" where
  "keeps R m \<longleftrightarrow> (\<forall>s. R s (snd (run_state m s)))"

locale state_preorder =
  fixes R :: "'s \<Rightarrow> 's \<Rightarrow> bool"
  assumes refl: "R s s"
    and trans: "R s t \<Longrightarrow> R t u \<Longrightarrow> R s u"
begin

lemma keepsI: "(\<And>s. R s (snd (run_state m s))) \<Longrightarrow> keeps R m"
  by (simp add: keeps_def)

lemma keepsD: "keeps R m \<Longrightarrow> R s (snd (run_state m s))"
  by (simp add: keeps_def)

lemma keeps_ret: "keeps R (ret x)"
  by (rule keepsI) (simp add: refl)

lemma keeps_get: "keeps R State_Monad.get"
  by (rule keepsI) (simp add: refl)

lemma keeps_gets: "keeps R (gets f)"
  by (rule keepsI) (simp add: refl)

lemma keeps_modify: "(\<And>s. R s (f s)) \<Longrightarrow> keeps R (modify f)"
  by (rule keepsI) simp

lemma keeps_bind: "keeps R m \<Longrightarrow> (\<And>x. keeps R (f x)) \<Longrightarrow> keeps R (State_Monad.bind m f)"
  by (rule keepsI) (auto simp: split_beta intro: trans keepsD)

lemma keeps_if_do: "(b \<Longrightarrow> keeps R m) \<Longrightarrow> keeps R (if_do b m)"
  by (simp add: if_do_def keeps_ret)

lemma keeps_if: "(b \<Longrightarrow> keeps R m) \<Longrightarrow> (\<not> b \<Longrightarrow> keeps R n) \<Longrightarrow> keeps R (if b then m else n)"
  by simp

lemma keeps_option:
  "(x = None \<Longrightarrow> keeps R m) \<Longrightarrow> (\<And>v. x = Some v \<Longrightarrow> keeps R (f v)) \<Longrightarrow>
   keeps R (case x of None \<Rightarrow> m | Some v \<Rightarrow> f v)"
  by (cases x) simp_all

lemma keeps_sum:
  "(\<And>e. x = Inl e \<Longrightarrow> keeps R (f e)) \<Longrightarrow> (\<And>v. x = Inr v \<Longrightarrow> keeps R (g v)) \<Longrightarrow>
   keeps R (case x of Inl e \<Rightarrow> f e | Inr v \<Rightarrow> g v)"
  by (cases x) simp_all

lemma keeps_prod: "(\<And>a b. x = (a, b) \<Longrightarrow> keeps R (f a b)) \<Longrightarrow> keeps R (case x of (a, b) \<Rightarrow> f a b)"
  by (cases x) simp

lemma keeps_prod_app:
  "(\<And>a b. x = (a, b) \<Longrightarrow> keeps R (f a b c)) \<Longrightarrow> keeps R ((case x of (a, b) \<Rightarrow> f a b) c)"
  by (cases x) simp

lemma keeps_list: "(xs = [] \<Longrightarrow> keeps R m) \<Longrightarrow> (\<And>y ys. xs = y # ys \<Longrightarrow> keeps R (f y ys)) \<Longrightarrow>
   keeps R (case xs of [] \<Rightarrow> m | y # ys \<Rightarrow> f y ys)"
  by (cases xs) simp_all

lemma keeps_for_each: "(\<And>x. x \<in> set xs \<Longrightarrow> keeps R (f x)) \<Longrightarrow> keeps R (for_each xs f)"
  by (induction xs) (auto intro: keeps_ret keeps_bind)

lemma keeps_for_return: "(\<And>x. x \<in> set xs \<Longrightarrow> keeps R (f x)) \<Longrightarrow> keeps R (for_return xs f)"
  by (induction xs) (auto intro!: keeps_ret keeps_bind keeps_option)

lemma keeps_for_fold: "(\<And>x b. x \<in> set xs \<Longrightarrow> keeps R (f x b)) \<Longrightarrow> keeps R (for_fold xs b f)"
  by (induction xs arbitrary: b) (auto intro: keeps_ret keeps_bind)

lemmas keeps_intros = keeps_ret keeps_get keeps_gets keeps_bind keeps_if_do
  keeps_if keeps_option keeps_sum keeps_prod keeps_prod_app keeps_list keeps_for_each keeps_for_return
  keeps_for_fold

end

end
