(* ===== verification/Reconciler_State.thy ===== *)
theory Reconciler_State
  imports Np_Rules Go_Monad
begin

text \<open>
  The state of the network policy controller (\<^verbatim>\<open>NetworkPolicyReconciler\<close> of
  \<^verbatim>\<open>pkg/controllers/cloud/networkpolicy_controller.go\<close>) and the objects it points to.

  Security groups, policies, trackers and pending items are shared by pointer in the code, so
  they live in one heap per type and a pointer is a number. A value of the interface
  \<^verbatim>\<open>cloudSecurityGroup\<close> is a pointer with its dynamic type. The indexers are of client-go: the
  model takes their operations as an argument and keeps their states abstract.

  A Go panic ends the controller. The model records it in \<open>panicked\<close>, and no event is taken
  afterwards.
\<close>

section \<open>Objects\<close>

type_synonym ptr = nat

datatype securityGroupOperation =
    securityGroupOperationAdd
  | securityGroupOperationUpdateMembers
  | securityGroupOperationClearMembers
  | securityGroupOperationUpdateRules
  | securityGroupOperationDelete

datatype securityGroupState =
    securityGroupStateInit
  | securityGroupStateCreated
  | securityGroupStateGarbageCollectState

record securityGroupImpl =
  members :: "CloudResource list"
  sg_id :: CloudResourceID
  sg_state :: securityGroupState
  deletePending :: bool
  status :: error
  retryOp :: "securityGroupOperation option"
  retryInProgress :: bool

record addrSecurityGroup = securityGroupImpl +
  ipBlocks :: "IPNet list"

record appliedToSecurityGroup = securityGroupImpl +
  hasRules :: bool
  hasMembers :: bool

datatype cloudSecurityGroup = AddrSG ptr | AppliedToSG ptr

record securityGroupStatus =
  st_sg :: cloudSecurityGroup
  st_op :: securityGroupOperation
  st_err :: error

text \<open>Antrea objects, with the fields the controller reads.\<close>

record GroupMember =
  gm_ExternalEntity :: "NamespacedName option"

record NetworkPolicyReference =
  ref_Type :: string
  ref_Namespace :: string
  ref_Name :: string

record NetworkPolicy =
  np_Name :: string
  np_Namespace :: string
  SourceRef :: "NetworkPolicyReference option"
  Rules :: "NetworkPolicyRule list"
  AppliedToGroups :: "string list"

record networkPolicy = NetworkPolicy +
  ingressRules :: "IngressRule list"
  egressRules :: "EgressRule list"
  rulesReady :: bool

datatype EventType = EventNone | Added | Modified | Deleted | Bookmark | EventError

record cloudResourceNPTracker =
  cloudResource :: CloudResource
  dirty :: "bool option"
  appliedToSGs :: "(string, ptr) gomap"
  prevAppliedToSGs :: "(string, ptr) gomap"

record NetworkPolicyStatus =
  nps_NamespacedName :: NamespacedName
  NPStatus :: "(string, string) gomap"

section \<open>Pending items\<close>

text \<open>
  The reference count of a pending group is a pointer that nothing shares; it is absent for an
  item that waits in the retry queue. The operation count of a queued item is a cell of its own.
\<close>

record pendingGroup =
  refCnt :: "int option"
  runOnClear :: bool
  pg_event :: EventType
  addedMembers :: "(string, GroupMember) gomap"
  removedMembers :: "(string, GroupMember) gomap"

datatype PendingItem = SGItem cloudSecurityGroup | GroupItem ptr

record countingPendingItem =
  item :: PendingItem
  item_opCnt :: "ptr option"

record PendingItemQueue =
  items :: "(string, countingPendingItem) gomap"
  opCnt :: "int option"

definition NewPendingItemQueue :: "int option \<Rightarrow> PendingItemQueue" where
  "NewPendingItemQueue cnt = \<lparr>items = [], opCnt = cnt\<rparr>"

section \<open>Requests to the cloud\<close>

text \<open>
  A request returns a channel at once; a goroutine waits for the outcome and sends it to the
  controller. \<open>call_op\<close> is the operation the outcome is reported for; it is absent for the
  update of members, where the goroutine decides by the members at the time of the outcome.
\<close>

datatype cloud_request =
    CreateSecurityGroup CloudResourceID bool
  | UpdateSecurityGroupMembers CloudResourceID "CloudResource list" bool
  | DeleteSecurityGroup CloudResourceID bool
  | UpdateSecurityGroupRules CloudResourceID "IngressRule list" "EgressRule list"

record cloud_call =
  call_sg :: cloudSecurityGroup
  call_req :: cloud_request
  call_op :: "securityGroupOperation option"

text \<open>
  For the statements about the requests, the model keeps a log of them: the group, the request,
  and the group and the synchronization flag as they were when the request was made.
\<close>

record issued =
  iss_sg :: cloudSecurityGroup
  iss_req :: cloud_request
  iss_impl :: securityGroupImpl
  iss_synced :: bool

section \<open>The reconciler\<close>

record 'ix NetworkPolicyReconciler =
  networkPolicyIndexer :: 'ix
  addrSGIndexer :: 'ix
  appliedToSGIndexer :: 'ix
  cloudResourceNPTrackerIndexer :: 'ix
  virtualMachinePolicyIndexer :: 'ix
  pendingDeleteGroups :: PendingItemQueue
  retryQueue :: PendingItemQueue
  cloudResponse :: "securityGroupStatus list"
  syncedWithCloud :: bool
  bookmarkCnt :: nat
  fedExternalEntityIPs :: "(string, string list) gomap"
  addr_heap :: "(ptr, addrSecurityGroup) gomap"
  applied_heap :: "(ptr, appliedToSecurityGroup) gomap"
  policy_heap :: "(ptr, networkPolicy) gomap"
  tracker_heap :: "(ptr, cloudResourceNPTracker) gomap"
  npStatus_heap :: "(ptr, NetworkPolicyStatus) gomap"
  pending_heap :: "(ptr, pendingGroup) gomap"
  counter_heap :: "(ptr, int) gomap"
  next_ptr :: ptr
  calls :: "cloud_call list"
  requests :: "issued list"
  panicked :: bool

text \<open>The zero values of the objects, which a pointer that nothing was allocated for yields.\<close>

definition zero_addr :: addrSecurityGroup where
  "zero_addr = \<lparr>members = [], sg_id = \<lparr>id_Name = [], id_Vpc = []\<rparr>, sg_state = securityGroupStateInit,
     deletePending = False, status = None, retryOp = None, retryInProgress = False, ipBlocks = []\<rparr>"

definition zero_applied :: appliedToSecurityGroup where
  "zero_applied = \<lparr>members = [], sg_id = \<lparr>id_Name = [], id_Vpc = []\<rparr>, sg_state = securityGroupStateInit,
     deletePending = False, status = None, retryOp = None, retryInProgress = False,
     hasRules = False, hasMembers = False\<rparr>"

definition zero_policy :: networkPolicy where
  "zero_policy = \<lparr>np_Name = [], np_Namespace = [], SourceRef = None, Rules = [], AppliedToGroups = [],
     ingressRules = [], egressRules = [], rulesReady = False\<rparr>"

definition zero_resource :: CloudResource where
  "zero_resource = \<lparr>rsc_Type = [], rsc_Name = \<lparr>id_Name = [], id_Vpc = []\<rparr>\<rparr>"

definition zero_tracker :: cloudResourceNPTracker where
  "zero_tracker = \<lparr>cloudResource = zero_resource, dirty = None, appliedToSGs = [], prevAppliedToSGs = []\<rparr>"

definition zero_pending :: pendingGroup where
  "zero_pending = \<lparr>refCnt = None, runOnClear = False, pg_event = EventNone, addedMembers = [], removedMembers = []\<rparr>"

definition zero_npstatus :: NetworkPolicyStatus where
  "zero_npstatus = \<lparr>nps_NamespacedName = \<lparr>nn_Namespace = [], nn_Name = []\<rparr>, NPStatus = []\<rparr>"

text \<open>The objects at a pointer.\<close>

abbreviation addrSGs :: "'ix NetworkPolicyReconciler \<Rightarrow> ptr \<Rightarrow> addrSecurityGroup" where
  "addrSGs r \<equiv> get_or zero_addr (addr_heap r)"

abbreviation appliedSGs :: "'ix NetworkPolicyReconciler \<Rightarrow> ptr \<Rightarrow> appliedToSecurityGroup" where
  "appliedSGs r \<equiv> get_or zero_applied (applied_heap r)"

abbreviation policies :: "'ix NetworkPolicyReconciler \<Rightarrow> ptr \<Rightarrow> networkPolicy" where
  "policies r \<equiv> get_or zero_policy (policy_heap r)"

abbreviation trackers :: "'ix NetworkPolicyReconciler \<Rightarrow> ptr \<Rightarrow> cloudResourceNPTracker" where
  "trackers r \<equiv> get_or zero_tracker (tracker_heap r)"

abbreviation npStatuses :: "'ix NetworkPolicyReconciler \<Rightarrow> ptr \<Rightarrow> NetworkPolicyStatus" where
  "npStatuses r \<equiv> get_or zero_npstatus (npStatus_heap r)"

abbreviation pendingGroups :: "'ix NetworkPolicyReconciler \<Rightarrow> ptr \<Rightarrow> pendingGroup" where
  "pendingGroups r \<equiv> get_or zero_pending (pending_heap r)"

abbreviation counters :: "'ix NetworkPolicyReconciler \<Rightarrow> ptr \<Rightarrow> int" where
  "counters r \<equiv> get_or 0 (counter_heap r)"

declare get_or_put [simp]

section \<open>What the controller calls\<close>

text \<open>
  The operations of a client-go indexer. \<open>ix_add\<close> and \<open>ix_delete\<close> get the key and the index
  values that the functions registered with the indexer compute from the object.
\<close>

record 'ix Indexer =
  ix_add :: "string \<Rightarrow> (string \<times> string list) list \<Rightarrow> ptr \<Rightarrow> 'ix \<Rightarrow> error \<times> 'ix"
  ix_update :: "string \<Rightarrow> (string \<times> string list) list \<Rightarrow> ptr \<Rightarrow> 'ix \<Rightarrow> error \<times> 'ix"
  ix_delete :: "string \<Rightarrow> (string \<times> string list) list \<Rightarrow> ptr \<Rightarrow> 'ix \<Rightarrow> error \<times> 'ix"
  ix_getByKey :: "string \<Rightarrow> 'ix \<Rightarrow> ptr option"
  ix_byIndex :: "string \<Rightarrow> string \<Rightarrow> 'ix \<Rightarrow> go_error + ptr list"
  ix_list :: "'ix \<Rightarrow> ptr list"

record OwnerReference =
  own_Kind :: string
  own_Name :: string

record ExternalEntity =
  ee_Name :: string
  ee_Namespace :: string
  ee_Labels :: "(string, string) gomap"
  ee_OwnerReferences :: "OwnerReference list"
  ee_Endpoints :: "string list"

record VirtualMachine =
  vm_Name :: string
  vm_Namespace :: string
  vm_Annotations :: "(string, string) gomap"
  vm_NetworkInterfaces :: "string list"

text \<open>
  The surroundings of one event: the indexer operations, the Kubernetes client, the groups the
  plug-in reports on a synchronization, whether a plug-in is registered, and the iteration order
  of maps.
\<close>

record 'ix env =
  Ix :: "'ix Indexer"
  Get_ExternalEntity :: "NamespacedName \<Rightarrow> go_error + ExternalEntity"
  Get_VirtualMachine :: "NamespacedName \<Rightarrow> go_error + VirtualMachine"
  List_VirtualMachine :: "string \<Rightarrow> string \<Rightarrow> go_error + VirtualMachine list"
  SyncChan :: "SynchronizationContent list"
  plugin :: bool
  rng :: order

type_synonym ('ix, 'a) rec_state = "('ix NetworkPolicyReconciler, 'a) state"

section \<open>Reading and changing objects\<close>

text \<open>
  \<^verbatim>\<open>addrSecurityGroup\<close> and \<^verbatim>\<open>appliedToSecurityGroup\<close> embed \<^verbatim>\<open>securityGroupImpl\<close>; \<open>sg_impl\<close> is the
  embedded part of either, \<open>upd_impl\<close> changes it and leaves the rest alone.
\<close>

definition sg_impl :: "'ix NetworkPolicyReconciler \<Rightarrow> cloudSecurityGroup \<Rightarrow> securityGroupImpl" where
  "sg_impl r c = (case c of
     AddrSG p \<Rightarrow> securityGroupImpl.truncate (addrSGs r p)
   | AppliedToSG p \<Rightarrow> securityGroupImpl.truncate (appliedSGs r p))"

definition lift_impl :: "(securityGroupImpl \<Rightarrow> securityGroupImpl) \<Rightarrow> 'm securityGroupImpl_scheme \<Rightarrow> 'm securityGroupImpl_scheme" where
  "lift_impl f s = securityGroupImpl.extend (f (securityGroupImpl.truncate s)) (securityGroupImpl.more s)"

definition upd_impl ::
    "cloudSecurityGroup \<Rightarrow> (securityGroupImpl \<Rightarrow> securityGroupImpl) \<Rightarrow> 'ix NetworkPolicyReconciler \<Rightarrow> 'ix NetworkPolicyReconciler" where
  "upd_impl c f r = (case c of
     AddrSG p \<Rightarrow> r\<lparr>addr_heap := put p (lift_impl f (addrSGs r p)) (addr_heap r)\<rparr>
   | AppliedToSG p \<Rightarrow> r\<lparr>applied_heap := put p (lift_impl f (appliedSGs r p)) (applied_heap r)\<rparr>)"

definition upd_applied ::
    "ptr \<Rightarrow> (appliedToSecurityGroup \<Rightarrow> appliedToSecurityGroup) \<Rightarrow> 'ix NetworkPolicyReconciler \<Rightarrow> 'ix NetworkPolicyReconciler" where
  "upd_applied p f r = r\<lparr>applied_heap := put p (f (appliedSGs r p)) (applied_heap r)\<rparr>"

definition upd_policy ::
    "ptr \<Rightarrow> (networkPolicy \<Rightarrow> networkPolicy) \<Rightarrow> 'ix NetworkPolicyReconciler \<Rightarrow> 'ix NetworkPolicyReconciler" where
  "upd_policy p f r = r\<lparr>policy_heap := put p (f (policies r p)) (policy_heap r)\<rparr>"

definition upd_tracker ::
    "ptr \<Rightarrow> (cloudResourceNPTracker \<Rightarrow> cloudResourceNPTracker) \<Rightarrow> 'ix NetworkPolicyReconciler \<Rightarrow> 'ix NetworkPolicyReconciler" where
  "upd_tracker p f r = r\<lparr>tracker_heap := put p (f (trackers r p)) (tracker_heap r)\<rparr>"

definition upd_pending ::
    "ptr \<Rightarrow> (pendingGroup \<Rightarrow> pendingGroup) \<Rightarrow> 'ix NetworkPolicyReconciler \<Rightarrow> 'ix NetworkPolicyReconciler" where
  "upd_pending p f r = r\<lparr>pending_heap := put p (f (pendingGroups r p)) (pending_heap r)\<rparr>"

definition sg_ptr :: "cloudSecurityGroup \<Rightarrow> ptr" where
  "sg_ptr c = (case c of AddrSG p \<Rightarrow> p | AppliedToSG p \<Rightarrow> p)"

definition panic :: "('ix, unit) rec_state" where
  "panic = modify (panicked_update (\<lambda>_. True))"

lemma truncate_lift_impl [simp]: "securityGroupImpl.truncate (lift_impl f s) = f (securityGroupImpl.truncate s)"
  by (simp add: lift_impl_def securityGroupImpl.defs)

lemma lift_impl_more [simp]: "securityGroupImpl.more (lift_impl f s) = securityGroupImpl.more s"
  by (simp add: lift_impl_def securityGroupImpl.defs)

lemma sg_impl_upd_impl [simp]:
  "sg_impl (upd_impl c f r) c' = (if c' = c then f (sg_impl r c) else sg_impl r c')"
  by (auto simp: sg_impl_def upd_impl_def split: cloudSecurityGroup.splits)

lemma upd_impl_frame [simp]:
  "networkPolicyIndexer (upd_impl c f r) = networkPolicyIndexer r"
  "addrSGIndexer (upd_impl c f r) = addrSGIndexer r"
  "appliedToSGIndexer (upd_impl c f r) = appliedToSGIndexer r"
  "cloudResourceNPTrackerIndexer (upd_impl c f r) = cloudResourceNPTrackerIndexer r"
  "virtualMachinePolicyIndexer (upd_impl c f r) = virtualMachinePolicyIndexer r"
  "pendingDeleteGroups (upd_impl c f r) = pendingDeleteGroups r"
  "retryQueue (upd_impl c f r) = retryQueue r"
  "cloudResponse (upd_impl c f r) = cloudResponse r"
  "syncedWithCloud (upd_impl c f r) = syncedWithCloud r"
  "bookmarkCnt (upd_impl c f r) = bookmarkCnt r"
  "fedExternalEntityIPs (upd_impl c f r) = fedExternalEntityIPs r"
  "policy_heap (upd_impl c f r) = policy_heap r"
  "tracker_heap (upd_impl c f r) = tracker_heap r"
  "npStatus_heap (upd_impl c f r) = npStatus_heap r"
  "pending_heap (upd_impl c f r) = pending_heap r"
  "counter_heap (upd_impl c f r) = counter_heap r"
  "next_ptr (upd_impl c f r) = next_ptr r"
  "calls (upd_impl c f r) = calls r"
  "requests (upd_impl c f r) = requests r"
  "panicked (upd_impl c f r) = panicked r"
  by (simp_all add: upd_impl_def split: cloudSecurityGroup.splits)

lemma sg_impl_frame [simp]:
  "sg_impl (networkPolicyIndexer_update x1 r) c = sg_impl r c"
  "sg_impl (addrSGIndexer_update x1 r) c = sg_impl r c"
  "sg_impl (appliedToSGIndexer_update x1 r) c = sg_impl r c"
  "sg_impl (cloudResourceNPTrackerIndexer_update x1 r) c = sg_impl r c"
  "sg_impl (virtualMachinePolicyIndexer_update x1 r) c = sg_impl r c"
  "sg_impl (pendingDeleteGroups_update x2 r) c = sg_impl r c"
  "sg_impl (retryQueue_update x2 r) c = sg_impl r c"
  "sg_impl (cloudResponse_update x3 r) c = sg_impl r c"
  "sg_impl (syncedWithCloud_update b r) c = sg_impl r c"
  "sg_impl (bookmarkCnt_update n r) c = sg_impl r c"
  "sg_impl (policy_heap_update x4 r) c = sg_impl r c"
  "sg_impl (tracker_heap_update x5 r) c = sg_impl r c"
  "sg_impl (npStatus_heap_update x6 r) c = sg_impl r c"
  "sg_impl (pending_heap_update x7 r) c = sg_impl r c"
  "sg_impl (counter_heap_update x8 r) c = sg_impl r c"
  "sg_impl (next_ptr_update n r) c = sg_impl r c"
  "sg_impl (calls_update x9 r) c = sg_impl r c"
  "sg_impl (requests_update x10 r) c = sg_impl r c"
  "sg_impl (panicked_update b r) c = sg_impl r c"
  by (simp_all add: sg_impl_def split: cloudSecurityGroup.splits)

section \<open>Indexers\<close>

definition addrAppliedToIndexerByGroupID :: string where
  "addrAppliedToIndexerByGroupID = ''GroupID''"

definition networkPolicyIndexerByAddrGrp :: string where
  "networkPolicyIndexerByAddrGrp = ''AddressGrp''"

definition networkPolicyIndexerByAppliedToGrp :: string where
  "networkPolicyIndexerByAppliedToGrp = ''AppliedToGrp''"

definition cloudResourceNPTrackerIndexerByAppliedToGrp :: string where
  "cloudResourceNPTrackerIndexerByAppliedToGrp = ''AppliedToGrp''"

definition NetworkPolicyStatusIndexerByNamespace :: string where
  "NetworkPolicyStatusIndexerByNamespace = ''namespace''"

definition virtualMachineIndexerByCloudID :: string where
  "virtualMachineIndexerByCloudID = ''metadata.annotations.cloud-assigned-id''"

definition virtualMachineIndexerByCloudName :: string where
  "virtualMachineIndexerByCloudName = ''metadata.annotations.cloud-assigned-name''"

text \<open>The key and index functions that \<^verbatim>\<open>SetupWithManager\<close> registers.\<close>

definition sg_key :: "securityGroupImpl \<Rightarrow> string" where
  "sg_key s = CloudResourceID_String (sg_id s)"

definition sg_index :: "securityGroupImpl \<Rightarrow> (string \<times> string list) list" where
  "sg_index s = [(addrAppliedToIndexerByGroupID, [id_Name (sg_id s)])]"

definition np_key :: "networkPolicy \<Rightarrow> string" where
  "np_key np = NamespacedName_String \<lparr>nn_Namespace = np_Namespace np, nn_Name = np_Name np\<rparr>"

definition np_index :: "networkPolicy \<Rightarrow> (string \<times> string list) list" where
  "np_index np =
     [(networkPolicyIndexerByAddrGrp, concat (map (\<lambda>r. AddressGroups (To r) @ AddressGroups (From r)) (Rules np))),
      (networkPolicyIndexerByAppliedToGrp, AppliedToGroups np)]"

definition tracker_key :: "cloudResourceNPTracker \<Rightarrow> string" where
  "tracker_key t = CloudResource_String (cloudResource t)"

definition tracker_index :: "order \<Rightarrow> cloudResourceNPTracker \<Rightarrow> (string \<times> string list) list" where
  "tracker_index ord t =
     [(cloudResourceNPTrackerIndexerByAppliedToGrp,
       map fst (range_map ord (appliedToSGs t)) @ map fst (range_map ord (prevAppliedToSGs t)))]"

definition nps_key :: "NetworkPolicyStatus \<Rightarrow> string" where
  "nps_key s = NamespacedName_String (nps_NamespacedName s)"

definition nps_index :: "NetworkPolicyStatus \<Rightarrow> (string \<times> string list) list" where
  "nps_index s = [(NetworkPolicyStatusIndexerByNamespace, [nn_Namespace (nps_NamespacedName s)])]"

text \<open>The calls of the indexers. The group indexer is chosen by the kind of the group.\<close>

definition sgIndexer_Add :: "'ix env \<Rightarrow> bool \<Rightarrow> cloudSecurityGroup \<Rightarrow> ('ix, error) rec_state" where
  "sgIndexer_Add env membershipOnly c = State (\<lambda>r.
     let s = sg_impl r c
     in if membershipOnly
        then let (err, i) = ix_add (Ix env) (sg_key s) (sg_index s) (sg_ptr c) (addrSGIndexer r)
             in (err, r\<lparr>addrSGIndexer := i\<rparr>)
        else let (err, i) = ix_add (Ix env) (sg_key s) (sg_index s) (sg_ptr c) (appliedToSGIndexer r)
             in (err, r\<lparr>appliedToSGIndexer := i\<rparr>))"

definition sgIndexer_Delete :: "'ix env \<Rightarrow> bool \<Rightarrow> cloudSecurityGroup \<Rightarrow> ('ix, error) rec_state" where
  "sgIndexer_Delete env membershipOnly c = State (\<lambda>r.
     let s = sg_impl r c
     in if membershipOnly
        then let (err, i) = ix_delete (Ix env) (sg_key s) (sg_index s) (sg_ptr c) (addrSGIndexer r)
             in (err, r\<lparr>addrSGIndexer := i\<rparr>)
        else let (err, i) = ix_delete (Ix env) (sg_key s) (sg_index s) (sg_ptr c) (appliedToSGIndexer r)
             in (err, r\<lparr>appliedToSGIndexer := i\<rparr>))"

definition npIndexer_Add :: "'ix env \<Rightarrow> ptr \<Rightarrow> ('ix, error) rec_state" where
  "npIndexer_Add env n = State (\<lambda>r.
     let (err, i) = ix_add (Ix env) (np_key (policies r n)) (np_index (policies r n)) n (networkPolicyIndexer r)
     in (err, r\<lparr>networkPolicyIndexer := i\<rparr>))"

definition npIndexer_Delete :: "'ix env \<Rightarrow> ptr \<Rightarrow> ('ix, error) rec_state" where
  "npIndexer_Delete env n = State (\<lambda>r.
     let (err, i) = ix_delete (Ix env) (np_key (policies r n)) (np_index (policies r n)) n (networkPolicyIndexer r)
     in (err, r\<lparr>networkPolicyIndexer := i\<rparr>))"

definition trackerIndexer_Add :: "'ix env \<Rightarrow> ptr \<Rightarrow> ('ix, error) rec_state" where
  "trackerIndexer_Add env t = State (\<lambda>r.
     let (err, i) = ix_add (Ix env) (tracker_key (trackers r t)) (tracker_index (rng env) (trackers r t)) t
           (cloudResourceNPTrackerIndexer r)
     in (err, r\<lparr>cloudResourceNPTrackerIndexer := i\<rparr>))"

definition trackerIndexer_Delete :: "'ix env \<Rightarrow> ptr \<Rightarrow> ('ix, error) rec_state" where
  "trackerIndexer_Delete env t = State (\<lambda>r.
     let (err, i) = ix_delete (Ix env) (tracker_key (trackers r t)) (tracker_index (rng env) (trackers r t)) t
           (cloudResourceNPTrackerIndexer r)
     in (err, r\<lparr>cloudResourceNPTrackerIndexer := i\<rparr>))"

definition vmpIndexer_Update :: "'ix env \<Rightarrow> ptr \<Rightarrow> ('ix, error) rec_state" where
  "vmpIndexer_Update env p = State (\<lambda>r.
     let (err, i) = ix_update (Ix env) (nps_key (npStatuses r p)) (nps_index (npStatuses r p)) p
           (virtualMachinePolicyIndexer r)
     in (err, r\<lparr>virtualMachinePolicyIndexer := i\<rparr>))"

definition vmpIndexer_Delete :: "'ix env \<Rightarrow> ptr \<Rightarrow> ('ix, error) rec_state" where
  "vmpIndexer_Delete env p = State (\<lambda>r.
     let (err, i) = ix_delete (Ix env) (nps_key (npStatuses r p)) (nps_index (npStatuses r p)) p
           (virtualMachinePolicyIndexer r)
     in (err, r\<lparr>virtualMachinePolicyIndexer := i\<rparr>))"

text \<open>Lookups; an error of \<^verbatim>\<open>ByIndex\<close> that is only logged leaves the nil slice.\<close>

definition nps_by :: "'ix env \<Rightarrow> string \<Rightarrow> string \<Rightarrow> 'ix NetworkPolicyReconciler \<Rightarrow> go_error + ptr list" where
  "nps_by env index v r = ix_byIndex (Ix env) index v (networkPolicyIndexer r)"

definition sgs_by_group :: "'ix env \<Rightarrow> bool \<Rightarrow> string \<Rightarrow> 'ix NetworkPolicyReconciler \<Rightarrow> go_error + ptr list" where
  "sgs_by_group env membershipOnly g r =
     ix_byIndex (Ix env) addrAppliedToIndexerByGroupID g (if membershipOnly then addrSGIndexer r else appliedToSGIndexer r)"

definition or_nil :: "go_error + 'a list \<Rightarrow> 'a list" where
  "or_nil x = (case x of Inl _ \<Rightarrow> [] | Inr ps \<Rightarrow> ps)"

section \<open>Cloud calls\<close>

text \<open>A call of the plug-in and the start of the goroutine that waits for its outcome.\<close>

definition cloud_request_call ::
    "'ix env \<Rightarrow> cloudSecurityGroup \<Rightarrow> cloud_request \<Rightarrow> securityGroupOperation option \<Rightarrow> ('ix, unit) rec_state" where
  "cloud_request_call env c req op =
     (if plugin env
      then modify (\<lambda>r. r\<lparr>calls := calls r @ [\<lparr>call_sg = c, call_req = req, call_op = op\<rparr>],
                         requests := requests r @ [\<lparr>iss_sg = c, iss_req = req, iss_impl = sg_impl r c,
                           iss_synced = syncedWithCloud r\<rparr>]\<rparr>)
      else panic)"

end
