(* ===== verification/Pending_Queue.thy ===== *)
theory Pending_Queue
  imports Reconciler_State
begin

text \<open>
  The queues of pending items (\<^verbatim>\<open>pkg/controllers/cloud/networkpolicy_pendingitem.go\<close>): groups that
  wait for the deletion of their previous security groups, and operations to be retried. A queue
  calls back the \<^verbatim>\<open>RunPendingItem\<close> method of its items, which is defined later; the operations
  that run items take it as an argument.
\<close>

section \<open>The queue\<close>

datatype queue = PendingDeleteGroups | RetryQueue

definition get_queue :: "queue \<Rightarrow> 'ix NetworkPolicyReconciler \<Rightarrow> PendingItemQueue" where
  "get_queue q r = (case q of PendingDeleteGroups \<Rightarrow> pendingDeleteGroups r | RetryQueue \<Rightarrow> retryQueue r)"

definition upd_items ::
    "queue \<Rightarrow> ((string, countingPendingItem) gomap \<Rightarrow> (string, countingPendingItem) gomap) \<Rightarrow>
     'ix NetworkPolicyReconciler \<Rightarrow> 'ix NetworkPolicyReconciler" where
  "upd_items q f r = (case q of
     PendingDeleteGroups \<Rightarrow> r\<lparr>pendingDeleteGroups := (pendingDeleteGroups r)\<lparr>items := f (items (pendingDeleteGroups r))\<rparr>\<rparr>
   | RetryQueue \<Rightarrow> r\<lparr>retryQueue := (retryQueue r)\<lparr>items := f (items (retryQueue r))\<rparr>\<rparr>)"

definition Queue_Has :: "queue \<Rightarrow> string \<Rightarrow> 'ix NetworkPolicyReconciler \<Rightarrow> bool" where
  "Queue_Has q i r = has_key (items (get_queue q r)) i"

definition Queue_Remove :: "queue \<Rightarrow> string \<Rightarrow> ('ix, unit) rec_state" where
  "Queue_Remove q i = modify (upd_items q (del i))"

text \<open>The count of the queue is copied into a new cell for each item.\<close>

definition new_counter :: "int option \<Rightarrow> ('ix, ptr option) rec_state" where
  "new_counter c = (case c of
     None \<Rightarrow> ret None
   | Some n \<Rightarrow> State (\<lambda>r. (Some (next_ptr r), r\<lparr>counter_heap := put (next_ptr r) n (counter_heap r), next_ptr := Suc (next_ptr r)\<rparr>)))"

definition Queue_Add :: "queue \<Rightarrow> string \<Rightarrow> PendingItem \<Rightarrow> ('ix, unit) rec_state" where
  "Queue_Add q i p = do {
     present \<leftarrow> gets (Queue_Has q i);
     if present then ret ()
     else do {
       limit \<leftarrow> gets (\<lambda>r. opCnt (get_queue q r));
       cnt \<leftarrow> new_counter limit;
       modify (upd_items q (put i \<lparr>item = p, item_opCnt = cnt\<rparr>))
     }
   }"

definition item_count :: "countingPendingItem \<Rightarrow> 'ix NetworkPolicyReconciler \<Rightarrow> int option" where
  "item_count i r = map_option (counters r) (item_opCnt i)"

definition dec_count :: "countingPendingItem \<Rightarrow> 'ix NetworkPolicyReconciler \<Rightarrow> 'ix NetworkPolicyReconciler" where
  "dec_count i r = (case item_opCnt i of
     None \<Rightarrow> r
   | Some c \<Rightarrow> r\<lparr>counter_heap := put c (counters r c - 1) (counter_heap r)\<rparr>)"

definition GetRetryCount :: "queue \<Rightarrow> string \<Rightarrow> 'ix NetworkPolicyReconciler \<Rightarrow> int" where
  "GetRetryCount q i r = (case map_of (items (get_queue q r)) i of
     None \<Rightarrow> -1
   | Some it \<Rightarrow> (case item_count it r of None \<Rightarrow> -1 | Some n \<Rightarrow> n))"

section \<open>Updating items\<close>

text \<open>The values the callers pass as \<^verbatim>\<open>updates\<close>; a value of the wrong kind fails the type
  assertion of the item.\<close>

datatype pending_update =
    UpdateRef int bool
  | UpdateEvent EventType "GroupMember list" "GroupMember list"
  | UpdateOperation securityGroupOperation

definition sg_UpdatePendingItem :: "cloudSecurityGroup \<Rightarrow> pending_update \<Rightarrow> ('ix, unit) rec_state" where
  "sg_UpdatePendingItem c u = (case u of
     UpdateOperation op \<Rightarrow>
       modify (upd_impl c (\<lambda>s.
         if retryOp s = Some op
         then let s = s\<lparr>retryInProgress := False\<rparr>
              in if status s = None then s\<lparr>retryOp := None\<rparr> else s
         else s))
   | _ \<Rightarrow> panic)"

definition member_key :: "GroupMember \<Rightarrow> string" where
  "member_key m = (case gm_ExternalEntity m of Some n \<Rightarrow> NamespacedName_String n | None \<Rightarrow> [])"

definition note_removed :: "GroupMember \<Rightarrow> pendingGroup \<Rightarrow> pendingGroup" where
  "note_removed m p =
     (if has_key (addedMembers p) (member_key m)
      then p\<lparr>addedMembers := del (member_key m) (addedMembers p)\<rparr>
      else p\<lparr>removedMembers := put (member_key m) m (removedMembers p)\<rparr>)"

definition note_added :: "GroupMember \<Rightarrow> pendingGroup \<Rightarrow> pendingGroup" where
  "note_added m p =
     p\<lparr>removedMembers := del (member_key m) (removedMembers p),
       addedMembers := put (member_key m) m (addedMembers p)\<rparr>"

definition update_group_members :: "EventType \<Rightarrow> GroupMember list \<Rightarrow> GroupMember list \<Rightarrow> pendingGroup \<Rightarrow> pendingGroup" where
  "update_group_members event added removed p =
     (let p = (if pg_event p = EventNone then p\<lparr>pg_event := event\<rparr> else p)
      in if event = Deleted then p\<lparr>addedMembers := [], removedMembers := [], pg_event := EventNone\<rparr>
         else if event = Added \<or> event = Modified then fold note_added added (fold note_removed removed p)
         else p)"

definition pendingGroup_UpdatePendingItem :: "ptr \<Rightarrow> pending_update \<Rightarrow> ('ix, unit) rec_state" where
  "pendingGroup_UpdatePendingItem p u = (case u of
     UpdateRef d clear \<Rightarrow> do {
       cnt \<leftarrow> gets (\<lambda>r. refCnt (pendingGroups r p));
       case cnt of
         None \<Rightarrow> panic
       | Some n \<Rightarrow> modify (upd_pending p (\<lambda>g. g\<lparr>runOnClear := clear, refCnt := Some (n + d)\<rparr>))
     }
   | UpdateEvent event added removed \<Rightarrow>
       if (event = Added \<or> event = Modified) \<and> (\<exists>m \<in> set (added @ removed). gm_ExternalEntity m = None) then panic
       else modify (upd_pending p (update_group_members event added removed))
   | UpdateOperation _ \<Rightarrow> panic)"

definition UpdatePendingItem :: "PendingItem \<Rightarrow> pending_update \<Rightarrow> ('ix, unit) rec_state" where
  "UpdatePendingItem i u = (case i of
     SGItem c \<Rightarrow> sg_UpdatePendingItem c u
   | GroupItem p \<Rightarrow> pendingGroup_UpdatePendingItem p u)"

section \<open>Running items\<close>

definition sg_RunOrDeletePendingItem :: "securityGroupImpl \<Rightarrow> bool \<times> bool" where
  "sg_RunOrDeletePendingItem s =
     (if retryOp s = None then (True, True)
      else if retryInProgress s then (False, False) else (True, False))"

definition pendingGroup_RunOrDeletePendingItem :: "pendingGroup \<Rightarrow> bool \<times> bool" where
  "pendingGroup_RunOrDeletePendingItem p = (case refCnt p of
     None \<Rightarrow> (True, False)
   | Some n \<Rightarrow> if n > 0 \<or> \<not> runOnClear p then (False, False) else (True, True))"

definition RunOrDeletePendingItem :: "PendingItem \<Rightarrow> 'ix NetworkPolicyReconciler \<Rightarrow> bool \<times> bool" where
  "RunOrDeletePendingItem i r = (case i of
     SGItem c \<Rightarrow> sg_RunOrDeletePendingItem (sg_impl r c)
   | GroupItem p \<Rightarrow> pendingGroup_RunOrDeletePendingItem (pendingGroups r p))"

definition Queue_Update ::
    "(PendingItem \<Rightarrow> string \<Rightarrow> ('ix, bool) rec_state) \<Rightarrow> queue \<Rightarrow> string \<Rightarrow> bool \<Rightarrow> pending_update \<Rightarrow>
     ('ix, error) rec_state" where
  "Queue_Update run q uid checkRun u = do {
     found \<leftarrow> gets (\<lambda>r. map_of (items (get_queue q r)) uid);
     case found of
       None \<Rightarrow> ret (Some (Err ''not found''))
     | Some i \<Rightarrow> do {
         UpdatePendingItem (item i) u;
         if \<not> checkRun then ret None
         else do {
           rd \<leftarrow> gets (RunOrDeletePendingItem (item i));
           if_do (snd rd) (Queue_Remove q uid);
           d \<leftarrow> (if fst rd then do { d \<leftarrow> run (item i) uid; modify (dec_count i); ret d } else ret (snd rd));
           cnt \<leftarrow> gets (item_count i);
           if_do (d \<or> (case cnt of None \<Rightarrow> False | Some n \<Rightarrow> n \<le> 0)) (Queue_Remove q uid);
           ret None
         }
       }
   }"

text \<open>An update that does not check whether to run the item.\<close>

definition Queue_Update_only :: "queue \<Rightarrow> string \<Rightarrow> pending_update \<Rightarrow> ('ix, error) rec_state" where
  "Queue_Update_only q uid u = Queue_Update (\<lambda>_ _. ret False) q uid False u"

text \<open>The loop over the items skips those removed meanwhile and does not visit those added.\<close>

definition Queue_CheckToRun ::
    "(PendingItem \<Rightarrow> string \<Rightarrow> ('ix, bool) rec_state) \<Rightarrow> order \<Rightarrow> queue \<Rightarrow> ('ix, unit) rec_state" where
  "Queue_CheckToRun run ord q = do {
     ks \<leftarrow> gets (\<lambda>r. map fst (range_map ord (items (get_queue q r))));
     for_each ks (\<lambda>k. do {
       found \<leftarrow> gets (\<lambda>r. map_of (items (get_queue q r)) k);
       case found of
         None \<Rightarrow> ret ()
       | Some i \<Rightarrow> do {
           rd \<leftarrow> gets (RunOrDeletePendingItem (item i));
           if_do (snd rd) (Queue_Remove q k);
           d \<leftarrow> (if fst rd
                 then do {
                   cnt \<leftarrow> gets (item_count i);
                   d \<leftarrow> (if (case cnt of None \<Rightarrow> True | Some n \<Rightarrow> n > 0) then run (item i) k else ret (snd rd));
                   modify (dec_count i);
                   ret d
                 }
                 else ret (snd rd));
           cnt \<leftarrow> gets (item_count i);
           if_do (d \<or> (case cnt of None \<Rightarrow> False | Some n \<Rightarrow> n < 0)) (Queue_Remove q k)
         }
     })
   }"

section \<open>Members of a waiting group\<close>

definition pending_disjoint :: "pendingGroup \<Rightarrow> bool" where
  "pending_disjoint p \<longleftrightarrow> keys (addedMembers p) \<inter> keys (removedMembers p) = {}"

lemma keys_notes:
  "keys (addedMembers (fold note_removed ms p)) = keys (addedMembers p) - member_key ` set ms"
  "keys (addedMembers (fold note_added ms p)) = keys (addedMembers p) \<union> member_key ` set ms"
  by (induction ms arbitrary: p) (auto simp: note_removed_def note_added_def has_key_iff)

lemma note_disjoint:
  "pending_disjoint p \<Longrightarrow> pending_disjoint (note_removed m p)"
  "pending_disjoint p \<Longrightarrow> pending_disjoint (note_added m p)"
  by (auto simp: pending_disjoint_def note_removed_def note_added_def has_key_iff)

lemma notes_disjoint:
  "pending_disjoint p \<Longrightarrow> pending_disjoint (fold note_removed ms p)"
  "pending_disjoint p \<Longrightarrow> pending_disjoint (fold note_added ms p)"
  by (induction ms arbitrary: p) (auto simp: note_disjoint)

text \<open>
  C29: a group that waits keeps its members up to date. Each addition or patch that arrives while
  the group waits changes the members to be created as a set: the removed ones leave, the added
  ones join, and no member is recorded as added and removed at once.
\<close>

theorem pending_members_tracked:
  assumes "pending_disjoint p" "event = Added \<or> event = Modified"
  shows "pending_disjoint (update_group_members event added removed p) \<and>
    keys (addedMembers (update_group_members event added removed p)) =
      (keys (addedMembers p) - member_key ` set removed) \<union> member_key ` set added"
proof -
  have "pending_disjoint (p\<lparr>pg_event := event\<rparr>)" using assms(1) by (simp add: pending_disjoint_def)
  with assms show ?thesis by (auto simp: update_group_members_def Let_def keys_notes notes_disjoint)
qed

theorem pending_members_tracked_witness:
  "(let m = (\<lambda>n. \<lparr>gm_ExternalEntity = Some \<lparr>nn_Namespace = ''ns'', nn_Name = n\<rparr>\<rparr>);
        p = \<lparr>refCnt = Some 1, runOnClear = False, pg_event = Added, addedMembers = [(''ns/a'', m ''a'')], removedMembers = []\<rparr>
    in pending_disjoint p \<and>
       keys (addedMembers (update_group_members Modified [m ''b''] [m ''a''] p)) = {''ns/b''})"
  unfolding Let_def
  by (subst pending_members_tracked [THEN conjunct2])
    (simp_all add: pending_disjoint_def member_key_def NamespacedName_String_def keys_def)

end
