(* ===== verification/Sg_Lifecycle.thy ===== *)
theory Sg_Lifecycle
  imports Pending_Queue
begin

text \<open>
  Security groups as the controller keeps them (\<^verbatim>\<open>securityGroupImpl\<close>, \<^verbatim>\<open>addrSecurityGroup\<close> and
  \<^verbatim>\<open>appliedToSecurityGroup\<close> of \<^verbatim>\<open>networkpolicy.go\<close>), the trackers of the policies applied to a
  cloud resource (\<^verbatim>\<open>networkpolicy_cloudresource.go\<close>), and the requests the groups send to the
  cloud plug-in. A method returns its error; logging is left out.
\<close>

section \<open>Trackers\<close>

definition newCloudResourceNPTracker :: "'ix env \<Rightarrow> CloudResource \<Rightarrow> ('ix, ptr option) rec_state" where
  "newCloudResourceNPTracker env rsc = do {
     t \<leftarrow> State (\<lambda>r. (next_ptr r,
       r\<lparr>tracker_heap := put (next_ptr r)
            \<lparr>cloudResource = rsc, dirty = None, appliedToSGs = [], prevAppliedToSGs = []\<rparr> (tracker_heap r),
         next_ptr := Suc (next_ptr r)\<rparr>));
     err \<leftarrow> trackerIndexer_Add env t;
     ret (if err \<noteq> None then None else Some t)
   }"

definition getCloudResourceNPTracker :: "'ix env \<Rightarrow> CloudResource \<Rightarrow> bool \<Rightarrow> ('ix, ptr option) rec_state" where
  "getCloudResourceNPTracker env rsc create = do {
     found \<leftarrow> gets (\<lambda>r. ix_getByKey (Ix env) (CloudResource_String rsc) (cloudResourceNPTrackerIndexer r));
     case found of
       Some t \<Rightarrow> ret (Some t)
     | None \<Rightarrow> if create then newCloudResourceNPTracker env rsc else ret None
   }"

definition tracker_markDirty :: "ptr \<Rightarrow> ('ix, unit) rec_state" where
  "tracker_markDirty t = modify (upd_tracker t (dirty_update (\<lambda>_. Some True)))"

definition tracker_unmarkDirty :: "ptr \<Rightarrow> ('ix, unit) rec_state" where
  "tracker_unmarkDirty t = modify (upd_tracker t (dirty_update (\<lambda>_. Some False)))"

text \<open>The move of a group between the two maps of a tracker.\<close>

definition move_group :: "string \<Rightarrow> ptr \<Rightarrow> bool \<Rightarrow> cloudResourceNPTracker \<Rightarrow> cloudResourceNPTracker" where
  "move_group key a isDelete t =
     (if isDelete
      then t\<lparr>appliedToSGs := del key (appliedToSGs t), prevAppliedToSGs := put key a (prevAppliedToSGs t)\<rparr>
      else t\<lparr>prevAppliedToSGs := del key (prevAppliedToSGs t), appliedToSGs := put key a (appliedToSGs t)\<rparr>)"

definition tracker_update :: "'ix env \<Rightarrow> ptr \<Rightarrow> ptr \<Rightarrow> bool \<Rightarrow> ('ix, error) rec_state" where
  "tracker_update env t a isDelete = do {
     key \<leftarrow> gets (\<lambda>r. CloudResourceID_String (sg_id (appliedSGs r a)));
     found \<leftarrow> gets (\<lambda>r. has_key (appliedToSGs (trackers r t)) key);
     if found \<noteq> isDelete then ret None
     else do {
       tracker_markDirty t;
       _ \<leftarrow> trackerIndexer_Delete env t;
       modify (upd_tracker t (move_group key a isDelete));
       trackerIndexer_Add env t
     }
   }"

section \<open>Common operations of security groups\<close>

definition stale_pass :: "order \<Rightarrow> string \<Rightarrow> (string, CloudResource) gomap \<Rightarrow> (string, CloudResource) gomap" where
  "stale_pass ord stale srcMap =
     fold (\<lambda>k m. if Contains stale k then del k m else m) (map fst (range_map ord srcMap)) srcMap"

definition removeStaleMembers :: "order \<Rightarrow> string list \<Rightarrow> securityGroupImpl \<Rightarrow> securityGroupImpl" where
  "removeStaleMembers ord stales s =
     (if members s = [] then s
      else let srcMap = fold (\<lambda>m. put (id_Name (rsc_Name m)) m) (members s) [];
               srcMap = fold (stale_pass ord) stales srcMap
           in s\<lparr>members := map snd (range_map ord srcMap)\<rparr>)"

definition addImpl :: "'ix env \<Rightarrow> cloudSecurityGroup \<Rightarrow> bool \<Rightarrow> ('ix, error) rec_state" where
  "addImpl env c membershipOnly = do {
     err \<leftarrow> sgIndexer_Add env membershipOnly c;
     if err \<noteq> None then ret err
     else do {
       synced \<leftarrow> gets syncedWithCloud;
       if \<not> synced then ret None
       else do {
         s \<leftarrow> gets (\<lambda>r. sg_impl r c);
         if retryOp s \<noteq> None then ret None
         else do {
           cloud_request_call env c (CreateSecurityGroup (sg_id s) membershipOnly) (Some securityGroupOperationAdd);
           modify (upd_impl c (status_update (\<lambda>_. Some InProgress)));
           ret None
         }
       }
     }
   }"

definition np_index_name :: "bool \<Rightarrow> string" where
  "np_index_name membershipOnly =
     (if membershipOnly then networkPolicyIndexerByAddrGrp else networkPolicyIndexerByAppliedToGrp)"

definition new_pendingGroup :: "int option \<Rightarrow> ('ix, ptr) rec_state" where
  "new_pendingGroup cnt = State (\<lambda>r. (next_ptr r,
     r\<lparr>pending_heap := put (next_ptr r)
          \<lparr>refCnt = cnt, runOnClear = False, pg_event = EventNone, addedMembers = [], removedMembers = []\<rparr> (pending_heap r),
       next_ptr := Suc (next_ptr r)\<rparr>))"

text \<open>A group that is deleted waits in the queue of pending deletions.\<close>

definition await_deletion :: "string \<Rightarrow> ('ix, unit) rec_state" where
  "await_deletion guName = do {
     waiting \<leftarrow> gets (Queue_Has PendingDeleteGroups guName);
     if_do (\<not> waiting) (do {
       g \<leftarrow> new_pendingGroup (Some 0);
       Queue_Add PendingDeleteGroups guName (GroupItem g)
     })
   }"

text \<open>The part of \<^verbatim>\<open>deleteImpl\<close> that calls the plug-in.\<close>

definition deleteImpl_call :: "'ix env \<Rightarrow> cloudSecurityGroup \<Rightarrow> bool \<Rightarrow> ('ix, error) rec_state" where
  "deleteImpl_call env c membershipOnly = do {
     s \<leftarrow> gets (\<lambda>r. sg_impl r c);
     if retryOp s \<noteq> None then ret None
     else do {
       _ \<leftarrow> Queue_Update_only PendingDeleteGroups (getGroupUniqueName (id_Name (sg_id s)) membershipOnly) (UpdateRef 1 False);
       modify (upd_impl c (status_update (\<lambda>_. Some InProgress)));
       cloud_request_call env c (DeleteSecurityGroup (sg_id s) membershipOnly) (Some securityGroupOperationDelete);
       ret None
     }
   }"

definition deleteImpl :: "'ix env \<Rightarrow> cloudSecurityGroup \<Rightarrow> bool \<Rightarrow> ('ix, error) rec_state" where
  "deleteImpl env c membershipOnly = do {
     s \<leftarrow> gets (\<lambda>r. sg_impl r c);
     uName \<leftarrow> ret (getGroupUniqueName (CloudResourceID_String (sg_id s)) membershipOnly);
     guName \<leftarrow> ret (getGroupUniqueName (id_Name (sg_id s)) membershipOnly);
     await_deletion guName;
     if sg_state s = securityGroupStateGarbageCollectState then deleteImpl_call env c membershipOnly
     else do {
       nps \<leftarrow> gets (nps_by env (np_index_name membershipOnly) (id_Name (sg_id s)));
       case nps of
         Inl err \<Rightarrow> ret (Some (Err (''get networkpolicy indexer with index='' @ np_index_name membershipOnly @
                          '', name='' @ id_Name (sg_id s) @ '': '' @ Error err)))
       | Inr sgs \<Rightarrow>
           if sgs \<noteq> [] then do {
             modify (upd_impl c (deletePending_update (\<lambda>_. True)));
             ret None
           }
           else do {
             _ \<leftarrow> sgIndexer_Delete env membershipOnly c;
             Queue_Remove RetryQueue uName;
             modify (upd_impl c (retryOp_update (\<lambda>_. None)));
             if sg_state s = securityGroupStateInit \<and> status s \<noteq> Some InProgress then ret None
             else do {
               modify (upd_impl c (sg_state_update (\<lambda>_. securityGroupStateGarbageCollectState)));
               deleteImpl_call env c membershipOnly
             }
           }
     }
   }"

definition updateImpl ::
    "'ix env \<Rightarrow> cloudSecurityGroup \<Rightarrow> CloudResource list \<Rightarrow> CloudResource list \<Rightarrow> bool \<Rightarrow> ('ix, error) rec_state" where
  "updateImpl env c added removed membershipOnly = do {
     s \<leftarrow> gets (\<lambda>r. sg_impl r c);
     if length added + length removed + length (members s) = 0 then ret None
     else do {
       modify (upd_impl c (\<lambda>s. s\<lparr>members := mergeCloudResources (rng env) (members s) added removed\<rparr>));
       s \<leftarrow> gets (\<lambda>r. sg_impl r c);
       if sg_state s \<noteq> securityGroupStateCreated then ret None
       else if retryOp s \<noteq> None then ret None
       else do {
         cloud_request_call env c (UpdateSecurityGroupMembers (sg_id s) (members s) membershipOnly) None;
         ret None
       }
     }
   }"

definition sg_markDirty :: "'ix env \<Rightarrow> cloudSecurityGroup \<Rightarrow> bool \<Rightarrow> ('ix, unit) rec_state" where
  "sg_markDirty env c create = do {
     rscs \<leftarrow> gets (\<lambda>r. members (sg_impl r c));
     for_each rscs (\<lambda>rsc. do {
       t \<leftarrow> getCloudResourceNPTracker env rsc create;
       case t of None \<Rightarrow> ret () | Some t \<Rightarrow> tracker_markDirty t
     })
   }"

section \<open>Address groups\<close>

definition newAddrSecurityGroup_with ::
    "CloudResourceID \<Rightarrow> IPNet list \<Rightarrow> CloudResource list \<Rightarrow> securityGroupState option \<Rightarrow> ('ix, ptr) rec_state" where
  "newAddrSecurityGroup_with cid ips rscs st = State (\<lambda>r. (next_ptr r,
     r\<lparr>addr_heap := put (next_ptr r)
          \<lparr>members = rscs, sg_id = cid,
           sg_state = (case st of Some x \<Rightarrow> x | None \<Rightarrow> securityGroupStateInit),
           deletePending = False, status = None, retryOp = None, retryInProgress = False, ipBlocks = ips\<rparr> (addr_heap r),
       next_ptr := Suc (next_ptr r)\<rparr>))"

text \<open>The data is a list of address blocks or a list of cloud resources.\<close>

definition newAddrSecurityGroup ::
    "CloudResourceID \<Rightarrow> IPNet list + CloudResource list \<Rightarrow> securityGroupState option \<Rightarrow> ('ix, ptr) rec_state" where
  "newAddrSecurityGroup cid data st = (case data of
     Inl ips \<Rightarrow> newAddrSecurityGroup_with cid ips [] st
   | Inr rscs \<Rightarrow> newAddrSecurityGroup_with cid [] rscs st)"

definition addr_isIPBlocks :: "ptr \<Rightarrow> 'ix NetworkPolicyReconciler \<Rightarrow> bool" where
  "addr_isIPBlocks a r = (length (id_Vpc (sg_id (addrSGs r a))) = 0)"

definition addr_isReady :: "ptr \<Rightarrow> 'ix NetworkPolicyReconciler \<Rightarrow> bool" where
  "addr_isReady a r = (addr_isIPBlocks a r \<or> sg_state (addrSGs r a) = securityGroupStateCreated)"

definition addr_getStatus :: "ptr \<Rightarrow> 'ix NetworkPolicyReconciler \<Rightarrow> error" where
  "addr_getStatus a r =
     (if status (addrSGs r a) \<noteq> None then status (addrSGs r a)
      else if sg_state (addrSGs r a) = securityGroupStateCreated \<or> addr_isIPBlocks a r then None
      else Some InProgress)"

definition addr_add :: "'ix env \<Rightarrow> ptr \<Rightarrow> ('ix, error) rec_state" where
  "addr_add env a = do {
     ips \<leftarrow> gets (addr_isIPBlocks a);
     if ips then sgIndexer_Add env True (AddrSG a) else addImpl env (AddrSG a) True
   }"

definition addr_delete :: "'ix env \<Rightarrow> ptr \<Rightarrow> ('ix, error) rec_state" where
  "addr_delete env a = do {
     ips \<leftarrow> gets (addr_isIPBlocks a);
     if ips then sgIndexer_Delete env True (AddrSG a) else deleteImpl env (AddrSG a) True
   }"

definition addr_updateIPs :: "'ix env \<Rightarrow> ptr \<Rightarrow> IPNet list \<Rightarrow> IPNet list \<Rightarrow> ('ix, unit) rec_state" where
  "addr_updateIPs env a added removed = modify (\<lambda>r. r\<lparr>addr_heap := put a
     ((addrSGs r a)\<lparr>ipBlocks := mergeIPs (rng env) (ipBlocks (addrSGs r a)) added removed\<rparr>) (addr_heap r)\<rparr>)"

definition addr_update :: "'ix env \<Rightarrow> ptr \<Rightarrow> CloudResource list \<Rightarrow> CloudResource list \<Rightarrow> ('ix, error) rec_state" where
  "addr_update env a added removed = do {
     ips \<leftarrow> gets (addr_isIPBlocks a);
     if ips then ret None else updateImpl env (AddrSG a) added removed True
   }"

definition addr_notifyNetworkPolicyChange :: "'ix env \<Rightarrow> ptr \<Rightarrow> ('ix, unit) rec_state" where
  "addr_notifyNetworkPolicyChange env a = do {
     pending \<leftarrow> gets (\<lambda>r. deletePending (addrSGs r a));
     if \<not> pending then ret ()
     else do {
       sgs \<leftarrow> gets (\<lambda>r. nps_by env networkPolicyIndexerByAddrGrp (id_Name (sg_id (addrSGs r a))) r);
       if or_nil sgs = [] then do { _ \<leftarrow> addr_delete env a; ret () } else ret ()
     }
   }"

section \<open>Applied-to groups\<close>

definition newAppliedToSecurityGroup ::
    "CloudResourceID \<Rightarrow> CloudResource list \<Rightarrow> securityGroupState option \<Rightarrow> ('ix, ptr) rec_state" where
  "newAppliedToSecurityGroup cid rscs st = State (\<lambda>r. (next_ptr r,
     r\<lparr>applied_heap := put (next_ptr r)
          \<lparr>members = rscs, sg_id = cid,
           sg_state = (case st of Some x \<Rightarrow> x | None \<Rightarrow> securityGroupStateInit),
           deletePending = False, status = None, retryOp = None, retryInProgress = False,
           hasRules = False, hasMembers = False\<rparr> (applied_heap r),
       next_ptr := Suc (next_ptr r)\<rparr>))"

text \<open>The loops of \<^verbatim>\<open>add\<close>, \<^verbatim>\<open>delete\<close> and \<^verbatim>\<open>update\<close> over the trackers of resources.\<close>

definition update_trackers :: "'ix env \<Rightarrow> ptr \<Rightarrow> CloudResource list \<Rightarrow> bool \<Rightarrow> ('ix, unit) rec_state" where
  "update_trackers env a rscs isDelete =
     for_each rscs (\<lambda>rsc. do {
       t \<leftarrow> getCloudResourceNPTracker env rsc (\<not> isDelete);
       case t of None \<Rightarrow> ret () | Some t \<Rightarrow> do { _ \<leftarrow> tracker_update env t a isDelete; ret () }
     })"

definition applied_add :: "'ix env \<Rightarrow> ptr \<Rightarrow> ('ix, error) rec_state" where
  "applied_add env a = do {
     rscs \<leftarrow> gets (\<lambda>r. members (appliedSGs r a));
     update_trackers env a rscs False;
     addImpl env (AppliedToSG a) False
   }"

definition applied_delete :: "'ix env \<Rightarrow> ptr \<Rightarrow> ('ix, error) rec_state" where
  "applied_delete env a = do {
     has \<leftarrow> gets (\<lambda>r. hasMembers (appliedSGs r a));
     rscs \<leftarrow> gets (\<lambda>r. members (appliedSGs r a));
     if_do has (update_trackers env a rscs True);
     deleteImpl env (AppliedToSG a) False
   }"

definition applied_isReady :: "ptr \<Rightarrow> 'ix NetworkPolicyReconciler \<Rightarrow> bool" where
  "applied_isReady a r = (sg_state (appliedSGs r a) = securityGroupStateCreated)"

definition applied_getStatus :: "ptr \<Rightarrow> 'ix NetworkPolicyReconciler \<Rightarrow> error" where
  "applied_getStatus a r =
     (if status (appliedSGs r a) \<noteq> None then status (appliedSGs r a)
      else if sg_state (appliedSGs r a) = securityGroupStateCreated \<and> hasRules (appliedSGs r a) then None
      else Some InProgress)"

definition applied_updateRules :: "'ix env \<Rightarrow> ptr \<Rightarrow> ('ix, error) rec_state" where
  "applied_updateRules env a = do {
     r \<leftarrow> State_Monad.get;
     s \<leftarrow> ret (appliedSGs r a);
     if \<not> applied_isReady a r then ret None
     else if retryOp s \<noteq> None then ret None
     else case nps_by env networkPolicyIndexerByAppliedToGrp (id_Name (sg_id s)) r of
       Inl err \<Rightarrow> ret (Some (Err (''unable to get networkPolicy with key '' @ id_Name (sg_id s) @ '' from indexer: '' @ Error err)))
     | Inr nps \<Rightarrow>
         if nps = [] then
           (if hasMembers s
            then do {
              cloud_request_call env (AppliedToSG a) (UpdateSecurityGroupMembers (sg_id s) [] False)
                (Some securityGroupOperationClearMembers);
              ret None
            }
            else do {
              modify (upd_applied a (hasRules_update (\<lambda>_. False)));
              ret None
            })
         else if \<exists>n \<in> set nps. \<not> rulesReady (policies r n) then ret None
         else do {
           cloud_request_call env (AppliedToSG a)
             (UpdateSecurityGroupRules (sg_id s)
                (deduplicateIngressRules (rng env) (concat (map (\<lambda>n. ingressRules (policies r n)) nps)))
                (deduplicateEgressRules (rng env) (concat (map (\<lambda>n. egressRules (policies r n)) nps))))
             (Some securityGroupOperationUpdateRules);
           ret None
         }
   }"

definition applied_update :: "'ix env \<Rightarrow> ptr \<Rightarrow> CloudResource list \<Rightarrow> CloudResource list \<Rightarrow> ('ix, error) rec_state" where
  "applied_update env a added removed = do {
     update_trackers env a removed True;
     update_trackers env a added False;
     updateImpl env (AppliedToSG a) added removed False
   }"

definition applied_notifyNetworkPolicyChange :: "'ix env \<Rightarrow> ptr \<Rightarrow> ('ix, unit) rec_state" where
  "applied_notifyNetworkPolicyChange env a = do {
     sgs \<leftarrow> gets (\<lambda>r. nps_by env networkPolicyIndexerByAppliedToGrp (id_Name (sg_id (appliedSGs r a))) r);
     pending \<leftarrow> gets (\<lambda>r. deletePending (appliedSGs r a));
     if or_nil sgs = [] \<and> pending then do { _ \<leftarrow> applied_delete env a; ret () }
     else if \<not> pending then do { _ \<leftarrow> applied_updateRules env a; ret () }
     else ret ()
   }"

section \<open>Both kinds of groups\<close>

definition sg_delete :: "'ix env \<Rightarrow> cloudSecurityGroup \<Rightarrow> ('ix, error) rec_state" where
  "sg_delete env c = (case c of AddrSG a \<Rightarrow> addr_delete env a | AppliedToSG a \<Rightarrow> applied_delete env a)"

definition sg_add :: "'ix env \<Rightarrow> cloudSecurityGroup \<Rightarrow> ('ix, error) rec_state" where
  "sg_add env c = (case c of AddrSG a \<Rightarrow> addr_add env a | AppliedToSG a \<Rightarrow> applied_add env a)"

definition sg_update :: "'ix env \<Rightarrow> cloudSecurityGroup \<Rightarrow> CloudResource list \<Rightarrow> CloudResource list \<Rightarrow> ('ix, error) rec_state" where
  "sg_update env c added removed = (case c of
     AddrSG a \<Rightarrow> addr_update env a added removed
   | AppliedToSG a \<Rightarrow> applied_update env a added removed)"

section \<open>Retries\<close>

definition runPendingItemImpl :: "'ix env \<Rightarrow> cloudSecurityGroup \<Rightarrow> bool \<Rightarrow> ('ix, bool) rec_state" where
  "runPendingItemImpl env c memberOnly = do {
     s \<leftarrow> gets (\<lambda>r. sg_impl r c);
     case retryOp s of
       None \<Rightarrow> do {
         (if sg_state s \<noteq> securityGroupStateGarbageCollectState
          then case c of
             AppliedToSG a \<Rightarrow> do {
               modify (upd_applied a (hasMembers_update (\<lambda>_. False)));
               _ \<leftarrow> applied_updateRules env a;
               ret ()
             }
           | AddrSG _ \<Rightarrow> do { _ \<leftarrow> updateImpl env c [] [] memberOnly; ret () }
          else ret ());
         ret True
       }
     | Some op \<Rightarrow> do {
         modify (upd_impl c (retryOp_update (\<lambda>_. None)));
         err \<leftarrow> (case op of
             securityGroupOperationAdd \<Rightarrow> addImpl env c memberOnly
           | securityGroupOperationUpdateMembers \<Rightarrow> updateImpl env c [] [] memberOnly
           | securityGroupOperationDelete \<Rightarrow> deleteImpl env c memberOnly
           | _ \<Rightarrow> (case c of
                 AppliedToSG a \<Rightarrow> applied_updateRules env a
               | AddrSG _ \<Rightarrow> do { panic; ret None }));
         modify (upd_impl c (\<lambda>s. (if err = None then s\<lparr>retryInProgress := True\<rparr> else s)\<lparr>retryOp := Some op\<rparr>));
         ret False
       }
   }"

section \<open>Changes that leave the groups alone\<close>

lemma groups_frame [simp]:
  "sg_impl (snd (run_state (new_pendingGroup cnt) r)) c = sg_impl r c"
  "sg_impl (snd (run_state (new_counter lim) r)) c = sg_impl r c"
  "sg_impl (snd (run_state (Queue_Add q uid i) r)) c = sg_impl r c"
  "sg_impl (snd (run_state (Queue_Remove q uid) r)) c = sg_impl r c"
  "sg_impl (snd (run_state (sgIndexer_Delete env m c') r)) c = sg_impl r c"
  "sg_impl (snd (run_state (sgIndexer_Add env m c') r)) c = sg_impl r c"
  by (simp_all add: new_pendingGroup_def new_counter_def Queue_Add_def Queue_Remove_def upd_items_def
      sgIndexer_Delete_def sgIndexer_Add_def Let_def split_beta split: option.splits queue.splits)

lemma await_deletion_frame [simp]: "sg_impl (snd (run_state (await_deletion uid) r)) c = sg_impl r c"
  by (simp add: await_deletion_def split_beta)

lemma await_deletion_rest [simp]:
  "networkPolicyIndexer (snd (run_state (await_deletion uid) r)) = networkPolicyIndexer r"
  "addrSGIndexer (snd (run_state (await_deletion uid) r)) = addrSGIndexer r"
  "appliedToSGIndexer (snd (run_state (await_deletion uid) r)) = appliedToSGIndexer r"
  "requests (snd (run_state (await_deletion uid) r)) = requests r"
  "calls (snd (run_state (await_deletion uid) r)) = calls r"
  by (simp_all add: await_deletion_def new_pendingGroup_def Queue_Add_def new_counter_def upd_items_def split_beta
      split: option.splits queue.splits)

section \<open>What groups ask of the cloud\<close>



end
