(* ===== verification/Np_Policy.thy ===== *)
theory Np_Policy
  imports Sg_Lifecycle
begin

text \<open>
  Network policies as the controller keeps them (\<^verbatim>\<open>networkPolicy\<close> and \<^verbatim>\<open>networkPolicyRule\<close> of
  \<^verbatim>\<open>networkpolicy.go\<close>), and the status of the policies applied to a cloud resource
  (\<^verbatim>\<open>networkpolicy_cloudresource.go\<close>).
\<close>

section \<open>Rules of a policy\<close>

definition block_nets :: "(ip \<times> int) list \<Rightarrow> IPNet list" where
  "block_nets = map (\<lambda>(a, l). \<lparr>IP = a, Mask = CIDRMask l\<rparr>)"

text \<open>
  The loop over the address groups of a peer: the blocks and the security groups found so far,
  or nothing when a group is unknown.
\<close>

definition peer_group :: "'ix env \<Rightarrow> 'ix NetworkPolicyReconciler \<Rightarrow> string \<Rightarrow> (IPNet list \<times> CloudResourceID list) option \<Rightarrow>
    (IPNet list \<times> CloudResourceID list) option" where
  "peer_group env r ag acc = (case acc of
     None \<Rightarrow> None
   | Some (ips, sgs) \<Rightarrow> (case sgs_by_group env True ag r of
       Inl _ \<Rightarrow> Some (ips, sgs)
     | Inr ps \<Rightarrow>
         if ps = [] then None
         else Some (ips @ concat (map (\<lambda>p. ipBlocks (addrSGs r p)) ps),
                    sgs @ filter (\<lambda>c. length (id_Vpc c) > 0) (map (\<lambda>p. sg_id (addrSGs r p)) ps))))"

definition service_protocol :: "Service \<Rightarrow> int option \<Rightarrow> int option" where
  "service_protocol s p = (case svc_Protocol s of
     None \<Rightarrow> p
   | Some n \<Rightarrow> (case map_of AntreaProtocolMap n of None \<Rightarrow> p | Some v \<Rightarrow> Some v))"

definition service_port :: "Service \<Rightarrow> int option \<Rightarrow> int option" where
  "service_port s p = (case svc_Port s of None \<Rightarrow> p | Some q \<Rightarrow> Some (IntVal q))"

definition rules :: "'ix env \<Rightarrow> 'ix NetworkPolicyReconciler \<Rightarrow> NetworkPolicyRule \<Rightarrow>
    IngressRule list \<times> EgressRule list \<times> bool" where
  "rules env r rule =
     (if rule_Direction rule = DirectionIn
      then case fold (peer_group env r) (AddressGroups (From rule)) (Some (block_nets (IPBlocks (From rule)), [])) of
          None \<Rightarrow> ([], [], False)
        | Some (ips, sgs) \<Rightarrow>
            let ingress = \<lparr>FromPort = None, FromSrcIP = ips, FromSecurityGroups = sgs, in_Protocol = None\<rparr>
            in if sgs = [] \<and> ips = [] then ([], [], True)
               else (case Services rule of
                   None \<Rightarrow> ([ingress], [], True)
                 | Some ss \<Rightarrow>
                     (map (\<lambda>s. ingress\<lparr>in_Protocol := service_protocol s (in_Protocol ingress),
                                       FromPort := service_port s (FromPort ingress)\<rparr>) ss, [], True))
      else case fold (peer_group env r) (AddressGroups (To rule)) (Some (block_nets (IPBlocks (To rule)), [])) of
          None \<Rightarrow> ([], [], False)
        | Some (ips, sgs) \<Rightarrow>
            let egress = \<lparr>ToPort = None, ToDstIP = ips, ToSecurityGroups = sgs, eg_Protocol = None\<rparr>
            in if sgs = [] \<and> ips = [] then ([], [], True)
               else (case Services rule of
                   None \<Rightarrow> ([], [egress], True)
                 | Some ss \<Rightarrow>
                     ([], map (\<lambda>s. egress\<lparr>eg_Protocol := service_protocol s (eg_Protocol egress),
                                          ToPort := service_port s (ToPort egress)\<rparr>) ss, True)))"

section \<open>Readiness\<close>

definition policy_addr_groups :: "NetworkPolicyRule list \<Rightarrow> (string, unit) gomap" where
  "policy_addr_groups rs =
     fold (\<lambda>r m. fold (\<lambda>g. put g ()) (AddressGroups (From r)) (fold (\<lambda>g. put g ()) (AddressGroups (To r)) m)) rs []"

text \<open>The check of one address group: \<open>Some e\<close> returns \<open>e\<close> from the function.\<close>

definition group_not_ready :: "'ix env \<Rightarrow> 'ix NetworkPolicyReconciler \<Rightarrow> bool \<Rightarrow> string \<Rightarrow> error option" where
  "group_not_ready env r withStatus name = (case sgs_by_group env True name r of
     Inl err \<Rightarrow> Some (Some err)
   | Inr ps \<Rightarrow>
       if ps = [] then Some (Some (Err ''internal error''))
       else fold (\<lambda>p found. case found of
           Some e \<Rightarrow> Some e
         | None \<Rightarrow>
             if withStatus \<and> addr_getStatus p r \<noteq> None
             then Some (Some (Err (CloudResourceID_String (sg_id (addrSGs r p)) @ ''='' @
                                   (case addr_getStatus p r of None \<Rightarrow> [] | Some e \<Rightarrow> Error e))))
             else if \<not> addr_isReady p r then Some None
             else None) ps None)"

definition computeRulesReady :: "'ix env \<Rightarrow> bool \<Rightarrow> ptr \<Rightarrow> ('ix, error) rec_state" where
  "computeRulesReady env withStatus n = do {
     r \<leftarrow> State_Monad.get;
     if withStatus \<or> \<not> rulesReady (policies r n)
     then case fold (\<lambda>(name, _) found. case found of Some e \<Rightarrow> Some e | None \<Rightarrow> group_not_ready env r withStatus name)
            (range_map (rng env) (policy_addr_groups (Rules (policies r n)))) None of
         Some e \<Rightarrow> ret e
       | None \<Rightarrow> do { modify (upd_policy n (rulesReady_update (\<lambda>_. True))); ret None }
     else ret None
   }"

definition add_rules :: "IngressRule list \<Rightarrow> EgressRule list \<Rightarrow> networkPolicy \<Rightarrow> networkPolicy" where
  "add_rules ing eg p = p\<lparr>ingressRules := ingressRules p @ ing, egressRules := egressRules p @ eg\<rparr>"

text \<open>One rule of the loop; it leaves the function when the rule has an unknown group.\<close>

definition compute_rule :: "'ix env \<Rightarrow> ptr \<Rightarrow> NetworkPolicyRule \<Rightarrow> ('ix, unit option) rec_state" where
  "compute_rule env n rule = do {
     r \<leftarrow> State_Monad.get;
     case rules env r rule of
       (ing, eg, ready) \<Rightarrow>
         if \<not> ready then do {
           modify (upd_policy n (\<lambda>p. p\<lparr>ingressRules := [], egressRules := []\<rparr>));
           ret (Some ())
         }
         else do { modify (upd_policy n (add_rules ing eg)); ret None }
   }"

definition computeRules :: "'ix env \<Rightarrow> ptr \<Rightarrow> ('ix, bool) rec_state" where
  "computeRules env n = do {
     modify (upd_policy n (\<lambda>p. p\<lparr>ingressRules := [], egressRules := [], rulesReady := False\<rparr>));
     rs \<leftarrow> gets (\<lambda>r. Rules (policies r n));
     failed \<leftarrow> for_return rs (compute_rule env n);
     case failed of
       Some _ \<Rightarrow> ret False
     | None \<Rightarrow> do {
         _ \<leftarrow> computeRulesReady env False n;
         gets (\<lambda>r. rulesReady (policies r n))
       }
   }"

definition policy_getStatus :: "'ix env \<Rightarrow> ptr \<Rightarrow> ('ix, error) rec_state" where
  "policy_getStatus env n = do {
     p \<leftarrow> gets (\<lambda>r. policies r n);
     if ingressRules p = [] \<and> egressRules p = [] then ret (Some InProgress)
     else computeRulesReady env True n
   }"

section \<open>Updates of a policy\<close>

definition policy_markDirty :: "'ix env \<Rightarrow> ptr \<Rightarrow> ('ix, unit) rec_state" where
  "policy_markDirty env n = do {
     gs \<leftarrow> gets (\<lambda>r. AppliedToGroups (policies r n));
     _ \<leftarrow> for_return gs (\<lambda>g. do {
       sgs \<leftarrow> gets (sgs_by_group env False g);
       case sgs of
         Inl _ \<Rightarrow> ret (Some ())
       | Inr ps \<Rightarrow> do { for_each ps (\<lambda>a. sg_markDirty env (AppliedToSG a) False); ret None }
     });
     ret ()
   }"

definition notifyAddrGrpChanges :: "'ix env \<Rightarrow> ptr \<Rightarrow> ('ix, error) rec_state" where
  "notifyAddrGrpChanges env n = do {
     ready \<leftarrow> gets (\<lambda>r. rulesReady (policies r n));
     if ready then ret None
     else do {
       _ \<leftarrow> computeRulesReady env False n;
       ready \<leftarrow> gets (\<lambda>r. rulesReady (policies r n));
       if \<not> ready then ret None
       else do {
         gs \<leftarrow> gets (\<lambda>r. AppliedToGroups (policies r n));
         e \<leftarrow> for_return gs (\<lambda>g. do {
           sgs \<leftarrow> gets (sgs_by_group env False g);
           case sgs of
             Inl err \<Rightarrow> ret (Some (Err (''unable to get appliedToSGs '' @ g @ '' from indexer: '' @ Error err)))
           | Inr ps \<Rightarrow> do {
               for_each ps (\<lambda>a. do { _ \<leftarrow> applied_updateRules env a; ret () });
               ret None
             }
         });
         ret e
       }
     }
   }"

text \<open>The loops of \<^verbatim>\<open>update\<close> that tell groups about the change; a failing lookup is skipped.\<close>

definition notify_addr_groups :: "'ix env \<Rightarrow> string list \<Rightarrow> ('ix, unit) rec_state" where
  "notify_addr_groups env gs = for_each gs (\<lambda>g. do {
     sgs \<leftarrow> gets (sgs_by_group env True g);
     for_each (or_nil sgs) (addr_notifyNetworkPolicyChange env)
   })"

definition notify_applied_groups :: "'ix env \<Rightarrow> string list \<Rightarrow> ('ix, unit) rec_state" where
  "notify_applied_groups env gs = for_each gs (\<lambda>g. do {
     sgs \<leftarrow> gets (sgs_by_group env False g);
     for_each (or_nil sgs) (applied_notifyNetworkPolicyChange env)
   })"

text \<open>The part of \<^verbatim>\<open>update\<close> for a change sent by Antrea: the removed address groups and the
  modified applied-to groups.\<close>

definition policy_apply_change :: "'ix env \<Rightarrow> ptr \<Rightarrow> NetworkPolicy \<Rightarrow> ('ix, string list \<times> string list) rec_state" where
  "policy_apply_change env n anp = do {
     p \<leftarrow> gets (\<lambda>r. policies r n);
     (removedAddr, modified) \<leftarrow>
       (if Rules anp \<noteq> Rules p then do {
          _ \<leftarrow> npIndexer_Delete env n;
          removedAddr \<leftarrow> ret (snd (diffAddressGrp (rng env) (Rules p) (Rules anp)));
          modify (upd_policy n (Rules_update (\<lambda>_. Rules anp)));
          _ \<leftarrow> npIndexer_Add env n;
          ok \<leftarrow> computeRules env n;
          ret (removedAddr, if ok then AppliedToGroups p else [])
        }
        else ret ([], []));
     (added, removed) \<leftarrow>
       (if AppliedToGroups anp \<noteq> AppliedToGroups p then do {
          _ \<leftarrow> npIndexer_Delete env n;
          d \<leftarrow> ret (diffAppliedToGrp (rng env) (AppliedToGroups p) (AppliedToGroups anp));
          modify (upd_policy n (AppliedToGroups_update (\<lambda>_. AppliedToGroups anp)));
          _ \<leftarrow> npIndexer_Add env n;
          ret d
        }
        else ret ([], []));
     ret (removedAddr, modified @ removed @ added)
   }"

definition policy_update :: "'ix env \<Rightarrow> ptr \<Rightarrow> NetworkPolicy option \<Rightarrow> bool \<Rightarrow> ('ix, unit) rec_state" where
  "policy_update env n anp recompute =
     (if recompute then do {
        ok \<leftarrow> computeRules env n;
        if \<not> ok then ret ()
        else do {
          gs \<leftarrow> gets (\<lambda>r. AppliedToGroups (policies r n));
          notify_applied_groups env gs
        }
      }
      else case anp of
        None \<Rightarrow> panic
      | Some anp \<Rightarrow> do {
          policy_markDirty env n;
          (removedAddr, modified) \<leftarrow> policy_apply_change env n anp;
          notify_addr_groups env removedAddr;
          notify_applied_groups env modified;
          policy_markDirty env n
        })"

definition policy_delete :: "'ix env \<Rightarrow> ptr \<Rightarrow> ('ix, error) rec_state" where
  "policy_delete env n = do {
     policy_markDirty env n;
     _ \<leftarrow> npIndexer_Delete env n;
     p \<leftarrow> gets (\<lambda>r. policies r n);
     e \<leftarrow> for_return (AppliedToGroups p) (\<lambda>g. do {
       sgs \<leftarrow> gets (sgs_by_group env False g);
       case sgs of
         Inl err \<Rightarrow> ret (Some (Err (''unable to get appliedToSGs '' @ g @ '' from indexer: '' @ Error err)))
       | Inr ps \<Rightarrow> do { for_each ps (applied_notifyNetworkPolicyChange env); ret None }
     });
     case e of
       Some err \<Rightarrow> ret (Some err)
     | None \<Rightarrow>
         for_return (concat (map (\<lambda>rule. AddressGroups (To rule) @ AddressGroups (From rule)) (Rules p))) (\<lambda>g. do {
           sgs \<leftarrow> gets (sgs_by_group env True g);
           case sgs of
             Inl err \<Rightarrow> ret (Some (Err (''unable to get addrSGs '' @ g @ '' from indexer: '' @ Error err)))
           | Inr ps \<Rightarrow> do { for_each ps (addr_notifyNetworkPolicyChange env); ret None }
         })
   }"

section \<open>The rules of a policy\<close>

lemma policies_upd_policy [simp]: "policies (upd_policy n f r) m = (if m = n then f (policies r n) else policies r m)"
  by (simp add: upd_policy_def)

lemma upd_policy_frame [simp]:
  "addr_heap (upd_policy n f r) = addr_heap r" "addrSGIndexer (upd_policy n f r) = addrSGIndexer r"
  by (simp_all add: upd_policy_def)

text \<open>The rules and the readiness of address groups depend on the address groups only.\<close>

definition same_addr :: "'ix NetworkPolicyReconciler \<Rightarrow> 'ix NetworkPolicyReconciler \<Rightarrow> bool" where
  "same_addr r r' \<longleftrightarrow> addr_heap r' = addr_heap r \<and> addrSGIndexer r' = addrSGIndexer r"

lemma rules_same_addr: "same_addr r r' \<Longrightarrow> rules env r' rule = rules env r rule"
proof -
  assume "same_addr r r'"
  then have "peer_group env r' = peer_group env r"
    by (simp add: same_addr_def fun_eq_iff peer_group_def sgs_by_group_def split: option.splits sum.splits)
  then show ?thesis by (simp add: rules_def)
qed

definition group_ready :: "'ix env \<Rightarrow> 'ix NetworkPolicyReconciler \<Rightarrow> string \<Rightarrow> bool" where
  "group_ready env r g = (case sgs_by_group env True g r of
     Inl _ \<Rightarrow> False
   | Inr ps \<Rightarrow> ps \<noteq> [] \<and> (\<forall>p \<in> set ps. addr_isReady p r))"

lemma group_ready_same_addr: "same_addr r r' \<Longrightarrow> group_ready env r' g = group_ready env r g"
  by (simp add: same_addr_def group_ready_def sgs_by_group_def addr_isReady_def addr_isIPBlocks_def split: sum.splits)

text \<open>A loop that keeps the first failure finds none exactly when nothing fails.\<close>

lemma fold_first_failure:
  "fold (\<lambda>x found. case found of Some e \<Rightarrow> Some e | None \<Rightarrow> g x) xs acc = None \<longleftrightarrow>
   acc = None \<and> (\<forall>x \<in> set xs. g x = None)"
  by (induction xs arbitrary: acc) (auto split: option.splits)

lemma group_not_ready_None: "group_not_ready env r False g = None \<longleftrightarrow> group_ready env r g"
  unfolding group_not_ready_def group_ready_def
  by (simp add: fold_first_failure split: sum.splits)

lemma keys_policy_addr_groups: "keys (policy_addr_groups rs) = set (rules_groups rs)"
proof -
  have "keys (fold (\<lambda>r m. fold (\<lambda>g. put g ()) (AddressGroups (From r)) (fold (\<lambda>g. put g ()) (AddressGroups (To r)) m)) rs m) =
      keys m \<union> set (rules_groups rs)" for m :: "(string, unit) gomap"
    by (induction rs arbitrary: m) (auto simp: rules_groups_def keys_fold_put [where f = "\<lambda>x. x" and g = "\<lambda>_. ()", simplified])
  then show ?thesis by (simp add: policy_addr_groups_def)
qed

lemma set_range_keys: "is_order ord \<Longrightarrow> fst ` set (range_map ord m) = keys m"
  by (simp add: keys_def)

lemma computeRulesReady_False:
  assumes "is_order (rng env)" "\<not> rulesReady (policies r n)"
  shows "rulesReady (policies (snd (run_state (computeRulesReady env False n) r)) n) \<longleftrightarrow>
      (\<forall>g \<in> set (rules_groups (Rules (policies r n))). group_ready env r g)"
    and "ingressRules (policies (snd (run_state (computeRulesReady env False n) r)) n) = ingressRules (policies r n)"
    and "egressRules (policies (snd (run_state (computeRulesReady env False n) r)) n) = egressRules (policies r n)"
proof -
  let ?m = "range_map (rng env) (policy_addr_groups (Rules (policies r n)))"
  let ?l = "fold (\<lambda>(name, _) found. case found of Some e \<Rightarrow> Some e | None \<Rightarrow> group_not_ready env r False name) ?m None"
  have "?l = fold (\<lambda>x found. case found of Some e \<Rightarrow> Some e | None \<Rightarrow> group_not_ready env r False (fst x)) ?m None"
    by (rule arg_cong [where f = "\<lambda>f. fold f ?m None"]) (simp add: fun_eq_iff split: option.split)
  then have "?l = None \<longleftrightarrow> (\<forall>x \<in> set ?m. group_ready env r (fst x))"
    by (simp add: fold_first_failure group_not_ready_None)
  also have "\<dots> \<longleftrightarrow> (\<forall>g \<in> set (rules_groups (Rules (policies r n))). group_ready env r g)"
    using set_range_keys [OF assms(1), of "policy_addr_groups (Rules (policies r n))"]
    by (metis (no_types, lifting) image_iff keys_policy_addr_groups)
  finally have "?l = None \<longleftrightarrow> (\<forall>g \<in> set (rules_groups (Rules (policies r n))). group_ready env r g)" .
  with assms(2) show "rulesReady (policies (snd (run_state (computeRulesReady env False n) r)) n) \<longleftrightarrow>
      (\<forall>g \<in> set (rules_groups (Rules (policies r n))). group_ready env r g)"
    by (auto simp: computeRulesReady_def split: option.splits)
  show "ingressRules (policies (snd (run_state (computeRulesReady env False n) r)) n) = ingressRules (policies r n)"
    "egressRules (policies (snd (run_state (computeRulesReady env False n) r)) n) = egressRules (policies r n)"
    using assms(2) by (auto simp: computeRulesReady_def split: option.splits)
qed

text \<open>The rules that a list of policy rules stands for, when every group in it is known.\<close>

definition policy_rules :: "'ix env \<Rightarrow> 'ix NetworkPolicyReconciler \<Rightarrow> NetworkPolicyRule list \<Rightarrow> IngressRule list \<times> EgressRule list" where
  "policy_rules env r rs =
     (concat (map (\<lambda>x. fst (rules env r x)) rs), concat (map (\<lambda>x. fst (snd (rules env r x))) rs))"

definition rules_known :: "'ix env \<Rightarrow> 'ix NetworkPolicyReconciler \<Rightarrow> NetworkPolicyRule list \<Rightarrow> bool" where
  "rules_known env r rs \<longleftrightarrow> (\<forall>x \<in> set rs. snd (snd (rules env r x)))"

lemma policy_rules_same_addr:
  "same_addr r r' \<Longrightarrow> policy_rules env r' rs = policy_rules env r rs"
  "same_addr r r' \<Longrightarrow> rules_known env r' rs = rules_known env r rs"
  by (simp_all add: policy_rules_def rules_known_def rules_same_addr)

lemma same_addr_upd_policy [simp]: "same_addr r (upd_policy n f r)"
  by (simp add: same_addr_def)

lemma same_addr_trans: "same_addr r s \<Longrightarrow> same_addr s t \<Longrightarrow> same_addr r t"
  by (simp add: same_addr_def)

lemma run_compute_rule:
  "rules env r x = (ing, eg, ready) \<Longrightarrow> run_state (compute_rule env n x) r =
     (if ready then (None, upd_policy n (add_rules ing eg) r)
      else (Some (), upd_policy n (\<lambda>p. p\<lparr>ingressRules := [], egressRules := []\<rparr>) r))"
  by (simp add: compute_rule_def)

lemma compute_rule_loop:
  "\<exists>r'. run_state (for_return rs (compute_rule env n)) r = (if rules_known env r rs then None else Some (), r') \<and>
    same_addr r r' \<and>
    policies r' n = (if rules_known env r rs
      then add_rules (fst (policy_rules env r rs)) (snd (policy_rules env r rs)) (policies r n)
      else (policies r n)\<lparr>ingressRules := [], egressRules := []\<rparr>)"
proof (induction rs arbitrary: r)
  case Nil
  show ?case by (simp add: policy_rules_def rules_known_def same_addr_def add_rules_def)
next
  case (Cons x xs)
  obtain ing eg ready where x: "rules env r x = (ing, eg, ready)" by (cases "rules env r x")
  show ?case
  proof (cases ready)
    case True
    let ?r1 = "upd_policy n (add_rules ing eg) r"
    obtain r' where *: "run_state (for_return xs (compute_rule env n)) ?r1 = (if rules_known env r xs then None else Some (), r')"
        "same_addr ?r1 r'"
        "policies r' n = (if rules_known env r xs
          then add_rules (fst (policy_rules env r xs)) (snd (policy_rules env r xs)) (add_rules ing eg (policies r n))
          else (add_rules ing eg (policies r n))\<lparr>ingressRules := [], egressRules := []\<rparr>)"
      using Cons.IH [of ?r1] by (auto simp: policy_rules_same_addr [of r ?r1])
    have "rules_known env r (x # xs) = rules_known env r xs"
      "policy_rules env r (x # xs) = (ing @ fst (policy_rules env r xs), eg @ snd (policy_rules env r xs))"
      using x True by (simp_all add: rules_known_def policy_rules_def)
    with * x True show ?thesis
      using same_addr_trans [OF same_addr_upd_policy *(2)] by (simp add: run_compute_rule add_rules_def)
  next
    case False
    then show ?thesis using x by (simp add: run_compute_rule rules_known_def)
  qed
qed


text \<open>Every computed rule has a peer.\<close>

lemma rules_have_peers:
  assumes "rules env r rule = (ing, eg, ready)"
  shows "\<forall>i \<in> set ing. FromSrcIP i \<noteq> [] \<or> FromSecurityGroups i \<noteq> []"
    "\<forall>e \<in> set eg. ToDstIP e \<noteq> [] \<or> ToSecurityGroups e \<noteq> []"
  using assms by (auto simp: rules_def Let_def split: if_splits option.splits)

end
