(* ===== verification/Np_Status.thy ===== *)
theory Np_Status
  imports Np_Policy
begin

text \<open>
  The realization status of the policies on a cloud resource, and its publication per virtual
  machine (\<^verbatim>\<open>pkg/controllers/cloud/networkpolicy_cloudresource.go\<close>).
\<close>

definition NetworkPolicyStatusApplied :: string where
  "NetworkPolicyStatusApplied = ''applied''"

definition AppliedSecurityGroupDeleteError :: "string \<Rightarrow> string \<Rightarrow> string" where
  "AppliedSecurityGroupDeleteError sg err = ''Deleting/Detaching '' @ sg @ '': '' @ err"

type_synonym status_map = "(string, (string, string) gomap) gomap"

definition set_status :: "string \<Rightarrow> string \<Rightarrow> string \<Rightarrow> status_map \<Rightarrow> status_map" where
  "set_status ns name msg m = put ns (put name msg (get_or [] m ns)) m"

section \<open>Status of a resource\<close>

text \<open>The policies of the groups a resource belongs to, each with the key of one such group.\<close>

definition tracked_policies :: "'ix env \<Rightarrow> 'ix NetworkPolicyReconciler \<Rightarrow> cloudResourceNPTracker \<Rightarrow> (ptr, string) gomap" where
  "tracked_policies env r t =
     fold (\<lambda>(key, asg) m.
         fold (\<lambda>n. put n key)
           (or_nil (nps_by env networkPolicyIndexerByAppliedToGrp (id_Name (sg_id (appliedSGs r asg))) r)) m)
       (range_map (rng env) (appliedToSGs t)) []"

definition policy_message :: "'ix env \<Rightarrow> 'ix NetworkPolicyReconciler \<Rightarrow> error \<Rightarrow> string \<Rightarrow> string" where
  "policy_message env r npStatus asgName = (case npStatus of
     Some e \<Rightarrow> Error e
   | None \<Rightarrow> (case ix_getByKey (Ix env) asgName (appliedToSGIndexer r) of
       None \<Rightarrow> asgName @ ''=Internal Error ''
     | Some a \<Rightarrow> (case applied_getStatus a r of
         Some e \<Rightarrow> asgName @ ''='' @ Error e
       | None \<Rightarrow> NetworkPolicyStatusApplied)))"

definition detach_status :: "'ix env \<Rightarrow> 'ix NetworkPolicyReconciler \<Rightarrow> ptr \<Rightarrow>
    (string, ptr) gomap \<times> status_map \<Rightarrow> (string, ptr) gomap \<times> status_map" where
  "detach_status env r asg acc = (case acc of (newPrev, m) \<Rightarrow>
     (let key = CloudResourceID_String (sg_id (appliedSGs r asg))
      in case status (appliedSGs r asg) of
          None \<Rightarrow> (del key newPrev, m)
        | Some e \<Rightarrow> (case nps_by env networkPolicyIndexerByAppliedToGrp (id_Name (sg_id (appliedSGs r asg))) r of
            Inl _ \<Rightarrow> (newPrev, m)
          | Inr nps \<Rightarrow>
              let msg = AppliedSecurityGroupDeleteError key (Error e);
                  m = fold (\<lambda>n. set_status (np_Namespace (policies r n)) (np_Name (policies r n)) msg) nps m
              in (newPrev, if nps = [] then set_status '''' key msg m else m))))"

definition computeNPStatus :: "'ix env \<Rightarrow> ptr \<Rightarrow> ('ix, status_map) rec_state" where
  "computeNPStatus env t = do {
     npMap \<leftarrow> gets (\<lambda>r. tracked_policies env r (trackers r t));
     m \<leftarrow> for_fold (range_map (rng env) npMap) [] (\<lambda>(n, asgName) m. do {
       np \<leftarrow> gets (\<lambda>r. policies r n);
       st \<leftarrow> policy_getStatus env n;
       r \<leftarrow> State_Monad.get;
       ret (set_status (np_Namespace np) (np_Name np) (policy_message env r st asgName) m)
     });
     prev \<leftarrow> gets (\<lambda>r. prevAppliedToSGs (trackers r t));
     r \<leftarrow> State_Monad.get;
     case fold (\<lambda>(_, asg). detach_status env r asg) (range_map (rng env) prev) (prev, m) of
       (newPrev, m) \<Rightarrow> do {
         if_do (length newPrev \<noteq> length prev) (do {
           _ \<leftarrow> trackerIndexer_Delete env t;
           modify (upd_tracker t (prevAppliedToSGs_update (\<lambda>_. newPrev)));
           _ \<leftarrow> trackerIndexer_Add env t;
           ret ()
         });
         ret m
       }
   }"

section \<open>Publication\<close>

text \<open>Equality of maps, whatever the order of their entries.\<close>

definition same_map :: "('k, 'v) gomap \<Rightarrow> ('k, 'v) gomap \<Rightarrow> bool" where
  "same_map a b \<longleftrightarrow> length a = length b \<and> (\<forall>(k, v) \<in> set a. map_of b k = Some v)"

definition new_status :: "NamespacedName \<Rightarrow> ('ix, ptr) rec_state" where
  "new_status nn = State (\<lambda>r. (next_ptr r,
     r\<lparr>npStatus_heap := put (next_ptr r) \<lparr>nps_NamespacedName = nn, NPStatus = []\<rparr> (npStatus_heap r),
       next_ptr := Suc (next_ptr r)\<rparr>))"

text \<open>The status of one machine: its namespace's entry with the entries that have no namespace
  merged into it, in place when there is such an entry.\<close>

definition merged_status :: "order \<Rightarrow> status_map \<Rightarrow> string \<Rightarrow> (string, string) gomap" where
  "merged_status ord m ns =
     fold (\<lambda>(k, v). put k v) (range_map ord (get_or [] m '''')) (get_or [] m ns)"

definition publish_status :: "'ix env \<Rightarrow> ptr \<Rightarrow> VirtualMachine \<Rightarrow> status_map \<times> bool \<Rightarrow> ('ix, status_map \<times> bool) rec_state" where
  "publish_status env t vm acc = (case acc of (m, updated) \<Rightarrow>
     (let ns = vm_Namespace vm;
          ok = has_key m ns;
          npStatus = merged_status (rng env) m ns;
          m = (if ok then put ns npStatus m else m);
          key = \<lparr>nn_Namespace = ns, nn_Name = vm_Name vm\<rparr>
      in do {
        found \<leftarrow> gets (\<lambda>r. ix_getByKey (Ix env) (NamespacedName_String key) (virtualMachinePolicyIndexer r));
        if \<not> ok \<and> found = None then ret (m, updated)
        else do {
          cache \<leftarrow> (case found of Some p \<Rightarrow> ret p | None \<Rightarrow> new_status key);
          old \<leftarrow> gets (\<lambda>r. NPStatus (npStatuses r cache));
          if ok \<and> same_map old npStatus then ret (m, updated)
          else do {
            err \<leftarrow> (if length npStatus \<noteq> 0
                   then do {
                     modify (\<lambda>r. r\<lparr>npStatus_heap := put cache ((npStatuses r cache)\<lparr>NPStatus := npStatus\<rparr>) (npStatus_heap r)\<rparr>);
                     vmpIndexer_Update env cache
                   }
                   else vmpIndexer_Delete env cache);
            if err \<noteq> None then do { tracker_markDirty t; ret (m, updated) }
            else ret (m, True)
          }
        }
      }))"

definition vmNPStatusSetter :: "'ix env \<Rightarrow> ptr \<Rightarrow> ('ix, bool \<times> error) rec_state" where
  "vmNPStatusSetter env t = do {
     m \<leftarrow> computeNPStatus env t;
     name \<leftarrow> gets (\<lambda>r. id_Name (rsc_Name (cloudResource (trackers r t))));
     case List_VirtualMachine env virtualMachineIndexerByCloudID name of
       Inl e \<Rightarrow> ret (False, Some e)
     | Inr vms \<Rightarrow> do {
         (m, updated) \<leftarrow> for_fold vms (m, False) (publish_status env t);
         ret (updated, None)
       }
   }"

definition processCloudResourceNPTrackers :: "'ix env \<Rightarrow> ('ix, unit) rec_state" where
  "processCloudResourceNPTrackers env = do {
     ts \<leftarrow> gets (\<lambda>r. ix_list (Ix env) (cloudResourceNPTrackerIndexer r));
     for_each ts (\<lambda>t. do {
       tr \<leftarrow> gets (\<lambda>r. trackers r t);
       case dirty tr of
         None \<Rightarrow> panic
       | Some d \<Rightarrow>
           if \<not> d then ret ()
           else if rsc_Type (cloudResource tr) \<noteq> CloudResourceTypeVM then panic
           else do {
             (_, err) \<leftarrow> vmNPStatusSetter env t;
             if err \<noteq> None then ret ()
             else do {
               tr \<leftarrow> gets (\<lambda>r. trackers r t);
               if length (appliedToSGs tr) = 0 \<and> length (prevAppliedToSGs tr) = 0
               then do { _ \<leftarrow> trackerIndexer_Delete env t; ret () }
               else tracker_unmarkDirty t
             }
           }
     })
   }"

end
