(* ===== verification/Np_Sync.thy ===== *)
theory Np_Sync
  imports Np_Status
begin

text \<open>
  Synchronization with the cloud (\<^verbatim>\<open>pkg/controllers/cloud/networkpolicy_sync.go\<close>): the groups the
  plug-in reports are compared with the controller's, unknown ones are deleted, and groups that
  differ are programmed again.
\<close>

definition npSyncReadyBookMarkCnt :: nat where
  "npSyncReadyBookMarkCnt = 3"

section \<open>Network interfaces of members\<close>

definition vm_nics :: "CloudResource \<Rightarrow> VirtualMachine \<Rightarrow> CloudResource list" where
  "vm_nics rsc vm = map (\<lambda>nic. \<lparr>rsc_Type = CloudResourceTypeNIC,
     rsc_Name = \<lparr>id_Name = nic, id_Vpc = id_Vpc (rsc_Name rsc)\<rparr>\<rparr>) (vm_NetworkInterfaces vm)"

fun collect_nics :: "'ix env \<Rightarrow> CloudResource list \<Rightarrow> CloudResource list \<Rightarrow> go_error + CloudResource list" where
  "collect_nics env [] nics = Inr nics"
| "collect_nics env (rsc # rest) nics =
     (case List_VirtualMachine env virtualMachineIndexerByCloudName (id_Name (rsc_Name rsc)) of
        Inl e \<Rightarrow> Inl e
      | Inr vms \<Rightarrow> collect_nics env rest (nics @ concat (map (vm_nics rsc) vms)))"

definition getNICsOfCloudResources :: "'ix env \<Rightarrow> CloudResource list \<Rightarrow> CloudResource list \<times> error" where
  "getNICsOfCloudResources env resources =
     (case resources of
        [] \<Rightarrow> ([], None)
      | rsc # _ \<Rightarrow>
          if rsc_Type rsc = CloudResourceTypeNIC then (resources, None)
          else (case collect_nics env resources [] of
              Inl e \<Rightarrow> (resources, Some e)
            | Inr nics \<Rightarrow> (nics, None)))"

section \<open>Synchronizing a group\<close>

definition sync_resend :: "'ix env \<Rightarrow> cloudSecurityGroup \<Rightarrow> bool \<Rightarrow> ('ix, bool) rec_state" where
  "sync_resend env c membershipOnly = do {
     s \<leftarrow> gets (\<lambda>r. sg_impl r c);
     if sg_state s = securityGroupStateCreated
     then do { _ \<leftarrow> updateImpl env c [] [] membershipOnly; ret False }
     else if sg_state s = securityGroupStateInit
     then do { _ \<leftarrow> addImpl env c membershipOnly; ret False }
     else ret False
   }"

definition syncImpl :: "'ix env \<Rightarrow> cloudSecurityGroup \<Rightarrow> SynchronizationContent option \<Rightarrow> bool \<Rightarrow> ('ix, bool) rec_state" where
  "syncImpl env c content membershipOnly = (case content of
     Some cc \<Rightarrow> do {
       modify (upd_impl c (sg_state_update (\<lambda>_. securityGroupStateCreated)));
       s \<leftarrow> gets (\<lambda>r. sg_impl r c);
       nMembers \<leftarrow> ret (case Members cc of
           [] \<Rightarrow> members s
         | m # _ \<Rightarrow> if rsc_Type m = CloudResourceTypeNIC then fst (getNICsOfCloudResources env (members s)) else members s);
       if compareCloudResources (rng env) nMembers (Members cc) then ret True
       else sync_resend env c membershipOnly
     }
   | None \<Rightarrow> do {
       s \<leftarrow> gets (\<lambda>r. sg_impl r c);
       if members s = [] then ret True else sync_resend env c membershipOnly
     })"

definition addr_sync :: "'ix env \<Rightarrow> ptr \<Rightarrow> SynchronizationContent option \<Rightarrow> ('ix, unit) rec_state" where
  "addr_sync env a content = do {
     pending \<leftarrow> gets (\<lambda>r. deletePending (addrSGs r a));
     if pending then ret ()
     else do { _ \<leftarrow> syncImpl env (AddrSG a) content True; ret () }
   }"

text \<open>The rough comparison counts the parts of the rules: port and protocol, blocks, groups.\<close>

definition port_item :: "int option \<Rightarrow> int option \<Rightarrow> string list" where
  "port_item protocol port =
     (let proto = (case protocol of None \<Rightarrow> 0 | Some v \<Rightarrow> v); p = (case port of None \<Rightarrow> 0 | Some v \<Rightarrow> v)
      in if proto > 0 \<or> p > 0 then [''protocol='' @ Itoa proto @ '',port='' @ Itoa p] else [])"

definition ingress_items :: "IngressRule \<Rightarrow> string list" where
  "ingress_items i = port_item (in_Protocol i) (FromPort i) @ map IPNet_String (FromSrcIP i) @
     map CloudResourceID_String (FromSecurityGroups i)"

definition egress_items :: "EgressRule \<Rightarrow> string list" where
  "egress_items e = port_item (eg_Protocol e) (ToPort e) @ map IPNet_String (ToDstIP e) @
     map CloudResourceID_String (ToSecurityGroups e)"

definition count_items :: "int \<Rightarrow> IngressRule list \<Rightarrow> EgressRule list \<Rightarrow> (string, int) gomap \<Rightarrow> (string, int) gomap" where
  "count_items d ing eg m =
     fold (\<lambda>s. add_at s d) (concat (map egress_items eg)) (fold (\<lambda>s. add_at s d) (concat (map ingress_items ing)) m)"

definition rules_differ :: "order \<Rightarrow> (string, int) gomap \<Rightarrow> bool" where
  "rules_differ ord m = (\<exists>(_, i) \<in> set (range_map ord m). i \<noteq> 0)"

text \<open>The rules of the policies of a group are computed again and counted; \<open>None\<close> when some
  policy is not ready.\<close>

definition sync_count_policies :: "'ix env \<Rightarrow> ptr list \<Rightarrow> ('ix, (string, int) gomap option) rec_state" where
  "sync_count_policies env nps = for_fold nps (Some []) (\<lambda>n acc. case acc of
     None \<Rightarrow> ret None
   | Some m \<Rightarrow> do {
       ok \<leftarrow> computeRules env n;
       if \<not> ok then ret None
       else gets (\<lambda>r. Some (count_items 1 (ingressRules (policies r n)) (egressRules (policies r n)) m))
     })"

definition applied_sync :: "'ix env \<Rightarrow> ptr \<Rightarrow> SynchronizationContent option \<Rightarrow> ('ix, unit) rec_state" where
  "applied_sync env a content = do {
     pending \<leftarrow> gets (\<lambda>r. deletePending (appliedSGs r a));
     if pending then ret ()
     else do {
       same \<leftarrow> syncImpl env (AppliedToSG a) content False;
       rscs \<leftarrow> gets (\<lambda>r. members (appliedSGs r a));
       if_do (same \<and> length rscs > 0) (modify (upd_applied a (hasMembers_update (\<lambda>_. True))));
       found \<leftarrow> gets (\<lambda>r. nps_by env networkPolicyIndexerByAppliedToGrp (id_Name (sg_id (appliedSGs r a))) r);
       case found of
         Inl _ \<Rightarrow> ret ()
       | Inr nps \<Rightarrow> do {
           counted \<leftarrow> sync_count_policies env nps;
           case counted of
             None \<Rightarrow> ret ()
           | Some m \<Rightarrow> (case content of
               None \<Rightarrow> do { _ \<leftarrow> applied_updateRules env a; ret () }
             | Some cc \<Rightarrow>
                 if rules_differ (rng env) (count_items (-1) (IngressRules cc) (EgressRules cc) m)
                 then do { _ \<leftarrow> applied_updateRules env a; ret () }
                 else if_do (length nps > 0) (do {
                   has \<leftarrow> gets (\<lambda>r. hasRules (appliedSGs r a));
                   if_do (\<not> has) (sg_markDirty env (AppliedToSG a) False);
                   modify (upd_applied a (hasRules_update (\<lambda>_. True)))
                 }))
         }
     }
   }"

section \<open>Synchronizing all groups\<close>

text \<open>The contents read from the channel: those of known groups are kept by identifier, unknown
  groups are deleted.\<close>

record cloud_contents =
  cloudAddrSGs :: "(CloudResourceID, SynchronizationContent) gomap"
  cloudAppliedToSGs :: "(CloudResourceID, SynchronizationContent) gomap"
  rscWithUnknownSGs :: "(CloudResource, unit) gomap"

definition read_content :: "'ix env \<Rightarrow> SynchronizationContent \<Rightarrow> cloud_contents \<Rightarrow> ('ix, cloud_contents) rec_state" where
  "read_content env content acc = do {
     known \<leftarrow> gets (\<lambda>r. ix_getByKey (Ix env) (CloudResourceID_String (Resource content))
       (if MembershipOnly content then addrSGIndexer r else appliedToSGIndexer r));
     if known = None then do {
       (if MembershipOnly content
        then do {
          a \<leftarrow> newAddrSecurityGroup (Resource content) (Inr []) (Some securityGroupStateCreated);
          _ \<leftarrow> addr_delete env a;
          ret ()
        }
        else do {
          a \<leftarrow> newAppliedToSecurityGroup (Resource content) [] (Some securityGroupStateCreated);
          _ \<leftarrow> applied_delete env a;
          ret ()
        });
       ret acc
     }
     else if MembershipOnly content
     then ret (acc\<lparr>cloudAddrSGs := put (Resource content) content (cloudAddrSGs acc)\<rparr>)
     else ret (acc\<lparr>cloudAppliedToSGs := put (Resource content) content (cloudAppliedToSGs acc),
                   rscWithUnknownSGs := fold (\<lambda>rsc. put rsc ()) (MembersWithOtherSGAttached content) (rscWithUnknownSGs acc)\<rparr>)
   }"

definition syncWithCloud :: "'ix env \<Rightarrow> ('ix, unit) rec_state" where
  "syncWithCloud env = do {
     cnt \<leftarrow> gets bookmarkCnt;
     if cnt < npSyncReadyBookMarkCnt then ret ()
     else if \<not> plugin env then panic
     else do {
       cc \<leftarrow> for_fold (SyncChan env) \<lparr>cloudAddrSGs = [], cloudAppliedToSGs = [], rscWithUnknownSGs = []\<rparr> (read_content env);
       modify (syncedWithCloud_update (\<lambda>_. True));
       addrs \<leftarrow> gets (\<lambda>r. ix_list (Ix env) (addrSGIndexer r));
       for_each addrs (\<lambda>a. do {
         ips \<leftarrow> gets (addr_isIPBlocks a);
         cid \<leftarrow> gets (\<lambda>r. sg_id (addrSGs r a));
         if ips then ret () else addr_sync env a (map_of (cloudAddrSGs cc) cid)
       });
       applieds \<leftarrow> gets (\<lambda>r. ix_list (Ix env) (appliedToSGIndexer r));
       for_each applieds (\<lambda>a. do {
         cid \<leftarrow> gets (\<lambda>r. sg_id (appliedSGs r a));
         applied_sync env a (map_of (cloudAppliedToSGs cc) cid)
       });
       for_each (map fst (range_map (rng env) (rscWithUnknownSGs cc))) (\<lambda>rsc. do {
         found \<leftarrow> gets (\<lambda>r. ix_getByKey (Ix env) (CloudResource_String rsc) (cloudResourceNPTrackerIndexer r));
         case found of
           None \<Rightarrow> ret ()
         | Some t \<Rightarrow> do {
             sgs \<leftarrow> gets (\<lambda>r. range_map (rng env) (appliedToSGs (trackers r t)));
             (case sgs of
                [] \<Rightarrow> ret ()
              | (_, a) # _ \<Rightarrow> do { _ \<leftarrow> applied_update env a [] []; ret () })
           }
       })
     }
   }"

definition processBookMark :: "'ix env \<Rightarrow> EventType \<Rightarrow> ('ix, bool) rec_state" where
  "processBookMark env event =
     (if event \<noteq> Bookmark then ret False
      else do {
        synced \<leftarrow> gets syncedWithCloud;
        if synced then ret True
        else do {
          modify (bookmarkCnt_update Suc);
          syncWithCloud env;
          ret True
        }
      })"

section \<open>The rough comparison is exact on the parts of the rules\<close>

definition rule_items :: "IngressRule list \<times> EgressRule list \<Rightarrow> string multiset" where
  "rule_items x = mset (concat (map ingress_items (fst x)) @ concat (map egress_items (snd x)))"

lemma count_items_fold: "count_items d i e = fold (\<lambda>s. add_at s d) (concat (map ingress_items i) @ concat (map egress_items e))"
  by (simp add: count_items_def fun_eq_iff)

lemma get_count_items: "get_or 0 (count_items d i e m) k = get_or 0 m k + d * int (count (rule_items (i, e)) k)"
  by (simp add: count_items_fold get_or_fold_add_at rule_items_def del: fold_append)

lemma wf_count_items: "wf_map m \<Longrightarrow> wf_map (count_items d i e m)"
  by (simp add: count_items_fold wf_fold_add_at del: fold_append)

lemma policies_counted:
  "wf_map m \<Longrightarrow> wf_map (fold (\<lambda>(i, e). count_items 1 i e) ps m)"
  "get_or 0 (fold (\<lambda>(i, e). count_items 1 i e) ps m) k = get_or 0 m k + int (count (\<Sum>p\<leftarrow>ps. rule_items p) k)"
  by (induction ps arbitrary: m) (auto simp: wf_count_items get_count_items)

lemma rules_differ_iff:
  assumes "is_order ord" "wf_map m"
  shows "rules_differ ord m \<longleftrightarrow> (\<exists>k. get_or 0 m k \<noteq> 0)"
  using assms map_of_nonzero [OF assms(2)] by (auto simp: rules_differ_def)



end
