(* ===== verification/Np_Controller.thy ===== *)
theory Np_Controller
  imports Np_Sync
begin

text \<open>
  The event handlers of the network policy controller
  (\<^verbatim>\<open>pkg/controllers/cloud/networkpolicy_controller.go\<close>), the handling of the cloud's responses
  and of retries, and the controller as a transition system: one step takes one event of the
  main loop, or lets one goroutine report the outcome of its request.
\<close>

section \<open>Members of a group\<close>

definition ExternalEntityLabelKeyKind :: string where
  "ExternalEntityLabelKeyKind = ''kind.nephe''"

definition getOwnerAnnotations :: "'ix env \<Rightarrow> ExternalEntity \<Rightarrow> go_error + (string, string) gomap" where
  "getOwnerAnnotations env e = (case ee_OwnerReferences e of
     [] \<Rightarrow> Inl (Err (''externalEntiry owner not found ('' @ ee_Namespace e @ ''/'' @ ee_Name e @ '')''))
   | owner # _ \<Rightarrow>
       if own_Kind owner = ''VirtualMachine''
       then (case Get_VirtualMachine env \<lparr>nn_Namespace = ee_Namespace e, nn_Name = own_Name owner\<rparr> of
           Inl err \<Rightarrow> Inl err
         | Inr vm \<Rightarrow> Inr (vm_Annotations vm))
       else Inl (Err ''unsupported cloud owner kind''))"

text \<open>
  A block that does not parse is nil. The resource of a member is recorded under its VPC before
  its identifier is read, so a member without the identifier stays with the empty name.
\<close>

record group_vpcs =
  gv_vpcs :: "(string, CloudResource list) gomap"
  gv_ips :: "IPNet option list"
  gv_notFound :: "string list"

definition vm_member :: "'ix env \<Rightarrow> ExternalEntity \<Rightarrow> group_vpcs \<Rightarrow> group_vpcs" where
  "vm_member env e acc = (case getOwnerAnnotations env e of
     Inl _ \<Rightarrow> acc
   | Inr anns \<Rightarrow> (case map_of anns AnnotationCloudAssignedVPCIDKey of
       None \<Rightarrow> acc
     | Some vpc \<Rightarrow>
         acc\<lparr>gv_vpcs := append_at vpc
               [\<lparr>rsc_Type = CloudResourceTypeVM,
                 rsc_Name = \<lparr>id_Name = get_or [] anns AnnotationCloudAssignedIDKey, id_Vpc = vpc\<rparr>\<rparr>] (gv_vpcs acc)\<rparr>))"

definition endpoint_net :: "string \<Rightarrow> IPNet option" where
  "endpoint_net addr = (case ParseCIDR addr of Some n \<Rightarrow> Some n | None \<Rightarrow> ParseCIDR (addr @ ''/32''))"

definition add_member :: "'ix env \<Rightarrow> (string, string list) gomap \<Rightarrow> GroupMember \<Rightarrow> go_error + group_vpcs \<Rightarrow> go_error + group_vpcs" where
  "add_member env fed m res = (case res of
     Inl e \<Rightarrow> Inl e
   | Inr acc \<Rightarrow> (case gm_ExternalEntity m of
       None \<Rightarrow> Inr acc
     | Some key \<Rightarrow> (case Get_ExternalEntity env key of
         Inl (NotFound s) \<Rightarrow> (case map_of fed (NamespacedName_String key) of
             Some ips \<Rightarrow> Inr (acc\<lparr>gv_ips := gv_ips acc @ map (\<lambda>ip. ParseCIDR (ip @ ''/32'')) ips\<rparr>)
           | None \<Rightarrow> Inr (acc\<lparr>gv_notFound := gv_notFound acc @ [nn_Name key]\<rparr>))
       | Inl err \<Rightarrow> Inl err
       | Inr e \<Rightarrow> (case map_of (ee_Labels e) ExternalEntityLabelKeyKind of
           None \<Rightarrow> Inr acc
         | Some kind \<Rightarrow>
             if kind = ''virtualmachine'' then Inr (vm_member env e acc)
             else Inr (acc\<lparr>gv_ips := gv_ips acc @ map endpoint_net (ee_Endpoints e)\<rparr>)))))"

definition vpcsFromGroupMembers :: "'ix env \<Rightarrow> (string, string list) gomap \<Rightarrow> GroupMember list \<Rightarrow> go_error + group_vpcs" where
  "vpcsFromGroupMembers env fed ms =
     fold (add_member env fed) ms (Inr \<lparr>gv_vpcs = [], gv_ips = [], gv_notFound = []\<rparr>)"

section \<open>Group events\<close>

text \<open>
  The model stops at a nil block as soon as it is read; the code stores it and dereferences it
  when the blocks are next merged or sent.
\<close>

definition have_nil :: "IPNet option list \<Rightarrow> bool" where
  "have_nil ips = (None \<in> set ips)"

definition missing_error :: "string list \<Rightarrow> go_error" where
  "missing_error names = Err (''missing externalEntities: '' @ fmt_strings names)"

definition sg_ref :: "bool \<Rightarrow> ptr \<Rightarrow> cloudSecurityGroup" where
  "sg_ref isAddrGrp p = (if isAddrGrp then AddrSG p else AppliedToSG p)"

definition sg_by_key :: "'ix env \<Rightarrow> bool \<Rightarrow> CloudResourceID \<Rightarrow> 'ix NetworkPolicyReconciler \<Rightarrow> ptr option" where
  "sg_by_key env isAddrGrp cid r =
     ix_getByKey (Ix env) (CloudResourceID_String cid) (if isAddrGrp then addrSGIndexer r else appliedToSGIndexer r)"

definition new_sg :: "bool \<Rightarrow> CloudResourceID \<Rightarrow> CloudResource list \<Rightarrow> ('ix, ptr) rec_state" where
  "new_sg isAddrGrp cid rscs =
     (if isAddrGrp then newAddrSecurityGroup cid (Inr rscs) None else newAppliedToSecurityGroup cid rscs None)"

definition remove_stale :: "'ix env \<Rightarrow> string \<Rightarrow> string list \<Rightarrow> ('ix, unit) rec_state" where
  "remove_stale env name stales = do {
     sgs \<leftarrow> gets (sgs_by_group env True name);
     for_each (or_nil sgs) (\<lambda>p. modify (upd_impl (AddrSG p) (removeStaleMembers (rng env) stales)));
     sgs1 \<leftarrow> gets (sgs_by_group env False name);
     for_each (or_nil sgs1) (\<lambda>p. modify (upd_impl (AppliedToSG p) (removeStaleMembers (rng env) stales)))
   }"

text \<open>One VPC of the added members; the local variables are the removed members and whether a
  group was made.\<close>

definition add_vpc :: "'ix env \<Rightarrow> string \<Rightarrow> bool \<Rightarrow> string \<times> CloudResource list \<Rightarrow>
    (string, CloudResource list) gomap \<times> bool \<Rightarrow> ('ix, (string, CloudResource list) gomap \<times> bool) rec_state" where
  "add_vpc env name isAddrGrp entry acc = (case (entry, acc) of ((vpc, rscs), (removedVpcs, sgChanges)) \<Rightarrow>
     (let cid = \<lparr>id_Name = name, id_Vpc = vpc\<rparr>
      in do {
        found \<leftarrow> gets (sg_by_key env isAddrGrp cid);
        case found of
          Some p \<Rightarrow> do {
            old \<leftarrow> gets (\<lambda>r. members (sg_impl r (sg_ref isAddrGrp p)));
            if compareCloudResources (rng env) rscs old then ret (removedVpcs, sgChanges)
            else do {
              _ \<leftarrow> sg_update env (sg_ref isAddrGrp p) rscs (get_or [] removedVpcs vpc);
              ret (del vpc removedVpcs, sgChanges)
            }
          }
        | None \<Rightarrow> do {
            p \<leftarrow> new_sg isAddrGrp cid rscs;
            err \<leftarrow> sg_add env (sg_ref isAddrGrp p);
            ret (removedVpcs, sgChanges \<or> err = None)
          }
      }))"

definition remove_vpc :: "'ix env \<Rightarrow> string \<Rightarrow> bool \<Rightarrow> string \<times> CloudResource list \<Rightarrow> ('ix, unit) rec_state" where
  "remove_vpc env name isAddrGrp entry = (case entry of (vpc, rscs) \<Rightarrow> do {
     found \<leftarrow> gets (sg_by_key env isAddrGrp \<lparr>id_Name = name, id_Vpc = vpc\<rparr>);
     case found of
       None \<Rightarrow> ret ()
     | Some p \<Rightarrow> do { _ \<leftarrow> sg_update env (sg_ref isAddrGrp p) [] rscs; ret () }
   })"

definition new_block_group :: "'ix env \<Rightarrow> CloudResourceID \<Rightarrow> IPNet list \<Rightarrow> ('ix, unit) rec_state" where
  "new_block_group env cid ips = do {
     p \<leftarrow> newAddrSecurityGroup cid (Inl ips) None;
     _ \<leftarrow> addr_add env p;
     ret ()
   }"

definition update_blocks :: "'ix env \<Rightarrow> string \<Rightarrow> EventType \<Rightarrow> IPNet list \<Rightarrow> IPNet list \<Rightarrow> ('ix, unit) rec_state" where
  "update_blocks env name event addedIPs removedIPs = do {
     cid \<leftarrow> ret \<lparr>id_Name = name, id_Vpc = []\<rparr>;
     found \<leftarrow> gets (sg_by_key env True cid);
     case found of
       Some p \<Rightarrow> addr_updateIPs env p addedIPs removedIPs
     | None \<Rightarrow> if event = Added then new_block_group env cid addedIPs else ret ()
   }"

text \<open>The part after the members are resolved.\<close>

definition apply_members :: "'ix env \<Rightarrow> string \<Rightarrow> EventType \<Rightarrow> bool \<Rightarrow> bool \<Rightarrow> group_vpcs \<Rightarrow> group_vpcs \<Rightarrow> ('ix, unit) rec_state" where
  "apply_members env name event isAddrGrp noMembers add rem = do {
     (removedVpcs, sgChanges) \<leftarrow>
       for_fold (range_map (rng env) (gv_vpcs add)) (gv_vpcs rem, False) (add_vpc env name isAddrGrp);
     for_each (range_map (rng env) removedVpcs) (remove_vpc env name isAddrGrp);
     blocks \<leftarrow> ret (isAddrGrp \<and> (gv_ips add \<noteq> [] \<or> gv_ips rem \<noteq> []));
     if_do blocks (update_blocks env name event (map the (gv_ips add)) (map the (gv_ips rem)));
     cid \<leftarrow> ret \<lparr>id_Name = name, id_Vpc = []\<rparr>;
     found \<leftarrow> gets (sg_by_key env isAddrGrp cid);
     empty \<leftarrow> ret (event = Added \<and> noMembers \<and> isAddrGrp);
     if empty \<and> found \<noteq> None then ret ()
     else do {
       if_do empty (new_block_group env cid (map the (gv_ips add)));
       if_do ((sgChanges \<or> blocks \<or> empty) \<and> isAddrGrp) (do {
         nps \<leftarrow> gets (nps_by env networkPolicyIndexerByAddrGrp name);
         for_each (or_nil nps) (\<lambda>n. policy_update env n None True)
       })
     }
   }"

text \<open>
  The body of \<^verbatim>\<open>processMemberGrp\<close>: the result, which is also the value of \<^verbatim>\<open>err\<close> that the
  deferred function sees, except for deleted groups, where the inner variable shadows it.
\<close>

definition no_vpcs :: group_vpcs where
  "no_vpcs = \<lparr>gv_vpcs = [], gv_ips = [], gv_notFound = []\<rparr>"

definition processMemberGrp_body ::
    "'ix env \<Rightarrow> string \<Rightarrow> EventType \<Rightarrow> bool \<Rightarrow> GroupMember list \<Rightarrow> GroupMember list \<Rightarrow> ('ix, error \<times> error) rec_state" where
  "processMemberGrp_body env name event isAddrGrp added removed = do {
     uName \<leftarrow> ret (getGroupUniqueName name isAddrGrp);
     waiting \<leftarrow> gets (Queue_Has PendingDeleteGroups uName);
     fed \<leftarrow> gets fedExternalEntityIPs;
     if \<not> plugin env then ret (None, None)
     else if waiting then do {
       _ \<leftarrow> Queue_Update_only PendingDeleteGroups uName (UpdateEvent event added removed);
       ret (None, None)
     }
     else if event = Deleted then do {
       sgs \<leftarrow> gets (sgs_by_group env isAddrGrp name);
       case sgs of
         Inl err \<Rightarrow> ret (Some err, None)
       | Inr ps \<Rightarrow> do {
           for_each ps (\<lambda>p. do { _ \<leftarrow> sg_delete env (sg_ref isAddrGrp p); ret () });
           ret (None, None)
         }
     }
     else if event = Added \<or> event = Modified then
       (case vpcsFromGroupMembers env fed added of
          Inl err \<Rightarrow> ret (Some err, Some err)
        | Inr add \<Rightarrow>
            if gv_notFound add \<noteq> [] then ret (Some (missing_error (gv_notFound add)), Some (missing_error (gv_notFound add)))
            else (case (if event = Modified then vpcsFromGroupMembers env fed removed else Inr no_vpcs) of
                Inl err \<Rightarrow> ret (Some err, Some err)
              | Inr rem \<Rightarrow>
                  if have_nil (gv_ips add) \<or> have_nil (gv_ips rem) then do { panic; ret (None, None) }
                  else do {
                    if_do (gv_notFound rem \<noteq> []) (remove_stale env name (gv_notFound rem));
                    apply_members env name event isAddrGrp (added = [] \<and> removed = []) add rem;
                    ret (None, None)
                  }))
     else ret (None, None)
   }"

definition processMemberGrp ::
    "'ix env \<Rightarrow> string \<Rightarrow> EventType \<Rightarrow> bool \<Rightarrow> GroupMember list \<Rightarrow> GroupMember list \<Rightarrow> ('ix, error) rec_state" where
  "processMemberGrp env name event isAddrGrp added removed = do {
     bookmark \<leftarrow> processBookMark env event;
     if bookmark then ret None
     else do {
       uName \<leftarrow> ret (getGroupUniqueName name isAddrGrp);
       (res, err) \<leftarrow> processMemberGrp_body env name event isAddrGrp added removed;
       if_do (err \<noteq> None \<and> (event = Added \<or> event = Modified)) (do {
         queued \<leftarrow> gets (Queue_Has RetryQueue uName);
         if_do (\<not> queued) (do {
           g \<leftarrow> new_pendingGroup None;
           Queue_Add RetryQueue uName (GroupItem g)
         });
         _ \<leftarrow> Queue_Update_only RetryQueue uName (UpdateEvent event added removed);
         ret ()
       });
       if_do (event = Deleted) (Queue_Remove RetryQueue uName);
       ret res
     }
   }"

section \<open>Running pending items\<close>

definition pendingGroup_RunPendingItem :: "'ix env \<Rightarrow> ptr \<Rightarrow> string \<Rightarrow> ('ix, bool) rec_state" where
  "pendingGroup_RunPendingItem env p uid = do {
     g \<leftarrow> gets (\<lambda>r. pendingGroups r p);
     if length (addedMembers g) = 0 then ret True
     else case getGroupIDFromUniqueName uid of
       (name, memberOnly) \<Rightarrow> do {
         err \<leftarrow> processMemberGrp env name (pg_event g) memberOnly (map snd (range_map (rng env) (addedMembers g))) [];
         cnt \<leftarrow> gets (\<lambda>r. refCnt (pendingGroups r p));
         if cnt \<noteq> None then ret True else ret (err = None)
       }
   }"

definition RunPendingItem :: "'ix env \<Rightarrow> PendingItem \<Rightarrow> string \<Rightarrow> ('ix, bool) rec_state" where
  "RunPendingItem env i uid = (case i of
     SGItem c \<Rightarrow> runPendingItemImpl env c (case c of AddrSG _ \<Rightarrow> True | AppliedToSG _ \<Rightarrow> False)
   | GroupItem p \<Rightarrow> pendingGroup_RunPendingItem env p uid)"

section \<open>Responses of the cloud\<close>

definition notifyImpl :: "'ix env \<Rightarrow> cloudSecurityGroup \<Rightarrow> bool \<Rightarrow> securityGroupOperation \<Rightarrow> error \<Rightarrow> ('ix, unit) rec_state" where
  "notifyImpl env c membershipOnly op st = do {
     s \<leftarrow> gets (\<lambda>r. sg_impl r c);
     uName \<leftarrow> ret (getGroupUniqueName (CloudResourceID_String (sg_id s)) membershipOnly);
     queued \<leftarrow> gets (Queue_Has RetryQueue uName);
     if_do (st \<noteq> None \<and> \<not> queued \<and>
            (sg_state s \<noteq> securityGroupStateGarbageCollectState \<or> op = securityGroupOperationDelete)) (do {
       modify (upd_impl c (retryOp_update (\<lambda>_. Some op)));
       Queue_Add RetryQueue uName (SGItem c)
     });
     queued \<leftarrow> gets (Queue_Has RetryQueue uName);
     moreOps \<leftarrow> (if queued then do {
         _ \<leftarrow> Queue_Update (RunPendingItem env) RetryQueue uName (st = None) (UpdateOperation op);
         gets (\<lambda>r. Queue_Has RetryQueue uName r \<and> GetRetryCount RetryQueue uName r > 0)
       }
       else ret False);
     if op = securityGroupOperationDelete
     then do {
       _ \<leftarrow> Queue_Update (RunPendingItem env) PendingDeleteGroups (getGroupUniqueName (id_Name (sg_id s)) membershipOnly)
             True (UpdateRef (-1) (\<not> moreOps));
       ret ()
     }
     else ret ()
   }"

definition set_response_status :: "securityGroupOperation \<Rightarrow> error \<Rightarrow> securityGroupImpl \<Rightarrow> securityGroupImpl" where
  "set_response_status op st s =
     (if sg_state s = securityGroupStateGarbageCollectState \<and> op \<noteq> securityGroupOperationDelete then s
      else s\<lparr>status := st\<rparr>)"

definition note_retry :: "cloudSecurityGroup \<Rightarrow> bool \<Rightarrow> securityGroupOperation \<Rightarrow> ('ix, unit) rec_state" where
  "note_retry c membershipOnly op = do {
     uName \<leftarrow> gets (\<lambda>r. getGroupUniqueName (CloudResourceID_String (sg_id (sg_impl r c))) membershipOnly);
     queued \<leftarrow> gets (Queue_Has RetryQueue uName);
     if_do queued (do { _ \<leftarrow> Queue_Update_only RetryQueue uName (UpdateOperation op); ret () })
   }"

text \<open>The body of \<^verbatim>\<open>notify\<close>, before the deferred function.\<close>

definition addr_notify_body :: "'ix env \<Rightarrow> ptr \<Rightarrow> ptr list \<Rightarrow> securityGroupOperation \<Rightarrow> error \<Rightarrow> ('ix, error) rec_state" where
  "addr_notify_body env a nps op st = do {
     modify (upd_impl (AddrSG a) (set_response_status op st));
     if st \<noteq> None then ret None
     else do {
       note_retry (AddrSG a) True op;
       if op \<noteq> securityGroupOperationAdd then ret None
       else do {
         modify (upd_impl (AddrSG a) (\<lambda>s. if sg_state s = securityGroupStateInit then s\<lparr>sg_state := securityGroupStateCreated\<rparr> else s));
         err \<leftarrow> addr_update env a [] [];
         if err \<noteq> None then ret err
         else do {
           for_each nps (\<lambda>n. do { _ \<leftarrow> notifyAddrGrpChanges env n; ret () });
           ret None
         }
       }
     }
   }"

definition addr_notify :: "'ix env \<Rightarrow> ptr \<Rightarrow> securityGroupOperation \<Rightarrow> error \<Rightarrow> ('ix, error) rec_state" where
  "addr_notify env a op st = do {
     found \<leftarrow> gets (\<lambda>r. nps_by env networkPolicyIndexerByAddrGrp (id_Name (sg_id (addrSGs r a))) r);
     nps \<leftarrow> ret (or_nil found);
     res \<leftarrow> addr_notify_body env a nps op st;
     ready \<leftarrow> gets (addr_isReady a);
     if_do ready (for_each nps (policy_markDirty env));
     notifyImpl env (AddrSG a) True op st;
     ret res
   }"

definition applied_notify_body :: "'ix env \<Rightarrow> ptr \<Rightarrow> securityGroupOperation \<Rightarrow> error \<Rightarrow> ('ix, error) rec_state" where
  "applied_notify_body env a op st = do {
     modify (upd_impl (AppliedToSG a) (set_response_status op st));
     if st \<noteq> None then ret None
     else do {
       note_retry (AppliedToSG a) False op;
       s \<leftarrow> gets (\<lambda>r. appliedSGs r a);
       (case op of
          securityGroupOperationAdd \<Rightarrow>
            if sg_state s = securityGroupStateInit then do {
              modify (upd_impl (AppliedToSG a) (sg_state_update (\<lambda>_. securityGroupStateCreated)));
              applied_updateRules env a
            }
            else ret None
        | securityGroupOperationUpdateMembers \<Rightarrow> do {
            modify (upd_applied a (hasMembers_update (\<lambda>_. True)));
            ret None
          }
        | securityGroupOperationUpdateRules \<Rightarrow> do {
            modify (upd_applied a (hasRules_update (\<lambda>_. True)));
            if \<not> hasMembers s then applied_update env a [] [] else ret None
          }
        | securityGroupOperationClearMembers \<Rightarrow> do {
            modify (upd_applied a (hasMembers_update (\<lambda>_. False)));
            if hasRules s then applied_updateRules env a else ret None
          }
        | securityGroupOperationDelete \<Rightarrow> ret None)
     }
   }"

definition applied_notify :: "'ix env \<Rightarrow> ptr \<Rightarrow> securityGroupOperation \<Rightarrow> error \<Rightarrow> ('ix, error) rec_state" where
  "applied_notify env a op st = do {
     res \<leftarrow> applied_notify_body env a op st;
     found \<leftarrow> gets (\<lambda>r. ix_byIndex (Ix env) cloudResourceNPTrackerIndexerByAppliedToGrp
       (CloudResourceID_String (sg_id (appliedSGs r a))) (cloudResourceNPTrackerIndexer r));
     case found of
       Inl _ \<Rightarrow> ret res
     | Inr ts \<Rightarrow> do {
         for_each ts tracker_markDirty;
         notifyImpl env (AppliedToSG a) False op st;
         ret res
       }
   }"

definition processCloudResponse :: "'ix env \<Rightarrow> securityGroupStatus \<Rightarrow> ('ix, error) rec_state" where
  "processCloudResponse env st = (case st_sg st of
     AddrSG a \<Rightarrow> addr_notify env a (st_op st) (st_err st)
   | AppliedToSG a \<Rightarrow> applied_notify env a (st_op st) (st_err st))"

section \<open>Watch events\<close>

datatype event_object =
    AddressGroup string "GroupMember list"
  | AddressGroupPatch string "GroupMember list" "GroupMember list"
  | AppliedToGroup string "GroupMember list"
  | AppliedToGroupPatch string "GroupMember list" "GroupMember list"
  | NetworkPolicyObject NetworkPolicy
  | NamedObject string
  | NilObject

text \<open>The name an object's accessor returns; an object without metadata has no accessor.\<close>

definition object_name :: "event_object \<Rightarrow> string option" where
  "object_name obj = (case obj of
     AddressGroup n _ \<Rightarrow> Some n
   | AddressGroupPatch n _ _ \<Rightarrow> Some n
   | AppliedToGroup n _ \<Rightarrow> Some n
   | AppliedToGroupPatch n _ _ \<Rightarrow> Some n
   | NetworkPolicyObject np \<Rightarrow> Some (np_Name np)
   | NamedObject n \<Rightarrow> Some n
   | NilObject \<Rightarrow> None)"

definition EventType_String :: "EventType \<Rightarrow> string" where
  "EventType_String e = (case e of
     EventNone \<Rightarrow> [] | Added \<Rightarrow> ''ADDED'' | Modified \<Rightarrow> ''MODIFIED'' | Deleted \<Rightarrow> ''DELETED''
   | Bookmark \<Rightarrow> ''BOOKMARK'' | EventError \<Rightarrow> ''ERROR'')"

text \<open>
  The common part of \<^verbatim>\<open>processAddrGrp\<close> and \<^verbatim>\<open>processAppliedToGrp\<close>, given the object as a patch
  and as a complete group.
\<close>

definition process_group_event :: "'ix env \<Rightarrow> string \<Rightarrow> bool \<Rightarrow> EventType \<Rightarrow> string option \<Rightarrow>
    (GroupMember list \<times> GroupMember list) option \<Rightarrow> GroupMember list option \<Rightarrow> ('ix, error) rec_state" where
  "process_group_event env what isAddrGrp event accessor patch complete = (case accessor of
     None \<Rightarrow> do { panic; ret None }
   | Some name \<Rightarrow>
       if (patch \<noteq> None \<and> event \<noteq> Modified) \<or> (complete \<noteq> None \<and> event = Modified)
       then ret (Some (Err (''mismatch message type for '' @ what @ '': type='' @ EventType_String event @ '', name='' @ name)))
       else (case (complete, patch) of
           (Some ms, _) \<Rightarrow> processMemberGrp env name event isAddrGrp (if event = Added then ms else []) []
         | (None, Some (add, rem)) \<Rightarrow> processMemberGrp env name event isAddrGrp add rem
         | (None, None) \<Rightarrow> processMemberGrp env name event isAddrGrp [] []))"

definition processAddrGrp :: "'ix env \<Rightarrow> EventType \<Rightarrow> event_object \<Rightarrow> ('ix, error) rec_state" where
  "processAddrGrp env event obj =
     process_group_event env ''addrGroup'' True event (object_name obj)
       (case obj of AddressGroupPatch _ add rem \<Rightarrow> Some (add, rem) | _ \<Rightarrow> None)
       (case obj of AddressGroup _ ms \<Rightarrow> Some ms | _ \<Rightarrow> None)"

definition processAppliedToGrp :: "'ix env \<Rightarrow> EventType \<Rightarrow> event_object \<Rightarrow> ('ix, error) rec_state" where
  "processAppliedToGrp env event obj =
     process_group_event env ''appliedToGroup'' False event (object_name obj)
       (case obj of AppliedToGroupPatch _ add rem \<Rightarrow> Some (add, rem) | _ \<Rightarrow> None)
       (case obj of AppliedToGroup _ ms \<Rightarrow> Some ms | _ \<Rightarrow> None)"

definition isNetworkPolicySupported :: "NetworkPolicy \<Rightarrow> error" where
  "isNetworkPolicySupported anp = (case SourceRef anp of
     None \<Rightarrow> Some (Err ''source reference not set in network policy'')
   | Some ref \<Rightarrow>
       if ref_Type ref \<noteq> ''AntreaNetworkPolicy'' then Some (Err ''only antrea network policy is supported'')
       else if \<exists>rule \<in> set (Rules anp). case Action rule of None \<Rightarrow> False | Some act \<Rightarrow> act \<noteq> ''Allow''
       then Some (Err ''only Allow action is supported in antrea network policy'')
       else None)"

definition new_policy :: "NetworkPolicy \<Rightarrow> ('ix, ptr) rec_state" where
  "new_policy anp = State (\<lambda>r. (next_ptr r,
     r\<lparr>policy_heap := put (next_ptr r)
          (NetworkPolicy.extend anp \<lparr>ingressRules = [], egressRules = [], rulesReady = False\<rparr>) (policy_heap r),
       next_ptr := Suc (next_ptr r)\<rparr>))"

definition recover_name :: "NetworkPolicy \<Rightarrow> NetworkPolicy" where
  "recover_name anp = (case SourceRef anp of
     None \<Rightarrow> anp
   | Some ref \<Rightarrow> if np_Namespace anp = [] then anp\<lparr>np_Name := ref_Name ref, np_Namespace := ref_Namespace ref\<rparr> else anp)"

definition processNetworkPolicy :: "'ix env \<Rightarrow> EventType \<Rightarrow> event_object \<Rightarrow> ('ix, error) rec_state" where
  "processNetworkPolicy env event obj = (case obj of
     NetworkPolicyObject anp0 \<Rightarrow> do {
       bookmark \<leftarrow> processBookMark env event;
       if bookmark then ret None
       else case isNetworkPolicySupported anp0 of
         Some err \<Rightarrow> ret (Some err)
       | None \<Rightarrow> do {
           anp \<leftarrow> ret (recover_name anp0);
           npKey \<leftarrow> ret (NamespacedName_String \<lparr>nn_Namespace = np_Namespace anp, nn_Name = np_Name anp\<rparr>);
           found \<leftarrow> gets (\<lambda>r. ix_getByKey (Ix env) npKey (networkPolicyIndexer r));
           (n, err) \<leftarrow> (case found of
               Some n \<Rightarrow> ret (n, None)
             | None \<Rightarrow> do {
                 n \<leftarrow> new_policy anp;
                 err \<leftarrow> npIndexer_Add env n;
                 ret (n, err)
               });
           case err of
             Some e \<Rightarrow> ret (Some (Err (''add networkPolicy '' @ npKey @ '' to indexer: '' @ Error e)))
           | None \<Rightarrow>
               if event = Deleted then do { _ \<leftarrow> policy_delete env n; ret None }
               else do {
                 p \<leftarrow> gets (\<lambda>r. policies r n);
                 if found \<noteq> None \<and> Rules anp = Rules p \<and> AppliedToGroups anp = AppliedToGroups p then ret None
                 else if \<not> plugin env then ret None
                 else do { policy_update env n (Some anp) (found = None); ret None }
               }
         }
     }
   | _ \<Rightarrow> ret None)"

definition processLocalEvent :: "'ix env \<Rightarrow> EventType \<Rightarrow> event_object \<Rightarrow> ('ix, error) rec_state" where
  "processLocalEvent env event obj = (case obj of
     NetworkPolicyObject _ \<Rightarrow> processNetworkPolicy env event obj
   | AppliedToGroup _ _ \<Rightarrow> processAppliedToGrp env event obj
   | AppliedToGroupPatch _ _ _ \<Rightarrow> processAppliedToGrp env event obj
   | _ \<Rightarrow> ret None)"

section \<open>The main loop\<close>

definition operationCount :: int where
  "operationCount = 15"

text \<open>The reconciler after \<^verbatim>\<open>SetupWithManager\<close>, given the state of a new indexer.\<close>

definition SetupWithManager :: "'ix \<Rightarrow> 'ix NetworkPolicyReconciler" where
  "SetupWithManager NewIndexer =
     \<lparr>networkPolicyIndexer = NewIndexer, addrSGIndexer = NewIndexer, appliedToSGIndexer = NewIndexer,
      cloudResourceNPTrackerIndexer = NewIndexer, virtualMachinePolicyIndexer = NewIndexer,
      pendingDeleteGroups = NewPendingItemQueue None, retryQueue = NewPendingItemQueue (Some operationCount),
      cloudResponse = [], syncedWithCloud = False, bookmarkCnt = 0, fedExternalEntityIPs = [],
      addr_heap = [], applied_heap = [], policy_heap = [], tracker_heap = [], npStatus_heap = [],
      pending_heap = [], counter_heap = [], next_ptr = 0, calls = [], requests = [], panicked = False\<rparr>"

text \<open>A tick of the second: the status of the resources, the retries, and every 256 seconds a
  synchronization.\<close>

definition tick :: "'ix env \<Rightarrow> bool \<Rightarrow> ('ix, unit) rec_state" where
  "tick env sync = do {
     processCloudResourceNPTrackers env;
     Queue_CheckToRun (RunPendingItem env) (rng env) RetryQueue;
     if_do sync (syncWithCloud env)
   }"

datatype watcher = AddrGroupWatcher | AppliedToGroupWatcher | NetworkPolicyWatcher | LocalRequest

definition handle_event :: "'ix env \<Rightarrow> watcher \<Rightarrow> EventType \<Rightarrow> event_object \<Rightarrow> ('ix, error) rec_state" where
  "handle_event env w event obj = (case w of
     LocalRequest \<Rightarrow> processLocalEvent env event obj
   | AddrGroupWatcher \<Rightarrow> if event = EventError then ret None else processAddrGrp env event obj
   | AppliedToGroupWatcher \<Rightarrow> if event = EventError then ret None else processAppliedToGrp env event obj
   | NetworkPolicyWatcher \<Rightarrow> if event = EventError then ret None else processNetworkPolicy env event obj)"

text \<open>The outcome of a request: the goroutine takes the error and the operation to report.\<close>

definition response_of :: "'ix NetworkPolicyReconciler \<Rightarrow> cloud_call \<Rightarrow> error \<Rightarrow> securityGroupStatus" where
  "response_of r c err = \<lparr>st_sg = call_sg c,
     st_op = (case call_op c of
         Some op \<Rightarrow> op
       | None \<Rightarrow> if length (members (sg_impl r (call_sg c))) = 0 then securityGroupOperationClearMembers
                 else securityGroupOperationUpdateMembers),
     st_err = err\<rparr>"

text \<open>
  One step of the system. The surroundings may differ from step to step; the indexers are the
  same. A step is possible while the controller has not panicked.
\<close>

inductive step :: "'ix Indexer \<Rightarrow> 'ix NetworkPolicyReconciler \<Rightarrow> 'ix NetworkPolicyReconciler \<Rightarrow> bool" for ix where
  Event: "Ix env = ix \<Longrightarrow> \<not> panicked r \<Longrightarrow> step ix r (snd (run_state (handle_event env w event obj) r))"
| Tick: "Ix env = ix \<Longrightarrow> \<not> panicked r \<Longrightarrow> step ix r (snd (run_state (tick env sync) r))"
| Outcome: "\<not> panicked r \<Longrightarrow> calls r = cs1 @ c # cs2 \<Longrightarrow>
    step ix r (r\<lparr>calls := cs1 @ cs2, cloudResponse := cloudResponse r @ [response_of r c err]\<rparr>)"
| Response: "Ix env = ix \<Longrightarrow> \<not> panicked r \<Longrightarrow> cloudResponse r = rs1 @ st # rs2 \<Longrightarrow>
    step ix r (snd (run_state (processCloudResponse env st) (r\<lparr>cloudResponse := rs1 @ rs2\<rparr>)))"

inductive reachable :: "'ix Indexer \<Rightarrow> 'ix NetworkPolicyReconciler \<Rightarrow> 'ix NetworkPolicyReconciler \<Rightarrow> bool" for ix r0 where
  reachable_init: "reachable ix r0 r0"
| reachable_step: "reachable ix r0 r \<Longrightarrow> step ix r r' \<Longrightarrow> reachable ix r0 r'"

end
