(* ===== verification/Lifecycle_Spec.thy ===== *)
theory Lifecycle_Spec
  imports Np_Controller
begin

text \<open>
  What the controller promises about the life of security groups, as an abstract transition
  system: a group is created, used and retired, the cloud is asked for something only when the
  group is in the state for it, and nothing is asked before the first synchronization. The
  controller of \<open>Np_Controller\<close> refines this system (\<open>Np_Refinement\<close>); here are its transitions
  and its invariant.
\<close>

section \<open>The abstract system\<close>

record lifecycle =
  lc_state :: "cloudSecurityGroup \<Rightarrow> securityGroupState"
  lc_status :: "cloudSecurityGroup \<Rightarrow> error"
  lc_requests :: "issued list"
  lc_calls :: "cloud_call list"
  lc_responses :: "securityGroupStatus list"
  lc_synced :: bool
  lc_bookmarks :: nat

text \<open>When a request may be made, judged by the group and the flag at that moment.\<close>

definition request_ok :: "issued \<Rightarrow> bool" where
  "request_ok i \<longleftrightarrow> retryOp (iss_impl i) = None \<and> (case iss_req i of
     CreateSecurityGroup cid _ \<Rightarrow> cid = sg_id (iss_impl i) \<and> iss_synced i
   | UpdateSecurityGroupMembers cid _ _ \<Rightarrow> cid = sg_id (iss_impl i) \<and> sg_state (iss_impl i) = securityGroupStateCreated
   | UpdateSecurityGroupRules cid _ _ \<Rightarrow> cid = sg_id (iss_impl i) \<and> sg_state (iss_impl i) = securityGroupStateCreated
   | DeleteSecurityGroup cid _ \<Rightarrow> cid = sg_id (iss_impl i) \<and> sg_state (iss_impl i) = securityGroupStateGarbageCollectState)"

inductive lifecycle_step :: "lifecycle \<Rightarrow> lifecycle \<Rightarrow> bool" where
  New: "st = securityGroupStateInit \<or> st = securityGroupStateCreated \<and> npSyncReadyBookMarkCnt \<le> lc_bookmarks l \<Longrightarrow>
    lifecycle_step l (l\<lparr>lc_state := (lc_state l)(c := st), lc_status := (lc_status l)(c := None)\<rparr>)"
| Status: "st \<noteq> Some InProgress \<or> lc_synced l \<or> npSyncReadyBookMarkCnt \<le> lc_bookmarks l \<or>
      lc_state l c \<noteq> securityGroupStateInit \<Longrightarrow>
    lifecycle_step l (l\<lparr>lc_status := (lc_status l)(c := st)\<rparr>)"
| Created: "npSyncReadyBookMarkCnt \<le> lc_bookmarks l \<Longrightarrow>
    lifecycle_step l (l\<lparr>lc_state := (lc_state l)(c := securityGroupStateCreated)\<rparr>)"
| Retire: "lc_state l c \<noteq> securityGroupStateInit \<or> lc_status l c = Some InProgress \<Longrightarrow>
    lifecycle_step l (l\<lparr>lc_state := (lc_state l)(c := securityGroupStateGarbageCollectState)\<rparr>)"
| Request: "request_ok i \<Longrightarrow> sg_state (iss_impl i) = lc_state l (iss_sg i) \<Longrightarrow> iss_synced i = lc_synced l \<Longrightarrow>
    lifecycle_step l (l\<lparr>lc_requests := lc_requests l @ [i],
      lc_calls := lc_calls l @ [\<lparr>call_sg = iss_sg i, call_req = iss_req i, call_op = op\<rparr>]\<rparr>)"
| Reported: "lc_calls l = cs1 @ c # cs2 \<Longrightarrow>
    lifecycle_step l (l\<lparr>lc_calls := cs1 @ cs2, lc_responses := lc_responses l @ [st]\<rparr>)"
| Received: "lc_responses l = rs1 @ st # rs2 \<Longrightarrow> lifecycle_step l (l\<lparr>lc_responses := rs1 @ rs2\<rparr>)"
| BookMark: "\<not> lc_synced l \<Longrightarrow> lifecycle_step l (l\<lparr>lc_bookmarks := Suc (lc_bookmarks l)\<rparr>)"
| Synced: "npSyncReadyBookMarkCnt \<le> lc_bookmarks l \<Longrightarrow> lifecycle_step l (l\<lparr>lc_synced := True\<rparr>)"

inductive_cases lifecycle_stepE: "lifecycle_step l l'"

section \<open>Its invariant\<close>

definition quiet :: "lifecycle \<Rightarrow> bool" where
  "quiet l \<longleftrightarrow> \<not> lc_synced l \<and> lc_requests l = [] \<and> lc_calls l = [] \<and> lc_responses l = [] \<and>
     (\<forall>c. lc_state l c = securityGroupStateInit \<and> lc_status l c \<noteq> Some InProgress)"

definition lifecycle_inv :: "lifecycle \<Rightarrow> bool" where
  "lifecycle_inv l \<longleftrightarrow> (lc_bookmarks l < npSyncReadyBookMarkCnt \<longrightarrow> quiet l) \<and> (\<forall>i \<in> set (lc_requests l). request_ok i)"

lemma request_not_quiet: "quiet l \<Longrightarrow> sg_state (iss_impl i) = lc_state l (iss_sg i) \<Longrightarrow> iss_synced i = lc_synced l \<Longrightarrow>
    \<not> request_ok i"
  by (auto simp: quiet_def request_ok_def split: cloud_request.splits)

lemma lifecycle_inv_step: "lifecycle_step l l' \<Longrightarrow> lifecycle_inv l \<Longrightarrow> lifecycle_inv l'"
proof (induction rule: lifecycle_step.induct)
  case (Request i l op)
  then have "\<not> lc_bookmarks l < npSyncReadyBookMarkCnt"
    using request_not_quiet by (auto simp: lifecycle_inv_def)
  with Request show ?case by (auto simp: lifecycle_inv_def)
qed (auto simp: lifecycle_inv_def quiet_def)

lemma lifecycle_inv_steps: "lifecycle_step\<^sup>*\<^sup>* l l' \<Longrightarrow> lifecycle_inv l \<Longrightarrow> lifecycle_inv l'"
  by (induction rule: rtranclp_induct) (auto intro: lifecycle_inv_step)

lemma bookmarks_mono: "lifecycle_step l l' \<Longrightarrow> lc_bookmarks l \<le> lc_bookmarks l'"
  by (induction rule: lifecycle_step.induct) simp_all

lemma bookmarks_mono_steps: "lifecycle_step\<^sup>*\<^sup>* l l' \<Longrightarrow> lc_bookmarks l \<le> lc_bookmarks l'"
  by (induction rule: rtranclp_induct) (auto dest: bookmarks_mono)

lemma synced_mono: "lifecycle_step l l' \<Longrightarrow> lc_synced l \<Longrightarrow> lc_synced l'"
  by (induction rule: lifecycle_step.induct) simp_all

lemma synced_mono_steps: "lifecycle_step\<^sup>*\<^sup>* l l' \<Longrightarrow> lc_synced l \<Longrightarrow> lc_synced l'"
  by (induction rule: rtranclp_induct) (auto dest: synced_mono)

section \<open>Abstraction of the controller\<close>

definition abs_lc :: "'ix NetworkPolicyReconciler \<Rightarrow> lifecycle" where
  "abs_lc r = \<lparr>lc_state = (\<lambda>c. sg_state (sg_impl r c)), lc_status = (\<lambda>c. status (sg_impl r c)),
     lc_requests = requests r, lc_calls = calls r, lc_responses = cloudResponse r,
     lc_synced = syncedWithCloud r, lc_bookmarks = bookmarkCnt r\<rparr>"

definition refines :: "'ix NetworkPolicyReconciler \<Rightarrow> 'ix NetworkPolicyReconciler \<Rightarrow> bool" where
  "refines r r' \<longleftrightarrow> lifecycle_step\<^sup>*\<^sup>* (abs_lc r) (abs_lc r')"

text \<open>The same, once the bookmarks allow a synchronization.\<close>

definition refines_ready :: "'ix NetworkPolicyReconciler \<Rightarrow> 'ix NetworkPolicyReconciler \<Rightarrow> bool" where
  "refines_ready r r' \<longleftrightarrow> (npSyncReadyBookMarkCnt \<le> bookmarkCnt r \<longrightarrow> refines r r')"

interpretation ev: state_preorder refines
  by unfold_locales (auto simp: refines_def)

lemma refines_bookmarks: "refines r r' \<Longrightarrow> bookmarkCnt r \<le> bookmarkCnt r'"
  using bookmarks_mono_steps [of "abs_lc r" "abs_lc r'"] by (simp add: refines_def abs_lc_def)

interpretation rdy: state_preorder refines_ready
proof
  fix r s t :: "'a NetworkPolicyReconciler"
  show "refines_ready r r" by (simp add: refines_ready_def ev.refl)
  assume "refines_ready r s" "refines_ready s t"
  then show "refines_ready r t"
    unfolding refines_ready_def using refines_bookmarks [of r s] ev.trans [of r s t] by fastforce
qed

lemma refines_synced: "refines r r' \<Longrightarrow> syncedWithCloud r \<Longrightarrow> syncedWithCloud r'"
  using synced_mono_steps [of "abs_lc r" "abs_lc r'"] by (simp add: refines_def abs_lc_def)

lemma keeps_ready: "keeps refines m \<Longrightarrow> keeps refines_ready m"
  by (simp add: keeps_def refines_ready_def)

lemma refines_same: "abs_lc r' = abs_lc r \<Longrightarrow> refines r r'"
  by (simp add: refines_def)

lemma refines_step: "lifecycle_step (abs_lc r) (abs_lc r') \<Longrightarrow> refines r r'"
  by (simp add: refines_def)

end
