(* ===== verification/Np_Refinement.thy ===== *)
theory Np_Refinement
  imports Lifecycle_Spec
begin

text \<open>
  Every operation of the controller is a sequence of transitions of the abstract system of
  \<open>Lifecycle_Spec\<close>. The operations that make requests are taken apart; for all others the
  refinement follows along their structure from that of the operations they call.
\<close>

named_theorems evolves \<open>operations that refine the abstract system\<close>

section \<open>Changes the abstraction does not see\<close>

lemma abs_lc_frame [simp]:
  "abs_lc (networkPolicyIndexer_update x1 r) = abs_lc r"
  "abs_lc (addrSGIndexer_update x1 r) = abs_lc r"
  "abs_lc (appliedToSGIndexer_update x1 r) = abs_lc r"
  "abs_lc (cloudResourceNPTrackerIndexer_update x1 r) = abs_lc r"
  "abs_lc (virtualMachinePolicyIndexer_update x1 r) = abs_lc r"
  "abs_lc (pendingDeleteGroups_update x2 r) = abs_lc r"
  "abs_lc (retryQueue_update x2 r) = abs_lc r"
  "abs_lc (policy_heap_update x4 r) = abs_lc r"
  "abs_lc (tracker_heap_update x5 r) = abs_lc r"
  "abs_lc (npStatus_heap_update x6 r) = abs_lc r"
  "abs_lc (pending_heap_update x7 r) = abs_lc r"
  "abs_lc (counter_heap_update x8 r) = abs_lc r"
  "abs_lc (next_ptr_update n r) = abs_lc r"
  "abs_lc (panicked_update b r) = abs_lc r"
  by (simp_all add: abs_lc_def)

lemma abs_lc_upd_impl:
  assumes "sg_state (g (sg_impl r c)) = sg_state (sg_impl r c)" "status (g (sg_impl r c)) = status (sg_impl r c)"
  shows "abs_lc (upd_impl c g r) = abs_lc r"
  using assms by (auto simp: abs_lc_def)

lemma sg_impl_upd_applied:
  assumes "\<And>s. securityGroupImpl.truncate (g s) = securityGroupImpl.truncate s"
  shows "sg_impl (upd_applied a g r) c = sg_impl r c"
  using assms by (cases c) (auto simp: sg_impl_def upd_applied_def)

lemma abs_lc_upd_applied [simp]:
  "abs_lc (upd_applied a (hasRules_update g) r) = abs_lc r"
  "abs_lc (upd_applied a (hasMembers_update g) r) = abs_lc r"
  by (simp_all add: abs_lc_def sg_impl_upd_applied securityGroupImpl.defs) (simp_all add: upd_applied_def)

lemma abs_lc_updates [simp]:
  "abs_lc (upd_policy n g1 r) = abs_lc r"
  "abs_lc (upd_tracker t g2 r) = abs_lc r"
  "abs_lc (upd_pending p g3 r) = abs_lc r"
  "abs_lc (upd_items q g4 r) = abs_lc r"
  "abs_lc (dec_count i r) = abs_lc r"
  by (simp_all add: upd_policy_def upd_tracker_def upd_pending_def upd_items_def dec_count_def
      split: queue.splits option.splits)

lemma keeps_same: "(\<And>r. abs_lc (snd (run_state m r)) = abs_lc r) \<Longrightarrow> keeps refines m"
  by (rule ev.keepsI) (auto intro: refines_same)

lemma keeps_modify_same: "(\<And>r. abs_lc (f r) = abs_lc r) \<Longrightarrow> keeps refines (modify f)"
  by (rule keeps_same) simp

lemma keeps_upd_impl:
  "(\<And>s. sg_state (g s) = sg_state s) \<Longrightarrow> (\<And>s. status (g s) = status s) \<Longrightarrow> keeps refines (modify (upd_impl c g))"
  by (rule keeps_modify_same) (simp add: abs_lc_upd_impl)

lemmas keeps_upds [evolves] =
  keeps_modify_same [where f = "upd_policy n g" for n g, OF abs_lc_updates(1)]
  keeps_modify_same [where f = "upd_tracker t g" for t g, OF abs_lc_updates(2)]
  keeps_modify_same [where f = "upd_pending p g" for p g, OF abs_lc_updates(3)]
  keeps_modify_same [where f = "upd_items q g" for q g, OF abs_lc_updates(4)]
  keeps_modify_same [where f = "dec_count i" for i, OF abs_lc_updates(5)]
  keeps_modify_same [where f = "upd_applied a (hasRules_update g)" for a g, OF abs_lc_upd_applied(1)]
  keeps_modify_same [where f = "upd_applied a (hasMembers_update g)" for a g, OF abs_lc_upd_applied(2)]

lemmas keeps_impl_upds [evolves] =
  keeps_upd_impl [where g = "members_update f" for f, simplified]
  keeps_upd_impl [where g = "deletePending_update f" for f, simplified]
  keeps_upd_impl [where g = "retryOp_update f" for f, simplified]

section \<open>Elementary operations\<close>

lemma panic_evolves [evolves]: "keeps refines panic"
  by (simp add: panic_def keeps_modify_same)

lemma indexers_evolve [evolves]:
  "keeps refines (sgIndexer_Add env m c)" "keeps refines (sgIndexer_Delete env m c)"
  "keeps refines (npIndexer_Add env n)" "keeps refines (npIndexer_Delete env n)"
  "keeps refines (trackerIndexer_Add env t)" "keeps refines (trackerIndexer_Delete env t)"
  "keeps refines (vmpIndexer_Update env p)" "keeps refines (vmpIndexer_Delete env p)"
  by (rule keeps_same; simp add: sgIndexer_Add_def sgIndexer_Delete_def npIndexer_Add_def npIndexer_Delete_def
      trackerIndexer_Add_def trackerIndexer_Delete_def vmpIndexer_Update_def vmpIndexer_Delete_def Let_def split_beta)+

lemma allocations_evolve [evolves]:
  "keeps refines (new_pendingGroup cnt)" "keeps refines (new_counter lim)" "keeps refines (new_status nn)"
  "keeps refines (new_policy anp)"
  by (rule keeps_same; simp add: new_pendingGroup_def new_counter_def new_status_def new_policy_def split: option.splits)+

lemma queue_evolves [evolves]:
  "keeps refines (Queue_Remove q i)" "keeps refines (Queue_Add q i p)"
  unfolding Queue_Remove_def Queue_Add_def by (intro ev.keeps_intros evolves)+

lemma sg_UpdatePendingItem_evolves [evolves]: "keeps refines (sg_UpdatePendingItem c u)"
  unfolding sg_UpdatePendingItem_def
  by (cases u) (auto simp: Let_def intro!: panic_evolves keeps_upd_impl)

lemma pendingGroup_UpdatePendingItem_evolves [evolves]: "keeps refines (pendingGroup_UpdatePendingItem p u)"
  unfolding pendingGroup_UpdatePendingItem_def
  by (cases u; simp add: evolves; intro ev.keeps_intros evolves)

lemma UpdatePendingItem_evolves [evolves]: "keeps refines (UpdatePendingItem i u)"
  unfolding UpdatePendingItem_def by (cases i) (simp_all add: evolves)

lemma Queue_Update_ref_frame [simp]:
  "sg_impl (snd (run_state (Queue_Update_only q uid (UpdateRef d b)) r)) c = sg_impl r c"
  by (simp add: Queue_Update_only_def Queue_Update_def UpdatePendingItem_def sg_UpdatePendingItem_def
      pendingGroup_UpdatePendingItem_def panic_def upd_pending_def split_beta split: option.splits PendingItem.splits)

text \<open>A queue refines the system when running its items does.\<close>

lemma Queue_Update_evolves:
  "(\<And>i k. keeps refines (run i k)) \<Longrightarrow> keeps refines (Queue_Update run q uid chk u)"
  unfolding Queue_Update_def by (intro ev.keeps_intros evolves)

lemma Queue_Update_only_evolves [evolves]: "keeps refines (Queue_Update_only q uid u)"
  unfolding Queue_Update_only_def by (intro Queue_Update_evolves ev.keeps_ret)

lemma Queue_CheckToRun_evolves:
  "(\<And>i k. keeps refines (run i k)) \<Longrightarrow> keeps refines (Queue_CheckToRun run ord q)"
  unfolding Queue_CheckToRun_def by (intro ev.keeps_intros evolves)

section \<open>Operations that make requests\<close>

lemma abs_lc_status:
  "abs_lc (upd_impl c (status_update (\<lambda>_. st)) r) = (abs_lc r)\<lparr>lc_status := (lc_status (abs_lc r))(c := st)\<rparr>"
  by (auto simp: abs_lc_def fun_eq_iff)

lemma abs_lc_state:
  "abs_lc (upd_impl c (sg_state_update (\<lambda>_. st)) r) = (abs_lc r)\<lparr>lc_state := (lc_state (abs_lc r))(c := st)\<rparr>"
  by (auto simp: abs_lc_def fun_eq_iff)

lemma status_refines:
  assumes "st \<noteq> Some InProgress \<or> syncedWithCloud r \<or> npSyncReadyBookMarkCnt \<le> bookmarkCnt r \<or>
    sg_state (sg_impl r c) \<noteq> securityGroupStateInit"
  shows "refines r (upd_impl c (status_update (\<lambda>_. st)) r)"
  unfolding refines_def abs_lc_status
  by (rule r_into_rtranclp, rule lifecycle_step.Status) (use assms in \<open>simp add: abs_lc_def\<close>)

lemma retire_refines:
  assumes "sg_state (sg_impl r c) \<noteq> securityGroupStateInit \<or> status (sg_impl r c) = Some InProgress"
  shows "refines r (upd_impl c (sg_state_update (\<lambda>_. securityGroupStateGarbageCollectState)) r)"
  unfolding refines_def abs_lc_state
  by (rule r_into_rtranclp, rule lifecycle_step.Retire) (use assms in \<open>simp add: abs_lc_def\<close>)

lemma created_refines:
  assumes "npSyncReadyBookMarkCnt \<le> bookmarkCnt r"
  shows "refines r (upd_impl c (sg_state_update (\<lambda>_. securityGroupStateCreated)) r)"
  unfolding refines_def abs_lc_state
  by (rule r_into_rtranclp, rule lifecycle_step.Created) (use assms in \<open>simp add: abs_lc_def\<close>)

lemma request_refines:
  assumes "request_ok \<lparr>iss_sg = c, iss_req = req, iss_impl = sg_impl r c, iss_synced = syncedWithCloud r\<rparr>"
  shows "refines r (snd (run_state (cloud_request_call env c req op) r))"
proof (cases "plugin env")
  case True
  let ?i = "\<lparr>iss_sg = c, iss_req = req, iss_impl = sg_impl r c, iss_synced = syncedWithCloud r\<rparr>"
  have "lifecycle_step (abs_lc r) ((abs_lc r)\<lparr>lc_requests := lc_requests (abs_lc r) @ [?i],
      lc_calls := lc_calls (abs_lc r) @ [\<lparr>call_sg = iss_sg ?i, call_req = iss_req ?i, call_op = op\<rparr>]\<rparr>)"
    by (rule lifecycle_step.Request [OF assms]) (simp_all add: abs_lc_def)
  also have "(abs_lc r)\<lparr>lc_requests := lc_requests (abs_lc r) @ [?i],
      lc_calls := lc_calls (abs_lc r) @ [\<lparr>call_sg = iss_sg ?i, call_req = iss_req ?i, call_op = op\<rparr>]\<rparr> =
      abs_lc (snd (run_state (cloud_request_call env c req op) r))"
    using True by (simp add: cloud_request_call_def abs_lc_def)
  finally show ?thesis by (rule refines_step)
next
  case False
  then show ?thesis by (simp add: cloud_request_call_def panic_def refines_same)
qed

lemma run_request_frame [simp]:
  "syncedWithCloud (snd (run_state (cloud_request_call env c req op) r)) = syncedWithCloud r"
  "bookmarkCnt (snd (run_state (cloud_request_call env c req op) r)) = bookmarkCnt r"
  "sg_impl (snd (run_state (cloud_request_call env c req op) r)) c' = sg_impl r c'"
  by (simp_all add: cloud_request_call_def panic_def)

text \<open>The state after the first operation of a sequence.\<close>

lemma keeps_run: "keeps refines m \<Longrightarrow> run_state m r = (x, r') \<Longrightarrow> refines r r'"
  by (metis ev.keepsD snd_conv)

lemma addImpl_evolves [evolves]: "keeps refines (addImpl env c m)"
proof (rule ev.keepsI)
  fix r
  obtain err r1 where run: "run_state (sgIndexer_Add env m c) r = (err, r1)" by fastforce
  let ?r2 = "snd (run_state (cloud_request_call env c (CreateSecurityGroup (sg_id (sg_impl r1 c)) m)
    (Some securityGroupOperationAdd)) r1)"
  have r1: "refines r r1" by (rule keeps_run [OF indexers_evolve(1) run])
  have "refines r1 (upd_impl c (status_update (\<lambda>_. Some InProgress)) ?r2)"
    if "syncedWithCloud r1" "retryOp (sg_impl r1 c) = None"
    using that by (intro ev.trans [OF request_refines status_refines]) (simp_all add: request_ok_def)
  then show "refines r (snd (run_state (addImpl env c m) r))"
    using r1 by (auto simp: addImpl_def run split_beta intro: ev.trans)
qed

lemma deleteImpl_call_refines:
  assumes "sg_state (sg_impl r c) = securityGroupStateGarbageCollectState"
  shows "refines r (snd (run_state (deleteImpl_call env c m) r))"
proof -
  let ?g = "getGroupUniqueName (id_Name (sg_id (sg_impl r c))) m"
  obtain e r1 where run: "run_state (Queue_Update_only PendingDeleteGroups ?g (UpdateRef 1 False)) r = (e, r1)"
    by fastforce
  have r1: "refines r r1" by (rule keeps_run [OF Queue_Update_only_evolves run])
  have same: "sg_impl r1 c = sg_impl r c"
    using Queue_Update_ref_frame run by (metis snd_conv)
  let ?r2 = "upd_impl c (status_update (\<lambda>_. Some InProgress)) r1"
  have "refines r1 ?r2" using assms same by (intro status_refines) simp
  moreover have "refines ?r2 (snd (run_state (cloud_request_call env c (DeleteSecurityGroup (sg_id (sg_impl r c)) m)
      (Some securityGroupOperationDelete)) ?r2))" if "retryOp (sg_impl r c) = None"
    using assms same that by (intro request_refines) (simp add: request_ok_def)
  ultimately show ?thesis
    using r1 by (auto simp: deleteImpl_call_def run split_beta intro: ev.trans ev.refl)
qed

lemma await_deletion_evolves [evolves]: "keeps refines (await_deletion uid)"
  unfolding await_deletion_def by (intro ev.keeps_intros evolves)

text \<open>The last part of \<^verbatim>\<open>deleteImpl\<close> retires the group and asks for the deletion.\<close>

lemma retire_and_call:
  assumes "sg_state (sg_impl r c) \<noteq> securityGroupStateInit \<or> status (sg_impl r c) = Some InProgress"
  shows "refines r (snd (run_state (deleteImpl_call env c m)
    (upd_impl c (sg_state_update (\<lambda>_. securityGroupStateGarbageCollectState)) r)))"
  by (rule ev.trans [OF retire_refines deleteImpl_call_refines]) (use assms in simp_all)

lemma deleteImpl_evolves [evolves]: "keeps refines (deleteImpl env c m)"
proof (rule ev.keepsI)
  fix r :: "'a NetworkPolicyReconciler"
  let ?s = "sg_impl r c"
  let ?g = "getGroupUniqueName (id_Name (sg_id ?s)) m"
  let ?r1 = "snd (run_state (await_deletion ?g) r)"
  have r1: "refines r ?r1" by (rule ev.keepsD [OF await_deletion_evolves])
  let ?r2 = "snd (run_state (sgIndexer_Delete env m c) ?r1)"
  let ?r3 = "snd (run_state (Queue_Remove RetryQueue (getGroupUniqueName (CloudResourceID_String (sg_id ?s)) m)) ?r2)"
  let ?r4 = "upd_impl c (retryOp_update (\<lambda>_. None)) ?r3"
  have "refines ?r1 ?r2" by (rule ev.keepsD [OF indexers_evolve(2)])
  moreover have "refines ?r2 ?r3" by (rule ev.keepsD [OF queue_evolves(1)])
  moreover have "refines ?r3 ?r4" by (simp add: refines_same abs_lc_upd_impl)
  ultimately have r4: "refines r ?r4" using r1 by (blast intro: ev.trans)
  have pend: "refines r (upd_impl c (deletePending_update (\<lambda>_. True)) ?r1)"
    by (rule ev.trans [OF r1]) (simp add: refines_same abs_lc_upd_impl)
  have gc: "refines r (snd (run_state (deleteImpl_call env c m) ?r1))"
    if "sg_state ?s = securityGroupStateGarbageCollectState"
    by (rule ev.trans [OF r1 deleteImpl_call_refines]) (simp add: that)
  have last: "refines r (snd (run_state (deleteImpl_call env c m)
      (upd_impl c (sg_state_update (\<lambda>_. securityGroupStateGarbageCollectState)) ?r4)))"
    if "\<not> (sg_state ?s = securityGroupStateInit \<and> status ?s \<noteq> Some InProgress)"
    by (rule ev.trans [OF r4 retire_and_call]) (use that in auto)
  show "refines r (snd (run_state (deleteImpl env c m) r))"
    using r1 gc pend r4 last
    by (auto simp: deleteImpl_def split_beta split: sum.splits)
qed

lemma updateImpl_evolves [evolves]: "keeps refines (updateImpl env c added removed m)"
proof (rule ev.keepsI)
  fix r :: "'a NetworkPolicyReconciler"
  let ?r1 = "upd_impl c (\<lambda>s. s\<lparr>members := mergeCloudResources (rng env) (members s) added removed\<rparr>) r"
  have r1: "refines r ?r1" by (simp add: refines_same abs_lc_upd_impl)
  have "refines ?r1 (snd (run_state (cloud_request_call env c
      (UpdateSecurityGroupMembers (sg_id (sg_impl ?r1 c)) (members (sg_impl ?r1 c)) m) None) ?r1))"
    if "sg_state (sg_impl r c) = securityGroupStateCreated" "retryOp (sg_impl r c) = None"
    using that by (intro request_refines) (simp add: request_ok_def)
  with r1 show "refines r (snd (run_state (updateImpl env c added removed m) r))"
    by (auto simp: updateImpl_def split_beta intro: ev.trans ev.refl)
qed

lemma applied_updateRules_evolves [evolves]: "keeps refines (applied_updateRules env a)"
proof (rule ev.keepsI)
  fix r :: "'a NetworkPolicyReconciler"
  have impl: "sg_state (appliedSGs r a) = sg_state (sg_impl r (AppliedToSG a))"
    "retryOp (appliedSGs r a) = retryOp (sg_impl r (AppliedToSG a))"
    "sg_id (appliedSGs r a) = sg_id (sg_impl r (AppliedToSG a))"
    by (simp_all add: sg_impl_def securityGroupImpl.defs)
  have rules: "refines r (snd (run_state (cloud_request_call env (AppliedToSG a) req op) r))"
    if "applied_isReady a r" "retryOp (appliedSGs r a) = None"
      "(\<exists>ms. req = UpdateSecurityGroupMembers (sg_id (appliedSGs r a)) ms False) \<or>
       (\<exists>i e. req = UpdateSecurityGroupRules (sg_id (appliedSGs r a)) i e)" for req op
    using that impl by (intro request_refines) (auto simp: request_ok_def applied_isReady_def)
  show "refines r (snd (run_state (applied_updateRules env a) r))"
    unfolding applied_updateRules_def
    by (auto simp: split_beta ev.refl refines_same intro!: rules split: sum.splits)
qed

section \<open>Groups, trackers and policies\<close>

lemma tracker_dirty_evolves [evolves]:
  "keeps refines (tracker_markDirty t)" "keeps refines (tracker_unmarkDirty t)"
  unfolding tracker_markDirty_def tracker_unmarkDirty_def by (intro evolves)+

lemma newCloudResourceNPTracker_evolves [evolves]: "keeps refines (newCloudResourceNPTracker env rsc)"
  unfolding newCloudResourceNPTracker_def
  by (rule ev.keeps_bind) (rule keeps_same, simp, intro ev.keeps_intros evolves)

lemma getCloudResourceNPTracker_evolves [evolves]: "keeps refines (getCloudResourceNPTracker env rsc b)"
  unfolding getCloudResourceNPTracker_def by (intro ev.keeps_intros evolves)

lemma tracker_update_evolves [evolves]: "keeps refines (tracker_update env t a b)"
  unfolding tracker_update_def by (intro ev.keeps_intros evolves)

lemma sg_markDirty_evolves [evolves]: "keeps refines (sg_markDirty env c b)"
  unfolding sg_markDirty_def by (intro ev.keeps_intros evolves)

lemma new_init_refines:
  assumes "st = securityGroupStateInit \<or> st = securityGroupStateCreated \<and> npSyncReadyBookMarkCnt \<le> bookmarkCnt r"
    and "abs_lc r' = (abs_lc r)\<lparr>lc_state := (lc_state (abs_lc r))(c := st), lc_status := (lc_status (abs_lc r))(c := None)\<rparr>"
  shows "refines r r'"
  unfolding refines_def assms(2)
  by (rule r_into_rtranclp, rule lifecycle_step.New) (use assms(1) in \<open>simp add: abs_lc_def\<close>)

lemma new_addr_refines:
  assumes "st = None \<or> st = Some securityGroupStateInit \<or>
    st = Some securityGroupStateCreated \<and> npSyncReadyBookMarkCnt \<le> bookmarkCnt r"
  shows "refines r (snd (run_state (newAddrSecurityGroup_with cid ips rscs st) r))"
  by (rule new_init_refines [where c = "AddrSG (next_ptr r)" and st = "case st of Some x \<Rightarrow> x | None \<Rightarrow> securityGroupStateInit"])
    (use assms in \<open>auto simp: newAddrSecurityGroup_with_def abs_lc_def sg_impl_def securityGroupImpl.defs fun_eq_iff
      split: cloudSecurityGroup.splits\<close>)

lemma new_applied_refines:
  assumes "st = None \<or> st = Some securityGroupStateInit \<or>
    st = Some securityGroupStateCreated \<and> npSyncReadyBookMarkCnt \<le> bookmarkCnt r"
  shows "refines r (snd (run_state (newAppliedToSecurityGroup cid rscs st) r))"
  by (rule new_init_refines [where c = "AppliedToSG (next_ptr r)" and st = "case st of Some x \<Rightarrow> x | None \<Rightarrow> securityGroupStateInit"])
    (use assms in \<open>auto simp: newAppliedToSecurityGroup_def abs_lc_def sg_impl_def securityGroupImpl.defs fun_eq_iff
      split: cloudSecurityGroup.splits\<close>)

lemma new_groups_evolve [evolves]:
  "keeps refines (newAddrSecurityGroup cid data None)" "keeps refines (newAppliedToSecurityGroup cid rscs None)"
  by (auto intro!: ev.keepsI new_addr_refines new_applied_refines simp: newAddrSecurityGroup_def split: sum.splits)

lemma addr_updateIPs_evolves [evolves]: "keeps refines (addr_updateIPs env a ips ips')"
  unfolding addr_updateIPs_def
  by (rule keeps_modify_same) (auto simp: abs_lc_def sg_impl_def securityGroupImpl.defs fun_eq_iff split: cloudSecurityGroup.splits)

lemma addr_add_evolves [evolves]: "keeps refines (addr_add env a)"
  unfolding addr_add_def by (intro ev.keeps_intros evolves)

lemma addr_delete_evolves [evolves]: "keeps refines (addr_delete env a)"
  unfolding addr_delete_def by (intro ev.keeps_intros evolves)

lemma addr_update_evolves [evolves]: "keeps refines (addr_update env a x y)"
  unfolding addr_update_def by (intro ev.keeps_intros evolves)

lemma addr_notifyNetworkPolicyChange_evolves [evolves]: "keeps refines (addr_notifyNetworkPolicyChange env a)"
  unfolding addr_notifyNetworkPolicyChange_def by (intro ev.keeps_intros evolves)

lemma update_trackers_evolves [evolves]: "keeps refines (update_trackers env a rscs b)"
  unfolding update_trackers_def by (intro ev.keeps_intros evolves)

lemma applied_add_evolves [evolves]: "keeps refines (applied_add env a)"
  unfolding applied_add_def by (intro ev.keeps_intros evolves)

lemma applied_delete_evolves [evolves]: "keeps refines (applied_delete env a)"
  unfolding applied_delete_def by (intro ev.keeps_intros evolves)

lemma applied_update_evolves [evolves]: "keeps refines (applied_update env a x y)"
  unfolding applied_update_def by (intro ev.keeps_intros evolves)

lemma applied_notifyNetworkPolicyChange_evolves [evolves]: "keeps refines (applied_notifyNetworkPolicyChange env a)"
  unfolding applied_notifyNetworkPolicyChange_def by (intro ev.keeps_intros evolves)

lemma sg_operations_evolve [evolves]:
  "keeps refines (sg_delete env c)" "keeps refines (sg_add env c)" "keeps refines (sg_update env c x y)"
  by (cases c; simp add: sg_delete_def sg_add_def sg_update_def evolves)+

lemma runPendingItemImpl_evolves [evolves]: "keeps refines (runPendingItemImpl env c m)"
proof -
  have "keeps refines (modify (upd_impl c (\<lambda>s. (if e then s\<lparr>retryInProgress := True\<rparr> else s)\<lparr>retryOp := Some op\<rparr>)))" for e op
    by (rule keeps_upd_impl) simp_all
  then show ?thesis
    unfolding runPendingItemImpl_def
    by (auto intro!: ev.keeps_intros evolves split: cloudSecurityGroup.splits securityGroupOperation.splits)
qed

lemma computeRulesReady_evolves [evolves]: "keeps refines (computeRulesReady env b n)"
  unfolding computeRulesReady_def by (intro ev.keeps_intros evolves)

lemma computeRules_evolves [evolves]: "keeps refines (computeRules env n)"
  unfolding computeRules_def compute_rule_def by (intro ev.keeps_intros evolves)

lemma policy_getStatus_evolves [evolves]: "keeps refines (policy_getStatus env n)"
  unfolding policy_getStatus_def by (intro ev.keeps_intros evolves)

lemma policy_markDirty_evolves [evolves]: "keeps refines (policy_markDirty env n)"
  unfolding policy_markDirty_def by (intro ev.keeps_intros evolves)

lemma notifyAddrGrpChanges_evolves [evolves]: "keeps refines (notifyAddrGrpChanges env n)"
  unfolding notifyAddrGrpChanges_def by (intro ev.keeps_intros evolves)

lemma notify_groups_evolve [evolves]:
  "keeps refines (notify_addr_groups env gs)" "keeps refines (notify_applied_groups env gs)"
  unfolding notify_addr_groups_def notify_applied_groups_def by (intro ev.keeps_intros evolves)+

lemma policy_apply_change_evolves [evolves]: "keeps refines (policy_apply_change env n anp)"
  unfolding policy_apply_change_def by (intro ev.keeps_intros evolves)

lemma policy_update_evolves [evolves]: "keeps refines (policy_update env n anp b)"
  unfolding policy_update_def by (intro ev.keeps_intros evolves)

lemma policy_delete_evolves [evolves]: "keeps refines (policy_delete env n)"
  unfolding policy_delete_def by (intro ev.keeps_intros evolves)

section \<open>Status and synchronization\<close>

lemma computeNPStatus_evolves [evolves]: "keeps refines (computeNPStatus env t)"
  unfolding computeNPStatus_def by (intro ev.keeps_intros evolves)

lemma publish_status_evolves [evolves]: "keeps refines (publish_status env t vm acc)"
  unfolding publish_status_def Let_def
  by (intro ev.keeps_intros evolves) (rule keeps_modify_same, simp)

lemma vmNPStatusSetter_evolves [evolves]: "keeps refines (vmNPStatusSetter env t)"
  unfolding vmNPStatusSetter_def by (intro ev.keeps_intros evolves)

lemma processCloudResourceNPTrackers_evolves [evolves]: "keeps refines (processCloudResourceNPTrackers env)"
  unfolding processCloudResourceNPTrackers_def by (intro ev.keeps_intros evolves)

text \<open>The rest happens only when enough bookmarks have come.\<close>

named_theorems ready_evolves \<open>operations that refine the abstract system once it may synchronize\<close>

lemma keeps_created [ready_evolves]:
  "keeps refines_ready (modify (upd_impl c (sg_state_update (\<lambda>_. securityGroupStateCreated))))"
  by (rule rdy.keepsI) (simp add: refines_ready_def created_refines)

lemma new_created_evolve [ready_evolves]:
  "keeps refines_ready (newAddrSecurityGroup cid data (Some securityGroupStateCreated))"
  "keeps refines_ready (newAppliedToSecurityGroup cid rscs (Some securityGroupStateCreated))"
  by (auto intro!: rdy.keepsI new_addr_refines new_applied_refines
      simp: refines_ready_def newAddrSecurityGroup_def split: sum.splits)

lemma sync_resend_evolves [evolves]: "keeps refines (sync_resend env c m)"
  unfolding sync_resend_def by (intro ev.keeps_intros evolves)

lemma syncImpl_evolves [ready_evolves]: "keeps refines_ready (syncImpl env c content m)"
  unfolding syncImpl_def by (intro rdy.keeps_intros ready_evolves keeps_ready evolves)

lemma addr_sync_evolves [ready_evolves]: "keeps refines_ready (addr_sync env a content)"
  unfolding addr_sync_def by (intro rdy.keeps_intros ready_evolves keeps_ready evolves)

lemma sync_count_policies_evolves [evolves]: "keeps refines (sync_count_policies env nps)"
  unfolding sync_count_policies_def by (intro ev.keeps_intros evolves)

lemma applied_sync_evolves [ready_evolves]: "keeps refines_ready (applied_sync env a content)"
  unfolding applied_sync_def by (intro rdy.keeps_intros ready_evolves keeps_ready evolves)

lemma read_content_evolves [ready_evolves]: "keeps refines_ready (read_content env content acc)"
  unfolding read_content_def by (intro rdy.keeps_intros ready_evolves keeps_ready evolves)

lemma keeps_synced [ready_evolves]: "keeps refines_ready (modify (syncedWithCloud_update (\<lambda>_. True)))"
proof (rule rdy.keepsI)
  fix r :: "'ix NetworkPolicyReconciler"
  have "abs_lc (r\<lparr>syncedWithCloud := True\<rparr>) = (abs_lc r)\<lparr>lc_synced := True\<rparr>"
    by (simp add: abs_lc_def)
  moreover have "lifecycle_step (abs_lc r) ((abs_lc r)\<lparr>lc_synced := True\<rparr>)"
    if "npSyncReadyBookMarkCnt \<le> bookmarkCnt r"
    by (rule lifecycle_step.Synced) (simp add: abs_lc_def that)
  ultimately show "refines_ready r (snd (run_state (modify (syncedWithCloud_update (\<lambda>_. True))) r))"
    by (auto simp: refines_ready_def refines_def)
qed

text \<open>The part of \<^verbatim>\<open>syncWithCloud\<close> after the check of the bookmarks.\<close>

lemma syncWithCloud_evolves [evolves]: "keeps refines (syncWithCloud env)"
proof (rule ev.keepsI)
  fix r :: "'a NetworkPolicyReconciler"
  have "keeps refines_ready (syncWithCloud env)"
    unfolding syncWithCloud_def
    by (intro rdy.keeps_intros ready_evolves keeps_ready evolves)
  then have "refines r (snd (run_state (syncWithCloud env) r))" if "npSyncReadyBookMarkCnt \<le> bookmarkCnt r"
    using that rdy.keepsD [of "syncWithCloud env" r] by (simp add: refines_ready_def)
  moreover have "refines r (snd (run_state (syncWithCloud env) r))" if "bookmarkCnt r < npSyncReadyBookMarkCnt"
    using that by (simp add: syncWithCloud_def ev.refl)
  ultimately show "refines r (snd (run_state (syncWithCloud env) r))"
    by (meson not_less)
qed

lemma processBookMark_evolves [evolves]: "keeps refines (processBookMark env event)"
proof (rule ev.keepsI)
  fix r :: "'a NetworkPolicyReconciler"
  have "abs_lc (bookmarkCnt_update Suc r) = (abs_lc r)\<lparr>lc_bookmarks := Suc (lc_bookmarks (abs_lc r))\<rparr>"
    by (simp add: abs_lc_def)
  moreover have "lifecycle_step (abs_lc r) ((abs_lc r)\<lparr>lc_bookmarks := Suc (lc_bookmarks (abs_lc r))\<rparr>)"
    if "\<not> syncedWithCloud r"
    by (rule lifecycle_step.BookMark) (simp add: abs_lc_def that)
  ultimately have "refines r (bookmarkCnt_update Suc r)" if "\<not> syncedWithCloud r"
    using that by (auto simp: refines_def)
  then have "refines r (snd (run_state (syncWithCloud env) (bookmarkCnt_update Suc r)))"
    if "\<not> syncedWithCloud r"
    using that by (blast intro: ev.trans ev.keepsD [OF syncWithCloud_evolves])
  then show "refines r (snd (run_state (processBookMark env event) r))"
    by (simp add: processBookMark_def ev.refl split_beta)
qed

section \<open>Synchronization takes place\<close>

lemma synced_after:
  assumes "keeps refines_ready m" "\<And>x. keeps refines_ready (f x)" "npSyncReadyBookMarkCnt \<le> bookmarkCnt r"
  shows "syncedWithCloud (snd (run_state (do { x \<leftarrow> m; modify (syncedWithCloud_update (\<lambda>_. True)); f x }) r))"
proof -
  obtain x s where m: "run_state m r = (x, s)" by fastforce
  have "npSyncReadyBookMarkCnt \<le> bookmarkCnt s"
    using rdy.keepsD [OF assms(1), of r] refines_bookmarks [of r s] assms(3) m by (simp add: refines_ready_def)
  then have "refines (s\<lparr>syncedWithCloud := True\<rparr>) (snd (run_state (f x) (s\<lparr>syncedWithCloud := True\<rparr>)))"
    using rdy.keepsD [OF assms(2), of "s\<lparr>syncedWithCloud := True\<rparr>" x] by (simp add: refines_ready_def)
  from refines_synced [OF this] show ?thesis using m by simp
qed

lemma syncWithCloud_synced:
  assumes "plugin env" "npSyncReadyBookMarkCnt \<le> bookmarkCnt r"
  shows "syncedWithCloud (snd (run_state (syncWithCloud env) r))"
proof -
  have "\<not> bookmarkCnt r < npSyncReadyBookMarkCnt" using assms(2) by simp
  note eval = run_gets_bind if_not_P [OF this] if_P [OF assms(1)] if_not_P [of "\<not> plugin env"] not_not
  show ?thesis
    unfolding syncWithCloud_def eval using assms
    by (simp only: not_True_eq_False if_False)
      (rule synced_after, (intro rdy.keeps_intros ready_evolves keeps_ready evolves)+)
qed

lemma processBookMark_counts:
  fixes r :: "'ix NetworkPolicyReconciler"
  assumes "plugin env"
  defines "r' \<equiv> snd (run_state (processBookMark env Bookmark) r)"
  shows "syncedWithCloud r' \<or> bookmarkCnt r < bookmarkCnt r'"
    and "npSyncReadyBookMarkCnt \<le> Suc (bookmarkCnt r) \<Longrightarrow> syncedWithCloud r'"
proof -
  have "bookmarkCnt r < bookmarkCnt (snd (run_state (syncWithCloud env) (bookmarkCnt_update Suc r)))"
    using refines_bookmarks [OF ev.keepsD [OF syncWithCloud_evolves], of "bookmarkCnt_update Suc r" env] by simp
  then show "syncedWithCloud r' \<or> bookmarkCnt r < bookmarkCnt r'"
    by (simp add: r'_def processBookMark_def split_beta)
  show "syncedWithCloud r'" if "npSyncReadyBookMarkCnt \<le> Suc (bookmarkCnt r)"
    using syncWithCloud_synced [OF assms(1), of "bookmarkCnt_update Suc r"] that
    by (simp add: r'_def processBookMark_def split_beta)
qed

section \<open>Event handlers\<close>

lemma remove_stale_evolves [evolves]: "keeps refines (remove_stale env name stales)"
  unfolding remove_stale_def
  by (intro ev.keeps_intros evolves keeps_upd_impl) (simp_all add: removeStaleMembers_def Let_def)

lemma new_sg_evolves [evolves]: "keeps refines (new_sg b cid rscs)"
  unfolding new_sg_def by (intro ev.keeps_intros evolves)

lemma add_vpc_evolves [evolves]: "keeps refines (add_vpc env name b entry acc)"
  unfolding add_vpc_def Let_def by (intro ev.keeps_intros evolves)

lemma remove_vpc_evolves [evolves]: "keeps refines (remove_vpc env name b entry)"
  unfolding remove_vpc_def by (intro ev.keeps_intros evolves)

lemma new_block_group_evolves [evolves]: "keeps refines (new_block_group env cid ips)"
  unfolding new_block_group_def by (intro ev.keeps_intros evolves)

lemma update_blocks_evolves [evolves]: "keeps refines (update_blocks env name event x y)"
  unfolding update_blocks_def by (intro ev.keeps_intros evolves)

lemma apply_members_evolves [evolves]: "keeps refines (apply_members env name event b nm add rem)"
  unfolding apply_members_def by (intro ev.keeps_intros evolves)

lemma processMemberGrp_body_evolves [evolves]: "keeps refines (processMemberGrp_body env name event b add rem)"
  unfolding processMemberGrp_body_def by (intro ev.keeps_intros evolves)

lemma processMemberGrp_evolves [evolves]: "keeps refines (processMemberGrp env name event b add rem)"
  unfolding processMemberGrp_def by (intro ev.keeps_intros evolves)

lemma RunPendingItem_evolves [evolves]: "keeps refines (RunPendingItem env i uid)"
  unfolding RunPendingItem_def pendingGroup_RunPendingItem_def
  by (cases i; simp; intro ev.keeps_intros evolves)

lemma notifyImpl_evolves [evolves]: "keeps refines (notifyImpl env c m op st)"
  unfolding notifyImpl_def by (intro ev.keeps_intros evolves Queue_Update_evolves)

lemma note_retry_evolves [evolves]: "keeps refines (note_retry c m op)"
  unfolding note_retry_def by (intro ev.keeps_intros evolves)

lemma set_response_status_evolves [ready_evolves]:
  "keeps refines_ready (modify (upd_impl c (set_response_status op st)))"
proof (rule rdy.keepsI)
  fix r :: "'ix NetworkPolicyReconciler"
  have "abs_lc (upd_impl c (set_response_status op st) r) = abs_lc r \<or>
      abs_lc (upd_impl c (set_response_status op st) r) = abs_lc (upd_impl c (status_update (\<lambda>_. st)) r)"
    by (auto simp: set_response_status_def abs_lc_def fun_eq_iff)
  then show "refines_ready r (snd (run_state (modify (upd_impl c (set_response_status op st))) r))"
    using status_refines [of st r c] by (auto simp: refines_ready_def refines_def)
qed

lemma becomes_created [ready_evolves]:
  "keeps refines_ready (modify (upd_impl c
     (\<lambda>s. if sg_state s = securityGroupStateInit then s\<lparr>sg_state := securityGroupStateCreated\<rparr> else s)))"
proof (rule rdy.keepsI)
  fix r :: "'ix NetworkPolicyReconciler"
  let ?f = "\<lambda>s. if sg_state s = securityGroupStateInit then s\<lparr>sg_state := securityGroupStateCreated\<rparr> else s"
  have "abs_lc (upd_impl c ?f r) = abs_lc r \<or>
      abs_lc (upd_impl c ?f r) = abs_lc (upd_impl c (sg_state_update (\<lambda>_. securityGroupStateCreated)) r)"
    by (auto simp: abs_lc_def fun_eq_iff)
  then show "refines_ready r (snd (run_state (modify (upd_impl c ?f)) r))"
    using created_refines [of r c] by (auto simp: refines_ready_def refines_def)
qed

lemma addr_notify_evolves [ready_evolves]: "keeps refines_ready (addr_notify env a op st)"
  unfolding addr_notify_def addr_notify_body_def
  by (intro rdy.keeps_intros ready_evolves keeps_ready evolves)

lemma applied_notify_body_evolves [ready_evolves]: "keeps refines_ready (applied_notify_body env a op st)"
  unfolding applied_notify_body_def
  by (cases op; simp only: securityGroupOperation.case; intro rdy.keeps_intros ready_evolves keeps_ready evolves)

lemma applied_notify_evolves [ready_evolves]: "keeps refines_ready (applied_notify env a op st)"
  unfolding applied_notify_def by (intro rdy.keeps_intros ready_evolves keeps_ready evolves)

lemma processCloudResponse_evolves [ready_evolves]: "keeps refines_ready (processCloudResponse env st)"
  unfolding processCloudResponse_def by (cases "st_sg st"; simp add: ready_evolves)

lemma process_group_event_evolves [evolves]: "keeps refines (process_group_event env what b event acc patch complete)"
  unfolding process_group_event_def by (auto intro!: ev.keeps_intros evolves split: option.splits)

lemma group_events_evolve [evolves]:
  "keeps refines (processAddrGrp env event obj)" "keeps refines (processAppliedToGrp env event obj)"
  unfolding processAddrGrp_def processAppliedToGrp_def by (intro evolves)+

lemma processNetworkPolicy_evolves [evolves]: "keeps refines (processNetworkPolicy env event obj)"
  unfolding processNetworkPolicy_def by (cases obj; simp; intro ev.keeps_intros evolves)

lemma processLocalEvent_evolves [evolves]: "keeps refines (processLocalEvent env event obj)"
  unfolding processLocalEvent_def by (cases obj; simp; intro ev.keeps_intros evolves)

lemma handle_event_evolves [evolves]: "keeps refines (handle_event env w event obj)"
  unfolding handle_event_def by (cases w; simp add: evolves ev.keeps_ret)

lemma tick_evolves [evolves]: "keeps refines (tick env sync)"
  unfolding tick_def by (intro ev.keeps_intros evolves Queue_CheckToRun_evolves)

section \<open>Steps of the controller\<close>

lemma outcome_refines:
  assumes "calls r = cs1 @ c # cs2"
  shows "refines r (r\<lparr>calls := cs1 @ cs2, cloudResponse := cloudResponse r @ [st]\<rparr>)"
proof -
  have "lifecycle_step (abs_lc r) ((abs_lc r)\<lparr>lc_calls := cs1 @ cs2, lc_responses := lc_responses (abs_lc r) @ [st]\<rparr>)"
    by (rule lifecycle_step.Reported) (simp add: abs_lc_def assms)
  moreover have "(abs_lc r)\<lparr>lc_calls := cs1 @ cs2, lc_responses := lc_responses (abs_lc r) @ [st]\<rparr> =
      abs_lc (r\<lparr>calls := cs1 @ cs2, cloudResponse := cloudResponse r @ [st]\<rparr>)"
    by (simp add: abs_lc_def)
  ultimately show ?thesis by (simp add: refines_step)
qed

lemma receive_refines:
  assumes "cloudResponse r = rs1 @ st # rs2"
  shows "refines r (r\<lparr>cloudResponse := rs1 @ rs2\<rparr>)"
proof -
  have "lifecycle_step (abs_lc r) ((abs_lc r)\<lparr>lc_responses := rs1 @ rs2\<rparr>)"
    by (rule lifecycle_step.Received) (simp add: abs_lc_def assms)
  moreover have "(abs_lc r)\<lparr>lc_responses := rs1 @ rs2\<rparr> = abs_lc (r\<lparr>cloudResponse := rs1 @ rs2\<rparr>)"
    by (simp add: abs_lc_def)
  ultimately show ?thesis by (simp add: refines_step)
qed

lemma step_refines: "step ix r r' \<Longrightarrow> lifecycle_inv (abs_lc r) \<Longrightarrow> refines r r'"
proof (induction rule: step.induct)
  case (Event env r w event obj)
  show ?case by (rule ev.keepsD [OF handle_event_evolves])
next
  case (Tick env r sync)
  show ?case by (rule ev.keepsD [OF tick_evolves])
next
  case (Outcome r cs1 c cs2 err)
  then show ?case by (intro outcome_refines)
next
  case (Response env r rs1 st rs2)
  then have "\<not> bookmarkCnt r < npSyncReadyBookMarkCnt"
    by (auto simp: lifecycle_inv_def quiet_def abs_lc_def)
  then have "refines (r\<lparr>cloudResponse := rs1 @ rs2\<rparr>)
      (snd (run_state (processCloudResponse env st) (r\<lparr>cloudResponse := rs1 @ rs2\<rparr>)))"
    using rdy.keepsD [OF processCloudResponse_evolves, of "r\<lparr>cloudResponse := rs1 @ rs2\<rparr>" env st]
    by (simp add: refines_ready_def)
  with Response show ?case by (blast intro: ev.trans receive_refines)
qed

lemma init_inv: "lifecycle_inv (abs_lc (SetupWithManager i))"
  by (auto simp: lifecycle_inv_def quiet_def abs_lc_def SetupWithManager_def sg_impl_def zero_addr_def zero_applied_def
      npSyncReadyBookMarkCnt_def securityGroupImpl.defs split: cloudSecurityGroup.splits)

lemma reachable_inv:
  assumes "reachable ix (SetupWithManager i) r"
  shows "lifecycle_inv (abs_lc r)"
  using assms
proof (induction rule: reachable.induct)
  case reachable_init
  show ?case by (rule init_inv)
next
  case (reachable_step r r')
  then have "refines r r'" by (intro step_refines)
  with reachable_step show ?case using lifecycle_inv_steps unfolding refines_def by blast
qed

end
