(* ===== verification/Np_Example.thy ===== *)
theory Np_Example
  imports Np_Refinement
begin

text \<open>
  A concrete instance of the controller's surroundings, on which statements about the controller
  are exercised: an indexer kept as an association list, one virtual machine with its external
  entity, and a plug-in that reports nothing.
\<close>

section \<open>An indexer\<close>

type_synonym list_indexer = "(string, ptr \<times> (string \<times> string list) list) gomap"

definition list_Indexer :: "list_indexer Indexer" where
  "list_Indexer = \<lparr>
     ix_add = (\<lambda>k f p i. (None, put k (p, f) i)),
     ix_update = (\<lambda>k f p i. (None, put k (p, f) i)),
     ix_delete = (\<lambda>k f p i. (None, del k i)),
     ix_getByKey = (\<lambda>k i. map_option fst (map_of i k)),
     ix_byIndex = (\<lambda>n v i. Inr (map (fst \<circ> snd) (filter (\<lambda>(k, p, f). v \<in> set (get_or [] f n)) i))),
     ix_list = (\<lambda>i. map (fst \<circ> snd) i)\<rparr>"

section \<open>One machine\<close>

definition example_entity :: ExternalEntity where
  "example_entity = \<lparr>ee_Name = ''virtualmachine-a'', ee_Namespace = ''ns'',
     ee_Labels = [(ExternalEntityLabelKeyKind, ''virtualmachine'')],
     ee_OwnerReferences = [\<lparr>own_Kind = ''VirtualMachine'', own_Name = ''a''\<rparr>], ee_Endpoints = []\<rparr>"

definition example_vm :: VirtualMachine where
  "example_vm = \<lparr>vm_Name = ''a'', vm_Namespace = ''ns'',
     vm_Annotations = [(AnnotationCloudAssignedIDKey, ''i-a''), (AnnotationCloudAssignedVPCIDKey, ''vpc'')],
     vm_NetworkInterfaces = []\<rparr>"

definition example_env :: "list_indexer env" where
  "example_env = \<lparr>Ix = list_Indexer,
     Get_ExternalEntity = (\<lambda>k. if nn_Name k = ''virtualmachine-a'' then Inr example_entity else Inl (NotFound ''ee'')),
     Get_VirtualMachine = (\<lambda>k. if nn_Name k = ''a'' then Inr example_vm else Inl (NotFound ''vm'')),
     List_VirtualMachine = (\<lambda>_ _. Inr [example_vm]),
     SyncChan = [], plugin = True, rng = in_order\<rparr>"

definition example_member :: GroupMember where
  "example_member = \<lparr>gm_ExternalEntity = Some \<lparr>nn_Namespace = ''ns'', nn_Name = ''virtualmachine-a''\<rparr>\<rparr>"

section \<open>Runs\<close>

datatype action = Watch watcher EventType event_object | Ticks bool | Completes nat error | Receives nat

definition run_action :: "'ix env \<Rightarrow> action \<Rightarrow> 'ix NetworkPolicyReconciler \<Rightarrow> 'ix NetworkPolicyReconciler" where
  "run_action env act r = (if panicked r then r else case act of
     Watch w event obj \<Rightarrow> snd (run_state (handle_event env w event obj) r)
   | Ticks sync \<Rightarrow> snd (run_state (tick env sync) r)
   | Completes k err \<Rightarrow>
       if k < length (calls r)
       then r\<lparr>calls := take k (calls r) @ drop (Suc k) (calls r),
              cloudResponse := cloudResponse r @ [response_of r (calls r ! k) err]\<rparr>
       else r
   | Receives k \<Rightarrow>
       if k < length (cloudResponse r)
       then snd (run_state (processCloudResponse env (cloudResponse r ! k))
              (r\<lparr>cloudResponse := take k (cloudResponse r) @ drop (Suc k) (cloudResponse r)\<rparr>))
       else r)"

lemma reachable_action:
  assumes "reachable (Ix env) r0 r"
  shows "reachable (Ix env) r0 (run_action env act r)"
proof (cases "panicked r")
  case True
  with assms show ?thesis by (simp add: run_action_def)
next
  case False
  have split: "xs = take k xs @ xs ! k # drop (Suc k) xs" if "k < length xs" for k and xs :: "'b list"
    using that by (simp add: id_take_nth_drop)
  show ?thesis
  proof (cases act)
    case (Completes k err)
    then show ?thesis
      using assms False reachable_step [OF assms step.Outcome [OF False split]] by (simp add: run_action_def)
  next
    case (Receives k)
    then show ?thesis
      using assms False reachable_step [OF assms step.Response [OF refl False split]] by (simp add: run_action_def)
  qed (use assms False in \<open>auto simp: run_action_def intro: reachable_step step.Event step.Tick\<close>)
qed

definition run_actions :: "'ix env \<Rightarrow> action list \<Rightarrow> 'ix NetworkPolicyReconciler \<Rightarrow> 'ix NetworkPolicyReconciler" where
  "run_actions env acts r = fold (run_action env) acts r"

lemma reachable_actions: "reachable (Ix env) r0 r \<Longrightarrow> reachable (Ix env) r0 (run_actions env acts r)"
  unfolding run_actions_def by (induction acts arbitrary: r) (auto intro: reachable_action)

lemmas reachable_run = reachable_actions [OF reachable_init]

definition start :: "list_indexer NetworkPolicyReconciler" where
  "start = SetupWithManager []"

definition bookmarks :: "action list" where
  "bookmarks = [Watch AddrGroupWatcher Bookmark (AddressGroup [] []),
                Watch AppliedToGroupWatcher Bookmark (AppliedToGroup [] []),
                Watch NetworkPolicyWatcher Bookmark (NetworkPolicyObject
                  \<lparr>np_Name = [], np_Namespace = [], SourceRef = None, Rules = [], AppliedToGroups = []\<rparr>)]"

definition add_group :: "action" where
  "add_group = Watch AppliedToGroupWatcher Added (AppliedToGroup ''at'' [example_member])"

definition add_addr_group :: "action" where
  "add_addr_group = Watch AddrGroupWatcher Added (AddressGroup ''ag'' [example_member])"

text \<open>The state after the bookmarks, with nothing to synchronize.\<close>

definition synced :: "list_indexer NetworkPolicyReconciler" where
  "synced = start\<lparr>syncedWithCloud := True, bookmarkCnt := 3\<rparr>"

lemma run_bookmarks: "run_actions example_env bookmarks start = synced"
  by code_simp

lemma reachable_synced: "reachable list_Indexer start synced"
  using reachable_run [of example_env start bookmarks] by (simp add: run_bookmarks) (simp add: example_env_def)

section \<open>A policy at work\<close>

text \<open>
  An address group and an applied-to group are created, then a policy between them arrives. The
  state in full: both groups are created, the rules are computed and sent.
\<close>

definition example_policy :: NetworkPolicy where
  "example_policy = \<lparr>np_Name = ''p'', np_Namespace = ''ns'',
     SourceRef = Some \<lparr>ref_Type = ''AntreaNetworkPolicy'', ref_Namespace = ''ns'', ref_Name = ''p''\<rparr>,
     Rules = [\<lparr>rule_Direction = DirectionIn, From = \<lparr>AddressGroups = [''ag''], IPBlocks = []\<rparr>,
       To = \<lparr>AddressGroups = [], IPBlocks = []\<rparr>,
       Services = Some [\<lparr>svc_Protocol = Some ''TCP'', svc_Port = Some \<lparr>IntVal = 443, StrVal = []\<rparr>\<rparr>],
       Action = Some ''Allow''\<rparr>],
     AppliedToGroups = [''at'']\<rparr>"

definition example_actions :: "action list" where
  "example_actions = [add_addr_group, Completes 0 None, Receives 0, Completes 0 None, Receives 0,
     add_group, Completes 0 None, Receives 0, Watch NetworkPolicyWatcher Added (NetworkPolicyObject example_policy)]"

definition example_resource :: CloudResource where
  "example_resource = \<lparr>rsc_Type = ''VirtualMachine'', rsc_Name = \<lparr>id_Name = ''i-a'', id_Vpc = ''vpc''\<rparr>\<rparr>"

definition example_impl :: "string \<Rightarrow> securityGroupState \<Rightarrow> securityGroupImpl" where
  "example_impl n st = \<lparr>members = [example_resource], sg_id = \<lparr>id_Name = n, id_Vpc = ''vpc''\<rparr>, sg_state = st,
     deletePending = False, status = None, retryOp = None, retryInProgress = False\<rparr>"

definition example_rule :: IngressRule where
  "example_rule = \<lparr>FromPort = Some 443, FromSrcIP = [],
     FromSecurityGroups = [\<lparr>id_Name = ''ag'', id_Vpc = ''vpc''\<rparr>], in_Protocol = Some 6\<rparr>"

definition example_requests :: "issued list" where
  "example_requests =
     (let ag = \<lparr>id_Name = ''ag'', id_Vpc = ''vpc''\<rparr>; at = \<lparr>id_Name = ''at'', id_Vpc = ''vpc''\<rparr>
      in [\<lparr>iss_sg = AddrSG 0, iss_req = CreateSecurityGroup ag True,
            iss_impl = example_impl ''ag'' securityGroupStateInit, iss_synced = True\<rparr>,
          \<lparr>iss_sg = AddrSG 0, iss_req = UpdateSecurityGroupMembers ag [example_resource] True,
            iss_impl = example_impl ''ag'' securityGroupStateCreated, iss_synced = True\<rparr>,
          \<lparr>iss_sg = AppliedToSG 1, iss_req = CreateSecurityGroup at False,
            iss_impl = example_impl ''at'' securityGroupStateInit, iss_synced = True\<rparr>,
          \<lparr>iss_sg = AppliedToSG 1, iss_req = UpdateSecurityGroupRules at [example_rule] [],
            iss_impl = example_impl ''at'' securityGroupStateCreated, iss_synced = True\<rparr>])"

definition example_state :: "list_indexer NetworkPolicyReconciler" where
  "example_state = synced\<lparr>
     networkPolicyIndexer := [(''ns/p'', 3, [(''AddressGrp'', [''ag'']), (''AppliedToGrp'', [''at''])])],
     addrSGIndexer := [(''ag/vpc'', 0, [(''GroupID'', [''ag''])])],
     appliedToSGIndexer := [(''at/vpc'', 1, [(''GroupID'', [''at''])])],
     cloudResourceNPTrackerIndexer := [(''VirtualMachine/i-a/vpc'', 2, [(''AppliedToGrp'', [''at/vpc''])])],
     addr_heap := [(0, securityGroupImpl.extend (example_impl ''ag'' securityGroupStateCreated)
       (addrSecurityGroup.fields []))],
     applied_heap := [(1, securityGroupImpl.extend (example_impl ''at'' securityGroupStateCreated)
       (appliedToSecurityGroup.fields False False))],
     policy_heap := [(3, NetworkPolicy.extend example_policy (networkPolicy.fields [example_rule] [] True))],
     tracker_heap := [(2, \<lparr>cloudResource = example_resource, dirty = Some True,
       appliedToSGs = [(''at/vpc'', 1)], prevAppliedToSGs = []\<rparr>)],
     next_ptr := 4,
     calls := [\<lparr>call_sg = AppliedToSG 1, call_req = iss_req (last example_requests),
       call_op = Some securityGroupOperationUpdateRules\<rparr>],
     requests := example_requests\<rparr>"

lemma run_example: "run_actions example_env example_actions synced = example_state"
  by code_simp

lemma reachable_example: "reachable list_Indexer start example_state"
  using reachable_actions [of example_env start synced example_actions] reachable_synced
  by (simp add: run_example) (simp add: example_env_def)

lemma example_order: "is_order (rng example_env)"
  by (simp add: example_env_def is_order_in_order)




end
