(* ===== verification/Np_Findings.thy ===== *)
theory Np_Findings
  imports Np_Example
begin

text \<open>
  Runs of the controller that end where they should not, from the synchronized state of
  \<open>Np_Example\<close>.
\<close>

text \<open>
  The last member of an address group is removed and the cloud rejects the update. The goroutine
  reports the outcome as the clearing of members, and the retry of that operation asserts that the
  group is an applied-to group, which ends the controller.
\<close>

theorem clear_members_retry_panics:
  "panicked (run_actions example_env
     [add_addr_group, Completes 0 None, Receives 0, Completes 0 None, Receives 0,
      Watch AddrGroupWatcher Modified (AddressGroupPatch ''ag'' [] [example_member]),
      Completes 0 (Some (Err ''throttled'')), Receives 0, Ticks False] synced)"
  by code_simp

text \<open>
  A group whose creation failed is deleted. The deletion leaves an entry in the queue of pending
  deletions that nothing removes, so when the group is added again it is never created: there is
  no security group and no request beyond the first.
\<close>

theorem deleted_group_never_comes_back:
  "(let r = run_actions example_env
      [add_group, Completes 0 (Some (Err ''quota'')), Receives 0,
       Watch AppliedToGroupWatcher Deleted (AppliedToGroup ''at'' []), add_group, Ticks False] synced
    in map iss_req (requests r) = [CreateSecurityGroup \<lparr>id_Name = ''at'', id_Vpc = ''vpc''\<rparr> False] \<and>
       appliedToSGIndexer r = [] \<and> Queue_Has PendingDeleteGroups ''at'' r \<and> calls r = [] \<and> \<not> panicked r)"
  by code_simp

text \<open>
  A group waits for the deletion of its previous security group while a member that is not an
  external entity is added to it. The members are kept by the name of their external entity, and
  the missing one is dereferenced.
\<close>

theorem pending_member_without_entity_panics:
  "panicked (run_actions example_env
     [add_group, Completes 0 None, Receives 0,
      Watch AppliedToGroupWatcher Deleted (AppliedToGroup ''at'' []),
      Watch AppliedToGroupWatcher Added (AppliedToGroup ''at'' [\<lparr>gm_ExternalEntity = None\<rparr>])] synced)"
  by code_simp

end
