(* ===== verification/Azure_Util.thy ===== *)
theory Azure_Util
  imports Security_Group
begin

text \<open>
  Helpers of the Azure plug-in (\<^verbatim>\<open>pkg/cloud-provider/cloudapi/azure/azure_utils.go\<close>): the fields of
  a resource identifier, the quoted lists of the resource graph queries and the union of sets. The
  verb \<^verbatim>\<open>%q\<close> is that of ASCII text: bytes above 127 are left as they are.
\<close>

section \<open>Quoting\<close>

definition hex_digit :: "nat \<Rightarrow> char" where
  "hex_digit d = (if d < 10 then char_of (48 + d) else char_of (87 + d))"

definition backslash :: char where
  "backslash = char_of (92 :: nat)"

definition double_quote :: char where
  "double_quote = char_of (34 :: nat)"

definition quote_char :: "char \<Rightarrow> string" where
  "quote_char c = (let n = (of_char c :: nat) in
     if n = 34 \<or> n = 92 then [backslash, c]
     else if n \<ge> 32 \<and> n \<noteq> 127 then [c]
     else if n = 7 then [backslash, CHR ''a''] else if n = 8 then [backslash, CHR ''b'']
     else if n = 9 then [backslash, CHR ''t''] else if n = 10 then [backslash, CHR ''n'']
     else if n = 11 then [backslash, CHR ''v''] else if n = 12 then [backslash, CHR ''f'']
     else if n = 13 then [backslash, CHR ''r'']
     else [backslash, CHR ''x'', hex_digit (n div 16), hex_digit (n mod 16)])"

definition Quote :: "string \<Rightarrow> string" where
  "Quote s = [double_quote] @ concat (map quote_char s) @ [double_quote]"

text \<open>A list of strings under \<^verbatim>\<open>%q\<close>.\<close>

definition Quote_list :: "string list \<Rightarrow> string" where
  "Quote_list ss = ''['' @ Join (map Quote ss) '' '' @ '']''"

section \<open>Resource identifiers\<close>

text \<open>The result is the subscription, the resource group and the name of the resource.\<close>

definition extractFieldsFromAzureResourceID :: "string \<Rightarrow> go_error + string \<times> string \<times> string" where
  "extractFieldsFromAzureResourceID resourceID =
     (let tokens = Split (Quote resourceID) (CHR ''/'');
          fields = concat (map (\<lambda>token. let str1 = Trim token [double_quote]
            in if length str1 > 0 then [ToLower str1] else []) tokens)
      in if length fields < 8
         then Inl (Err (''not a valid azure resource id format ('' @ resourceID @ '')''))
         else Inr (fields ! 1, fields ! 3, fields ! 7))"

definition convertStrSliceToLowercaseCommaSeparatedStr :: "string list \<Rightarrow> string" where
  "convertStrSliceToLowercaseCommaSeparatedStr strSlice =
     (let lowerCase = concat (map (\<lambda>str. if length str > 0 then [ToLower str] else []) strSlice)
      in if lowerCase = [] then []
         else Trim (Join (Split (Quote_list lowerCase) (CHR '' '')) '', '') ''[]'')"

definition mergeSet :: "('k, unit) gomap list \<Rightarrow> ('k, unit) gomap" where
  "mergeSet ms = fold (\<lambda>m result. fold (\<lambda>(k, v). put k v) m result) ms []"

lemma keys_mergeSet: "keys (mergeSet ms) = (\<Union>m \<in> set ms. keys m)"
proof -
  have put: "keys (fold (\<lambda>(k, v). put k v) m r) = keys r \<union> keys m" for m :: "('k, unit) gomap" and r
    by (induction m arbitrary: r) auto
  have "keys (fold (\<lambda>m result. fold (\<lambda>(k, v). put k v) m result) ms r) = keys r \<union> (\<Union>m \<in> set ms. keys m)" for r
    by (induction ms arbitrary: r) (auto simp: put)
  then show ?thesis by (simp add: mergeSet_def)
qed

section \<open>Fields of well-formed identifiers\<close>

text \<open>A token of an identifier: printable text without slashes, quotes and backslashes.\<close>

definition plain_token :: "string \<Rightarrow> bool" where
  "plain_token t \<longleftrightarrow> t \<noteq> [] \<and>
     (\<forall>c \<in> set t. let n = (of_char c :: nat) in n \<ge> 32 \<and> n \<notin> {34, 47, 92, 127})"

lemma plain_no_slash: "plain_token t \<Longrightarrow> CHR ''/'' \<notin> set t"
  by (force simp: plain_token_def Let_def)

lemma slash_not_quote: "CHR ''/'' \<noteq> double_quote"
  by code_simp

lemma quote_plain: "plain_token t \<Longrightarrow> concat (map quote_char t) = t"
  using concat_singletons [of t quote_char "\<lambda>c. c"] by (auto simp: plain_token_def quote_char_def Let_def)

lemma trim_plain:
  assumes "plain_token t"
  shows "Trim t [double_quote] = t"
proof -
  have no: "c \<noteq> double_quote" if "c \<in> set t" for c
    using assms that by (auto simp: plain_token_def double_quote_def Let_def)
  have "dropWhile (\<lambda>c. c \<in> set [double_quote]) xs = xs" if "set xs \<subseteq> set t" for xs
    using no that by (cases xs) auto
  then show ?thesis by (simp add: Trim_def)
qed

lemma split_join:
  "\<forall>t \<in> set ts. sep \<notin> set t \<Longrightarrow> ts \<noteq> [] \<Longrightarrow> sep \<notin> set u \<Longrightarrow>
    Split (Join ts [sep] @ u) sep = butlast ts @ [last ts @ u]"
  by (induction ts rule: induct_list012) (auto simp: split_no_sep split_append)

definition token_fields :: "string \<Rightarrow> string list" where
  "token_fields token = (let str1 = Trim token [double_quote] in if length str1 > 0 then [ToLower str1] else [])"

lemma token_fields_plain:
  assumes "plain_token t"
  shows "token_fields t = [ToLower t]" "token_fields (t @ [double_quote]) = [ToLower t]"
proof -
  have "hd t \<noteq> double_quote" "t \<noteq> []"
    using assms by (cases t; auto simp: plain_token_def double_quote_def Let_def)+
  then have "Trim (t @ [double_quote]) [double_quote] = Trim t [double_quote]"
    by (cases t) (simp_all add: Trim_def)
  with trim_plain [OF assms] \<open>t \<noteq> []\<close>
  show "token_fields t = [ToLower t]" "token_fields (t @ [double_quote]) = [ToLower t]"
    by (simp_all add: token_fields_def)
qed

lemma extract_token_fields:
  "extractFieldsFromAzureResourceID i =
    (let fields = concat (map token_fields (Split (Quote i) (CHR ''/'')))
     in if length fields < 8 then Inl (Err (''not a valid azure resource id format ('' @ i @ '')''))
        else Inr (fields ! 1, fields ! 3, fields ! 7))"
  unfolding extractFieldsFromAzureResourceID_def token_fields_def [abs_def] by (simp add: Let_def)

lemma quote_join:
  "\<forall>t \<in> set ts. plain_token t \<Longrightarrow> concat (map quote_char (Join ts ''/'')) = Join ts ''/''"
proof (induction ts rule: induct_list012)
  case (3 s t ts)
  have "quote_char (CHR ''/'') = ''/''" by (simp add: quote_char_def Let_def)
  with 3 show ?case by (simp add: quote_plain)
qed (simp_all add: quote_plain)

text \<open>
  C36: the fields of a resource identifier are read as they were written. For an identifier made
  of a slash before each of its tokens, the second, fourth and eighth token are returned in lower
  case as subscription, resource group and name; an identifier of fewer than eight tokens is
  rejected with an error that names it.
\<close>

theorem extractFields_tokens:
  assumes "ts \<noteq> []" "\<forall>t \<in> set ts. plain_token t"
  shows "extractFieldsFromAzureResourceID (''/'' @ Join ts ''/'') =
    (if length ts < 8 then Inl (Err (''not a valid azure resource id format (/'' @ Join ts ''/'' @ '')''))
     else Inr (ToLower (ts ! 1), ToLower (ts ! 3), ToLower (ts ! 7)))"
proof -
  have sep: "\<forall>t \<in> set ts. CHR ''/'' \<notin> set t" "CHR ''/'' \<notin> set [double_quote]"
    using assms(2) plain_no_slash by (auto simp: slash_not_quote)
  have "quote_char (CHR ''/'') = ''/''" by (simp add: quote_char_def Let_def)
  then have "Quote (''/'' @ Join ts ''/'') = [double_quote] @ CHR ''/'' # Join ts ''/'' @ [double_quote]"
    using assms(2) by (simp add: Quote_def quote_join)
  then have "Split (Quote (''/'' @ Join ts ''/'')) (CHR ''/'') =
      [double_quote] # butlast ts @ [last ts @ [double_quote]]"
    using sep split_join [OF sep(1) assms(1) sep(2)] by (simp add: split_append del: append.simps(2))
  moreover have "token_fields [double_quote] = []" by (simp add: token_fields_def Trim_def)
  moreover have "concat (map token_fields (butlast ts)) = map ToLower (butlast ts)"
    using assms(2) by (auto intro: concat_singletons token_fields_plain dest: in_set_butlastD)
  moreover have "token_fields (last ts @ [double_quote]) = [ToLower (last ts)]"
    using assms by (simp add: token_fields_plain)
  ultimately have "concat (map token_fields (Split (Quote (''/'' @ Join ts ''/'')) (CHR ''/''))) =
      map ToLower (butlast ts @ [last ts])"
    by simp
  then have "concat (map token_fields (Split (Quote (''/'' @ Join ts ''/'')) (CHR ''/''))) = map ToLower ts"
    using assms(1) by (metis append_butlast_last_id)
  then show ?thesis by (simp add: extract_token_fields)
qed

theorem extractFields_tokens_witness:
  "extractFieldsFromAzureResourceID
     ''/subscriptions/S1/resourceGroups/Rg/providers/Microsoft.Network/virtualNetworks/Vnet'' =
   Inr (''s1'', ''rg'', ''vnet'')"
proof -
  have lower: "ToLower ''S1'' = ''s1''" "ToLower ''Rg'' = ''rg''" "ToLower ''Vnet'' = ''vnet''"
    by code_simp+
  show ?thesis
    using extractFields_tokens [of "[''subscriptions'', ''S1'', ''resourceGroups'', ''Rg'', ''providers'',
      ''Microsoft.Network'', ''virtualNetworks'', ''Vnet'']"]
    by (simp add: plain_token_def lower)
qed

end
