(* ===== verification/Cloud_Webhook.thy ===== *)
theory Cloud_Webhook
  imports Security_Group
begin

text \<open>
  The custom resources of the user (\<^verbatim>\<open>apis/crd/v1alpha1\<close>): accounts and selectors of virtual
  machines, with the admission webhooks that complete and check them. The Kubernetes client, the
  decoding of a secret's JSON text and the list of AWS regions are parameters. A nil and an empty list of
  selectors mean the same to the code and are not told apart.
\<close>

section \<open>Resources\<close>

record EntityMatch =
  MatchName :: string
  MatchID :: string

record VirtualMachineSelector =
  VpcMatch :: "EntityMatch option"
  VMMatch :: "EntityMatch list"

record CloudEntitySelector =
  sel_Name :: string
  sel_Namespace :: string
  OwnerReferences :: "string list"
  AccountName :: string
  VMSelector :: "VirtualMachineSelector list"

datatype CloudProvider = AzureCloudProvider | AWSCloudProvider

record SecretReference =
  sec_Name :: string
  sec_Namespace :: string
  sec_Key :: string

record AccountConfig =
  SecretRef :: "SecretReference option"
  Region :: string

record CloudProviderAccount =
  acc_Name :: string
  acc_Namespace :: string
  PollIntervalInSeconds :: "nat option"
  AWSConfig :: "AccountConfig option"
  AzureConfig :: "AccountConfig option"

record AwsAccountCredential =
  AccessKeyID :: string
  AccessKeySecret :: string
  RoleArn :: string
  ExternalID :: string

record AzureAccountCredential =
  SubscriptionID :: string
  ClientID :: string
  TenantID :: string
  ClientKey :: string

section \<open>Surroundings\<close>

record webhook_env =
  Get_Account :: "NamespacedName \<Rightarrow> go_error + CloudProviderAccount"
  List_Selectors :: "string \<Rightarrow> go_error + CloudEntitySelector list"
  GetControllerOf :: "CloudEntitySelector \<Rightarrow> string option"
  SetControllerReference :: "CloudProviderAccount \<Rightarrow> CloudEntitySelector \<Rightarrow> go_error + CloudEntitySelector"
  Get_Secret :: "NamespacedName \<Rightarrow> go_error + (string, string) gomap"
  aws_credential :: "string \<Rightarrow> go_error + AwsAccountCredential"
  azure_credential :: "string \<Rightarrow> go_error + AzureAccountCredential"
  aws_regions :: "string list"

definition GetAccountProviderType :: "CloudProviderAccount \<Rightarrow> go_error + CloudProvider" where
  "GetAccountProviderType r =
     (if AWSConfig r \<noteq> None then Inr AWSCloudProvider
      else if AzureConfig r \<noteq> None then Inr AzureCloudProvider
      else Inl (Err ''missing cloud provider config. Please add AWS or Azure Config''))"

section \<open>Selectors\<close>

definition lower_match :: "EntityMatch \<Rightarrow> EntityMatch" where
  "lower_match m = \<lparr>MatchName = ToLower (MatchName m), MatchID = ToLower (MatchID m)\<rparr>"

text \<open>
  The loop over the selectors of an Azure account lower-cases the network through its pointer. The
  inner loop assigns to its own copy of each machine match, which leaves the selector as it is.
\<close>

definition lower_vpc :: "VirtualMachineSelector \<Rightarrow> VirtualMachineSelector" where
  "lower_vpc m = m\<lparr>VpcMatch := map_option lower_match (VpcMatch m)\<rparr>"

definition selector_Default :: "webhook_env \<Rightarrow> CloudEntitySelector \<Rightarrow> CloudEntitySelector" where
  "selector_Default env r =
     (case Get_Account env \<lparr>nn_Namespace = sel_Namespace r, nn_Name = AccountName r\<rparr> of
        Inl _ \<Rightarrow> r
      | Inr ownerAccount \<Rightarrow> (case GetAccountProviderType ownerAccount of
          Inl _ \<Rightarrow> r
        | Inr cloudProviderType \<Rightarrow>
            let r' = (if cloudProviderType = AzureCloudProvider then r\<lparr>VMSelector := map lower_vpc (VMSelector r)\<rparr> else r)
            in if GetControllerOf env r = None
               then (case SetControllerReference env ownerAccount r' of Inl _ \<Rightarrow> r' | Inr r'' \<Rightarrow> r'')
               else r'))"

definition blank :: "string \<Rightarrow> bool" where
  "blank s \<longleftrightarrow> TrimSpace s = []"

definition both_set :: "EntityMatch \<Rightarrow> bool" where
  "both_set m \<longleftrightarrow> \<not> blank (MatchID m) \<and> \<not> blank (MatchName m)"

definition GetOwnerAccount :: "webhook_env \<Rightarrow> CloudEntitySelector \<Rightarrow> go_error + CloudProviderAccount" where
  "GetOwnerAccount env r = Get_Account env \<lparr>nn_Namespace = sel_Namespace r, nn_Name = AccountName r\<rparr>"

definition validateMatchSections :: "webhook_env \<Rightarrow> CloudEntitySelector \<Rightarrow> error" where
  "validateMatchSections env r =
     (if \<exists>m \<in> set (VMSelector r). (case VpcMatch m of None \<Rightarrow> False | Some v \<Rightarrow> both_set v) \<or> (\<exists>vm \<in> set (VMMatch m). both_set vm)
      then Some (Err ''matchID and matchName are not supported together, configure either matchID or matchName in an EntityMatch'')
      else case GetOwnerAccount env r of
        Inl err \<Rightarrow> Some err
      | Inr ownerAccount \<Rightarrow> (case GetAccountProviderType ownerAccount of
          Inl err \<Rightarrow> Some err
        | Inr cloudProviderType \<Rightarrow>
            if cloudProviderType = AzureCloudProvider
            then (if \<exists>m \<in> set (VMSelector r). case VpcMatch m of None \<Rightarrow> False | Some v \<Rightarrow> \<not> blank (MatchName v)
                  then Some (Err ''matchName is not supported in vpcMatch, use matchID instead of matchName'')
                  else None)
            else (if \<exists>m \<in> set (VMSelector r). case VpcMatch m of None \<Rightarrow> False
                    | Some v \<Rightarrow> \<not> blank (MatchName v) \<and> (\<exists>vm \<in> set (VMMatch m). \<not> blank (MatchID vm) \<or> \<not> blank (MatchName vm))
                  then Some (Err ''vpc matchName with either vm matchID or vm matchName is not supported, use vpc matchID instead of vpc matchName'')
                  else None)))"

definition validateNoOwnerConflict :: "webhook_env \<Rightarrow> CloudEntitySelector \<Rightarrow> error" where
  "validateNoOwnerConflict env r = (case List_Selectors env (sel_Namespace r) of
     Inl err \<Rightarrow> Some err
   | Inr items \<Rightarrow> (case find (\<lambda>item. TrimSpace (AccountName item) = TrimSpace (AccountName r)) items of
       None \<Rightarrow> None
     | Some item \<Rightarrow> Some (Err (''cloudentityselector '' @ sel_Namespace r @ ''/'' @ sel_Name item @ '' with owner as account '' @
         sel_Namespace r @ ''/'' @ AccountName r @
         '' already exists.(account in a namespace can be owner of only one cloudentityselector)''))))"

definition selector_ValidateCreate :: "webhook_env \<Rightarrow> CloudEntitySelector \<Rightarrow> error" where
  "selector_ValidateCreate env r =
     (if OwnerReferences r = [] then Some (Err (''owner account '' @ AccountName r @ '' not found''))
      else case validateNoOwnerConflict env r of
        Some err \<Rightarrow> Some err
      | None \<Rightarrow> validateMatchSections env r)"

definition selector_ValidateUpdate :: "webhook_env \<Rightarrow> CloudEntitySelector \<Rightarrow> CloudEntitySelector \<Rightarrow> error" where
  "selector_ValidateUpdate env r old =
     (let oldAccName = TrimSpace (AccountName old); newAccountName = TrimSpace (AccountName r)
      in if oldAccName \<noteq> newAccountName
         then Some (Err (''account name update not allowed (old:'' @ oldAccName @ '', new:'' @ newAccountName @ '')''))
         else validateMatchSections env r)"

definition selector_ValidateDelete :: "CloudEntitySelector \<Rightarrow> error" where
  "selector_ValidateDelete r = None"

section \<open>Accounts\<close>

definition MinPollInterval :: nat where [simp]: "MinPollInterval = 30"

definition account_Default :: "CloudProviderAccount \<Rightarrow> CloudProviderAccount" where
  "account_Default r = (if PollIntervalInSeconds r = None then r\<lparr>PollIntervalInSeconds := Some 60\<rparr> else r)"

text \<open>
  A missing reference to the secret and a key the secret does not have are dereferenced or asserted to
  be a string: the handler panics.
\<close>

definition read_secret :: "webhook_env \<Rightarrow> (string \<Rightarrow> go_error + 'c) \<Rightarrow> AccountConfig \<Rightarrow> (go_error + 'c) outcome" where
  "read_secret env decode config = (case SecretRef config of
     None \<Rightarrow> Panics
   | Some ref \<Rightarrow> (case Get_Secret env \<lparr>nn_Namespace = sec_Namespace ref, nn_Name = sec_Name ref\<rparr> of
       Inl err \<Rightarrow> Returns (Inl (Err (''unable to get secret: '' @ Error err)))
     | Inr data \<Rightarrow> (case map_of data (sec_Key ref) of
         None \<Rightarrow> Panics
       | Some v \<Rightarrow> Returns (decode v))))"

definition check_aws :: "string list \<Rightarrow> AccountConfig \<Rightarrow> AwsAccountCredential \<Rightarrow> error" where
  "check_aws regions config c =
     (if blank (RoleArn c) \<and> (blank (AccessKeyID c) \<or> blank (AccessKeySecret c))
      then Some (Err ''must specify either credentials or role arn, cannot both be empty'')
      else if blank (Region config) then Some (Err ''region cannot be blank or empty'')
      else if Region config \<notin> set regions
      then Some (Err (Region config @ '' not in supported regions ['' @ Join regions '' '' @ '']''))
      else None)"

definition check_azure :: "AccountConfig \<Rightarrow> AzureAccountCredential \<Rightarrow> error" where
  "check_azure config c =
     (if blank (SubscriptionID c) then Some (Err ''subscription id cannot be blank or empty'')
      else if blank (TenantID c) then Some (Err ''tenant id cannot be blank or empty'')
      else if blank (ClientID c) \<or> blank (ClientKey c)
      then Some (Err ''must specify either credentials or managed identity client id, cannot both be empty'')
      else if blank (Region config) then Some (Err ''region cannot be blank or empty'')
      else None)"

definition checked :: "('c \<Rightarrow> error) \<Rightarrow> (go_error + 'c) outcome \<Rightarrow> error outcome" where
  "checked check res = (case res of
     Panics \<Rightarrow> Panics
   | Hangs \<Rightarrow> Hangs
   | Returns (Inl err) \<Rightarrow> Returns (Some err)
   | Returns (Inr c) \<Rightarrow> Returns (check c))"

definition validateAWSAccount :: "webhook_env \<Rightarrow> CloudProviderAccount \<Rightarrow> error outcome" where
  "validateAWSAccount env r = (case AWSConfig r of
     None \<Rightarrow> Panics
   | Some config \<Rightarrow> checked (check_aws (aws_regions env) config) (read_secret env (aws_credential env) config))"

definition validateAzureAccount :: "webhook_env \<Rightarrow> CloudProviderAccount \<Rightarrow> error outcome" where
  "validateAzureAccount env r = (case AzureConfig r of
     None \<Rightarrow> Panics
   | Some config \<Rightarrow> checked (check_azure config) (read_secret env (azure_credential env) config))"

definition check_interval :: "CloudProviderAccount \<Rightarrow> error outcome" where
  "check_interval r = (case PollIntervalInSeconds r of
     None \<Rightarrow> Panics
   | Some n \<Rightarrow> Returns (if n < MinPollInterval
       then Some (Err ''pollIntervalInSeconds should be >= 30. If not specified, defaults to 60'') else None))"

definition account_ValidateCreate :: "webhook_env \<Rightarrow> CloudProviderAccount \<Rightarrow> error outcome" where
  "account_ValidateCreate env r = (case GetAccountProviderType r of
     Inl err \<Rightarrow> Returns (Some err)
   | Inr cloudProviderType \<Rightarrow>
       (case (case cloudProviderType of AWSCloudProvider \<Rightarrow> validateAWSAccount env r
                                      | AzureCloudProvider \<Rightarrow> validateAzureAccount env r) of
          Returns None \<Rightarrow> check_interval r
        | res \<Rightarrow> res))"

definition account_ValidateUpdate :: "webhook_env \<Rightarrow> CloudProviderAccount \<Rightarrow> CloudProviderAccount \<Rightarrow> error outcome" where
  "account_ValidateUpdate env r old = account_ValidateCreate env r"

definition account_ValidateDelete :: "CloudProviderAccount \<Rightarrow> error" where
  "account_ValidateDelete r = None"

section \<open>What the account webhook admits\<close>

text \<open>The credential an account's secret holds, when it can be read and decoded.\<close>

definition has_credential :: "webhook_env \<Rightarrow> (string \<Rightarrow> go_error + 'c) \<Rightarrow> AccountConfig \<Rightarrow> 'c \<Rightarrow> bool" where
  "has_credential env decode config c \<longleftrightarrow> (\<exists>ref data v.
     SecretRef config = Some ref \<and> Get_Secret env \<lparr>nn_Namespace = sec_Namespace ref, nn_Name = sec_Name ref\<rparr> = Inr data \<and>
     map_of data (sec_Key ref) = Some v \<and> decode v = Inr c)"

definition secret_unreadable :: "webhook_env \<Rightarrow> AccountConfig \<Rightarrow> bool" where
  "secret_unreadable env config \<longleftrightarrow> SecretRef config = None \<or> (\<exists>ref data.
     SecretRef config = Some ref \<and> Get_Secret env \<lparr>nn_Namespace = sec_Namespace ref, nn_Name = sec_Name ref\<rparr> = Inr data \<and>
     map_of data (sec_Key ref) = None)"

lemma read_secret_ok: "read_secret env decode config = Returns (Inr c) \<longleftrightarrow> has_credential env decode config c"
  by (auto simp: read_secret_def has_credential_def split: option.splits sum.splits)

lemma read_secret_panics: "read_secret env decode config = Panics \<longleftrightarrow> secret_unreadable env config"
  by (auto simp: read_secret_def secret_unreadable_def split: option.splits sum.splits)

lemma read_secret_returns [simp]: "read_secret env decode config \<noteq> Hangs"
  by (auto simp: read_secret_def split: option.splits sum.splits)

lemma checked_ok: "checked check res = Returns None \<longleftrightarrow> (\<exists>c. res = Returns (Inr c) \<and> check c = None)"
  by (auto simp: checked_def split: outcome.splits sum.splits)

lemma checked_panics: "checked check res = Panics \<longleftrightarrow> res = Panics"
  by (auto simp: checked_def split: outcome.splits sum.splits)

lemma check_aws_ok: "check_aws regions config c = None \<longleftrightarrow>
    (\<not> blank (RoleArn c) \<or> \<not> blank (AccessKeyID c) \<and> \<not> blank (AccessKeySecret c)) \<and>
    \<not> blank (Region config) \<and> Region config \<in> set regions"
  by (auto simp: check_aws_def)

lemma check_azure_ok: "check_azure config c = None \<longleftrightarrow>
    \<not> blank (SubscriptionID c) \<and> \<not> blank (TenantID c) \<and> \<not> blank (ClientID c) \<and> \<not> blank (ClientKey c) \<and>
    \<not> blank (Region config)"
  by (auto simp: check_azure_def)

definition interval_of :: "CloudProviderAccount \<Rightarrow> nat" where
  "interval_of r = (case PollIntervalInSeconds r of None \<Rightarrow> 60 | Some n \<Rightarrow> n)"

lemma Default_interval:
  "check_interval (account_Default r) = Returns None \<longleftrightarrow> 30 \<le> interval_of r"
  "check_interval (account_Default r) \<noteq> Panics"
  by (auto simp: check_interval_def account_Default_def interval_of_def split: option.splits)

lemma Default_config [simp]:
  "AWSConfig (account_Default r) = AWSConfig r" "AzureConfig (account_Default r) = AzureConfig r"
  by (simp_all add: account_Default_def)

lemma Default_provider [simp]: "GetAccountProviderType (account_Default r) = GetAccountProviderType r"
  by (simp add: GetAccountProviderType_def)

lemma ValidateCreate_after:
  assumes "GetAccountProviderType r = Inr p"
  shows "account_ValidateCreate env (account_Default r) = Returns None \<longleftrightarrow>
      (case p of AWSCloudProvider \<Rightarrow> validateAWSAccount env r | AzureCloudProvider \<Rightarrow> validateAzureAccount env r) = Returns None \<and>
      30 \<le> interval_of r"
    and "account_ValidateCreate env (account_Default r) = Panics \<longleftrightarrow>
      (case p of AWSCloudProvider \<Rightarrow> validateAWSAccount env r | AzureCloudProvider \<Rightarrow> validateAzureAccount env r) = Panics"
proof -
  have same: "validateAWSAccount env (account_Default r) = validateAWSAccount env r"
    "validateAzureAccount env (account_Default r) = validateAzureAccount env r"
    by (simp_all add: validateAWSAccount_def validateAzureAccount_def)
  show "account_ValidateCreate env (account_Default r) = Returns None \<longleftrightarrow>
      (case p of AWSCloudProvider \<Rightarrow> validateAWSAccount env r | AzureCloudProvider \<Rightarrow> validateAzureAccount env r) = Returns None \<and>
      30 \<le> interval_of r"
    by (cases p) (auto simp: account_ValidateCreate_def same assms Default_interval split: outcome.splits option.splits)
  show "account_ValidateCreate env (account_Default r) = Panics \<longleftrightarrow>
      (case p of AWSCloudProvider \<Rightarrow> validateAWSAccount env r | AzureCloudProvider \<Rightarrow> validateAzureAccount env r) = Panics"
    by (cases p) (auto simp: account_ValidateCreate_def same assms Default_interval split: outcome.splits option.splits)
qed

text \<open>
  C24: Creating an account through the two webhooks succeeds exactly when its secret holds a
  complete credential of its provider, its region is given (for AWS, a known one) and it polls at most
  every 30 seconds, 60 being the default; an AWS configuration wins over an Azure one. The
  validating webhook panics exactly when the reference to the secret is missing or the secret does not
  have the key.
\<close>

theorem account_create_admission:
  "(account_ValidateCreate env (account_Default r) = Returns None) =
     (30 \<le> interval_of r \<and>
      (case (AWSConfig r, AzureConfig r) of
         (Some config, _) \<Rightarrow> (\<exists>c. has_credential env (aws_credential env) config c \<and>
            (\<not> blank (RoleArn c) \<or> \<not> blank (AccessKeyID c) \<and> \<not> blank (AccessKeySecret c)) \<and>
            \<not> blank (Region config) \<and> Region config \<in> set (aws_regions env))
       | (None, Some config) \<Rightarrow> (\<exists>c. has_credential env (azure_credential env) config c \<and>
            \<not> blank (SubscriptionID c) \<and> \<not> blank (TenantID c) \<and> \<not> blank (ClientID c) \<and> \<not> blank (ClientKey c) \<and>
            \<not> blank (Region config))
       | (None, None) \<Rightarrow> False)) \<and>
   (account_ValidateCreate env (account_Default r) = Panics) =
     (case (AWSConfig r, AzureConfig r) of
        (Some config, _) \<Rightarrow> secret_unreadable env config
      | (None, Some config) \<Rightarrow> secret_unreadable env config
      | (None, None) \<Rightarrow> False)"
proof (cases "GetAccountProviderType r")
  case (Inl e)
  then show ?thesis
    by (simp add: account_ValidateCreate_def) (auto simp: GetAccountProviderType_def split: if_splits option.splits)
next
  case (Inr p)
  show ?thesis
    unfolding ValidateCreate_after [OF Inr] using Inr
    by (auto simp: GetAccountProviderType_def validateAWSAccount_def validateAzureAccount_def checked_ok checked_panics
        read_secret_ok read_secret_panics check_aws_ok check_azure_ok split: if_splits option.splits)
qed

definition example_account :: CloudProviderAccount where
  "example_account = \<lparr>acc_Name = ''a'', acc_Namespace = ''ns'', PollIntervalInSeconds = None,
     AWSConfig = Some \<lparr>SecretRef = Some \<lparr>sec_Name = ''s'', sec_Namespace = ''ns'', sec_Key = ''k''\<rparr>, Region = ''us-east-1''\<rparr>,
     AzureConfig = None\<rparr>"

definition example_webhook_env :: webhook_env where
  "example_webhook_env = \<lparr>Get_Account = (\<lambda>_. Inr example_account), List_Selectors = (\<lambda>_. Inr []),
     GetControllerOf = (\<lambda>_. None), SetControllerReference = (\<lambda>_ r. Inr r),
     Get_Secret = (\<lambda>_. Inr [(''k'', ''v'')]),
     aws_credential = (\<lambda>_. Inr \<lparr>AccessKeyID = ''id'', AccessKeySecret = ''key'', RoleArn = [], ExternalID = []\<rparr>),
     azure_credential = (\<lambda>_. Inl (Err [])), aws_regions = [''us-east-1'']\<rparr>"

theorem account_create_admission_witness:
  "account_ValidateCreate example_webhook_env (account_Default example_account) = Returns None"
proof -
  have "\<not> blank ''id''" "\<not> blank ''key''" "\<not> blank ''us-east-1''" by code_simp+
  then show ?thesis
    using account_create_admission [of example_webhook_env example_account, THEN conjunct1, THEN iffD2]
    by (simp add: example_account_def example_webhook_env_def interval_of_def has_credential_def)
qed

text \<open>
  The defaulting webhook is registered for creation only, so an update that leaves the poll interval
  out reaches the validation without one.
\<close>

lemma update_without_interval_panics:
  assumes "account_ValidateUpdate env (r\<lparr>PollIntervalInSeconds := Some n\<rparr>) old = Returns None"
  shows "account_ValidateUpdate env (r\<lparr>PollIntervalInSeconds := None\<rparr>) old = Panics"
  using assms
  by (auto simp: account_ValidateUpdate_def account_ValidateCreate_def GetAccountProviderType_def validateAWSAccount_def
      validateAzureAccount_def check_interval_def split: if_splits option.splits outcome.splits sum.splits)

text \<open>The defaulting webhook of selectors leaves the case of the machine matches as the user wrote it.\<close>

lemma Default_keeps_VMMatch:
  assumes "GetControllerOf env r \<noteq> None"
  shows "map VMMatch (VMSelector (selector_Default env r)) = map VMMatch (VMSelector r)"
  using assms by (auto simp: selector_Default_def lower_vpc_def split: sum.splits)

end
