(* ===== verification/Selector_Match.thy ===== *)
theory Selector_Match
  imports Cloud_Webhook "HOL-Library.List_Lexorder" "HOL-Library.Char_ord"
begin

text \<open>
  Selection of virtual machines. The first part states what a selector means, as the comments of
  \<^verbatim>\<open>apis/crd/v1alpha1/cloudentityselector_types.go\<close> document it, over a view of one machine; the second
  part is the grouping of the matches that \<^verbatim>\<open>buildEc2Filters\<close> (AWS) and \<^verbatim>\<open>buildQueries\<close> (Azure) share, with
  the contract both keep as a locale.
\<close>

section \<open>Meaning of a selector\<close>

text \<open>Which values of a match fit a machine depends on the provider: AWS takes patterns, Azure ignores case.\<close>

record machine =
  in_vpc :: "string \<Rightarrow> bool"
  vpc_named :: "string \<Rightarrow> bool"
  has_id :: "string \<Rightarrow> bool"
  has_name :: "string \<Rightarrow> bool"

definition entity_matches :: "(string \<Rightarrow> bool) \<Rightarrow> (string \<Rightarrow> bool) \<Rightarrow> EntityMatch \<Rightarrow> bool" where
  "entity_matches by_id by_name e \<longleftrightarrow> (\<not> blank (MatchID e) \<longrightarrow> by_id (MatchID e)) \<and> (\<not> blank (MatchName e) \<longrightarrow> by_name (MatchName e))"

definition selects :: "machine \<Rightarrow> VirtualMachineSelector \<Rightarrow> bool" where
  "selects m s \<longleftrightarrow>
     (case VpcMatch s of None \<Rightarrow> True | Some v \<Rightarrow> entity_matches (in_vpc m) (vpc_named m) v) \<and>
     (VMMatch s = [] \<or> (\<exists>e \<in> set (VMMatch s). entity_matches (has_id m) (has_name m) e))"

definition no_empty_match :: "CloudEntitySelector \<Rightarrow> bool" where
  "no_empty_match sel \<longleftrightarrow> list_all (\<lambda>s. list_all (\<lambda>e. \<not> (blank (MatchID e) \<and> blank (MatchName e))) (VMMatch s)) (VMSelector sel)"

text \<open>A machine that every selector selects.\<close>

definition any_machine :: machine where
  "any_machine = \<lparr>in_vpc = (\<lambda>_. True), vpc_named = (\<lambda>_. True), has_id = (\<lambda>_. True), has_name = (\<lambda>_. True)\<rparr>"

lemma selects_any_machine: "selects any_machine s"
  by (cases "VMMatch s") (auto simp: selects_def any_machine_def entity_matches_def split: option.splits)

text \<open>The matches of a selector that the webhook admits, none of them empty.\<close>

definition plain_vm :: "EntityMatch \<Rightarrow> bool" where
  "plain_vm e \<longleftrightarrow> blank (MatchID e) \<noteq> blank (MatchName e)"

definition vpc_id :: "VirtualMachineSelector \<Rightarrow> string option" where
  "vpc_id s = (case VpcMatch s of None \<Rightarrow> None | Some v \<Rightarrow> if blank (MatchID v) then None else Some (MatchID v))"

definition vpc_name :: "VirtualMachineSelector \<Rightarrow> string option" where
  "vpc_name s = (case VpcMatch s of None \<Rightarrow> None | Some v \<Rightarrow> if blank (MatchName v) then None else Some (MatchName v))"

section \<open>Grouping of the matches\<close>

record match_groups =
  vpcIDsWithVpcIDOnlyMatches :: "(string, unit) gomap"
  vpcIDWithOtherMatches :: "VirtualMachineSelector list"
  vmIDOnlyMatches :: "EntityMatch list"
  vmNameOnlyMatches :: "EntityMatch list"
  vpcNameOnlyMatches :: "VirtualMachineSelector list"

definition no_matches :: match_groups where
  "no_matches = \<lparr>vpcIDsWithVpcIDOnlyMatches = [], vpcIDWithOtherMatches = [], vmIDOnlyMatches = [],
     vmNameOnlyMatches = [], vpcNameOnlyMatches = []\<rparr>"

text \<open>
  The inner loop over the machine matches of one selector. With a network the first match that is not
  empty ends it. Azure also counts the matches with both an identifier and a name, for the log.
\<close>

fun group_vm_matches :: "VirtualMachineSelector \<Rightarrow> EntityMatch list \<Rightarrow> match_groups \<Rightarrow> match_groups" where
  "group_vm_matches match [] g = g"
| "group_vm_matches match (vmmatch # vmmatches) g =
     (let isVMIDPresent = \<not> blank (MatchID vmmatch); isVMNamePresent = \<not> blank (MatchName vmmatch)
      in case vpc_id match of
           Some vpcID \<Rightarrow>
             if isVMIDPresent \<or> isVMNamePresent
             then (if has_key (vpcIDsWithVpcIDOnlyMatches g) vpcID then g
                   else g\<lparr>vpcIDWithOtherMatches := vpcIDWithOtherMatches g @ [match]\<rparr>)
             else group_vm_matches match vmmatches g
         | None \<Rightarrow>
             group_vm_matches match vmmatches
               (if isVMIDPresent \<and> \<not> isVMNamePresent then g\<lparr>vmIDOnlyMatches := vmIDOnlyMatches g @ [vmmatch]\<rparr>
                else if isVMNamePresent \<and> \<not> isVMIDPresent then g\<lparr>vmNameOnlyMatches := vmNameOnlyMatches g @ [vmmatch]\<rparr>
                else g))"

text \<open>The loop over the selectors; \<open>None\<close> is the early return that selects every machine.\<close>

fun group_matches ::
    "(VirtualMachineSelector \<Rightarrow> match_groups \<Rightarrow> match_groups option) \<Rightarrow> VirtualMachineSelector list \<Rightarrow> match_groups \<Rightarrow> match_groups option" where
  "group_matches one [] g = Some g"
| "group_matches one (match # matches) g = (case one match g of None \<Rightarrow> None | Some g' \<Rightarrow> group_matches one matches g')"

section \<open>Contract\<close>

definition wf_other :: "VirtualMachineSelector \<Rightarrow> bool" where
  "wf_other s \<longleftrightarrow> vpc_id s \<noteq> None \<and> vpc_name s = None \<and> VMMatch s \<noteq> [] \<and> (\<forall>e \<in> set (VMMatch s). plain_vm e)"

definition wf_groups :: "match_groups \<Rightarrow> bool" where
  "wf_groups g \<longleftrightarrow> list_all wf_other (vpcIDWithOtherMatches g) \<and> list_all (\<lambda>s. vpc_name s \<noteq> None) (vpcNameOnlyMatches g)"

definition groups_select :: "machine \<Rightarrow> match_groups \<Rightarrow> bool" where
  "groups_select m g \<longleftrightarrow>
     (\<exists>i \<in> keys (vpcIDsWithVpcIDOnlyMatches g). in_vpc m i) \<or>
     (\<exists>s \<in> set (vpcIDWithOtherMatches g). selects m s) \<or>
     (\<exists>e \<in> set (vmIDOnlyMatches g). has_id m (MatchID e)) \<or>
     (\<exists>e \<in> set (vmNameOnlyMatches g). has_name m (MatchName e)) \<or>
     (\<exists>s \<in> set (vpcNameOnlyMatches g). \<exists>n. vpc_name s = Some n \<and> vpc_named m n)"

locale selector_grouping =
  fixes one :: "VirtualMachineSelector \<Rightarrow> match_groups \<Rightarrow> match_groups option"
    and ok :: "VirtualMachineSelector \<Rightarrow> bool"
  assumes one_all: "ok s \<Longrightarrow> one s g = None \<Longrightarrow> selects m s"
    and one_some: "ok s \<Longrightarrow> one s g = Some g' \<Longrightarrow> groups_select m g' \<longleftrightarrow> groups_select m g \<or> selects m s"
    and one_wf: "ok s \<Longrightarrow> wf_groups g \<Longrightarrow> one s g = Some g' \<Longrightarrow> wf_groups g'"
begin

lemma group_all:
  assumes "list_all ok ss" "group_matches one ss g = None"
  shows "\<exists>s \<in> set ss. selects m s"
  using assms by (induction ss arbitrary: g) (auto split: option.splits dest: one_all)

lemma group_some:
  assumes "list_all ok ss" "group_matches one ss g = Some g'"
  shows "groups_select m g' \<longleftrightarrow> groups_select m g \<or> (\<exists>s \<in> set ss. selects m s)"
  using assms by (induction ss arbitrary: g) (auto split: option.splits dest: one_some)

lemma group_wf:
  assumes "list_all ok ss" "wf_groups g" "group_matches one ss g = Some g'"
  shows "wf_groups g'"
  using assms by (induction ss arbitrary: g) (auto split: option.splits dest: one_wf)

end

section \<open>The inner loop\<close>

lemma selects_plain:
  "selects m s \<longleftrightarrow> (\<forall>i. vpc_id s = Some i \<longrightarrow> in_vpc m i) \<and> (\<forall>n. vpc_name s = Some n \<longrightarrow> vpc_named m n) \<and>
     (VMMatch s = [] \<or> (\<exists>e \<in> set (VMMatch s). entity_matches (has_id m) (has_name m) e))"
  by (auto simp: selects_def vpc_id_def vpc_name_def entity_matches_def split: option.splits)

lemma plain_vm_matches:
  "plain_vm e \<Longrightarrow> entity_matches by_id by_name e \<longleftrightarrow> (if blank (MatchID e) then by_name (MatchName e) else by_id (MatchID e))"
  by (auto simp: plain_vm_def entity_matches_def)

lemma group_vm_no_vpc:
  assumes "vpc_id s = None" "\<forall>e \<in> set es. plain_vm e"
  shows "groups_select m (group_vm_matches s es g) \<longleftrightarrow>
      groups_select m g \<or> (\<exists>e \<in> set es. entity_matches (has_id m) (has_name m) e)"
    and "wf_groups (group_vm_matches s es g) \<longleftrightarrow> wf_groups g"
  using assms
proof (induction es arbitrary: g)
  case (Cons e es)
  { case 1
    then show ?case using Cons(1) by (auto simp: plain_vm_matches groups_select_def Let_def) (auto simp: plain_vm_def)
  next
    case 2
    then show ?case using Cons(2) by (auto simp: wf_groups_def Let_def)
  }
qed simp_all

lemma group_vm_vpc:
  assumes "vpc_id s = Some i" "plain_vm e"
  shows "group_vm_matches s (e # es) g =
    (if has_key (vpcIDsWithVpcIDOnlyMatches g) i then g else g\<lparr>vpcIDWithOtherMatches := vpcIDWithOtherMatches g @ [s]\<rparr>)"
  using assms by (auto simp: plain_vm_def)

lemma group_vm_selects:
  assumes "VMMatch s \<noteq> []" "\<forall>e \<in> set (VMMatch s). plain_vm e" "vpc_name s = None"
  shows "groups_select m (group_vm_matches s (VMMatch s) g) \<longleftrightarrow> groups_select m g \<or> selects m s"
    and "wf_groups g \<Longrightarrow> wf_groups (group_vm_matches s (VMMatch s) g)"
proof -
  obtain e es where Cons: "VMMatch s = e # es" using assms(1) by (cases "VMMatch s") auto
  then have vpc: "group_vm_matches s (VMMatch s) g = (if has_key (vpcIDsWithVpcIDOnlyMatches g) i then g
      else g\<lparr>vpcIDWithOtherMatches := vpcIDWithOtherMatches g @ [s]\<rparr>)" if "vpc_id s = Some i" for i
    using group_vm_vpc [OF that] assms(2) by simp
  show "groups_select m (group_vm_matches s (VMMatch s) g) \<longleftrightarrow> groups_select m g \<or> selects m s"
  proof (cases "vpc_id s")
    case None
    then show ?thesis using group_vm_no_vpc(1) [OF None assms(2)] assms(1,3) by (auto simp: selects_plain)
  next
    case (Some i)
    then show ?thesis
      using assms(3) by (auto simp: vpc groups_select_def selects_plain has_key_iff)
  qed
  show "wf_groups (group_vm_matches s (VMMatch s) g)" if "wf_groups g"
  proof (cases "vpc_id s")
    case None
    then show ?thesis using group_vm_no_vpc(2) [OF None assms(2)] that by simp
  next
    case (Some i)
    then show ?thesis using assms that by (auto simp: vpc wf_groups_def wf_other_def)
  qed
qed

end
