(* ===== verification/Azure_Query.thy ===== *)
theory Azure_Query
  imports Azure_Util Selector_Match
begin

text \<open>
  The queries of the resource graph: the query of virtual machines (\<^verbatim>\<open>azure_resourcegraph_vmTable.go\<close>), the one of
  network interfaces (\<^verbatim>\<open>azure_resource_graph_nwIntfTable.go\<close>) and the translation of a selector to queries
  (\<^verbatim>\<open>azure_query_helpers.go\<close>), all under \<^verbatim>\<open>pkg/cloud-provider/cloudapi/azure\<close>. A template is the tree of nodes that
  \<^verbatim>\<open>text/template\<close> parses from its constant text, which never fails.
\<close>

section \<open>Templates\<close>

datatype 'p template_node =
    Text string
  | Action "'p \<Rightarrow> string option"
  | If "'p \<Rightarrow> string option" "'p template_node list"

fun execute_node :: "'p \<Rightarrow> 'p template_node \<Rightarrow> string" where
  "execute_node p (Text s) = s"
| "execute_node p (Action f) = (case f p of None \<Rightarrow> ''<nil>'' | Some s \<Rightarrow> s)"
| "execute_node p (If f nodes) = (case f p of None \<Rightarrow> [] | Some _ \<Rightarrow> concat (map (execute_node p) nodes))"

definition Execute :: "'p template_node list \<Rightarrow> 'p \<Rightarrow> string" where
  "Execute nodes p = concat (map (execute_node p) nodes)"

record vmTableQueryParameters =
  qp_SubscriptionIDs :: "string option"
  qp_TenantIDs :: "string option"
  qp_Locations :: "string option"
  qp_VnetIDs :: "string option"
  qp_VMNames :: "string option"
  qp_VMIDs :: "string option"

record nwIntfTableQueryParameters =
  np_SubscriptionIDs :: "string option"
  np_TenantIDs :: "string option"
  np_Locations :: "string option"
  np_VnetIDs :: "string option"

definition vmsTableQueryTemplate :: "vmTableQueryParameters template_node list" where
  \<open>vmsTableQueryTemplate = [
     Text ''Resources| where type =~ 'microsoft.compute/virtualmachines'| extend subscriptionIdLowerCase = tolower(subscriptionId)'',
     If qp_SubscriptionIDs [Text '' | where subscriptionIdLowerCase in ('', Action qp_SubscriptionIDs, Text '') ''],
     Text ''| extend tenantIdLowerCase = tolower(tenantId)'',
     If qp_TenantIDs [Text '' | where tenantIdLowerCase in ('', Action qp_TenantIDs, Text '') ''],
     Text ''| extend locationLowerCase = tolower(location)'',
     If qp_Locations [Text '' | where locationLowerCase in ('', Action qp_Locations, Text '')''],
     Text ''| extend name = tolower(name)'',
     If qp_VMNames [Text '' | where name in ('', Action qp_VMNames, Text '')''], Text ''| extend id = tolower(id)'',
     If qp_VMIDs [Text '' | where id in ('', Action qp_VMIDs, Text '')''],
     Text ''| mvexpand nic = properties.networkProfile.networkInterfaces'',
     Text ''| extend nicId = tolower(tostring(nic.id))| join kind = innerunique ('', Text [CHR 0x09],
     Text ''Resources'', Text [CHR 0x09],
     Text (''| where type =~ 'microsoft.network/networkinterfaces'' @ [CHR 0x27]), Text [CHR 0x09],
     Text ''| extend macAddress = properties.macAddress'', Text [CHR 0x09],
     Text ''| mvexpand ipconfig = properties.ipConfigurations'', Text [CHR 0x09],
     Text ''| extend vnetIdArray = array_slice(split(ipconfig.properties.subnet.id, "/"), 0, 8)'', Text [CHR 0x09],
     Text ''| extend vnetId = tolower(strcat_array(vnetIdArray, "/"))'', Text [CHR 0x09],
     If qp_VnetIDs [Text '' '', Text [CHR 0x09], Text ''| where vnetId in ('', Action qp_VnetIDs, Text '') '', Text [CHR 0x09]],
     Text [CHR 0x09], Text ''| extend publicIpId = tolower(tostring(ipconfig.properties.publicIPAddress.id))'',
     Text [CHR 0x09], Text ''| extend nicPrivateIp = ipconfig.properties.privateIPAddress'', Text [CHR 0x09],
     Text ''| join kind = leftouter ('', Text [CHR 0x09, CHR 0x09], Text ''Resources'', Text [CHR 0x09, CHR 0x09],
     Text (''| where type =~ 'microsoft.network/publicipaddresses'' @ [CHR 0x27]), Text [CHR 0x09, CHR 0x09],
     Text ''| project publicIpId = tolower(id), nicPublicIp = properties.ipAddress'', Text [CHR 0x09],
     Text '') on publicIpId'', Text [CHR 0x09],
     Text ''| summarize nicTags = any(tags), macAddress = any(macAddress), vnetId = any(vnetId), nicPublicIps ='',
     Text '' make_list(nicPublicIp), nicPrivateIps = make_list(nicPrivateIp) by id, name'', Text [CHR 0x09],
     Text ''| project nicId = tolower(id), nicName = name, nicPublicIps, nicPrivateIps, vnetId, macAddress, nicTags) on nicId'',
     Text ''| extend networkInterfaceDetails = pack("id", nicId, "name", nicName, "macAddress", macAddress,'',
     Text '' "privateIps",nicPrivateIps, "publicIps", nicPublicIps, "tags", nicTags, "vnetId", vnetId)'',
     Text ''| summarize vnetId = any(vnetId), properties = make_bag(properties), tags = make_bag(tags), networkInterfaces'',
     Text '' = make_list(networkInterfaceDetails) by id, name'',
     Text ''| project id, name, properties, status=properties.extended.instanceView.powerState.code, networkInterfaces,'',
     Text '' tags, vnetId'']\<close>

definition nwtIntfTableQueryTemplate :: "nwIntfTableQueryParameters template_node list" where
  \<open>nwtIntfTableQueryTemplate = [
     Text ''Resources| where type =~ 'microsoft.network/networkinterfaces'| extend subscriptionIdLowerCase ='',
     Text '' tolower(subscriptionId)'',
     If np_SubscriptionIDs [Text '' | where subscriptionIdLowerCase in ('', Action np_SubscriptionIDs, Text '') ''],
     Text ''| extend tenantIdLowerCase = tolower(tenantId)'',
     If np_TenantIDs [Text '' | where tenantIdLowerCase in ('', Action np_TenantIDs, Text '') ''],
     Text ''| extend locationLowerCase = tolower(location)'',
     If np_Locations [Text '' | where locationLowerCase in ('', Action np_Locations, Text '')''],
     Text ''| extend virtualMachineID = properties.virtualMachine.id'',
     Text ''| extend networkSecurityGroupID = properties.networkSecurityGroup.id'',
     Text ''| mvexpand ipconfig = properties.ipConfigurations'',
     Text ''| extend applicationSecurityGroup = ipconfig.properties.applicationSecurityGroups'',
     Text ''| extend primary = ipconfig.properties.primary| where primary =~ 'true'| extend vnetIdArray ='',
     Text '' array_slice(split(ipconfig.properties.subnet.id, "/"), 0, 8)'',
     Text ''| extend vnetId = tolower(strcat_array(vnetIdArray, "/"))'',
     If np_VnetIDs [Text '' | where vnetId in ('', Action np_VnetIDs, Text '') ''],
     Text ''| mvexpand applicationSecurityGroup| extend appId = applicationSecurityGroup.id'',
     Text ''| summarize applicationSecurityGroupIDs=make_list(appId), tags=make_set(tags) by id, name,'',
     Text '' tostring(virtualMachineID), tostring(networkSecurityGroupID), tostring(vnetId)'']\<close>

definition buildVmsTableQueryWithParams :: "vmTableQueryParameters \<Rightarrow> go_error + string" where
  "buildVmsTableQueryWithParams queryParams = Inr (Execute vmsTableQueryTemplate queryParams)"

definition buildNwIntfTableQueryWithParams :: "nwIntfTableQueryParameters \<Rightarrow> go_error + string" where
  "buildNwIntfTableQueryWithParams queryParams = Inr (Execute nwtIntfTableQueryTemplate queryParams)"

section \<open>Queries\<close>

definition subscriptionIDsNotFoundErrorMsg :: string where "subscriptionIDsNotFoundErrorMsg = ''subscription ID(s) required for the query''"
definition tenantIDsNotFoundErrorMsg :: string where "tenantIDsNotFoundErrorMsg = ''tenant ID(s) required for the query''"
definition locationsNotFoundErrorMsg :: string where "locationsNotFoundErrorMsg = ''location/region(s) required for the query''"
definition vnetIDsNotFoundErrorMsg :: string where "vnetIDsNotFoundErrorMsg = ''vnet ID(s) required for the query''"
definition vmIDsNotFoundErrorMsg :: string where "vmIDsNotFoundErrorMsg = ''vm ID(s) required for the query''"
definition vmNamesNotFoundErrorMsg :: string where "vmNamesNotFoundErrorMsg = ''vm name(s) required for the query''"
definition vmIDorNameNotFoundErrorMsg :: string where "vmIDorNameNotFoundErrorMsg = ''vm ID(s) or name(s) required for the query''"

text \<open>The check that opens every query: the list as text, or an error when there is nothing in it.\<close>

definition comma_separated :: "string list \<Rightarrow> string \<Rightarrow> (string \<Rightarrow> go_error + 'a) \<Rightarrow> go_error + 'a" where
  "comma_separated strs msg f = (let s = convertStrSliceToLowercaseCommaSeparatedStr strs
     in if length s = 0 then Inl (Err msg) else f s)"

definition account_scope ::
    "string list \<Rightarrow> string list \<Rightarrow> string list \<Rightarrow> (string \<Rightarrow> string \<Rightarrow> string \<Rightarrow> go_error + 'a) \<Rightarrow> go_error + 'a" where
  "account_scope subscriptionIDs tenantIDs locations f =
     comma_separated subscriptionIDs subscriptionIDsNotFoundErrorMsg (\<lambda>s.
     comma_separated tenantIDs tenantIDsNotFoundErrorMsg (\<lambda>t.
     comma_separated locations locationsNotFoundErrorMsg (\<lambda>l. f s t l)))"

definition getVMsByVnetIDsMatchQuery :: "string list \<Rightarrow> string list \<Rightarrow> string list \<Rightarrow> string list \<Rightarrow> go_error + string" where
  "getVMsByVnetIDsMatchQuery vnetIDs subscriptionIDs tenantIDs locations =
     comma_separated vnetIDs vnetIDsNotFoundErrorMsg (\<lambda>v. account_scope subscriptionIDs tenantIDs locations (\<lambda>s t l.
       buildVmsTableQueryWithParams \<lparr>qp_SubscriptionIDs = Some s, qp_TenantIDs = Some t, qp_Locations = Some l,
         qp_VnetIDs = Some v, qp_VMNames = None, qp_VMIDs = None\<rparr>))"

definition getVMsByVMNamesMatchQuery :: "string list \<Rightarrow> string list \<Rightarrow> string list \<Rightarrow> string list \<Rightarrow> go_error + string" where
  "getVMsByVMNamesMatchQuery vmNames subscriptionIDs tenantIDs locations =
     comma_separated vmNames vmNamesNotFoundErrorMsg (\<lambda>n. account_scope subscriptionIDs tenantIDs locations (\<lambda>s t l.
       buildVmsTableQueryWithParams \<lparr>qp_SubscriptionIDs = Some s, qp_TenantIDs = Some t, qp_Locations = Some l,
         qp_VnetIDs = None, qp_VMNames = Some n, qp_VMIDs = None\<rparr>))"

definition getVMsByVMIDsMatchQuery :: "string list \<Rightarrow> string list \<Rightarrow> string list \<Rightarrow> string list \<Rightarrow> go_error + string" where
  "getVMsByVMIDsMatchQuery vmIDs subscriptionIDs tenantIDs locations =
     comma_separated vmIDs vmIDsNotFoundErrorMsg (\<lambda>i. account_scope subscriptionIDs tenantIDs locations (\<lambda>s t l.
       buildVmsTableQueryWithParams \<lparr>qp_SubscriptionIDs = Some s, qp_TenantIDs = Some t, qp_Locations = Some l,
         qp_VnetIDs = None, qp_VMNames = None, qp_VMIDs = Some i\<rparr>))"

definition getVMsBySubscriptionIDsAndTenantIDsAndLocationsMatchQuery :: "string list \<Rightarrow> string list \<Rightarrow> string list \<Rightarrow> go_error + string" where
  "getVMsBySubscriptionIDsAndTenantIDsAndLocationsMatchQuery subscriptionIDs tenantIDs locations =
     account_scope subscriptionIDs tenantIDs locations (\<lambda>s t l.
       buildVmsTableQueryWithParams \<lparr>qp_SubscriptionIDs = Some s, qp_TenantIDs = Some t, qp_Locations = Some l,
         qp_VnetIDs = None, qp_VMNames = None, qp_VMIDs = None\<rparr>)"

definition getVMsByVnetAndOtherMatchesQuery ::
    "string list \<Rightarrow> string list \<Rightarrow> string list \<Rightarrow> string list \<Rightarrow> string list \<Rightarrow> string list \<Rightarrow> go_error + string" where
  "getVMsByVnetAndOtherMatchesQuery vnetIDs vmNames vmIDs subscriptionIDs tenantIDs locations =
     account_scope subscriptionIDs tenantIDs locations (\<lambda>s t l.
     comma_separated vnetIDs vnetIDsNotFoundErrorMsg (\<lambda>v.
       let i = convertStrSliceToLowercaseCommaSeparatedStr vmIDs; n = convertStrSliceToLowercaseCommaSeparatedStr vmNames
       in if length i = 0 \<and> length n = 0 then Inl (Err vmIDorNameNotFoundErrorMsg)
          else if length n = 0
          then buildVmsTableQueryWithParams \<lparr>qp_SubscriptionIDs = Some s, qp_TenantIDs = Some t, qp_Locations = Some l,
            qp_VnetIDs = Some v, qp_VMNames = None, qp_VMIDs = Some i\<rparr>
          else buildVmsTableQueryWithParams \<lparr>qp_SubscriptionIDs = Some s, qp_TenantIDs = Some t, qp_Locations = Some l,
            qp_VnetIDs = Some v, qp_VMNames = Some n, qp_VMIDs = None\<rparr>))"

definition getNwIntfsByVnetIDsAndSubscriptionIDsAndTenantIDsAndLocationsMatchQuery ::
    "string list \<Rightarrow> string list \<Rightarrow> string list \<Rightarrow> string list \<Rightarrow> go_error + string" where
  "getNwIntfsByVnetIDsAndSubscriptionIDsAndTenantIDsAndLocationsMatchQuery vnetIDs subscriptionIDs tenantIDs locations =
     comma_separated vnetIDs vnetIDsNotFoundErrorMsg (\<lambda>v. account_scope subscriptionIDs tenantIDs locations (\<lambda>s t l.
       buildNwIntfTableQueryWithParams \<lparr>np_SubscriptionIDs = Some s, np_TenantIDs = Some t, np_Locations = Some l, np_VnetIDs = Some v\<rparr>))"

section \<open>Selectors\<close>

definition azure_group_match :: "VirtualMachineSelector \<Rightarrow> match_groups \<Rightarrow> match_groups option" where
  "azure_group_match match g =
     (if vpc_id match = None \<and> length (VMMatch match) = 0 then None
      else let g1 = (case vpc_id match of
             Some i \<Rightarrow> if length (VMMatch match) = 0
               then g\<lparr>vpcIDsWithVpcIDOnlyMatches := put i () (vpcIDsWithVpcIDOnlyMatches g)\<rparr> else g
           | None \<Rightarrow> g)
           in Some (group_vm_matches match (VMMatch match) g1))"

definition buildQueryForVpcIDOnlyMatches ::
    "(string, unit) gomap \<Rightarrow> string list \<Rightarrow> string list \<Rightarrow> string list \<Rightarrow> go_error + string option" where
  "buildQueryForVpcIDOnlyMatches vpcIDs subscriptionIDs tenantIDs locations =
     (if length vpcIDs = 0 then Inr None
      else map_sum id Some (getVMsByVnetIDsMatchQuery (sort (map fst vpcIDs)) subscriptionIDs tenantIDs locations))"

definition buildQueryForVMNameOnlyMatches ::
    "EntityMatch list \<Rightarrow> string list \<Rightarrow> string list \<Rightarrow> string list \<Rightarrow> go_error + string option" where
  "buildQueryForVMNameOnlyMatches matches subscriptionIDs tenantIDs locations =
     (if length matches = 0 then Inr None
      else map_sum id Some (getVMsByVMNamesMatchQuery (sort (map MatchName matches)) subscriptionIDs tenantIDs locations))"

definition buildQueryForVMIDOnlyMatches ::
    "EntityMatch list \<Rightarrow> string list \<Rightarrow> string list \<Rightarrow> string list \<Rightarrow> go_error + string option" where
  "buildQueryForVMIDOnlyMatches matches subscriptionIDs tenantIDs locations =
     (if length matches = 0 then Inr None
      else map_sum id Some (getVMsByVMIDsMatchQuery (sort (map MatchID matches)) subscriptionIDs tenantIDs locations))"

definition vpc_vm_query :: "string \<Rightarrow> EntityMatch \<Rightarrow> string list \<Rightarrow> string list \<Rightarrow> string list \<Rightarrow> go_error + string" where
  "vpc_vm_query vpcID vmMatch subscriptionIDs tenantIDs locations =
     getVMsByVnetAndOtherMatchesQuery [vpcID] (if \<not> blank (MatchName vmMatch) then [MatchName vmMatch] else [])
       (if \<not> blank (MatchID vmMatch) then [MatchID vmMatch] else []) subscriptionIDs tenantIDs locations"

fun collect_queries :: "(go_error + string) list \<Rightarrow> go_error + string list" where
  "collect_queries [] = Inr []"
| "collect_queries (q # qs) = (case q of Inl err \<Rightarrow> Inl err | Inr s \<Rightarrow> map_sum id ((#) s) (collect_queries qs))"

text \<open>A selector in this group has a network.\<close>

definition buildFilterForVpcIDWithOtherMatches ::
    "VirtualMachineSelector list \<Rightarrow> (string, unit) gomap \<Rightarrow> string list \<Rightarrow> string list \<Rightarrow> string list \<Rightarrow> go_error + string list" where
  "buildFilterForVpcIDWithOtherMatches matches vpcIDs subscriptionIDs tenantIDs locations =
     collect_queries (concat (map (\<lambda>match. case VpcMatch match of
         None \<Rightarrow> []
       | Some v \<Rightarrow> if has_key vpcIDs (MatchID v) then []
           else map (\<lambda>vmMatch. vpc_vm_query (MatchID v) vmMatch subscriptionIDs tenantIDs locations) (VMMatch match)) matches))"

fun add_query :: "go_error + string option \<Rightarrow> go_error + string list \<Rightarrow> go_error + string list" where
  "add_query (Inl err) _ = Inl err"
| "add_query (Inr q) rest = map_sum id (\<lambda>qs. (case q of None \<Rightarrow> [] | Some s \<Rightarrow> [s]) @ qs) rest"

fun add_queries :: "go_error + string list \<Rightarrow> go_error + string list \<Rightarrow> go_error + string list" where
  "add_queries (Inl err) _ = Inl err"
| "add_queries (Inr ps) rest = map_sum id (\<lambda>qs. ps @ qs) rest"

definition buildQueries :: "VirtualMachineSelector list \<Rightarrow> string list \<Rightarrow> string list \<Rightarrow> string list \<Rightarrow> go_error + string list" where
  "buildQueries vmSelector subscriptionIDs tenantIDs locations = (case group_matches azure_group_match vmSelector no_matches of
     None \<Rightarrow> Inr []
   | Some g \<Rightarrow>
       add_query (buildQueryForVpcIDOnlyMatches (vpcIDsWithVpcIDOnlyMatches g) subscriptionIDs tenantIDs locations)
       (add_queries (buildFilterForVpcIDWithOtherMatches (vpcIDWithOtherMatches g) (vpcIDsWithVpcIDOnlyMatches g)
           subscriptionIDs tenantIDs locations)
       (add_query (buildQueryForVMNameOnlyMatches (vmNameOnlyMatches g) subscriptionIDs tenantIDs locations)
       (add_query (buildQueryForVMIDOnlyMatches (vmIDOnlyMatches g) subscriptionIDs tenantIDs locations) (Inr [])))))"

definition convertSelectorToComputeQuery ::
    "CloudEntitySelector option \<Rightarrow> string list \<Rightarrow> string list \<Rightarrow> string list \<Rightarrow> string list \<times> bool" where
  "convertSelectorToComputeQuery selector subscriptionIDs tenantIDs locations = (case selector of
     None \<Rightarrow> ([], False)
   | Some s \<Rightarrow> (case buildQueries (VMSelector s) subscriptionIDs tenantIDs locations of
       Inl _ \<Rightarrow> ([], False)
     | Inr queries \<Rightarrow> (queries, True)))"

end
