(* ===== verification/Azure_Rules.thy ===== *)
theory Azure_Rules
  imports Azure_Util
begin

text \<open>
  Rules of Azure network security groups (\<^verbatim>\<open>pkg/cloud-provider/cloudapi/azure/azure_nsg_rules.go\<close>):
  translation of the controller's rules to Azure rules and back, and the numbering of the rules of
  a group. The objects are those of the Azure SDK with the fields the plug-in uses. Pointers are
  options where the code tests them for nil or may find nil in them; the name and the priority,
  which Azure fills in every rule, are plain values, as is the identifier of an application
  security group in a list. A dereference of nil is the result \<open>None\<close>. Priorities are integers:
  the 32 bits of the code would overflow only beyond two thousand million rules, while Azure's own
  limit, 4096, is part of the statements.
\<close>

section \<open>Objects of the SDK\<close>

datatype SecurityRuleProtocol = ProtocolAsterisk | ProtocolIcmp | ProtocolTCP | ProtocolUDP | ProtocolOther string

datatype SecurityRuleDirection = DirectionInbound | DirectionOutbound

datatype SecurityRuleAccess = AccessAllow | AccessDeny

record ApplicationSecurityGroup =
  asg_ID :: string
  asg_Name :: "string option"

record SecurityRule =
  sr_Name :: string
  sr_Protocol :: SecurityRuleProtocol
  SourcePortRange :: "string option"
  SourceAddressPrefix :: "string option"
  SourceAddressPrefixes :: "string list option"
  SourceApplicationSecurityGroups :: "ApplicationSecurityGroup list option"
  DestinationPortRange :: "string option"
  DestinationAddressPrefix :: "string option"
  DestinationAddressPrefixes :: "string list option"
  DestinationApplicationSecurityGroups :: "ApplicationSecurityGroup list option"
  Access :: SecurityRuleAccess
  Priority :: int
  sr_Direction :: SecurityRuleDirection
  Description :: "string option"

definition Direction_String :: "SecurityRuleDirection \<Rightarrow> string" where
  "Direction_String d = (case d of DirectionInbound \<Rightarrow> ''Inbound'' | DirectionOutbound \<Rightarrow> ''Outbound'')"

section \<open>Constants\<close>

definition appliedToSecurityGroupNamePerVnet :: string where
  "appliedToSecurityGroupNamePerVnet = ''per-vnet-default''"

definition ruleStartPriority :: int where
  "ruleStartPriority = 100"

definition vnetToVnetDenyRulePriority :: int where
  "vnetToVnetDenyRulePriority = 4096"

definition vnetToVnetDenyRuleDescription :: string where
  "vnetToVnetDenyRuleDescription = ''nephe-at-'' @ appliedToSecurityGroupNamePerVnet"

definition emptyPort :: string where
  "emptyPort = ''*''"

definition virtualnetworkAddressPrefix :: string where
  "virtualnetworkAddressPrefix = ''VirtualNetwork''"

definition protoNumAzureNameMap :: "(int, SecurityRuleProtocol) gomap" where
  "protoNumAzureNameMap = [(1, ProtocolIcmp), (6, ProtocolTCP), (17, ProtocolUDP)]"

definition azureProtoNameToNumMap :: "(SecurityRuleProtocol, int) gomap" where
  "azureProtoNameToNumMap = [(ProtocolIcmp, 1), (ProtocolTCP, 6), (ProtocolUDP, 17)]"

section \<open>Numbering the rules of a group\<close>

text \<open>The name of a rule is its priority and direction. The rules with the priority of the deny
  rule are collected by name and end up last, in the order of the map.\<close>

definition rule_name :: "int \<Rightarrow> SecurityRuleDirection \<Rightarrow> string" where
  "rule_name p d = Itoa p @ ''-'' @ Direction_String d"

definition number_rule :: "SecurityRule \<Rightarrow> int \<times> SecurityRule list \<times> (string, SecurityRule) gomap \<Rightarrow>
    int \<times> SecurityRule list \<times> (string, SecurityRule) gomap" where
  "number_rule rule acc = (case acc of (rulePriority, rules, defaults) \<Rightarrow>
     if Priority rule = vnetToVnetDenyRulePriority then (rulePriority, rules, put (sr_Name rule) rule defaults)
     else (rulePriority + 1,
           rules @ [rule\<lparr>sr_Name := rule_name rulePriority (sr_Direction rule), Priority := rulePriority\<rparr>],
           defaults))"

definition updateSecurityRuleNameAndPriority ::
    "order \<Rightarrow> SecurityRule list \<Rightarrow> SecurityRule list \<Rightarrow> SecurityRule list" where
  "updateSecurityRuleNameAndPriority ord existingRules newRules =
     (case fold number_rule newRules (fold number_rule existingRules (ruleStartPriority, [], [])) of
        (_, rules, defaults) \<Rightarrow> rules @ map snd (range_map ord defaults))"

section \<open>Parts of a rule\<close>

definition convertToAzureApplicationSecurityGroups ::
    "CloudResourceID list \<Rightarrow> (string, ApplicationSecurityGroup) gomap \<Rightarrow> ApplicationSecurityGroup list option" where
  "convertToAzureApplicationSecurityGroups securityGroups asgs =
     Some (concat (map (\<lambda>g. case map_of asgs (ToLower (id_Name g)) of None \<Rightarrow> [] | Some asg \<Rightarrow> [asg]) securityGroups))"

definition convertToAzureProtocolName :: "int option \<Rightarrow> go_error + SecurityRuleProtocol" where
  "convertToAzureProtocolName protoNum = (case protoNum of
     None \<Rightarrow> Inr ProtocolAsterisk
   | Some n \<Rightarrow> (case map_of protoNumAzureNameMap n of
       None \<Rightarrow> Inl (Err (''unsupported protocol number '' @ Itoa n))
     | Some name \<Rightarrow> Inr name))"

definition convertToAzurePortRange :: "int option \<Rightarrow> string" where
  "convertToAzurePortRange port = (case port of None \<Rightarrow> emptyPort | Some p \<Rightarrow> Itoa p)"

definition convertToAzureAddressPrefix :: "IPNet list \<Rightarrow> string option \<times> string list option" where
  "convertToAzureAddressPrefix ruleIPs =
     (let prefixes = map IPNet_String ruleIPs
      in if length prefixes = 0 then (Some emptyPort, None) else (None, Some prefixes))"

definition buildSecurityRule ::
    "int \<Rightarrow> SecurityRuleProtocol \<Rightarrow> SecurityRuleDirection \<Rightarrow>
     string option \<Rightarrow> string option \<Rightarrow> string list option \<Rightarrow> ApplicationSecurityGroup list option \<Rightarrow>
     string option \<Rightarrow> string option \<Rightarrow> string list option \<Rightarrow> ApplicationSecurityGroup list option \<Rightarrow>
     string option \<Rightarrow> SecurityRuleAccess \<Rightarrow> SecurityRule" where
  "buildSecurityRule rulePriority protoName direction srcPort srcAddrPrefix srcAddrPrefixes srcASGs
     dstPort dstAddrPrefix dstAddrPrefixes dstASGs description access =
     \<lparr>sr_Name = rule_name rulePriority direction, sr_Protocol = protoName, SourcePortRange = srcPort,
      SourceAddressPrefix = srcAddrPrefix, SourceAddressPrefixes = srcAddrPrefixes,
      SourceApplicationSecurityGroups = srcASGs, DestinationPortRange = dstPort,
      DestinationAddressPrefix = dstAddrPrefix, DestinationAddressPrefixes = dstAddrPrefixes,
      DestinationApplicationSecurityGroups = dstASGs, Access = access, Priority = rulePriority,
      sr_Direction = direction, Description = description\<rparr>"

text \<open>The peer variant logs the name it is given and builds the same rule.\<close>

definition buildPeerSecurityRule ::
    "int \<Rightarrow> SecurityRuleProtocol \<Rightarrow> SecurityRuleDirection \<Rightarrow>
     string option \<Rightarrow> string option \<Rightarrow> string list option \<Rightarrow> ApplicationSecurityGroup list option \<Rightarrow>
     string option \<Rightarrow> string option \<Rightarrow> string list option \<Rightarrow> ApplicationSecurityGroup list option \<Rightarrow>
     string option \<Rightarrow> SecurityRuleAccess \<Rightarrow> string \<Rightarrow> SecurityRule" where
  "buildPeerSecurityRule rulePriority protoName direction srcPort srcAddrPrefix srcAddrPrefixes srcASGs
     dstPort dstAddrPrefix dstAddrPrefixes dstASGs description access name =
     \<lparr>sr_Name = rule_name rulePriority direction, sr_Protocol = protoName, SourcePortRange = srcPort,
      SourceAddressPrefix = srcAddrPrefix, SourceAddressPrefixes = srcAddrPrefixes,
      SourceApplicationSecurityGroups = srcASGs, DestinationPortRange = dstPort,
      DestinationAddressPrefix = dstAddrPrefix, DestinationAddressPrefixes = dstAddrPrefixes,
      DestinationApplicationSecurityGroups = dstASGs, Access = access, Priority = rulePriority,
      sr_Direction = direction, Description = description\<rparr>"

section \<open>Rules for Azure\<close>

type_synonym asg_map = "(string, ApplicationSecurityGroup) gomap"

text \<open>
  The loop over the rules: nil entries are skipped, an unsupported protocol ends it with an error,
  and every Azure rule made takes the next priority. \<open>one\<close> is the body of the loop.
\<close>

fun convert_rules ::
    "(int \<Rightarrow> 'r \<Rightarrow> go_error + SecurityRule list) \<Rightarrow> int \<Rightarrow> 'r option list \<Rightarrow> go_error + SecurityRule list" where
  "convert_rules one rulePriority [] = Inr []"
| "convert_rules one rulePriority (None # rules) = convert_rules one rulePriority rules"
| "convert_rules one rulePriority (Some rule # rules) =
     (case one rulePriority rule of
        Inl err \<Rightarrow> Inl err
      | Inr made \<Rightarrow> (case convert_rules one (rulePriority + int (length made)) rules of
          Inl err \<Rightarrow> Inl err
        | Inr rest \<Rightarrow> Inr (made @ rest)))"

definition vnet_deny_rule :: "SecurityRuleDirection \<Rightarrow> SecurityRule" where
  "vnet_deny_rule direction =
     buildSecurityRule vnetToVnetDenyRulePriority ProtocolAsterisk direction (Some emptyPort)
       (Some virtualnetworkAddressPrefix) None None (Some emptyPort) (Some virtualnetworkAddressPrefix) None None
       (Some vnetToVnetDenyRuleDescription) AccessDeny"

definition asg_not_found :: "CloudResourceID \<Rightarrow> go_error" where
  "asg_not_found appliedToGroupID = Err (''asg not found for applied to SG '' @ id_Name appliedToGroupID)"

definition ingress_to_azure ::
    "ApplicationSecurityGroup \<Rightarrow> string \<Rightarrow> asg_map \<Rightarrow> int \<Rightarrow> IngressRule \<Rightarrow> go_error + SecurityRule list" where
  "ingress_to_azure dstAsgObj description agAsgs rulePriority rule =
     (case convertToAzureProtocolName (in_Protocol rule) of
        Inl err \<Rightarrow> Inl err
      | Inr protoName \<Rightarrow>
          let srcPort = convertToAzurePortRange (FromPort rule);
              byAddress =
                (if length (FromSrcIP rule) \<noteq> 0 \<or> length (FromSecurityGroups rule) = 0
                 then case convertToAzureAddressPrefix (FromSrcIP rule) of (srcAddrPrefix, srcAddrPrefixes) \<Rightarrow>
                   if srcAddrPrefix \<noteq> None \<or> srcAddrPrefixes \<noteq> None
                   then [buildSecurityRule rulePriority protoName DirectionInbound (Some emptyPort) srcAddrPrefix srcAddrPrefixes None
                           (Some srcPort) None None (Some [dstAsgObj]) (Some description) AccessAllow]
                   else []
                 else []);
              byGroup =
                (case convertToAzureApplicationSecurityGroups (FromSecurityGroups rule) agAsgs of
                   None \<Rightarrow> []
                 | Some asgs \<Rightarrow> if length asgs \<noteq> 0
                   then [buildSecurityRule (rulePriority + int (length byAddress)) protoName DirectionInbound (Some emptyPort)
                           None None (Some asgs) (Some srcPort) None None (Some [dstAsgObj]) (Some description) AccessAllow]
                   else [])
          in Inr (byAddress @ byGroup))"

definition convertIngressToAzureNsgSecurityRules ::
    "CloudResourceID \<Rightarrow> IngressRule option list \<Rightarrow> asg_map \<Rightarrow> asg_map \<Rightarrow> go_error + SecurityRule list" where
  "convertIngressToAzureNsgSecurityRules appliedToGroupID rules agAsgs atAsgs =
     (case map_of atAsgs (ToLower (id_Name appliedToGroupID)) of
        None \<Rightarrow> Inl (asg_not_found appliedToGroupID)
      | Some dstAsgObj \<Rightarrow>
          (case convert_rules (ingress_to_azure dstAsgObj (GetCloudName appliedToGroupID False) agAsgs) ruleStartPriority rules of
             Inl err \<Rightarrow> Inl err
           | Inr securityRules \<Rightarrow> Inr (securityRules @ [vnet_deny_rule DirectionInbound])))"

definition egress_to_azure ::
    "ApplicationSecurityGroup \<Rightarrow> string \<Rightarrow> asg_map \<Rightarrow> int \<Rightarrow> EgressRule \<Rightarrow> go_error + SecurityRule list" where
  "egress_to_azure srcAsgObj description agAsgs rulePriority rule =
     (case convertToAzureProtocolName (eg_Protocol rule) of
        Inl err \<Rightarrow> Inl err
      | Inr protoName \<Rightarrow>
          let dstPort = convertToAzurePortRange (ToPort rule);
              byAddress =
                (if length (ToDstIP rule) \<noteq> 0 \<or> length (ToSecurityGroups rule) = 0
                 then case convertToAzureAddressPrefix (ToDstIP rule) of (dstAddrPrefix, dstAddrPrefixes) \<Rightarrow>
                   if dstAddrPrefix \<noteq> None \<or> dstAddrPrefixes \<noteq> None
                   then [buildSecurityRule rulePriority protoName DirectionOutbound (Some emptyPort) None None (Some [srcAsgObj])
                           (Some dstPort) dstAddrPrefix dstAddrPrefixes None (Some description) AccessAllow]
                   else []
                 else []);
              byGroup =
                (case convertToAzureApplicationSecurityGroups (ToSecurityGroups rule) agAsgs of
                   None \<Rightarrow> []
                 | Some asgs \<Rightarrow> if length asgs \<noteq> 0
                   then [buildSecurityRule (rulePriority + int (length byAddress)) protoName DirectionOutbound (Some emptyPort)
                           None None (Some [srcAsgObj]) (Some dstPort) None None (Some asgs) (Some description) AccessAllow]
                   else [])
          in Inr (byAddress @ byGroup))"

definition convertEgressToAzureNsgSecurityRules ::
    "CloudResourceID \<Rightarrow> EgressRule option list \<Rightarrow> asg_map \<Rightarrow> asg_map \<Rightarrow> go_error + SecurityRule list" where
  "convertEgressToAzureNsgSecurityRules appliedToGroupID rules agAsgs atAsgs =
     (case map_of atAsgs (ToLower (id_Name appliedToGroupID)) of
        None \<Rightarrow> Inl (asg_not_found appliedToGroupID)
      | Some srcAsgObj \<Rightarrow>
          (case convert_rules (egress_to_azure srcAsgObj (GetCloudName appliedToGroupID False) agAsgs) ruleStartPriority rules of
             Inl err \<Rightarrow> Inl err
           | Inr securityRules \<Rightarrow> Inr (securityRules @ [vnet_deny_rule DirectionOutbound])))"

section \<open>Rules for peered virtual networks\<close>

text \<open>
  With peering, one rule by groups is made when some group is of the applied-to group's own network
  and some group has an application security group; otherwise a rule for the address \<open>ruleIP\<close> is.
\<close>

definition peer_vnet_deny_rule :: "SecurityRuleDirection \<Rightarrow> string \<Rightarrow> SecurityRule" where
  "peer_vnet_deny_rule direction name =
     buildPeerSecurityRule vnetToVnetDenyRulePriority ProtocolAsterisk direction (Some emptyPort)
       (Some virtualnetworkAddressPrefix) None None (Some emptyPort) (Some virtualnetworkAddressPrefix) None None
       (Some vnetToVnetDenyRuleDescription) AccessDeny name"

definition peer_asgs :: "CloudResourceID \<Rightarrow> CloudResourceID list \<Rightarrow> asg_map \<Rightarrow> ApplicationSecurityGroup list option" where
  "peer_asgs appliedToGroupID groups agAsgs =
     (case find (\<lambda>g. id_Vpc g = id_Vpc appliedToGroupID \<and>
         (case convertToAzureApplicationSecurityGroups groups agAsgs of None \<Rightarrow> False | Some asgs \<Rightarrow> length asgs \<noteq> 0)) groups of
        None \<Rightarrow> None
      | Some _ \<Rightarrow> convertToAzureApplicationSecurityGroups groups agAsgs)"

definition ingress_to_azure_peer ::
    "CloudResourceID \<Rightarrow> asg_map \<Rightarrow> string option \<Rightarrow> int \<Rightarrow> IngressRule \<Rightarrow> go_error + SecurityRule list" where
  "ingress_to_azure_peer appliedToGroupID agAsgs ruleIP rulePriority rule =
     (case convertToAzureProtocolName (in_Protocol rule) of
        Inl err \<Rightarrow> Inl err
      | Inr protoName \<Rightarrow>
          let srcPort = convertToAzurePortRange (FromPort rule);
              description = GetCloudName appliedToGroupID False;
              byAddress =
                (if length (FromSrcIP rule) \<noteq> 0 \<or> length (FromSecurityGroups rule) = 0
                 then case convertToAzureAddressPrefix (FromSrcIP rule) of (srcAddrPrefix, srcAddrPrefixes) \<Rightarrow>
                   if srcAddrPrefix \<noteq> None \<or> srcAddrPrefixes \<noteq> None
                   then [buildPeerSecurityRule rulePriority protoName DirectionInbound (Some emptyPort) srcAddrPrefix srcAddrPrefixes
                           None (Some srcPort) (Some emptyPort) None None (Some description) AccessAllow (id_Name appliedToGroupID)]
                   else []
                 else []);
              byGroup =
                (case peer_asgs appliedToGroupID (FromSecurityGroups rule) agAsgs of
                   Some asgs \<Rightarrow> [buildPeerSecurityRule (rulePriority + int (length byAddress)) protoName DirectionInbound
                     (Some emptyPort) None None (Some asgs) (Some srcPort) (Some emptyPort) None None (Some description)
                     AccessAllow (id_Name appliedToGroupID)]
                 | None \<Rightarrow> [buildPeerSecurityRule (rulePriority + int (length byAddress)) protoName DirectionInbound
                     (Some emptyPort) ruleIP None None (Some srcPort) (Some emptyPort) None None (Some description)
                     AccessAllow (id_Name appliedToGroupID)])
          in Inr (byAddress @ byGroup))"

definition convertIngressToAzurePeerNsgSecurityRules ::
    "CloudResourceID \<Rightarrow> IngressRule option list \<Rightarrow> asg_map \<Rightarrow> string option \<Rightarrow> go_error + SecurityRule list" where
  "convertIngressToAzurePeerNsgSecurityRules appliedToGroupID rules agAsgs ruleIP =
     (case convert_rules (ingress_to_azure_peer appliedToGroupID agAsgs ruleIP) ruleStartPriority rules of
        Inl err \<Rightarrow> Inl err
      | Inr securityRules \<Rightarrow> Inr (securityRules @ [peer_vnet_deny_rule DirectionInbound (id_Name appliedToGroupID)]))"

definition egress_to_azure_peer ::
    "CloudResourceID \<Rightarrow> asg_map \<Rightarrow> string option \<Rightarrow> int \<Rightarrow> EgressRule \<Rightarrow> go_error + SecurityRule list" where
  "egress_to_azure_peer appliedToGroupID agAsgs ruleIP rulePriority rule =
     (case convertToAzureProtocolName (eg_Protocol rule) of
        Inl err \<Rightarrow> Inl err
      | Inr protoName \<Rightarrow>
          let dstPort = convertToAzurePortRange (ToPort rule);
              description = GetCloudName appliedToGroupID False;
              byAddress =
                (if length (ToDstIP rule) \<noteq> 0 \<or> length (ToSecurityGroups rule) = 0
                 then case convertToAzureAddressPrefix (ToDstIP rule) of (dstAddrPrefix, dstAddrPrefixes) \<Rightarrow>
                   if dstAddrPrefix \<noteq> None \<or> dstAddrPrefixes \<noteq> None
                   then [buildPeerSecurityRule rulePriority protoName DirectionOutbound (Some emptyPort) (Some emptyPort) None None
                           (Some dstPort) dstAddrPrefix dstAddrPrefixes None (Some description) AccessAllow (id_Name appliedToGroupID)]
                   else []
                 else []);
              byGroup =
                (case peer_asgs appliedToGroupID (ToSecurityGroups rule) agAsgs of
                   Some asgs \<Rightarrow> [buildPeerSecurityRule (rulePriority + int (length byAddress)) protoName DirectionOutbound
                     (Some emptyPort) (Some emptyPort) None None (Some dstPort) None None (Some asgs) (Some description)
                     AccessAllow (id_Name appliedToGroupID)]
                 | None \<Rightarrow> [buildPeerSecurityRule (rulePriority + int (length byAddress)) protoName DirectionOutbound
                     (Some emptyPort) (Some emptyPort) None None (Some dstPort) ruleIP None None (Some description)
                     AccessAllow (id_Name appliedToGroupID)])
          in Inr (byAddress @ byGroup))"

definition convertEgressToAzurePeerNsgSecurityRules ::
    "CloudResourceID \<Rightarrow> EgressRule option list \<Rightarrow> asg_map \<Rightarrow> string option \<Rightarrow> go_error + SecurityRule list" where
  "convertEgressToAzurePeerNsgSecurityRules appliedToGroupID rules agAsgs ruleIP =
     (case convert_rules (egress_to_azure_peer appliedToGroupID agAsgs ruleIP) ruleStartPriority rules of
        Inl err \<Rightarrow> Inl err
      | Inr securityRules \<Rightarrow> Inr (securityRules @ [peer_vnet_deny_rule DirectionOutbound (id_Name appliedToGroupID)]))"

section \<open>Rules from Azure\<close>

definition convertFromAzurePortToNepheControllerPort :: "string option \<Rightarrow> int option" where
  "convertFromAzurePortToNepheControllerPort port = (case port of
     None \<Rightarrow> None
   | Some p \<Rightarrow> if p = emptyPort then None else ParseInt32 p)"

definition convertFromAzurePrefixesToNepheControllerIPs :: "string option \<Rightarrow> string list option \<Rightarrow> IPNet list option" where
  "convertFromAzurePrefixesToNepheControllerIPs ipPrefix ipPrefixes =
     (if ipPrefix = Some emptyPort then Some []
      else case ipPrefixes of
        None \<Rightarrow> None
      | Some ps \<Rightarrow> Some (
          (case ipPrefix of None \<Rightarrow> [] | Some p \<Rightarrow> (case ParseCIDR p of None \<Rightarrow> [] | Some ipNet \<Rightarrow> [ipNet])) @
          concat (map (\<lambda>p. case ParseCIDR p of None \<Rightarrow> [] | Some ipNet \<Rightarrow> [ipNet]) ps)))"

definition convertFromAzureASGsToNepheControllerSecurityGroups ::
    "ApplicationSecurityGroup list option \<Rightarrow> string \<Rightarrow> CloudResourceID list" where
  "convertFromAzureASGsToNepheControllerSecurityGroups asgs vnetID = (case asgs of
     None \<Rightarrow> []
   | Some l \<Rightarrow> concat (map (\<lambda>asg. case extractFieldsFromAzureResourceID (asg_ID asg) of
        Inl _ \<Rightarrow> []
      | Inr (_, _, asgName) \<Rightarrow> (case IsNepheControllerCreatedSG asgName of
          (sgName, isAG, _) \<Rightarrow> if isAG then [\<lparr>id_Name = sgName, id_Vpc = vnetID\<rparr>] else [])) l))"

definition convertFromAzureProtocolToNepheControllerProtocol :: "SecurityRuleProtocol \<Rightarrow> go_error + int option" where
  "convertFromAzureProtocolToNepheControllerProtocol azureProtoName =
     (if azureProtoName = ProtocolAsterisk then Inr None
      else case map_of azureProtoNameToNumMap azureProtoName of
        None \<Rightarrow> Inl (Err (''unsupported azure protocol '' @ (case azureProtoName of ProtocolOther s \<Rightarrow> s | _ \<Rightarrow> [])))
      | Some n \<Rightarrow> Inr (Some n))"

definition convertFromAzureSecurityRuleToNepheControllerIngressRule ::
    "SecurityRule \<Rightarrow> string \<Rightarrow> (go_error + IngressRule) option" where
  "convertFromAzureSecurityRuleToNepheControllerIngressRule rule vnetID =
     (let port = convertFromAzurePortToNepheControllerPort (DestinationPortRange rule)
      in case convertFromAzurePrefixesToNepheControllerIPs (SourceAddressPrefix rule) (SourceAddressPrefixes rule) of
           None \<Rightarrow> None
         | Some srcIP \<Rightarrow>
             let securityGroups = convertFromAzureASGsToNepheControllerSecurityGroups (SourceApplicationSecurityGroups rule) vnetID
             in case convertFromAzureProtocolToNepheControllerProtocol (sr_Protocol rule) of
                  Inl err \<Rightarrow> Some (Inl err)
                | Inr protoNum \<Rightarrow> Some (Inr \<lparr>FromPort = port, FromSrcIP = srcIP, FromSecurityGroups = securityGroups,
                    in_Protocol = protoNum\<rparr>))"

definition convertFromAzureSecurityRuleToNepheControllerEgressRule ::
    "SecurityRule \<Rightarrow> string \<Rightarrow> (go_error + EgressRule) option" where
  "convertFromAzureSecurityRuleToNepheControllerEgressRule rule vnetID =
     (let port = convertFromAzurePortToNepheControllerPort (DestinationPortRange rule)
      in case convertFromAzurePrefixesToNepheControllerIPs (DestinationAddressPrefix rule) (DestinationAddressPrefixes rule) of
           None \<Rightarrow> None
         | Some dstIP \<Rightarrow>
             let securityGroups = convertFromAzureASGsToNepheControllerSecurityGroups (DestinationApplicationSecurityGroups rule) vnetID
             in case convertFromAzureProtocolToNepheControllerProtocol (sr_Protocol rule) of
                  Inl err \<Rightarrow> Some (Inl err)
                | Inr protoNum \<Rightarrow> Some (Inr \<lparr>ToPort = port, ToDstIP = dstIP, ToSecurityGroups = securityGroups,
                    eg_Protocol = protoNum\<rparr>))"

type_synonym group_rules = "(string, IngressRule list) gomap \<times> (string, EgressRule list) gomap"

definition collect_azure_rule :: "string \<Rightarrow> SecurityRule \<Rightarrow> group_rules \<Rightarrow> group_rules option" where
  "collect_azure_rule vnetID rule maps = (case maps of (ingress, egress) \<Rightarrow>
     (case Description rule of
        None \<Rightarrow> None
      | Some description \<Rightarrow> (case IsNepheControllerCreatedSG description of (sgName, _, isATSg) \<Rightarrow>
          if \<not> isATSg then Some maps
          else if sr_Direction rule = DirectionInbound
          then (case convertFromAzureSecurityRuleToNepheControllerIngressRule rule vnetID of
              None \<Rightarrow> None
            | Some (Inl _) \<Rightarrow> Some maps
            | Some (Inr ingressRule) \<Rightarrow> Some (append_at sgName [ingressRule] ingress, egress))
          else (case convertFromAzureSecurityRuleToNepheControllerEgressRule rule vnetID of
              None \<Rightarrow> None
            | Some (Inl _) \<Rightarrow> Some maps
            | Some (Inr egressRule) \<Rightarrow> Some (ingress, append_at sgName [egressRule] egress)))))"

fun collect_azure_rules :: "string \<Rightarrow> SecurityRule list \<Rightarrow> group_rules \<Rightarrow> group_rules option" where
  "collect_azure_rules vnetID [] maps = Some maps"
| "collect_azure_rules vnetID (rule # rules) maps =
     (case collect_azure_rule vnetID rule maps of None \<Rightarrow> None | Some maps' \<Rightarrow> collect_azure_rules vnetID rules maps')"

definition convertToNepheControllerRulesByAppliedToSGName :: "SecurityRule list option \<Rightarrow> string \<Rightarrow> group_rules option" where
  "convertToNepheControllerRulesByAppliedToSGName azureSecurityRules vnetID = (case azureSecurityRules of
     None \<Rightarrow> None
   | Some rules \<Rightarrow> collect_azure_rules vnetID rules ([], []))"

end
