(* ===== verification/Azure_Nsg.thy ===== *)
theory Azure_Nsg
  imports Azure_Rules
begin

text \<open>
  What the rules of an Azure network security group mean, and that the translation of
  \<open>Azure_Rules\<close> keeps the meaning. Azure tries the rules of a direction by ascending priority
  and the first that matches decides. A rule matches by protocol, ports and, on each side, an
  address prefix or an application security group of the interface.
\<close>

section \<open>Meaning of Azure rules\<close>

record packet =
  pk_proto :: int
  pk_src :: ip4
  pk_dst :: ip4
  pk_srcPort :: int
  pk_dstPort :: int
  pk_srcASGs :: "string set"
  pk_dstASGs :: "string set"

definition prefix_matches :: "ip4 set \<Rightarrow> string \<Rightarrow> ip4 \<Rightarrow> bool" where
  "prefix_matches vnet p a \<longleftrightarrow> p = emptyPort \<or> p = virtualnetworkAddressPrefix \<and> a \<in> vnet \<or>
     (if CHR ''/'' \<in> set p then \<exists>n. ParseCIDR p = Some n \<and> a \<in> addresses n else parse_ipv4 p = Some a)"

definition side_matches ::
    "ip4 set \<Rightarrow> string option \<Rightarrow> string list option \<Rightarrow> ApplicationSecurityGroup list option \<Rightarrow> ip4 \<Rightarrow> string set \<Rightarrow> bool" where
  "side_matches vnet pre ps asgs a groups \<longleftrightarrow>
     (\<exists>p. pre = Some p \<and> prefix_matches vnet p a) \<or>
     (\<exists>l. ps = Some l \<and> (\<exists>p \<in> set l. prefix_matches vnet p a)) \<or>
     (\<exists>l. asgs = Some l \<and> (\<exists>g \<in> set l. asg_ID g \<in> groups))"

definition port_matches :: "string option \<Rightarrow> int \<Rightarrow> bool" where
  "port_matches port v \<longleftrightarrow> port = Some emptyPort \<or> port = Some (Itoa v)"

definition protocol_matches :: "SecurityRuleProtocol \<Rightarrow> int \<Rightarrow> bool" where
  "protocol_matches p v \<longleftrightarrow> p = ProtocolAsterisk \<or> p = ProtocolIcmp \<and> v = 1 \<or> p = ProtocolTCP \<and> v = 6 \<or>
     p = ProtocolUDP \<and> v = 17"

definition azure_matches :: "ip4 set \<Rightarrow> SecurityRule \<Rightarrow> packet \<Rightarrow> bool" where
  "azure_matches vnet r pk \<longleftrightarrow>
     protocol_matches (sr_Protocol r) (pk_proto pk) \<and>
     port_matches (SourcePortRange r) (pk_srcPort pk) \<and> port_matches (DestinationPortRange r) (pk_dstPort pk) \<and>
     side_matches vnet (SourceAddressPrefix r) (SourceAddressPrefixes r) (SourceApplicationSecurityGroups r)
       (pk_src pk) (pk_srcASGs pk) \<and>
     side_matches vnet (DestinationAddressPrefix r) (DestinationAddressPrefixes r) (DestinationApplicationSecurityGroups r)
       (pk_dst pk) (pk_dstASGs pk)"

definition decides :: "ip4 set \<Rightarrow> SecurityRule list \<Rightarrow> packet \<Rightarrow> SecurityRuleAccess option" where
  "decides vnet rules pk =
     (case filter (\<lambda>r. azure_matches vnet r pk) (sort_key Priority rules) of [] \<Rightarrow> None | r # _ \<Rightarrow> Some (Access r))"

section \<open>Numbering\<close>

definition renumber :: "int \<Rightarrow> SecurityRule \<Rightarrow> SecurityRule" where
  "renumber p r = r\<lparr>sr_Name := rule_name p (sr_Direction r), Priority := p\<rparr>"

primrec number :: "int \<Rightarrow> SecurityRule list \<Rightarrow> SecurityRule list" where
  "number p [] = []"
| "number p (r # rs) = renumber p r # number (p + 1) rs"

definition is_default :: "SecurityRule \<Rightarrow> bool" where
  "is_default r \<longleftrightarrow> Priority r = vnetToVnetDenyRulePriority"

lemma number_append: "number p (xs @ ys) = number p xs @ number (p + int (length xs)) ys"
  by (induction xs arbitrary: p) (simp_all add: algebra_simps)

lemma length_number [simp]: "length (number p rs) = length rs"
  by (induction rs arbitrary: p) simp_all

lemma fold_number_rule:
  "fold number_rule rs (p, acc, d) =
     (p + int (length (filter (\<lambda>r. \<not> is_default r) rs)), acc @ number p (filter (\<lambda>r. \<not> is_default r) rs),
      fold (\<lambda>r. put (sr_Name r) r) (filter is_default rs) d)"
  by (induction rs arbitrary: p acc d)
    (auto simp: number_rule_def is_default_def renumber_def algebra_simps)

text \<open>The default rules: of those with the same name the last.\<close>

definition default_rules :: "SecurityRule list \<Rightarrow> (string, SecurityRule) gomap" where
  "default_rules rs = fold (\<lambda>r. put (sr_Name r) r) (filter is_default rs) []"

lemma update_number:
  "updateSecurityRuleNameAndPriority ord ex nw =
     number ruleStartPriority (filter (\<lambda>r. \<not> is_default r) (ex @ nw)) @ map snd (range_map ord (default_rules (ex @ nw)))"
  by (simp add: updateSecurityRuleNameAndPriority_def fold_number_rule number_append default_rules_def)

lemma default_rules_wf: "wf_map (default_rules rs)"
  by (simp add: default_rules_def wf_fold_put)

lemma default_rules_entry: "(n, r) \<in> set (default_rules rs) \<Longrightarrow> r \<in> set rs \<and> is_default r \<and> sr_Name r = n"
  unfolding in_set_map_of [OF default_rules_wf] by (auto simp: default_rules_def dest!: map_of_fold_putD)

lemma default_rules_names: "keys (default_rules rs) = sr_Name ` {r \<in> set rs. is_default r}"
  by (simp add: default_rules_def keys_fold_put)

text \<open>
  C23: the rules of a network security group are numbered without gaps or repetitions. The rules
  of the group, kept and new, get the priorities from 100 upwards in order, a name made of
  priority and direction, and are otherwise unchanged; the rules with the priority of the deny
  rule keep it and come last, one for each of their names.
\<close>

theorem updateSecurityRule_numbering:
  fixes ex nw :: "SecurityRule list"
  assumes "is_order ord"
  defines "own \<equiv> filter (\<lambda>r. \<not> is_default r) (ex @ nw)"
  defines "out \<equiv> updateSecurityRuleNameAndPriority ord ex nw"
  shows "map Priority (take (length own) out) = [ruleStartPriority..ruleStartPriority + int (length own) - 1] \<and>
    map (renumber 0) (take (length own) out) = map (renumber 0) own \<and>
    (\<forall>r \<in> set (take (length own) out). sr_Name r = rule_name (Priority r) (sr_Direction r)) \<and>
    set (drop (length own) out) \<subseteq> {r \<in> set (ex @ nw). is_default r} \<and>
    distinct (map sr_Name (drop (length own) out)) \<and>
    sr_Name ` set (drop (length own) out) = sr_Name ` {r \<in> set (ex @ nw). is_default r}"
proof -
  have out: "take (length own) out = number ruleStartPriority own"
    "drop (length own) out = map snd (range_map ord (default_rules (ex @ nw)))"
    by (simp_all add: out_def own_def update_number)
  have "map Priority (number p own) = [p..p + int (length own) - 1]" for p
    by (induction own arbitrary: p) (simp_all add: renumber_def upto_rec1)
  moreover have "map (renumber 0) (number p own) = map (renumber 0) own" for p
    by (induction own arbitrary: p) (simp_all add: renumber_def)
  moreover have "\<forall>r \<in> set (number p own). sr_Name r = rule_name (Priority r) (sr_Direction r)" for p
    by (induction own arbitrary: p) (auto simp: renumber_def)
  moreover have "set (drop (length own) out) \<subseteq> {r \<in> set (ex @ nw). is_default r}"
    using assms(1) by (auto simp: out dest: default_rules_entry)
  moreover have names: "map sr_Name (drop (length own) out) = map fst (range_map ord (default_rules (ex @ nw)))"
    using assms(1) by (auto simp: out dest: default_rules_entry)
  moreover from names have "distinct (map sr_Name (drop (length own) out))"
    by (simp only:) (rule distinct_range_map [OF assms(1) default_rules_wf])
  moreover have "sr_Name ` set (drop (length own) out) = keys (default_rules (ex @ nw))"
    using names assms(1) by (metis keys_def list.set_map set_range_map)
  ultimately show ?thesis
    unfolding out(1) by (simp add: default_rules_names)
qed

section \<open>Decisions\<close>

lemma azure_matches_renumber [simp]: "azure_matches vnet (renumber p r) pk = azure_matches vnet r pk"
  by (simp add: azure_matches_def renumber_def)

lemma Access_renumber [simp]: "Access (renumber p r) = Access r"
  by (simp add: renumber_def)

lemma in_number: "a \<in> set (number p rs) \<Longrightarrow> \<exists>q r. r \<in> set rs \<and> a = renumber q r"
  by (induction rs arbitrary: p) fastforce+

lemma number_in: "r \<in> set rs \<Longrightarrow> \<exists>q. renumber q r \<in> set (number p rs)"
  by (induction rs arbitrary: p) fastforce+

lemma number_priorities: "map Priority (number p rs) = [p..p + int (length rs) - 1]"
  by (induction rs arbitrary: p) (simp_all add: renumber_def upto_rec1)

lemma first_access:
  assumes "\<forall>r \<in> set rs. Access r = acc"
  shows "(case filter P rs of [] \<Rightarrow> other | r # _ \<Rightarrow> Some (Access r)) = (if \<exists>r \<in> set rs. P r then Some acc else other)"
  using assms by (induction rs) auto

lemma first_append:
  "(case xs @ ys of [] \<Rightarrow> None | r # _ \<Rightarrow> Some (Access r)) =
    (case xs of [] \<Rightarrow> (case ys of [] \<Rightarrow> None | r # _ \<Rightarrow> Some (Access r)) | r # _ \<Rightarrow> Some (Access r))"
  by (cases xs) simp_all

lemma decides_numbered:
  assumes "is_order ord" "int (length own) \<le> vnetToVnetDenyRulePriority - ruleStartPriority"
    and "\<forall>(n, r) \<in> set d. is_default r \<and> Access r = AccessDeny" "\<forall>r \<in> set own. Access r = AccessAllow"
  shows "decides vnet (number ruleStartPriority own @ map snd (range_map ord d)) pk =
    (if \<exists>r \<in> set own. azure_matches vnet r pk then Some AccessAllow
     else if \<exists>(n, r) \<in> set d. azure_matches vnet r pk then Some AccessDeny else None)"
proof -
  let ?out = "number ruleStartPriority own @ map snd (range_map ord d)"
  let ?m = "\<lambda>r. azure_matches vnet r pk"
  have "map Priority (map snd (range_map ord d)) = replicate (length d) vnetToVnetDenyRulePriority"
    using assms(1,3) by (intro replicate_eqI) (auto simp: is_default_def)
  then have "map Priority ?out = [ruleStartPriority..ruleStartPriority + int (length own) - 1] @
      replicate (length d) vnetToVnetDenyRulePriority"
    by (simp add: number_priorities)
  moreover have "sorted ([ruleStartPriority..ruleStartPriority + int (length own) - 1] @
      replicate (length d) vnetToVnetDenyRulePriority)"
    using assms(2) by (auto simp: sorted_append)
  ultimately have "sorted (map Priority ?out)" by simp
  then have sort: "sort_key Priority ?out = ?out" by (rule sort_key_id_if_sorted)
  have own: "(\<exists>r \<in> set (number ruleStartPriority own). ?m r) \<longleftrightarrow> (\<exists>r \<in> set own. ?m r)"
    using in_number number_in by (metis azure_matches_renumber)
  have allow: "\<forall>r \<in> set (number ruleStartPriority own). Access r = AccessAllow"
    using assms(4) in_number by fastforce
  have deny: "\<forall>r \<in> set (map snd (range_map ord d)). Access r = AccessDeny"
    using assms(1,3) by auto
  have "(\<exists>r \<in> set (map snd (range_map ord d)). ?m r) \<longleftrightarrow> (\<exists>(n, r) \<in> set d. ?m r)"
    using assms(1) by (auto split: prod.splits) (metis snd_conv)
  then show ?thesis
    unfolding decides_def sort filter_append
    by (simp only: first_append first_access [OF allow] first_access [OF deny] own)
qed

section \<open>Translation of rules\<close>

lemma convertToAzureProtocolName_matches:
  "convertToAzureProtocolName pr = Inr name \<Longrightarrow> protocol_matches name v \<longleftrightarrow> matches_opt pr v"
  by (auto simp: convertToAzureProtocolName_def protoNumAzureNameMap_def protocol_matches_def matches_opt_def
      split: option.splits if_splits)

lemma Itoa_not_star [simp]: "Itoa i \<noteq> emptyPort"
proof
  assume "Itoa i = emptyPort"
  then have "nat_string (nat i) = [CHR ''*'']"
    by (auto simp: Itoa_def emptyPort_def split: if_splits)
  then show False using nat_string_digits [of "CHR ''*''" "nat i"] by (simp add: char_digit_def)
qed

lemma convertToAzurePortRange_matches [simp]:
  "port_matches (Some (convertToAzurePortRange p)) v \<longleftrightarrow> matches_opt p v"
  using Itoa_not_star by (auto simp: port_matches_def convertToAzurePortRange_def matches_opt_def split: option.splits)

lemma port_matches_any [simp]: "port_matches (Some emptyPort) v"
  by (simp add: port_matches_def)

lemma prefix_matches_net: "valid_net n \<Longrightarrow> prefix_matches vnet (IPNet_String n) a \<longleftrightarrow> a \<in> addresses n"
proof -
  assume n: "valid_net n"
  then have "CHR ''/'' \<in> set (IPNet_String n)" by (auto simp: IPNet_String_def)
  moreover from this have "IPNet_String n \<noteq> emptyPort" "IPNet_String n \<noteq> virtualnetworkAddressPrefix"
    by (auto simp: emptyPort_def virtualnetworkAddressPrefix_def)
  ultimately show ?thesis using ParseCIDR_String [OF n] by (simp add: prefix_matches_def)
qed

text \<open>The groups an interface is in, by the application security groups that stand for them.\<close>

definition azure_groups :: "asg_map \<Rightarrow> string set \<Rightarrow> CloudResourceID set" where
  "azure_groups asgs ids = {g. \<exists>asg. map_of asgs (ToLower (id_Name g)) = Some asg \<and> asg_ID asg \<in> ids}"

lemma side_matches_address:
  assumes "convertToAzureAddressPrefix ips = (p, ps)" "\<forall>n \<in> set ips. valid_net n"
  shows "side_matches vnet p ps None a ids \<longleftrightarrow> ips = [] \<or> a \<in> \<Union> (addresses ` set ips)"
proof (cases "ips = []")
  case True
  with assms show ?thesis
    by (auto simp: convertToAzureAddressPrefix_def side_matches_def prefix_matches_def)
next
  case False
  with assms have "p = None" "ps = Some (map IPNet_String ips)"
    by (simp_all add: convertToAzureAddressPrefix_def Let_def)
  with assms(2) False show ?thesis by (auto simp: side_matches_def prefix_matches_net)
qed

lemma side_matches_groups:
  "side_matches vnet None None (Some asgs) a ids \<longleftrightarrow> (\<exists>g \<in> set asgs. asg_ID g \<in> ids)"
  by (simp add: side_matches_def)

lemma convert_groups:
  assumes "convertToAzureApplicationSecurityGroups gs ag = Some asgs"
  shows "(\<exists>g \<in> set asgs. asg_ID g \<in> ids) \<longleftrightarrow> azure_groups ag ids \<inter> set gs \<noteq> {}"
  using assms by (auto simp: convertToAzureApplicationSecurityGroups_def azure_groups_def split: option.splits) force

lemma convert_groups_Some: "\<exists>asgs. convertToAzureApplicationSecurityGroups gs ag = Some asgs"
  by (simp add: convertToAzureApplicationSecurityGroups_def)

text \<open>
  What the two directions of the translation have in common: a rule fails only by its protocol,
  and otherwise yields allow rules with consecutive priorities that match what the rule permits.
\<close>

locale rule_translation =
  fixes one :: "int \<Rightarrow> 'r \<Rightarrow> go_error + SecurityRule list"
    and ok :: "'r \<Rightarrow> bool"
    and proto :: "'r \<Rightarrow> int option"
    and permits :: "'r \<Rightarrow> packet \<Rightarrow> bool"
    and vnet :: "ip4 set"
  assumes one_error: "one p r = Inl e \<longleftrightarrow> convertToAzureProtocolName (proto r) = Inl e"
    and one_priorities: "one p r = Inr xs \<Longrightarrow> map Priority xs = [p..p + int (length xs) - 1]"
    and one_allow: "one p r = Inr xs \<Longrightarrow> a \<in> set xs \<Longrightarrow> Access a = AccessAllow"
    and one_permits: "one p r = Inr xs \<Longrightarrow> ok r \<Longrightarrow> (\<exists>a \<in> set xs. azure_matches vnet a pk) \<longleftrightarrow> permits r pk"
begin

text \<open>One entry of the loop.\<close>

lemma convert_Cons:
  assumes "convert_rules one p (Some r # rs) = Inr xs"
  obtains made rest where "one p r = Inr made" "convert_rules one (p + int (length made)) rs = Inr rest" "xs = made @ rest"
  using assms by (auto split: sum.splits)

lemma convert_permits:
  "convert_rules one p rs = Inr xs \<Longrightarrow> (\<And>r. Some r \<in> set rs \<Longrightarrow> ok r) \<Longrightarrow>
    (\<exists>a \<in> set xs. azure_matches vnet a pk) \<longleftrightarrow> (\<exists>r. Some r \<in> set rs \<and> permits r pk)"
proof (induction rs arbitrary: p xs)
  case (Cons x rs)
  show ?case
  proof (cases x)
    case None
    with Cons show ?thesis by simp
  next
    case (Some r)
    obtain made rest where made: "one p r = Inr made"
        "convert_rules one (p + int (length made)) rs = Inr rest" "xs = made @ rest"
      using convert_Cons [OF Cons.prems(1) [unfolded Some]] .
    have "(\<exists>a \<in> set rest. azure_matches vnet a pk) \<longleftrightarrow> (\<exists>r. Some r \<in> set rs \<and> permits r pk)"
      using Cons.IH [OF made(2)] Cons.prems(2) by simp
    moreover have "(\<exists>a \<in> set made. azure_matches vnet a pk) \<longleftrightarrow> permits r pk"
      using one_permits [OF made(1)] Cons.prems(2) Some by simp
    ultimately show ?thesis unfolding made(3) Some by auto
  qed
qed simp

lemma convert_priorities:
  "convert_rules one p rs = Inr xs \<Longrightarrow> map Priority xs = [p..p + int (length xs) - 1]"
proof (induction rs arbitrary: p xs)
  case (Cons x rs)
  show ?case
  proof (cases x)
    case None
    with Cons show ?thesis by simp
  next
    case (Some r)
    obtain made rest where made: "one p r = Inr made"
        "convert_rules one (p + int (length made)) rs = Inr rest" "xs = made @ rest"
      using convert_Cons [OF Cons.prems [unfolded Some]] .
    then show ?thesis
      using Cons.IH [OF made(2)] one_priorities [OF made(1)] upto_split1 [of p "p + int (length made)" "p + int (length xs) - 1"]
      by (cases "rest = []") (auto simp: algebra_simps Suc_le_eq)
  qed
qed simp

lemma convert_allow: "convert_rules one p rs = Inr xs \<Longrightarrow> a \<in> set xs \<Longrightarrow> Access a = AccessAllow"
proof (induction rs arbitrary: p xs)
  case (Cons x rs)
  then show ?case by (cases x) (auto split: sum.splits dest: one_allow)
qed simp

lemma convert_error:
  "(\<exists>e. convert_rules one p rs = Inl e) \<longleftrightarrow> (\<exists>r e. Some r \<in> set rs \<and> convertToAzureProtocolName (proto r) = Inl e)"
proof (induction rs arbitrary: p)
  case (Cons x rs)
  show ?case
  proof (cases x)
    case None
    with Cons show ?thesis by simp
  next
    case (Some r)
    show ?thesis
    proof (cases "one p r")
      case (Inl e)
      then have "convertToAzureProtocolName (proto r) = Inl e" by (simp add: one_error)
      with Inl Some show ?thesis by auto
    next
      case (Inr made)
      then have "convertToAzureProtocolName (proto r) \<noteq> Inl e" for e
        using one_error [of p r e] by simp
      with Inr Some Cons.IH [of "p + int (length made)", symmetric] show ?thesis
        by (auto split: sum.splits)
    qed
  qed
qed simp

end

definition valid_ingress :: "IngressRule \<Rightarrow> bool" where
  "valid_ingress r \<longleftrightarrow> (\<forall>n \<in> set (FromSrcIP r). valid_net n)"

definition valid_egress :: "EgressRule \<Rightarrow> bool" where
  "valid_egress r \<longleftrightarrow> (\<forall>n \<in> set (ToDstIP r). valid_net n)"

text \<open>A rule for a packet between the group's interface and a peer.\<close>

definition azure_ingress :: "ApplicationSecurityGroup \<Rightarrow> asg_map \<Rightarrow> IngressRule \<Rightarrow> packet \<Rightarrow> bool" where
  "azure_ingress dst ag r pk \<longleftrightarrow> asg_ID dst \<in> pk_dstASGs pk \<and>
     ingress_permits r (pk_dstPort pk) (pk_proto pk) (pk_src pk) (azure_groups ag (pk_srcASGs pk))"

definition azure_egress :: "ApplicationSecurityGroup \<Rightarrow> asg_map \<Rightarrow> EgressRule \<Rightarrow> packet \<Rightarrow> bool" where
  "azure_egress src ag r pk \<longleftrightarrow> asg_ID src \<in> pk_srcASGs pk \<and>
     egress_permits r (pk_dstPort pk) (pk_proto pk) (pk_dst pk) (azure_groups ag (pk_dstASGs pk))"

lemma build_inbound_matches:
  "azure_matches vnet (buildSecurityRule p name DirectionInbound (Some emptyPort) pre ps asgs (Some port) None None (Some [dst]) d acc) pk \<longleftrightarrow>
    protocol_matches name (pk_proto pk) \<and> port_matches (Some port) (pk_dstPort pk) \<and>
    side_matches vnet pre ps asgs (pk_src pk) (pk_srcASGs pk) \<and> asg_ID dst \<in> pk_dstASGs pk"
  by (simp add: azure_matches_def buildSecurityRule_def side_matches_groups)

lemma build_outbound_matches:
  "azure_matches vnet (buildSecurityRule p name DirectionOutbound (Some emptyPort) None None (Some [src]) (Some port) pre ps asgs d acc) pk \<longleftrightarrow>
    protocol_matches name (pk_proto pk) \<and> port_matches (Some port) (pk_dstPort pk) \<and>
    side_matches vnet pre ps asgs (pk_dst pk) (pk_dstASGs pk) \<and> asg_ID src \<in> pk_srcASGs pk"
  by (auto simp: azure_matches_def buildSecurityRule_def side_matches_groups)

lemma convertToAzureAddressPrefix_some:
  "convertToAzureAddressPrefix ips = (pre, ps) \<Longrightarrow> (\<exists>y. pre = Some y) \<or> (\<exists>y. ps = Some y)"
  by (auto simp: convertToAzureAddressPrefix_def Let_def split: if_splits)

text \<open>The shape of the result: a rule by address unless there are only groups, a rule by groups if
  there are any.\<close>

lemma two_rules:
  assumes "xs = (if \<not> (ips = [] \<and> sgs \<noteq> []) then [A] else []) @ (if asgs \<noteq> [] then [G] else [])"
    and "m A \<longleftrightarrow> M \<and> (ips = [] \<or> a \<in> \<Union> (addresses ` set ips))" "m G \<longleftrightarrow> M \<and> (\<exists>g \<in> set asgs. asg_ID g \<in> ids)"
    and "convertToAzureApplicationSecurityGroups sgs ag = Some asgs"
  shows "(\<exists>a \<in> set xs. m a) \<longleftrightarrow> M \<and> peer_matches ips sgs a (azure_groups ag ids)"
  using assms(1-3) convert_groups [OF assms(4), of ids] by (cases "asgs = []"; cases ips) (auto simp: peer_matches_def)

interpretation ing: rule_translation "ingress_to_azure dst desc ag" valid_ingress in_Protocol
    "azure_ingress dst ag" vnet
  for dst desc ag vnet
proof
  fix p e xs a pk and r :: IngressRule
  obtain asgs where asgs: "convertToAzureApplicationSecurityGroups (FromSecurityGroups r) ag = Some asgs"
    using convert_groups_Some by blast
  obtain pre ps where pre: "convertToAzureAddressPrefix (FromSrcIP r) = (pre, ps)" by fastforce
  note one = ingress_to_azure_def Let_def asgs pre convertToAzureAddressPrefix_some [OF pre]
  show "ingress_to_azure dst desc ag p r = Inl e \<longleftrightarrow> convertToAzureProtocolName (in_Protocol r) = Inl e"
    by (simp add: one split: sum.splits)
  show "map Priority xs = [p..p + int (length xs) - 1]" if "ingress_to_azure dst desc ag p r = Inr xs"
    using that by (auto simp: one buildSecurityRule_def upto_rec1 split: sum.splits if_splits)
  show "Access a = AccessAllow" if "ingress_to_azure dst desc ag p r = Inr xs" "a \<in> set xs"
    using that by (auto simp: one buildSecurityRule_def split: sum.splits if_splits)
  show "(\<exists>a \<in> set xs. azure_matches vnet a pk) \<longleftrightarrow> azure_ingress dst ag r pk"
    if xs: "ingress_to_azure dst desc ag p r = Inr xs" and valid: "valid_ingress r"
  proof -
    obtain name where name: "convertToAzureProtocolName (in_Protocol r) = Inr name"
      using xs by (auto simp: one split: sum.splits)
    note addr = side_matches_address [OF pre valid [unfolded valid_ingress_def]]
    let ?M = "asg_ID dst \<in> pk_dstASGs pk \<and> matches_opt (FromPort r) (pk_dstPort pk) \<and> matches_opt (in_Protocol r) (pk_proto pk)"
    let ?rule = "\<lambda>q x y z. buildSecurityRule q name DirectionInbound (Some emptyPort) x y z
      (Some (convertToAzurePortRange (FromPort r))) None None (Some [dst]) (Some desc) AccessAllow"
    let ?q = "if \<not> (FromSrcIP r = [] \<and> FromSecurityGroups r \<noteq> []) then p + 1 else p"
    have q: "xs = (if \<not> (FromSrcIP r = [] \<and> FromSecurityGroups r \<noteq> []) then [?rule p pre ps None] else []) @
        (if asgs \<noteq> [] then [?rule ?q None None (Some asgs)] else [])"
      using xs name by (simp add: one split: if_splits) blast+
    have "(\<exists>a \<in> set xs. azure_matches vnet a pk) \<longleftrightarrow>
        ?M \<and> peer_matches (FromSrcIP r) (FromSecurityGroups r) (pk_src pk) (azure_groups ag (pk_srcASGs pk))"
      by (rule two_rules [OF q _ _ asgs])
        (auto simp: build_inbound_matches addr side_matches_groups convertToAzureProtocolName_matches [OF name])
    then show ?thesis by (auto simp: azure_ingress_def ingress_permits_def)
  qed
qed

interpretation eg: rule_translation "egress_to_azure src desc ag" valid_egress eg_Protocol
    "azure_egress src ag" vnet
  for src desc ag vnet
proof
  fix p e xs a pk and r :: EgressRule
  obtain asgs where asgs: "convertToAzureApplicationSecurityGroups (ToSecurityGroups r) ag = Some asgs"
    using convert_groups_Some by blast
  obtain pre ps where pre: "convertToAzureAddressPrefix (ToDstIP r) = (pre, ps)" by fastforce
  note one = egress_to_azure_def Let_def asgs pre convertToAzureAddressPrefix_some [OF pre]
  show "egress_to_azure src desc ag p r = Inl e \<longleftrightarrow> convertToAzureProtocolName (eg_Protocol r) = Inl e"
    by (simp add: one split: sum.splits)
  show "map Priority xs = [p..p + int (length xs) - 1]" if "egress_to_azure src desc ag p r = Inr xs"
    using that by (auto simp: one buildSecurityRule_def upto_rec1 split: sum.splits if_splits)
  show "Access a = AccessAllow" if "egress_to_azure src desc ag p r = Inr xs" "a \<in> set xs"
    using that by (auto simp: one buildSecurityRule_def split: sum.splits if_splits)
  show "(\<exists>a \<in> set xs. azure_matches vnet a pk) \<longleftrightarrow> azure_egress src ag r pk"
    if xs: "egress_to_azure src desc ag p r = Inr xs" and valid: "valid_egress r"
  proof -
    obtain name where name: "convertToAzureProtocolName (eg_Protocol r) = Inr name"
      using xs by (auto simp: one split: sum.splits)
    note addr = side_matches_address [OF pre valid [unfolded valid_egress_def]]
    let ?M = "asg_ID src \<in> pk_srcASGs pk \<and> matches_opt (ToPort r) (pk_dstPort pk) \<and> matches_opt (eg_Protocol r) (pk_proto pk)"
    let ?rule = "\<lambda>q x y z. buildSecurityRule q name DirectionOutbound (Some emptyPort) None None (Some [src])
      (Some (convertToAzurePortRange (ToPort r))) x y z (Some desc) AccessAllow"
    let ?q = "if \<not> (ToDstIP r = [] \<and> ToSecurityGroups r \<noteq> []) then p + 1 else p"
    have q: "xs = (if \<not> (ToDstIP r = [] \<and> ToSecurityGroups r \<noteq> []) then [?rule p pre ps None] else []) @
        (if asgs \<noteq> [] then [?rule ?q None None (Some asgs)] else [])"
      using xs name by (simp add: one split: if_splits) blast+
    have "(\<exists>a \<in> set xs. azure_matches vnet a pk) \<longleftrightarrow>
        ?M \<and> peer_matches (ToDstIP r) (ToSecurityGroups r) (pk_dst pk) (azure_groups ag (pk_dstASGs pk))"
      by (rule two_rules [OF q _ _ asgs])
        (auto simp: build_outbound_matches addr side_matches_groups convertToAzureProtocolName_matches [OF name])
    then show ?thesis by (auto simp: azure_egress_def egress_permits_def)
  qed
qed

section \<open>Properties of the translation\<close>

text \<open>
  C5: the Azure rules of an applied-to group allow exactly the traffic its rules permit. In both
  directions a packet matches an allow rule of the translation if and only if the interface is in
  the application security group of the applied-to group and some rule permits the packet from or
  to the peer's address or one of the peer's groups.
\<close>

theorem azure_translation_permits:
  assumes "convertIngressToAzureNsgSecurityRules gid irules ag at = Inr xs"
    and "convertEgressToAzureNsgSecurityRules gid erules ag at = Inr ys"
    and "map_of at (ToLower (id_Name gid)) = Some asg"
    and "\<And>r. Some r \<in> set irules \<Longrightarrow> valid_ingress r" "\<And>r. Some r \<in> set erules \<Longrightarrow> valid_egress r"
  shows "((\<exists>a \<in> set xs. Access a = AccessAllow \<and> azure_matches vnet a pk) \<longleftrightarrow>
      (\<exists>r. Some r \<in> set irules \<and> azure_ingress asg ag r pk)) \<and>
    ((\<exists>a \<in> set ys. Access a = AccessAllow \<and> azure_matches vnet a pk) \<longleftrightarrow>
      (\<exists>r. Some r \<in> set erules \<and> azure_egress asg ag r pk))"
proof -
  have deny: "Access (vnet_deny_rule d) = AccessDeny" for d
    by (simp add: vnet_deny_rule_def buildSecurityRule_def)
  obtain us where us: "convert_rules (ingress_to_azure asg (GetCloudName gid False) ag) ruleStartPriority irules = Inr us"
      "xs = us @ [vnet_deny_rule DirectionInbound]"
    using assms(1,3) by (auto simp: convertIngressToAzureNsgSecurityRules_def split: sum.splits)
  obtain vs where vs: "convert_rules (egress_to_azure asg (GetCloudName gid False) ag) ruleStartPriority erules = Inr vs"
      "ys = vs @ [vnet_deny_rule DirectionOutbound]"
    using assms(2,3) by (auto simp: convertEgressToAzureNsgSecurityRules_def split: sum.splits)
  show ?thesis
    using ing.convert_permits [OF us(1) assms(4), of vnet pk] eg.convert_permits [OF vs(1) assms(5), of vnet pk]
      ing.convert_allow [OF us(1)] eg.convert_allow [OF vs(1)] deny us(2) vs(2)
    by fastforce
qed

definition example_at :: asg_map where
  "example_at = [(''web'', \<lparr>asg_ID = ''id-web'', asg_Name = Some ''nephe-at-web''\<rparr>)]"

definition example_ag :: asg_map where
  "example_ag = [(''db'', \<lparr>asg_ID = ''id-db'', asg_Name = Some ''nephe-ag-db''\<rparr>)]"

definition example_in :: IngressRule where
  "example_in = \<lparr>FromPort = Some 443, FromSrcIP = [], FromSecurityGroups = [\<lparr>id_Name = ''db'', id_Vpc = ''vnet''\<rparr>], in_Protocol = Some 6\<rparr>"

theorem azure_translation_permits_witness:
  "(let pk = \<lparr>pk_proto = 6, pk_src = 1, pk_dst = 2, pk_srcPort = 1000, pk_dstPort = 443, pk_srcASGs = {''id-db''}, pk_dstASGs = {''id-web''}\<rparr>
    in \<exists>xs. convertIngressToAzureNsgSecurityRules \<lparr>id_Name = ''web'', id_Vpc = ''vnet''\<rparr> [Some example_in] example_ag example_at = Inr xs \<and>
       (\<exists>a \<in> set xs. Access a = AccessAllow \<and> azure_matches UNIV a pk))"
proof -
  let ?g = "\<lparr>id_Name = ''web'', id_Vpc = ''vnet''\<rparr>"
  let ?pk = "\<lparr>pk_proto = 6, pk_src = 1, pk_dst = 2, pk_srcPort = 1000, pk_dstPort = 443, pk_srcASGs = {''id-db''}, pk_dstASGs = {''id-web''}\<rparr>"
  have lower: "ToLower ''web'' = ''web''" "ToLower ''db'' = ''db''" by code_simp+
  obtain xs ys where conv: "convertIngressToAzureNsgSecurityRules ?g [Some example_in] example_ag example_at = Inr xs"
      "convertEgressToAzureNsgSecurityRules ?g [] example_ag example_at = Inr ys"
    by (simp add: convertIngressToAzureNsgSecurityRules_def convertEgressToAzureNsgSecurityRules_def example_at_def lower
      ingress_to_azure_def example_in_def convertToAzureProtocolName_def protoNumAzureNameMap_def split: sum.splits)
  have at: "map_of example_at (ToLower (id_Name ?g)) = Some \<lparr>asg_ID = ''id-web'', asg_Name = Some ''nephe-at-web''\<rparr>"
    by (simp add: example_at_def lower)
  have "azure_ingress \<lparr>asg_ID = ''id-web'', asg_Name = Some ''nephe-at-web''\<rparr> example_ag example_in ?pk"
    by (simp add: azure_ingress_def ingress_permits_def example_in_def matches_opt_def peer_matches_def azure_groups_def example_ag_def lower)
  then have "\<exists>a \<in> set xs. Access a = AccessAllow \<and> azure_matches UNIV a ?pk"
    using azure_translation_permits [OF conv at, THEN conjunct1, THEN iffD2] by (simp add: valid_ingress_def example_in_def)
  with conv(1) show ?thesis by (auto simp: Let_def)
qed

text \<open>
  C22: the translation fails exactly when it must: the applied-to group has no application security
  group in the resource group, or some rule names a protocol other than ICMP, TCP and UDP. Nothing
  else, and in particular no unknown peer group, makes it fail.
\<close>

theorem azure_translation_error:
  "((\<exists>e. convertIngressToAzureNsgSecurityRules gid irules ag at = Inl e) \<longleftrightarrow>
    map_of at (ToLower (id_Name gid)) = None \<or>
    (\<exists>r n. Some r \<in> set irules \<and> in_Protocol r = Some n \<and> n \<notin> {1, 6, 17})) \<and>
   ((\<exists>e. convertEgressToAzureNsgSecurityRules gid erules ag at = Inl e) \<longleftrightarrow>
    map_of at (ToLower (id_Name gid)) = None \<or>
    (\<exists>r n. Some r \<in> set erules \<and> eg_Protocol r = Some n \<and> n \<notin> {1, 6, 17}))"
proof (cases "map_of at (ToLower (id_Name gid))")
  case (Some asg)
  have bad: "(\<exists>e. convertToAzureProtocolName p = Inl e) \<longleftrightarrow> (\<exists>n. p = Some n \<and> n \<notin> {1, 6, 17})" for p
    by (auto simp: convertToAzureProtocolName_def protoNumAzureNameMap_def split: option.splits)
  show ?thesis
  proof (rule conjI, goal_cases)
    case 1
    show ?case
      using ing.convert_error [of asg "GetCloudName gid False" ag ruleStartPriority irules] Some bad
      by (auto simp: convertIngressToAzureNsgSecurityRules_def split: sum.splits)
  next
    case 2
    show ?case
      using eg.convert_error [of asg "GetCloudName gid False" ag ruleStartPriority erules] Some bad
      by (auto simp: convertEgressToAzureNsgSecurityRules_def split: sum.splits)
  qed
qed (simp add: convertIngressToAzureNsgSecurityRules_def convertEgressToAzureNsgSecurityRules_def)

section \<open>Reading the rules back\<close>

lemma convertToAzureProtocolName_back:
  "convertToAzureProtocolName p = Inr name \<Longrightarrow> convertFromAzureProtocolToNepheControllerProtocol name = Inr p"
  by (auto simp: convertToAzureProtocolName_def protoNumAzureNameMap_def
      convertFromAzureProtocolToNepheControllerProtocol_def azureProtoNameToNumMap_def split: option.splits if_splits)

definition port32 :: "int option \<Rightarrow> bool" where
  "port32 p \<longleftrightarrow> (\<forall>v. p = Some v \<longrightarrow> - (2 ^ 31) \<le> v \<and> v < 2 ^ 31)"

lemma convertToAzurePortRange_back:
  "port32 p \<Longrightarrow> convertFromAzurePortToNepheControllerPort (Some (convertToAzurePortRange p)) = p"
  by (auto simp: convertFromAzurePortToNepheControllerPort_def convertToAzurePortRange_def port32_def ParseInt32_Itoa
      split: option.splits)

lemma convertToAzureAddressPrefix_back:
  assumes "convertToAzureAddressPrefix ips = (p, ps)" "\<forall>n \<in> set ips. valid_net n"
  shows "convertFromAzurePrefixesToNepheControllerIPs p (Some (case ps of None \<Rightarrow> [] | Some l \<Rightarrow> l)) = Some (map masked ips)"
proof (cases "ips = []")
  case False
  have "concat (map (\<lambda>p. case ParseCIDR p of None \<Rightarrow> [] | Some ipNet \<Rightarrow> [ipNet]) (map IPNet_String ips)) = map masked ips"
    using assms(2) by (induction ips) (simp_all add: ParseCIDR_String)
  moreover have "p = None" "ps = Some (map IPNet_String ips)"
    using False assms(1) by (simp_all add: convertToAzureAddressPrefix_def Let_def)
  ultimately show ?thesis by (simp add: convertFromAzurePrefixesToNepheControllerIPs_def)
qed (use assms in \<open>auto simp: convertToAzureAddressPrefix_def convertFromAzurePrefixesToNepheControllerIPs_def\<close>)

text \<open>The application security group of an address group carries the group's cloud name.\<close>

definition named_asgs :: "asg_map \<Rightarrow> bool" where
  "named_asgs ag \<longleftrightarrow> (\<forall>n asg. map_of ag n = Some asg \<longrightarrow>
     (\<exists>sub rg. extractFieldsFromAzureResourceID (asg_ID asg) = Inr (sub, rg, GetCloudName \<lparr>id_Name = n, id_Vpc = []\<rparr> True)))"

lemma convertToAzureApplicationSecurityGroups_back:
  assumes "named_asgs ag" "\<forall>g \<in> set gs. map_of ag (ToLower (id_Name g)) \<noteq> None"
    and "convertToAzureApplicationSecurityGroups gs ag = Some asgs"
  shows "convertFromAzureASGsToNepheControllerSecurityGroups (Some asgs) vnetID =
    map (\<lambda>g. \<lparr>id_Name = ToLower (id_Name g), id_Vpc = vnetID\<rparr>) gs"
proof -
  have one: "convertFromAzureASGsToNepheControllerSecurityGroups (Some [asg]) vnetID = [\<lparr>id_Name = ToLower n, id_Vpc = vnetID\<rparr>]"
    if "map_of ag n = Some asg" for n asg
  proof -
    obtain sub rg where "extractFieldsFromAzureResourceID (asg_ID asg) = Inr (sub, rg, GetCloudName \<lparr>id_Name = n, id_Vpc = []\<rparr> True)"
      using assms(1) \<open>map_of ag n = Some asg\<close> unfolding named_asgs_def by blast
    then show ?thesis by (simp add: convertFromAzureASGsToNepheControllerSecurityGroups_def)
  qed
  have split: "convertFromAzureASGsToNepheControllerSecurityGroups (Some (x # xs)) vnetID =
      convertFromAzureASGsToNepheControllerSecurityGroups (Some [x]) vnetID @
      convertFromAzureASGsToNepheControllerSecurityGroups (Some xs) vnetID" for x xs
    by (simp add: convertFromAzureASGsToNepheControllerSecurityGroups_def)
  have nil: "convertFromAzureASGsToNepheControllerSecurityGroups (Some []) vnetID = []"
    by (simp add: convertFromAzureASGsToNepheControllerSecurityGroups_def)
  from assms(2,3) show ?thesis
  proof (induction gs arbitrary: asgs)
    case (Cons g gs)
    then obtain asg rest where "map_of ag (ToLower (id_Name g)) = Some asg" "asgs = asg # rest"
        "convertToAzureApplicationSecurityGroups gs ag = Some rest"
      by (auto simp: convertToAzureApplicationSecurityGroups_def)
    with Cons show ?case using one split [of asg rest] by simp
  qed (simp add: convertToAzureApplicationSecurityGroups_def nil)
qed

text \<open>
  Azure returns a rule as it was sent, with empty lists for the prefixes that were left out. This is
  the documented form of its answers and the assumption under which the rules are read back.
\<close>

definition returned_by_azure :: "(SecurityRule \<Rightarrow> SecurityRule) \<Rightarrow> bool" where
  "returned_by_azure f \<longleftrightarrow> (\<forall>r. f r = r\<lparr>
     SourceAddressPrefixes := Some (case SourceAddressPrefixes r of None \<Rightarrow> [] | Some l \<Rightarrow> l),
     DestinationAddressPrefixes := Some (case DestinationAddressPrefixes r of None \<Rightarrow> [] | Some l \<Rightarrow> l)\<rparr>)"

text \<open>The rules as they come back: addresses and groups in rules of their own, blocks with their
  host bits cleared, group names in lower case.\<close>

definition split_ingress :: "string \<Rightarrow> IngressRule \<Rightarrow> IngressRule list" where
  "split_ingress vnetID r =
     (if FromSrcIP r \<noteq> [] \<or> FromSecurityGroups r = []
      then [r\<lparr>FromSrcIP := map masked (FromSrcIP r), FromSecurityGroups := []\<rparr>] else []) @
     (if FromSecurityGroups r \<noteq> []
      then [r\<lparr>FromSrcIP := [],
         FromSecurityGroups := map (\<lambda>g. \<lparr>id_Name = ToLower (id_Name g), id_Vpc = vnetID\<rparr>) (FromSecurityGroups r)\<rparr>] else [])"


definition example_named :: asg_map where
  "example_named = [(''db'', \<lparr>asg_ID = ''/subscriptions/s/resourceGroups/rg/providers/Microsoft.Network/applicationSecurityGroups/nephe-ag-db'',
     asg_Name = Some ''nephe-ag-db''\<rparr>)]"


theorem updateSecurityRule_numbering_witness:
  "map Priority (take 2 (updateSecurityRuleNameAndPriority in_order
     [buildSecurityRule 100 ProtocolTCP DirectionInbound None None None None None None None None None AccessAllow]
     [buildSecurityRule 100 ProtocolUDP DirectionInbound None None None None None None None None None AccessAllow,
      vnet_deny_rule DirectionInbound])) = [100, 101]"
  using updateSecurityRule_numbering [OF is_order_in_order, of
     "[buildSecurityRule 100 ProtocolTCP DirectionInbound None None None None None None None None None AccessAllow]"
     "[buildSecurityRule 100 ProtocolUDP DirectionInbound None None None None None None None None None AccessAllow,
      vnet_deny_rule DirectionInbound]"]
  by (simp add: is_default_def buildSecurityRule_def vnet_deny_rule_def vnetToVnetDenyRulePriority_def ruleStartPriority_def
      upto_rec1 numeral_2_eq_2)

end
