(* ===== verification/Azure_Network.thy ===== *)
theory Azure_Network
  imports Azure_Nsg Go_Monad
begin

text \<open>
  Access to Azure's network objects: application security groups (\<^verbatim>\<open>azure_asg.go\<close>), network
  security groups (\<^verbatim>\<open>azure_nsg.go\<close>), network interfaces (\<^verbatim>\<open>azure_network_interfaces.go\<close>) and the
  table of interfaces in the resource graph (\<^verbatim>\<open>azure_resource_graph_nwIntfTable.go\<close>), all under
  \<^verbatim>\<open>pkg/cloud-provider/cloudapi/azure\<close>. The SDK's clients are a parameter: functions on the state of
  the cloud, of which reading leaves the state as it is. An error of a client is
  \<open>NotFound\<close> when its status code is 404; the text of the error is kept. Every error of the clients
  is a \<^verbatim>\<open>DetailedError\<close>, as the SDK documents. Fields that Azure fills in every object and that the
  code reads without a test (the configurations of an interface, the columns of the table) are
  plain values.
\<close>

section \<open>Objects and clients\<close>

record NetworkSecurityGroup =
  nsg_ID :: "string option"
  nsg_Name :: "string option"
  nsg_Location :: "string option"
  SecurityRules :: "SecurityRule list option"

record ipConfiguration =
  ipc_Primary :: bool
  ipc_ASGs :: "ApplicationSecurityGroup list option"

record Interface =
  nic_ID :: "string option"
  IPConfigurations :: "ipConfiguration list"
  nic_NSG :: "NetworkSecurityGroup option"
  nic_Tags :: "(string, string) gomap option"

record networkInterfaceTable =
  nit_ID :: string
  nit_VnetID :: string
  VirtualMachineID :: "string option"
  NetworkSecurityGroupID :: "string option"
  ApplicationSecurityGroupIDs :: "string list"
  nit_Tags :: "(string, string) gomap list"

text \<open>An application security group that the client could not find has no identifier; the
  groups in lists have one.\<close>

record 'c azure_clients =
  nsg_get :: "string \<Rightarrow> string \<Rightarrow> 'c \<Rightarrow> go_error + NetworkSecurityGroup"
  nsg_createOrUpdate :: "string \<Rightarrow> string \<Rightarrow> NetworkSecurityGroup \<Rightarrow> 'c \<Rightarrow> (go_error + NetworkSecurityGroup) \<times> 'c"
  nsg_listAllComplete :: "'c \<Rightarrow> go_error + NetworkSecurityGroup list"
  asg_get :: "string \<Rightarrow> string \<Rightarrow> 'c \<Rightarrow> go_error + ApplicationSecurityGroup"
  asg_createOrUpdate :: "string \<Rightarrow> string \<Rightarrow> string \<Rightarrow> 'c \<Rightarrow> (go_error + ApplicationSecurityGroup) \<times> 'c"
  asg_listComplete :: "string \<Rightarrow> 'c \<Rightarrow> go_error + ApplicationSecurityGroup list"
  asg_listAllComplete :: "'c \<Rightarrow> go_error + ApplicationSecurityGroup list"
  asg_delete :: "string \<Rightarrow> string \<Rightarrow> 'c \<Rightarrow> error \<times> 'c"
  nic_listAllComplete :: "'c \<Rightarrow> go_error + Interface list"
  nic_createOrUpdate :: "string \<Rightarrow> string \<Rightarrow> Interface \<Rightarrow> 'c \<Rightarrow> error \<times> 'c"
  graph_nwIntfs :: "string \<Rightarrow> string list \<Rightarrow> 'c \<Rightarrow> go_error + networkInterfaceTable list"

section \<open>Application security groups\<close>

definition createOrGetApplicationSecurityGroup ::
    "('c, 'z) azure_clients_scheme \<Rightarrow> string \<Rightarrow> string \<Rightarrow> string \<Rightarrow> ('c, go_error + string) state" where
  "createOrGetApplicationSecurityGroup cl location rgName cloudAsgName = do {
     got \<leftarrow> gets (asg_get cl rgName cloudAsgName);
     case got of
       Inr asg \<Rightarrow> ret (Inr (ToLower (asg_ID asg)))
     | Inl (NotFound _) \<Rightarrow> do {
         made \<leftarrow> State (asg_createOrUpdate cl rgName cloudAsgName location);
         case made of Inl err \<Rightarrow> ret (Inl err) | Inr asg \<Rightarrow> ret (Inr (ToLower (asg_ID asg)))
       }
     | Inl err \<Rightarrow> ret (Inl err)
   }"

definition sort_asg :: "ApplicationSecurityGroup \<Rightarrow> asg_map \<times> asg_map \<Rightarrow> asg_map \<times> asg_map" where
  "sort_asg asg maps = (case maps of (ag, at) \<Rightarrow>
     (case asg_Name asg of
        None \<Rightarrow> (ag, at)
      | Some asgName \<Rightarrow> (case IsNepheControllerCreatedSG asgName of (sgName, isAG, isAT) \<Rightarrow>
          if isAT then (ag, put (ToLower sgName) asg at)
          else if isAG then (put (ToLower sgName) asg ag, at)
          else (ag, at))))"

definition getNepheControllerCreatedAsgByNameForResourceGroup ::
    "('c, 'z) azure_clients_scheme \<Rightarrow> string \<Rightarrow> 'c \<Rightarrow> go_error + asg_map \<times> asg_map" where
  "getNepheControllerCreatedAsgByNameForResourceGroup cl rgName c = (case asg_listComplete cl rgName c of
     Inl err \<Rightarrow> Inl err
   | Inr asgs \<Rightarrow> Inr (fold sort_asg asgs ([], [])))"

section \<open>Network security groups\<close>

definition create_nsg :: "('c, 'z) azure_clients_scheme \<Rightarrow> string \<Rightarrow> string \<Rightarrow> string \<Rightarrow> ('c, (go_error + string) outcome) state" where
  "create_nsg cl location rgName cloudSgName = do {
     made \<leftarrow> State (nsg_createOrUpdate cl rgName cloudSgName \<lparr>nsg_ID = None, nsg_Name = None, nsg_Location = Some location, SecurityRules = None\<rparr>);
     case made of
       Inl err \<Rightarrow> ret (Returns (Inl err))
     | Inr nsg \<Rightarrow> ret (case nsg_ID nsg of None \<Rightarrow> Panics | Some i \<Rightarrow> Returns (Inr (ToLower i)))
   }"

definition createOrGetNetworkSecurityGroup ::
    "('c, 'z) azure_clients_scheme \<Rightarrow> string \<Rightarrow> string \<Rightarrow> string \<Rightarrow> ('c, (go_error + string) outcome) state" where
  "createOrGetNetworkSecurityGroup cl location rgName cloudSgName = do {
     got \<leftarrow> gets (nsg_get cl rgName cloudSgName);
     case got of
       Inl (NotFound _) \<Rightarrow> create_nsg cl location rgName cloudSgName
     | Inl err \<Rightarrow> ret (Returns (Inl err))
     | Inr nsg \<Rightarrow> (case nsg_ID nsg of
         Some i \<Rightarrow> ret (Returns (Inr (ToLower i)))
       | None \<Rightarrow> create_nsg cl location rgName cloudSgName)
   }"

definition updateNetworkSecurityGroupRules ::
    "('c, 'z) azure_clients_scheme \<Rightarrow> string \<Rightarrow> string \<Rightarrow> string \<Rightarrow> SecurityRule list \<Rightarrow> ('c, error) state" where
  "updateNetworkSecurityGroupRules cl location rgName cloudSgName rules = do {
     made \<leftarrow> State (nsg_createOrUpdate cl rgName cloudSgName
       \<lparr>nsg_ID = None, nsg_Name = Some cloudSgName, nsg_Location = Some location, SecurityRules = Some rules\<rparr>);
     case made of Inl err \<Rightarrow> ret (Some err) | Inr _ \<Rightarrow> ret None
   }"

section \<open>Network interfaces\<close>

text \<open>The groups of the first primary configuration; the configurations share their properties,
  so writing them in the loop changes the configurations of the interface.\<close>

fun primary_asgs :: "ipConfiguration list \<Rightarrow> ApplicationSecurityGroup list" where
  "primary_asgs [] = []"
| "primary_asgs (ipc # ipcs) =
     (if \<not> ipc_Primary ipc then primary_asgs ipcs
      else case ipc_ASGs ipc of None \<Rightarrow> [] | Some asgs \<Rightarrow> asgs)"

definition getAsgUpdatedIPConfigurations ::
    "Interface \<Rightarrow> ApplicationSecurityGroup \<Rightarrow> bool \<Rightarrow> ipConfiguration list" where
  "getAsgUpdatedIPConfigurations nwIntfObj asgObj isAttach =
     (let current = primary_asgs (IPConfigurations nwIntfObj);
          newNwIntfAsgs = (if isAttach then current @ [asgObj]
            else filter (\<lambda>asg. ToLower (asg_ID asg) \<noteq> ToLower (asg_ID asgObj)) current)
      in map (\<lambda>ipc. ipc\<lparr>ipc_ASGs := Some newNwIntfAsgs\<rparr>) (IPConfigurations nwIntfObj))"

definition hasAnyNepheControllerSecurityGroupTags :: "(string, string) gomap option \<Rightarrow> bool" where
  "hasAnyNepheControllerSecurityGroupTags tags = (case tags of
     None \<Rightarrow> False
   | Some m \<Rightarrow> (\<exists>(key, _) \<in> set m. case IsNepheControllerCreatedSG key of (_, _, isATSG) \<Rightarrow> isATSG))"

definition getUpdatedNetworkInterfaceNsgAndTags ::
    "Interface \<Rightarrow> NetworkSecurityGroup \<Rightarrow> bool \<Rightarrow> string \<Rightarrow> NetworkSecurityGroup option \<times> (string, string) gomap option" where
  "getUpdatedNetworkInterfaceNsgAndTags nwIntfObj nsgObj isAttach tagKey =
     (if isAttach
      then (Some nsgObj, Some (put tagKey ''true'' (case nic_Tags nwIntfObj of None \<Rightarrow> [] | Some m \<Rightarrow> m)))
      else let currentTags = map_option (del tagKey) (nic_Tags nwIntfObj)
           in (if \<not> hasAnyNepheControllerSecurityGroupTags currentTags then None else nic_NSG nwIntfObj, currentTags))"

text \<open>When the identifier is malformed the request goes to empty names.\<close>

definition nic_names :: "string \<Rightarrow> string \<times> string" where
  "nic_names i = (case extractFieldsFromAzureResourceID i of Inl _ \<Rightarrow> ([], []) | Inr (_, rgName, resName) \<Rightarrow> (rgName, resName))"

definition updateNetworkInterfaceAsg ::
    "('c, 'z) azure_clients_scheme \<Rightarrow> Interface \<Rightarrow> ApplicationSecurityGroup \<Rightarrow> bool \<Rightarrow> ('c, error) state" where
  "updateNetworkInterfaceAsg cl nwIntfObj asgObj isAttach = (case nic_ID nwIntfObj of
     None \<Rightarrow> ret (Some (Err ''network interface object is empty''))
   | Some i \<Rightarrow> (case nic_names i of (rgName, resName) \<Rightarrow>
       State (nic_createOrUpdate cl rgName resName
         (nwIntfObj\<lparr>IPConfigurations := getAsgUpdatedIPConfigurations nwIntfObj asgObj isAttach\<rparr>))))"

definition updateNetworkInterfaceNsg ::
    "('c, 'z) azure_clients_scheme \<Rightarrow> Interface \<Rightarrow> NetworkSecurityGroup \<Rightarrow> ApplicationSecurityGroup \<Rightarrow> bool \<Rightarrow> string \<Rightarrow> ('c, error) state" where
  "updateNetworkInterfaceNsg cl nwIntfObj nsgObj asgObj isAttach tagKey = (case nic_ID nwIntfObj of
     None \<Rightarrow> ret (Some (Err ''network interface object is empty''))
   | Some i \<Rightarrow> (case (nic_names i, getUpdatedNetworkInterfaceNsgAndTags nwIntfObj nsgObj isAttach tagKey) of
       ((rgName, resName), (nsg, tags)) \<Rightarrow>
         State (nic_createOrUpdate cl rgName resName
           (nwIntfObj\<lparr>IPConfigurations := getAsgUpdatedIPConfigurations nwIntfObj asgObj isAttach,
              nic_NSG := nsg, nic_Tags := tags\<rparr>))))"

definition collect_nic :: "(string, unit) gomap \<Rightarrow> Interface \<Rightarrow> (string, Interface) gomap option \<Rightarrow> (string, Interface) gomap option" where
  "collect_nic nwIntfIDSet nwIntfObj acc = (case (acc, nic_ID nwIntfObj) of
     (Some m, Some i) \<Rightarrow> Some (if has_key nwIntfIDSet (ToLower i) then put (ToLower i) nwIntfObj m else m)
   | _ \<Rightarrow> None)"

definition getNetworkInterfacesGivenIDs ::
    "('c, 'z) azure_clients_scheme \<Rightarrow> (string, unit) gomap \<Rightarrow> 'c \<Rightarrow> (go_error + (string, Interface) gomap) outcome" where
  "getNetworkInterfacesGivenIDs cl nwIntfIDSet c = (case nic_listAllComplete cl c of
     Inl err \<Rightarrow> Returns (Inl err)
   | Inr nwIntfObjs \<Rightarrow> (case fold (collect_nic nwIntfIDSet) nwIntfObjs (Some []) of
       None \<Rightarrow> Panics
     | Some m \<Rightarrow> Returns (Inr m)))"

end
