(* ===== verification/Cloud_Accounts.thy ===== *)
theory Cloud_Accounts
  imports Cloud_Webhook "HOL-Library.Word"
begin

text \<open>
  The framework the cloud plug-ins share (\<^verbatim>\<open>pkg/cloud-provider/cloudapi/internal\<close>): accounts with their
  services, selectors and the periodic inventory, and the resources made of virtual machines
  (\<^verbatim>\<open>pkg/cloud-provider/utils/crd_generator.go\<close>). A service is a record of operations on its state \<open>'s\<close>, which
  the plug-ins provide; \<open>'c\<close> is the state of the cloud, which an inventory reads. The mutexes make every
  operation atomic. The goroutines of one inventory run in the order given. Times and random
  identifiers are left out.
\<close>

section \<open>Virtual machines\<close>

datatype AddressType = AddressTypeHostName | AddressTypeInternalIP | AddressTypeExternalIP

record IPAddress =
  ip_AddressType :: AddressType
  ip_Address :: string

record NetworkInterface =
  nif_Name :: string
  MAC :: string
  IPs :: "IPAddress list"

record VirtualMachineCRD =
  crd_Name :: string
  crd_Namespace :: string
  crd_Annotations :: "(string, string) gomap"
  crd_Provider :: CloudProvider
  VirtualPrivateCloud :: string
  crd_Tags :: "(string, string) gomap"
  crd_State :: string
  NetworkInterfaces :: "NetworkInterface list"

definition GenerateVirtualMachineCRD ::
    "string \<Rightarrow> string \<Rightarrow> string \<Rightarrow> string \<Rightarrow> string \<Rightarrow> string \<Rightarrow> string \<Rightarrow> (string, string) gomap \<Rightarrow>
     NetworkInterface list \<Rightarrow> CloudProvider \<Rightarrow> VirtualMachineCRD" where
  "GenerateVirtualMachineCRD crdName cloudName cloudID namespace cloudNetwork shortNetworkID state tags networkInterfaces provider =
     \<lparr>crd_Name = crdName, crd_Namespace = namespace,
      crd_Annotations = [(AnnotationCloudAssignedIDKey, cloudID), (AnnotationCloudAssignedNameKey, cloudName),
        (AnnotationCloudAssignedVPCIDKey, cloudNetwork)],
      crd_Provider = provider, VirtualPrivateCloud = shortNetworkID, crd_Tags = tags, crd_State = state,
      NetworkInterfaces = networkInterfaces\<rparr>"

section \<open>Services\<close>

record CloudServiceStats =
  totalPollCnt :: "64 word"
  successPollCnt :: "64 word"
  lastPollErr :: error

definition IsInventoryInitialized :: "CloudServiceStats \<Rightarrow> bool" where
  "IsInventoryInitialized s \<longleftrightarrow> successPollCnt s > 0"

definition UpdateInventoryPollStats :: "error \<Rightarrow> CloudServiceStats \<Rightarrow> CloudServiceStats" where
  "UpdateInventoryPollStats err s =
     (let s' = s\<lparr>totalPollCnt := totalPollCnt s + 1\<rparr>
      in case err of None \<Rightarrow> s'\<lparr>successPollCnt := successPollCnt s + 1\<rparr> | Some _ \<Rightarrow> s'\<lparr>lastPollErr := err\<rparr>)"

definition ResetInventoryPollStats :: "CloudServiceStats \<Rightarrow> CloudServiceStats" where
  "ResetInventoryPollStats s = \<lparr>totalPollCnt = 0, successPollCnt = 0, lastPollErr = None\<rparr>"

datatype CloudServiceType = CloudServiceTypeCompute

text \<open>
  \<open>'s\<close> is the state of a service, \<open>'c\<close> its cloud and \<open>'v\<close> a pointer to a resource, which the services of Azure may
  leave nil.
\<close>

record ('s, 'c, 'v) CloudServiceInterface =
  UpdateServiceConfig :: "'s \<Rightarrow> 's \<Rightarrow> 's"
  SetResourceFilters :: "CloudEntitySelector option \<Rightarrow> 's \<Rightarrow> 's"
  HasFiltersConfigured :: "order \<Rightarrow> 's \<Rightarrow> bool \<times> bool"
  DoResourceInventory :: "order \<Rightarrow> 'c \<Rightarrow> 's \<Rightarrow> error \<times> 's"
  map_InventoryStats :: "(CloudServiceStats \<Rightarrow> CloudServiceStats) \<Rightarrow> 's \<Rightarrow> 's"
  GetResourceCRDs :: "order \<Rightarrow> string \<Rightarrow> 's \<Rightarrow> 'v list"
  GetType :: "'s \<Rightarrow> CloudServiceType"
  ResetCachedState :: "'s \<Rightarrow> 's"

section \<open>Accounts\<close>

text \<open>\<open>inventory_polling\<close> is whether the channel that ends the periodic inventory is there.\<close>

record ('s, 'r) cloudAccountConfig =
  acc_namespacedName :: NamespacedName
  credentials :: 'r
  serviceConfigs :: "(string, 's) gomap"
  inventoryPollInterval :: nat
  inventory_polling :: bool
  Status_Error :: string

text \<open>
  What a plug-in injects: the conversion of credentials, their comparison and the creation of the
  services, each of which may be missing. A service comes with its name. The conversion reads a secret and may
  panic.
\<close>

record ('s, 'r, 'i) commonHelper =
  SetAccountCredentialsFunc :: "('i \<Rightarrow> (go_error + 'r option) outcome) option"
  GetCloudCredentialsComparatorFunc :: "(string \<Rightarrow> 'r \<Rightarrow> 'r \<Rightarrow> bool) option"
  GetCloudServicesCreateFunc :: "(NamespacedName \<Rightarrow> 'r \<Rightarrow> go_error + (string \<times> 's) list) option"

definition convert_credentials :: "('s, 'r, 'i) commonHelper \<Rightarrow> string \<Rightarrow> 'i \<Rightarrow> (go_error + 'r) outcome" where
  "convert_credentials h missing creds = (case SetAccountCredentialsFunc h of
     None \<Rightarrow> Returns (Inl (Err ''registered cloud-credentials validator function cannot be nil''))
   | Some validate \<Rightarrow> (case validate creds of
       Returns (Inl err) \<Rightarrow> Returns (Inl err)
     | Returns (Inr None) \<Rightarrow> Returns (Inl (Err missing))
     | Returns (Inr (Some r)) \<Rightarrow> Returns (Inr r)
     | Panics \<Rightarrow> Panics
     | Hangs \<Rightarrow> Hangs))"

definition create_services :: "('s, 'r, 'i) commonHelper \<Rightarrow> NamespacedName \<Rightarrow> 'r \<Rightarrow> go_error + (string, 's) gomap" where
  "create_services h nn r = (case GetCloudServicesCreateFunc h of
     None \<Rightarrow> Inl (Err ''registered cloud-services creator function cannot be nil'')
   | Some create \<Rightarrow> (case create nn r of
       Inl err \<Rightarrow> Inl err
     | Inr services \<Rightarrow> Inr (fold (\<lambda>(n, s). put n s) services [])))"

definition newCloudAccountConfig ::
    "('s, 'r, 'i) commonHelper \<Rightarrow> NamespacedName \<Rightarrow> 'i \<Rightarrow> nat \<Rightarrow> (go_error + ('s, 'r) cloudAccountConfig) outcome" where
  "newCloudAccountConfig h nn creds pollInterval =
     (case convert_credentials h (''cloud credentials cannot be nil (accountName: '' @ NamespacedName_String nn @ '')'') creds of
        Returns (Inl err) \<Rightarrow> Returns (Inl err)
      | Returns (Inr r) \<Rightarrow> (case create_services h nn r of
          Inl err \<Rightarrow> Returns (Inl err)
        | Inr services \<Rightarrow> Returns (Inr \<lparr>acc_namespacedName = nn, credentials = r, serviceConfigs = services,
            inventoryPollInterval = pollInterval, inventory_polling = False, Status_Error = []\<rparr>))
      | Panics \<Rightarrow> Panics
      | Hangs \<Rightarrow> Hangs)"

definition account_update ::
    "('s, 'c, 'v) CloudServiceInterface \<Rightarrow> (string \<Rightarrow> 'r \<Rightarrow> 'r \<Rightarrow> bool) \<Rightarrow> 'r \<Rightarrow> (string, 's) gomap \<Rightarrow>
     ('s, 'r) cloudAccountConfig \<Rightarrow> ('s, 'r) cloudAccountConfig" where
  "account_update ops changed newCredentials newSvcs acc =
     (if \<not> changed (NamespacedName_String (acc_namespacedName acc)) newCredentials (credentials acc) then acc
      else acc\<lparr>credentials := newCredentials,
             serviceConfigs := map (\<lambda>(name, svc). (name, case map_of newSvcs name of
               None \<Rightarrow> svc | Some new \<Rightarrow> UpdateServiceConfig ops new svc)) (serviceConfigs acc)\<rparr>)"

definition updateCloudAccountConfig ::
    "('s, 'c, 'v) CloudServiceInterface \<Rightarrow> ('s, 'r, 'i) commonHelper \<Rightarrow> 'i \<Rightarrow> ('s, 'r) cloudAccountConfig \<Rightarrow>
     (error \<times> ('s, 'r) cloudAccountConfig) outcome" where
  "updateCloudAccountConfig ops h creds acc =
     (case convert_credentials h (''cloud credentials cannot be nil. update failed. (account: '' @
         NamespacedName_String (acc_namespacedName acc) @ '')'') creds of
        Returns (Inl err) \<Rightarrow> Returns (Some err, acc)
      | Returns (Inr r) \<Rightarrow> (case GetCloudCredentialsComparatorFunc h of
          None \<Rightarrow> Returns (None, acc)
        | Some changed \<Rightarrow> (case create_services h (acc_namespacedName acc) r of
            Inl err \<Rightarrow> Returns (Some err, acc)
          | Inr services \<Rightarrow> Returns (None, account_update ops changed r services acc)))
      | Panics \<Rightarrow> Panics
      | Hangs \<Rightarrow> Hangs)"

section \<open>Inventory\<close>

definition sync_service ::
    "('s, 'c, 'v) CloudServiceInterface \<Rightarrow> order \<Rightarrow> 'c \<Rightarrow> string \<Rightarrow> ('s, 'r) cloudAccountConfig \<Rightarrow> ('s, 'r) cloudAccountConfig" where
  "sync_service ops ord c name acc = (case map_of (serviceConfigs acc) name of
     None \<Rightarrow> acc
   | Some svc \<Rightarrow>
       if \<not> fst (HasFiltersConfigured ops ord svc) then acc
       else (case DoResourceInventory ops ord c svc of (err, svc') \<Rightarrow>
         (let acc' = acc\<lparr>serviceConfigs := put name (map_InventoryStats ops (UpdateInventoryPollStats err) svc') (serviceConfigs acc)\<rparr>
          in case err of None \<Rightarrow> acc' | Some e \<Rightarrow> acc'\<lparr>Status_Error := Error e\<rparr>)))"

text \<open>The goroutines send nothing on the channel of errors, so the sum of the errors is nil.\<close>

definition performInventorySync ::
    "('s, 'c, 'v) CloudServiceInterface \<Rightarrow> order \<Rightarrow> 'c \<Rightarrow> ('s, 'r) cloudAccountConfig \<Rightarrow> error \<times> ('s, 'r) cloudAccountConfig" where
  "performInventorySync ops ord c acc =
     (None, fold (sync_service ops ord c) (map fst (range_map ord (serviceConfigs acc))) acc)"

definition GetServiceConfigByName :: "string \<Rightarrow> ('s, 'r) cloudAccountConfig \<Rightarrow> go_error + 's" where
  "GetServiceConfigByName name acc = (case map_of (serviceConfigs acc) name of
     Some svc \<Rightarrow> Inr svc
   | None \<Rightarrow> Inl (Err (name @ '' service not found for account '' @ NamespacedName_String (acc_namespacedName acc))))"

definition startPeriodicInventorySync ::
    "('s, 'c, 'v) CloudServiceInterface \<Rightarrow> order \<Rightarrow> 'c \<Rightarrow> ('s, 'r) cloudAccountConfig \<Rightarrow> error \<times> ('s, 'r) cloudAccountConfig" where
  "startPeriodicInventorySync ops ord c acc = (case performInventorySync ops ord c acc of
     (Some err, acc') \<Rightarrow> (Some err, acc')
   | (None, acc') \<Rightarrow> (None, acc'\<lparr>inventory_polling := True\<rparr>))"

definition stopPeriodicInventorySync ::
    "('s, 'c, 'v) CloudServiceInterface \<Rightarrow> ('s, 'r) cloudAccountConfig \<Rightarrow> ('s, 'r) cloudAccountConfig" where
  "stopPeriodicInventorySync ops acc =
     acc\<lparr>inventory_polling := False, serviceConfigs := map (\<lambda>(name, svc). (name, ResetCachedState ops svc)) (serviceConfigs acc)\<rparr>"

section \<open>All accounts\<close>

type_synonym ('s, 'r) accounts = "(NamespacedName, ('s, 'r) cloudAccountConfig) gomap"

definition AddCloudAccount ::
    "('s, 'c, 'v) CloudServiceInterface \<Rightarrow> ('s, 'r, 'i) commonHelper \<Rightarrow> CloudProviderAccount \<Rightarrow> 'i \<Rightarrow> ('s, 'r) accounts \<Rightarrow>
     (error \<times> ('s, 'r) accounts) outcome" where
  "AddCloudAccount ops h account creds accs =
     (let nn = \<lparr>nn_Namespace = acc_Namespace account, nn_Name = acc_Name account\<rparr>
      in case map_of accs nn of
           Some existing \<Rightarrow> (case updateCloudAccountConfig ops h creds existing of
             Returns (err, acc) \<Rightarrow> Returns (err, put nn acc accs) | Panics \<Rightarrow> Panics | Hangs \<Rightarrow> Hangs)
         | None \<Rightarrow> (case PollIntervalInSeconds account of
             None \<Rightarrow> Panics
           | Some n \<Rightarrow> (case newCloudAccountConfig h nn creds n of
               Returns (Inl err) \<Rightarrow> Returns (Some err, accs)
             | Returns (Inr acc) \<Rightarrow> Returns (None, put nn acc accs)
             | Panics \<Rightarrow> Panics
             | Hangs \<Rightarrow> Hangs)))"

definition RemoveCloudAccount :: "NamespacedName \<Rightarrow> ('s, 'r) accounts \<Rightarrow> ('s, 'r) accounts" where
  "RemoveCloudAccount nn accs = (if has_key accs nn then del nn accs else accs)"

definition GetCloudAccountComputeResourceCRDs ::
    "('s, 'c, 'v) CloudServiceInterface \<Rightarrow> order \<Rightarrow> NamespacedName \<Rightarrow> ('s, 'r) accounts \<Rightarrow> go_error + 'v list" where
  "GetCloudAccountComputeResourceCRDs ops ord nn accs = (case map_of accs nn of
     None \<Rightarrow> Inl (Err (''unable to find cloud account:'' @ NamespacedName_String nn))
   | Some acc \<Rightarrow> Inr (concat (map (\<lambda>(_, svc). if GetType ops svc = CloudServiceTypeCompute
       then GetResourceCRDs ops ord (nn_Namespace (acc_namespacedName acc)) svc else []) (range_map ord (serviceConfigs acc)))))"

definition collect_crds :: "go_error + 'v list \<Rightarrow> 'v list \<times> go_error list \<Rightarrow> 'v list \<times> go_error list" where
  "collect_crds res acc = (case acc of (crds, errs) \<Rightarrow> (case res of Inl e \<Rightarrow> (crds, errs @ [e]) | Inr crds' \<Rightarrow> (crds @ crds', errs)))"

definition GetAllCloudAccountsComputeResourceCRDs ::
    "('s, 'c, 'v) CloudServiceInterface \<Rightarrow> order \<Rightarrow> ('s, 'r) accounts \<Rightarrow> 'v list \<times> error" where
  "GetAllCloudAccountsComputeResourceCRDs ops ord accs =
     (case fold (\<lambda>(nn, _). collect_crds (GetCloudAccountComputeResourceCRDs ops ord nn accs)) (range_map ord accs) ([], []) of
        (crds, errs) \<Rightarrow> (crds, multierr errs (\<lambda>es. Join es ''; '')))"

definition AddSelector ::
    "('s, 'c, 'v) CloudServiceInterface \<Rightarrow> order \<Rightarrow> 'c \<Rightarrow> NamespacedName \<Rightarrow> CloudEntitySelector \<Rightarrow> ('s, 'r) accounts \<Rightarrow>
     error \<times> ('s, 'r) accounts" where
  "AddSelector ops ord c nn selector accs = (case map_of accs nn of
     None \<Rightarrow> (Some (Err (''account not found '' @ NamespacedName_String nn)), accs)
   | Some acc \<Rightarrow>
       (case startPeriodicInventorySync ops ord c
           (acc\<lparr>serviceConfigs := map (\<lambda>(name, svc). (name, SetResourceFilters ops (Some selector) svc)) (serviceConfigs acc)\<rparr>) of
          (err, acc') \<Rightarrow> (map_option (\<lambda>e. Err (''inventory sync failed [ account : '' @ NamespacedName_String nn @ '', err: '' @
            Error e @ '' ]'')) err, put nn acc' accs)))"

definition RemoveSelector ::
    "('s, 'c, 'v) CloudServiceInterface \<Rightarrow> NamespacedName \<Rightarrow> string \<Rightarrow> ('s, 'r) accounts \<Rightarrow> ('s, 'r) accounts" where
  "RemoveSelector ops nn selectorName accs = (case map_of accs nn of
     None \<Rightarrow> accs
   | Some acc \<Rightarrow> put nn (stopPeriodicInventorySync ops acc) accs)"

definition account_GetStatus :: "NamespacedName \<Rightarrow> ('s, 'r) accounts \<Rightarrow> go_error + string" where
  "account_GetStatus nn accs = (case map_of accs nn of
     None \<Rightarrow> Inl (Err (''account not found '' @ NamespacedName_String nn))
   | Some acc \<Rightarrow> Inr (Status_Error acc))"

section \<open>Errors\<close>


section \<open>Contract of a service\<close>

text \<open>
  What the framework relies on. \<open>good\<close> is the case in which the cloud answers and the selector is one the
  service can serve from its state, \<open>chosen\<close> the resources of the machines the selector selects there.
\<close>

locale cloud_service =
  fixes ops :: "('s, 'c, 'v) CloudServiceInterface"
    and good :: "'c \<Rightarrow> CloudEntitySelector \<Rightarrow> 's \<Rightarrow> bool"
    and chosen :: "string \<Rightarrow> 'c \<Rightarrow> CloudEntitySelector \<Rightarrow> 's \<Rightarrow> 'v set"
  assumes configured: "is_order ord \<Longrightarrow> good c sel s \<Longrightarrow> fst (HasFiltersConfigured ops ord (SetResourceFilters ops (Some sel) s))"
    and inventory: "is_order ord \<Longrightarrow> good c sel s \<Longrightarrow> \<exists>s'. DoResourceInventory ops ord c (SetResourceFilters ops (Some sel) s) = (None, s') \<and>
      set (GetResourceCRDs ops ord ns s') = chosen ns c sel s"
    and stats: "GetResourceCRDs ops ord ns (map_InventoryStats ops f s) = GetResourceCRDs ops ord ns s"
    and compute: "GetType ops s = CloudServiceTypeCompute"
begin

lemma sync_selects:
  assumes "is_order ord" "good c sel s" "serviceConfigs acc = [(n, SetResourceFilters ops (Some sel) s)]"
  shows "\<exists>s'. serviceConfigs (snd (performInventorySync ops ord c acc)) = [(n, s')] \<and>
    acc_namespacedName (snd (performInventorySync ops ord c acc)) = acc_namespacedName acc \<and>
    set (GetResourceCRDs ops ord ns s') = chosen ns c sel s"
proof -
  obtain s' where s': "DoResourceInventory ops ord c (SetResourceFilters ops (Some sel) s) = (None, s')"
      "set (GetResourceCRDs ops ord ns s') = chosen ns c sel s"
    using inventory [OF assms(1,2)] by blast
  have "range_map ord (serviceConfigs acc) = serviceConfigs acc"
    using mset_range_map [OF assms(1), of "serviceConfigs acc"] by (simp add: assms(3))
  then show ?thesis
    using s' configured [OF assms(1,2)]
    by (simp add: performInventorySync_def sync_service_def assms(3) Let_def stats put_def)
qed

lemma AddSelector_selects:
  assumes "is_order ord" "good c sel s" "map_of accs nn = Some acc" "serviceConfigs acc = [(n, s)]" "acc_namespacedName acc = nn"
  shows "\<exists>accs' crds. AddSelector ops ord c nn sel accs = (None, accs') \<and>
    GetCloudAccountComputeResourceCRDs ops ord nn accs' = Inr crds \<and> set crds = chosen (nn_Namespace nn) c sel s"
proof -
  let ?acc = "acc\<lparr>serviceConfigs := [(n, SetResourceFilters ops (Some sel) s)]\<rparr>"
  obtain acc' where sync: "performInventorySync ops ord c ?acc = (None, acc')" by (simp add: performInventorySync_def)
  obtain s' where s': "serviceConfigs acc' = [(n, s')]" "acc_namespacedName acc' = nn"
      "set (GetResourceCRDs ops ord (nn_Namespace nn) s') = chosen (nn_Namespace nn) c sel s"
    using sync_selects [OF assms(1,2), of ?acc n "nn_Namespace nn"] assms(5) sync by auto
  have one: "range_map ord [(n, s')] = [(n, s')]" using mset_range_map [OF assms(1), of "[(n, s')]"] by simp
  have "AddSelector ops ord c nn sel accs = (None, put nn (acc'\<lparr>inventory_polling := True\<rparr>) accs)"
    using sync assms(3,4) by (simp add: AddSelector_def startPeriodicInventorySync_def)
  then show ?thesis
    using s' by (simp add: GetCloudAccountComputeResourceCRDs_def compute one)
qed

end

end
