(* ===== verification/Short_Identifier.thy ===== *)
theory Short_Identifier
  imports Go_Prelude "HOL-Library.Word"
begin

text \<open>
  The short identifiers of cloud resources (\<^verbatim>\<open>GenerateShortResourceIdentifier\<close> of
  \<^verbatim>\<open>pkg/cloud-provider/utils/crd_generator.go\<close>): a prefix and the sum of the characters of an identifier,
  kept in 32 bits. Azure uses them as the names of virtual machines and networks.
\<close>

definition add_character :: "char \<Rightarrow> 32 word \<Rightarrow> 32 word" where
  "add_character value acc = acc + word_of_nat (of_char value)"

definition GenerateShortResourceIdentifier :: "string \<Rightarrow> string \<Rightarrow> string" where
  "GenerateShortResourceIdentifier i prefixToAdd =
     (let idTrim = Trim i '' ''
      in if length idTrim = 0 then []
         else ToLower prefixToAdd @ ''-'' @ nat_string (unat (fold add_character (ToLower idTrim) 0)))"

lemma length_nat_string: "n < 10 ^ k \<Longrightarrow> k > 0 \<Longrightarrow> length (nat_string n) \<le> k"
proof (induction n arbitrary: k rule: nat_string.induct)
  case (1 n)
  show ?case
  proof (cases "n < 10")
    case True
    with "1.prems" show ?thesis by (subst nat_string.simps) simp
  next
    case False
    then obtain j where j: "k = Suc j" "j > 0" using "1.prems" by (cases k; cases "k - 1") auto
    then have "n div 10 < 10 ^ j" using "1.prems"(1) by (simp add: less_mult_imp_div_less mult.commute)
    with "1.IH" [OF False this j(2)] False j show ?thesis by (subst nat_string.simps) simp
  qed
qed

lemma sum_characters: "fold add_character s w = w + word_of_nat (sum_list (map of_char s))"
  by (induction s arbitrary: w) (simp_all add: add_character_def)

lemma sum_characters_bound: "sum_list (map of_char s) \<le> (255 * length s :: nat)"
proof (induction s)
  case (Cons c s)
  have "(of_char c :: nat) \<le> 255" using nat_of_char_less_256 [of c] by linarith
  with Cons show ?case by simp
qed simp

lemma length_Trim: "length (Trim s cs) \<le> length s"
proof -
  have "length (dropWhile P xs) \<le> length xs" for P and xs :: string by (rule length_dropWhile_le)
  then show ?thesis unfolding Trim_def length_rev by (metis length_rev order_trans)
qed



text \<open>Identifiers with the same characters in another order have the same short identifier.\<close>

lemma short_identifier_collides:
  assumes "mset (ToLower (Trim i '' '')) = mset (ToLower (Trim j '' ''))"
  shows "GenerateShortResourceIdentifier i p = GenerateShortResourceIdentifier j p"
proof -
  have "sum_list (map of_char (ToLower (Trim i '' ''))) = (sum_list (map of_char (ToLower (Trim j '' ''))) :: nat)"
    using arg_cong [OF assms, of "\<lambda>M. sum_mset (image_mset of_char M) :: nat"] by (simp flip: sum_mset_sum_list)
  moreover have "length (Trim i '' '') = length (Trim j '' '')" using mset_eq_length [OF assms] by simp
  ultimately show ?thesis by (auto simp: GenerateShortResourceIdentifier_def Let_def sum_characters)
qed

end
