(* ===== verification/Azure_Compute.thy ===== *)
theory Azure_Compute
  imports Azure_Query Azure_Network Cloud_Accounts Short_Identifier
begin

text \<open>
  The compute service of Azure (\<^verbatim>\<open>azure_compute.go\<close>, \<^verbatim>\<open>azure_crd_helpers.go\<close>, \<^verbatim>\<open>azure_services.go\<close> under
  \<^verbatim>\<open>pkg/cloud-provider/cloudapi/azure\<close>): the queries of the selectors, the inventory and the virtual machines made of
  it. The SDK's clients are a parameter; the columns of a row of the resource graph and the first address prefix of a
  virtual network, which Azure fills, are plain values.
\<close>

section \<open>Objects and clients\<close>

record azureNetworkInterface =
  ani_ID :: string
  ani_MacAddress :: "string option"
  PrivateIps :: "string list"
  PublicIps :: "string list"

record virtualMachineTable =
  vt_ID :: string
  vt_Name :: string
  vt_NetworkInterfaces :: "azureNetworkInterface list"
  vt_Tags :: "(string, string) gomap"
  vt_Status :: "string option"
  vt_VnetID :: string

text \<open>A peering has the identifier and the first address prefix of the remote network.\<close>

record VirtualNetwork =
  vnet_ID :: string
  vnet_AddressPrefix :: string
  VirtualNetworkPeerings :: "(string \<times> string) list"

record 'c compute_clients = "'c azure_clients" +
  vnet_listAllComplete :: "'c \<Rightarrow> go_error + VirtualNetwork list"
  graph_vms :: "string \<Rightarrow> string list \<Rightarrow> 'c \<Rightarrow> go_error + virtualMachineTable list"

record azureAccountConfig = AzureAccountCredential +
  az_region :: string

record computeResourcesCacheSnapshot =
  snap_virtualMachines :: "(string, virtualMachineTable) gomap"
  snap_vnetIDs :: "(string, unit) gomap"
  vnetPeers :: "(string, string list list) gomap"

record 'c computeServiceConfig =
  az_accountName :: string
  az_clients :: "'c compute_clients"
  az_cache :: "computeResourcesCacheSnapshot option"
  az_stats :: CloudServiceStats
  az_credentials :: azureAccountConfig
  computeFilters :: "(string, string list) gomap"

text \<open>The clients of a service are created one by one, each with an error or the calls of its part.\<close>

record 'c azureServiceClientCreateInterface =
  networkInterfaces :: "string \<Rightarrow> error"
  securityGroups :: "string \<Rightarrow> error"
  applicationSecurityGroups :: "string \<Rightarrow> error"
  resourceGraph :: error
  virtualNetworks :: "string \<Rightarrow> error"
  created_clients :: "string \<Rightarrow> 'c compute_clients"

definition newComputeServiceConfig ::
    "string \<Rightarrow> 'c azureServiceClientCreateInterface \<Rightarrow> azureAccountConfig \<Rightarrow> go_error + 'c computeServiceConfig" where
  "newComputeServiceConfig name service creds =
     (let sub = SubscriptionID creds;
          failed = (\<lambda>what err. Inl (Err (''error creating '' @ what @ '' sdk api client for account : '' @ name @ '', err: '' @ Error err)))
      in case networkInterfaces service sub of Some err \<Rightarrow> failed ''compute'' err | None \<Rightarrow>
        (case securityGroups service sub of Some err \<Rightarrow> failed ''security-groups'' err | None \<Rightarrow>
        (case applicationSecurityGroups service sub of Some err \<Rightarrow> failed ''application-security-groups'' err | None \<Rightarrow>
        (case resourceGraph service of Some err \<Rightarrow> failed ''resource-graph'' err | None \<Rightarrow>
        (case virtualNetworks service sub of Some err \<Rightarrow> failed ''virtual networks'' err | None \<Rightarrow>
          Inr \<lparr>az_accountName = name, az_clients = created_clients service sub, az_cache = None,
            az_stats = \<lparr>totalPollCnt = 0, successPollCnt = 0, lastPollErr = None\<rparr>, az_credentials = creds, computeFilters = []\<rparr>)))))"

section \<open>Filters\<close>

definition getComputeResourceFilters :: "order \<Rightarrow> 'c computeServiceConfig \<Rightarrow> string list option \<times> bool" where
  "getComputeResourceFilters ord cfg =
     (let cr = az_credentials cfg
      in if length (computeFilters cfg) = 0 then (None, False)
         else if \<exists>(_, filters) \<in> set (computeFilters cfg). length filters = 0
         then (case getVMsBySubscriptionIDsAndTenantIDsAndLocationsMatchQuery [SubscriptionID cr] [TenantID cr] [az_region cr] of
                 Inl _ \<Rightarrow> (None, False)
               | Inr queryStr \<Rightarrow> (Some [queryStr], True))
         else (Some (concat (map snd (range_map ord (computeFilters cfg)))), True))"

definition azure_SetResourceFilters :: "CloudEntitySelector option \<Rightarrow> 'c computeServiceConfig \<Rightarrow> 'c computeServiceConfig" where
  "azure_SetResourceFilters selector cfg =
     (let cr = az_credentials cfg
      in case (convertSelectorToComputeQuery selector [SubscriptionID cr] [TenantID cr] [az_region cr], selector) of
           ((filters, True), Some s) \<Rightarrow> cfg\<lparr>computeFilters := put (sel_Name s) filters (computeFilters cfg)\<rparr>
         | ((_, _), Some s) \<Rightarrow> cfg\<lparr>computeFilters := del (sel_Name s) (computeFilters cfg), az_cache := None\<rparr>
         | ((_, _), None) \<Rightarrow> cfg\<lparr>az_cache := None\<rparr>)"

definition azure_HasFiltersConfigured :: "order \<Rightarrow> 'c computeServiceConfig \<Rightarrow> bool \<times> bool" where
  "azure_HasFiltersConfigured ord cfg = (case getComputeResourceFilters ord cfg of (filters, found) \<Rightarrow> (found, filters = None))"

section \<open>Cache\<close>

definition getCachedVirtualMachines :: "order \<Rightarrow> 'c computeServiceConfig \<Rightarrow> virtualMachineTable list" where
  "getCachedVirtualMachines ord cfg = (case az_cache cfg of
     None \<Rightarrow> [] | Some snap \<Rightarrow> map snd (range_map ord (snap_virtualMachines snap)))"

definition getCachedVnetIDs :: "'c computeServiceConfig \<Rightarrow> (string, unit) gomap" where
  "getCachedVnetIDs cfg = (case az_cache cfg of None \<Rightarrow> [] | Some snap \<Rightarrow> snap_vnetIDs snap)"

definition getVnetPeers :: "string \<Rightarrow> 'c computeServiceConfig \<Rightarrow> string list list" where
  "getVnetPeers vnetID cfg = (case az_cache cfg of None \<Rightarrow> [] | Some snap \<Rightarrow> get_or [] (vnetPeers snap) vnetID)"

section \<open>Inventory\<close>

fun fetch_rows :: "'c compute_clients \<Rightarrow> string list \<Rightarrow> 'c \<Rightarrow> string list \<Rightarrow> go_error + virtualMachineTable list" where
  "fetch_rows cl subscriptions c [] = Inr []"
| "fetch_rows cl subscriptions c (flt # filters) = (case graph_vms cl flt subscriptions c of
     Inl err \<Rightarrow> Inl err
   | Inr rows \<Rightarrow> map_sum id ((@) rows) (fetch_rows cl subscriptions c filters))"

definition getVirtualMachines :: "order \<Rightarrow> 'c \<Rightarrow> 'c computeServiceConfig \<Rightarrow> go_error + virtualMachineTable list" where
  "getVirtualMachines ord c cfg = fetch_rows (az_clients cfg) [SubscriptionID (az_credentials cfg)] c
     (case fst (getComputeResourceFilters ord cfg) of None \<Rightarrow> [] | Some filters \<Rightarrow> filters)"

definition azure_buildMapVpcPeers :: "'c \<Rightarrow> 'c computeServiceConfig \<Rightarrow> (string, string list list) gomap" where
  "azure_buildMapVpcPeers c cfg = (case vnet_listAllComplete (az_clients cfg) c of
     Inl _ \<Rightarrow> []
   | Inr results \<Rightarrow> fold (\<lambda>result. fold (\<lambda>(remote, remotePrefix). append_at (ToLower (vnet_ID result))
       [[ToLower remote, ToLower remotePrefix, ToLower (vnet_AddressPrefix result)]]) (VirtualNetworkPeerings result)) results [])"

definition azure_DoResourceInventory :: "order \<Rightarrow> 'c \<Rightarrow> 'c computeServiceConfig \<Rightarrow> error \<times> 'c computeServiceConfig" where
  "azure_DoResourceInventory ord c cfg = (case getVirtualMachines ord c cfg of
     Inl e \<Rightarrow> (Some e, cfg)
   | Inr vms \<Rightarrow> (None, cfg\<lparr>az_cache := Some
       \<lparr>snap_virtualMachines = fold (\<lambda>vm. put (ToLower (vt_ID vm)) vm) vms [],
        snap_vnetIDs = fold (\<lambda>vm. put (vt_VnetID vm) ()) vms [],
        vnetPeers = azure_buildMapVpcPeers c cfg\<rparr>\<rparr>))"

section \<open>Virtual machines\<close>

definition azureStateMap :: "(string, string) gomap" where
  "azureStateMap = [(''PowerState/running'', ''running''), (''PowerState/deallocated'', ''stopped''),
     (''PowerState/deallocating'', ''shutting down''), (''PowerState/stopping'', ''stopping''), (''PowerState/stopped'', ''stopped''),
     (''PowerState/starting'', ''starting''), (''PowerState/unknown'', ''unknown'')]"

definition azure_nic :: "azureNetworkInterface \<Rightarrow> NetworkInterface" where
  "azure_nic nwInf = \<lparr>nif_Name = ani_ID nwInf, MAC = (case ani_MacAddress nwInf of None \<Rightarrow> [] | Some m \<Rightarrow> m),
     IPs = map (\<lambda>a. \<lparr>ip_AddressType = AddressTypeInternalIP, ip_Address = a\<rparr>) (PrivateIps nwInf) @
       map (\<lambda>a. \<lparr>ip_AddressType = AddressTypeInternalIP, ip_Address = a\<rparr>) (PublicIps nwInf)\<rparr>"

definition computeInstanceToVirtualMachineCRD :: "virtualMachineTable \<Rightarrow> string \<Rightarrow> VirtualMachineCRD option" where
  "computeInstanceToVirtualMachineCRD inst namespace =
     (let tags = filter (\<lambda>(k, _). case IsNepheControllerCreatedSG k of (_, hasAG, hasAT) \<Rightarrow> \<not> (hasAG \<or> hasAT)) (vt_Tags inst);
          cloudNetworkID = ToLower (vt_VnetID inst);
          cloudID = ToLower (vt_ID inst);
          cloudName = ToLower (vt_Name inst);
          crdName = GenerateShortResourceIdentifier cloudID cloudName
      in case extractFieldsFromAzureResourceID cloudNetworkID of
           Inl _ \<Rightarrow> None
         | Inr (_, _, nwResName) \<Rightarrow> Some (GenerateVirtualMachineCRD crdName (ToLower cloudName) (ToLower cloudID) namespace
             (ToLower cloudNetworkID) (GenerateShortResourceIdentifier cloudNetworkID nwResName)
             (case vt_Status inst of None \<Rightarrow> ''unknown'' | Some st \<Rightarrow> get_or [] azureStateMap st)
             tags (map azure_nic (vt_NetworkInterfaces inst)) AzureCloudProvider))"

definition azure_GetResourceCRDs :: "order \<Rightarrow> string \<Rightarrow> 'c computeServiceConfig \<Rightarrow> VirtualMachineCRD option list" where
  "azure_GetResourceCRDs ord namespace cfg =
     map (\<lambda>vm. computeInstanceToVirtualMachineCRD vm namespace) (getCachedVirtualMachines ord cfg)"

definition azure_ResetCachedState :: "'c computeServiceConfig \<Rightarrow> 'c computeServiceConfig" where
  "azure_ResetCachedState cfg =
     (let cfg' = azure_SetResourceFilters None cfg in cfg'\<lparr>az_stats := ResetInventoryPollStats (az_stats cfg')\<rparr>)"

definition azure_UpdateServiceConfig :: "'c computeServiceConfig \<Rightarrow> 'c computeServiceConfig \<Rightarrow> 'c computeServiceConfig" where
  "azure_UpdateServiceConfig new cfg = cfg\<lparr>az_clients := az_clients new, az_credentials := az_credentials new\<rparr>"

definition compute_service :: "('c computeServiceConfig, 'c, VirtualMachineCRD option) CloudServiceInterface" where
  "compute_service = \<lparr>UpdateServiceConfig = azure_UpdateServiceConfig, SetResourceFilters = azure_SetResourceFilters,
     HasFiltersConfigured = azure_HasFiltersConfigured, DoResourceInventory = azure_DoResourceInventory,
     map_InventoryStats = (\<lambda>f cfg. cfg\<lparr>az_stats := f (az_stats cfg)\<rparr>),
     GetResourceCRDs = azure_GetResourceCRDs, GetType = (\<lambda>_. CloudServiceTypeCompute), ResetCachedState = azure_ResetCachedState\<rparr>"

end
