(* ===== verification/Azure_Inventory.thy ===== *)
theory Azure_Inventory
  imports Azure_Compute
begin

text \<open>
  What the inventory of an Azure account holds. The queries of a selector are shown to be the texts of
  structured queries; the resource graph is documented to return the rows of the account that a query describes, the values of
  an \<^verbatim>\<open>in\<close> list compared in lower case. The service is shown to meet the contract of the framework.
\<close>

section \<open>Structured queries\<close>

record vm_query =
  q_vnets :: "string list option"
  q_names :: "string list option"
  q_ids :: "string list option"

definition query_text :: "azureAccountConfig \<Rightarrow> vm_query \<Rightarrow> string" where
  "query_text cr q = Execute vmsTableQueryTemplate
     \<lparr>qp_SubscriptionIDs = Some (convertStrSliceToLowercaseCommaSeparatedStr [SubscriptionID cr]),
      qp_TenantIDs = Some (convertStrSliceToLowercaseCommaSeparatedStr [TenantID cr]),
      qp_Locations = Some (convertStrSliceToLowercaseCommaSeparatedStr [az_region cr]),
      qp_VnetIDs = map_option convertStrSliceToLowercaseCommaSeparatedStr (q_vnets q),
      qp_VMNames = map_option convertStrSliceToLowercaseCommaSeparatedStr (q_names q),
      qp_VMIDs = map_option convertStrSliceToLowercaseCommaSeparatedStr (q_ids q)\<rparr>"

definition in_values :: "string list option \<Rightarrow> string \<Rightarrow> bool" where
  "in_values vs x \<longleftrightarrow> (case vs of None \<Rightarrow> True | Some l \<Rightarrow> ToLower x \<in> ToLower ` set l)"

definition row_matches :: "vm_query \<Rightarrow> virtualMachineTable \<Rightarrow> bool" where
  "row_matches q vm \<longleftrightarrow> in_values (q_vnets q) (vt_VnetID vm) \<and> in_values (q_names q) (vt_Name vm) \<and> in_values (q_ids q) (vt_ID vm)"

definition azure_machine :: "virtualMachineTable \<Rightarrow> machine" where
  "azure_machine vm = \<lparr>in_vpc = (\<lambda>v. ToLower (vt_VnetID vm) = ToLower v), vpc_named = (\<lambda>_. False),
     has_id = (\<lambda>v. ToLower (vt_ID vm) = ToLower v), has_name = (\<lambda>v. ToLower (vt_Name vm) = ToLower v)\<rparr>"

definition every_vm :: vm_query where
  "every_vm = \<lparr>q_vnets = None, q_names = None, q_ids = None\<rparr>"

definition vpc_vm :: "string \<Rightarrow> EntityMatch \<Rightarrow> vm_query" where
  "vpc_vm v e = \<lparr>q_vnets = Some [v], q_names = (if blank (MatchName e) then None else Some [MatchName e]),
     q_ids = (if blank (MatchName e) then Some [MatchID e] else None)\<rparr>"

definition vpc_queries :: "(string, unit) gomap \<Rightarrow> vm_query list" where
  "vpc_queries m = (if m = [] then [] else [every_vm\<lparr>q_vnets := Some (sort (map fst m))\<rparr>])"

definition other_queries :: "VirtualMachineSelector list \<Rightarrow> (string, unit) gomap \<Rightarrow> vm_query list" where
  "other_queries ss m = concat (map (\<lambda>s. case VpcMatch s of None \<Rightarrow> []
     | Some v \<Rightarrow> if has_key m (MatchID v) then [] else map (vpc_vm (MatchID v)) (VMMatch s)) ss)"

definition name_queries :: "EntityMatch list \<Rightarrow> vm_query list" where
  "name_queries es = (if es = [] then [] else [every_vm\<lparr>q_names := Some (sort (map MatchName es))\<rparr>])"

definition id_queries :: "EntityMatch list \<Rightarrow> vm_query list" where
  "id_queries es = (if es = [] then [] else [every_vm\<lparr>q_ids := Some (sort (map MatchID es))\<rparr>])"

definition group_queries :: "match_groups \<Rightarrow> vm_query list" where
  "group_queries g = vpc_queries (vpcIDsWithVpcIDOnlyMatches g) @
     other_queries (vpcIDWithOtherMatches g) (vpcIDsWithVpcIDOnlyMatches g) @
     name_queries (vmNameOnlyMatches g) @ id_queries (vmIDOnlyMatches g)"

definition selector_queries :: "VirtualMachineSelector list \<Rightarrow> vm_query list" where
  "selector_queries ss = (case group_matches azure_group_match ss no_matches of
     None \<Rightarrow> [every_vm]
   | Some g \<Rightarrow> if group_queries g = [] then [every_vm] else group_queries g)"

section \<open>Grouping\<close>

definition azure_ok :: "VirtualMachineSelector \<Rightarrow> bool" where
  "azure_ok s \<longleftrightarrow> vpc_name s = None \<and> (\<forall>e \<in> set (VMMatch s). plain_vm e)"

lemma azure_group_machines:
  assumes "azure_group_match s g = Some g'" "VMMatch s \<noteq> []"
  shows "g' = group_vm_matches s (VMMatch s) g"
  using assms by (auto simp: azure_group_match_def Let_def split: if_splits option.splits)

lemma azure_group_vpc:
  assumes "azure_group_match s g = Some g'" "VMMatch s = []"
  shows "\<exists>i. vpc_id s = Some i \<and> g' = g\<lparr>vpcIDsWithVpcIDOnlyMatches := put i () (vpcIDsWithVpcIDOnlyMatches g)\<rparr>"
  using assms by (auto simp: azure_group_match_def Let_def split: if_splits option.splits)

interpretation azure_sel: selector_grouping azure_group_match azure_ok
proof
  fix s g m
  assume "azure_ok s" "azure_group_match s g = None"
  then show "selects m s"
    by (auto simp: azure_group_match_def azure_ok_def selects_plain Let_def split: if_splits)
next
  fix s g g' m
  assume ok: "azure_ok s" and one: "azure_group_match s g = Some g'"
  show "groups_select m g' \<longleftrightarrow> groups_select m g \<or> selects m s"
  proof (cases "VMMatch s = []")
    case True
    then show ?thesis
      using azure_group_vpc [OF one True] ok by (auto simp: azure_ok_def groups_select_def selects_plain)
  next
    case False
    then show ?thesis using azure_group_machines [OF one False] group_vm_selects(1) [OF False] ok by (simp add: azure_ok_def)
  qed
next
  fix s g g'
  assume ok: "azure_ok s" and wf: "wf_groups g" and one: "azure_group_match s g = Some g'"
  show "wf_groups g'"
  proof (cases "VMMatch s = []")
    case True
    then show ?thesis using azure_group_vpc [OF one True] wf by (auto simp: wf_groups_def)
  next
    case False
    then show ?thesis using azure_group_machines [OF one False] group_vm_selects(2) [OF False] ok wf by (simp add: azure_ok_def)
  qed
qed

text \<open>Azure has no group of network names, and the values of the other groups are not blank.\<close>

definition azure_sorted :: "match_groups \<Rightarrow> bool" where
  "azure_sorted g \<longleftrightarrow> vpcNameOnlyMatches g = [] \<and> (\<forall>i \<in> keys (vpcIDsWithVpcIDOnlyMatches g). \<not> blank i) \<and>
     (\<forall>e \<in> set (vmIDOnlyMatches g). \<not> blank (MatchID e)) \<and> (\<forall>e \<in> set (vmNameOnlyMatches g). \<not> blank (MatchName e))"

lemma azure_sorted_simps [simp]:
  "azure_sorted (g\<lparr>vpcIDWithOtherMatches := ss\<rparr>) = azure_sorted g"
  "azure_sorted (g\<lparr>vmIDOnlyMatches := vmIDOnlyMatches g @ [e]\<rparr>) \<longleftrightarrow> azure_sorted g \<and> \<not> blank (MatchID e)"
  "azure_sorted (g\<lparr>vmNameOnlyMatches := vmNameOnlyMatches g @ [e]\<rparr>) \<longleftrightarrow> azure_sorted g \<and> \<not> blank (MatchName e)"
  "azure_sorted (g\<lparr>vpcIDsWithVpcIDOnlyMatches := put i () (vpcIDsWithVpcIDOnlyMatches g)\<rparr>) \<longleftrightarrow> azure_sorted g \<and> \<not> blank i"
  by (auto simp: azure_sorted_def)

lemma group_vm_azure: "azure_sorted g \<Longrightarrow> azure_sorted (group_vm_matches s es g)"
proof (induction es arbitrary: g)
  case (Cons e es)
  then show ?case by (cases "vpc_id s") (simp_all add: Let_def)
qed simp

lemma group_matches_azure:
  "group_matches azure_group_match ss g = Some g' \<Longrightarrow> azure_sorted g \<Longrightarrow> azure_sorted g'"
proof (induction ss arbitrary: g)
  case (Cons s ss)
  then obtain g1 where g1: "azure_group_match s g = Some g1" "group_matches azure_group_match ss g1 = Some g'"
    by (auto split: option.splits)
  have "azure_sorted g1"
  proof (cases "VMMatch s = []")
    case True
    obtain i where "vpc_id s = Some i" "g1 = g\<lparr>vpcIDsWithVpcIDOnlyMatches := put i () (vpcIDsWithVpcIDOnlyMatches g)\<rparr>"
      using azure_group_vpc [OF g1(1) True] by blast
    with Cons.prems(2) show ?thesis by (auto simp: vpc_id_def split: option.splits if_splits)
  next
    case False
    then show ?thesis using azure_group_machines [OF g1(1) False] Cons.prems(2) by (simp add: group_vm_azure)
  qed
  with Cons.IH [OF g1(2)] show ?case .
qed simp

section \<open>Text of the queries\<close>

lemma Trim_Nil: "Trim s cs = [] \<longleftrightarrow> set s \<subseteq> set cs"
proof -
  have "(\<forall>x \<in> set (dropWhile P xs). P x) \<longleftrightarrow> (\<forall>x \<in> set xs. P x)" for P and xs :: string by (induction xs) auto
  then show ?thesis by (auto simp: Trim_def dropWhile_eq_Nil_conv)
qed

lemma set_Split: "c \<in> set s \<Longrightarrow> c \<noteq> sep \<Longrightarrow> \<exists>t \<in> set (Split s sep). c \<in> set t"
  by (induction s) (auto split: list.splits)

lemma set_Join: "t \<in> set ts \<Longrightarrow> c \<in> set t \<Longrightarrow> c \<in> set (Join ts sep)"
  by (induction ts sep rule: Join.induct) auto

lemma comma_separated_nonempty:
  assumes "x \<in> set xs" "x \<noteq> []"
  shows "convertStrSliceToLowercaseCommaSeparatedStr xs \<noteq> []"
proof -
  let ?l = "concat (map (\<lambda>str. if length str > 0 then [ToLower str] else []) xs)"
  obtain y where y: "y \<in> set ?l" using assms by fastforce
  have "double_quote \<in> set (Quote y)" by (simp add: Quote_def)
  then have "double_quote \<in> set (Quote_list ?l)"
    using set_Join [of "Quote y" "map Quote ?l" double_quote "'' ''"] y unfolding Quote_list_def by simp
  moreover have quote: "double_quote \<noteq> CHR '' ''" "double_quote \<notin> set ''[]''" by code_simp+
  ultimately obtain t where "t \<in> set (Split (Quote_list ?l) (CHR '' ''))" "double_quote \<in> set t"
    using set_Split [of double_quote "Quote_list ?l" "CHR '' ''"] by blast
  then have "double_quote \<in> set (Join (Split (Quote_list ?l) (CHR '' '')) '', '')" by (rule set_Join)
  with quote(2) have "Trim (Join (Split (Quote_list ?l) (CHR '' '')) '', '') ''[]'' \<noteq> []" by (auto simp: Trim_Nil)
  moreover have "?l \<noteq> []" using y by auto
  ultimately show ?thesis unfolding convertStrSliceToLowercaseCommaSeparatedStr_def Let_def by simp
qed

lemma not_blank_nonempty: "\<not> blank s \<Longrightarrow> s \<noteq> []"
  by (auto simp: blank_def TrimSpace_def Trim_def)

definition scoped :: "azureAccountConfig \<Rightarrow> bool" where
  "scoped cr \<longleftrightarrow> SubscriptionID cr \<noteq> [] \<and> TenantID cr \<noteq> [] \<and> az_region cr \<noteq> []"

lemma comma_separated_run:
  "x \<in> set xs \<Longrightarrow> x \<noteq> [] \<Longrightarrow> comma_separated xs msg f = f (convertStrSliceToLowercaseCommaSeparatedStr xs)"
  using comma_separated_nonempty by (simp add: comma_separated_def)

lemma account_scope_run:
  "scoped cr \<Longrightarrow> account_scope [SubscriptionID cr] [TenantID cr] [az_region cr] f =
     f (convertStrSliceToLowercaseCommaSeparatedStr [SubscriptionID cr]) (convertStrSliceToLowercaseCommaSeparatedStr [TenantID cr])
       (convertStrSliceToLowercaseCommaSeparatedStr [az_region cr])"
  by (simp add: account_scope_def scoped_def comma_separated_run)

lemmas query_run = buildVmsTableQueryWithParams_def query_text_def every_vm_def account_scope_run

lemma every_text:
  "scoped cr \<Longrightarrow> getVMsBySubscriptionIDsAndTenantIDsAndLocationsMatchQuery [SubscriptionID cr] [TenantID cr] [az_region cr] =
     Inr (query_text cr every_vm)"
  by (simp add: getVMsBySubscriptionIDsAndTenantIDsAndLocationsMatchQuery_def query_run)

lemma append_funs: "(@) [] = (\<lambda>ys. ys)" "(@) [x] = (#) x"
  by auto

lemma sorted_run:
  assumes "xs \<noteq> []" "\<forall>x \<in> set xs. \<not> blank x"
  shows "comma_separated (sort xs) msg f = f (convertStrSliceToLowercaseCommaSeparatedStr (sort xs))"
proof (rule comma_separated_run)
  show "hd xs \<in> set (sort xs)" using assms(1) by (simp add: set_sort)
  show "hd xs \<noteq> []" using assms by (simp add: not_blank_nonempty)
qed

lemma vpc_text:
  assumes "scoped cr" "\<forall>i \<in> keys m. \<not> blank i"
  shows "add_query (buildQueryForVpcIDOnlyMatches m [SubscriptionID cr] [TenantID cr] [az_region cr]) rest =
    map_sum id ((@) (map (query_text cr) (vpc_queries m))) rest"
  using assms by (cases "m = []") (simp_all add: sorted_run buildQueryForVpcIDOnlyMatches_def vpc_queries_def getVMsByVnetIDsMatchQuery_def query_run keys_def append_funs)

lemma name_text:
  assumes "scoped cr" "\<forall>e \<in> set es. \<not> blank (MatchName e)"
  shows "add_query (buildQueryForVMNameOnlyMatches es [SubscriptionID cr] [TenantID cr] [az_region cr]) rest =
    map_sum id ((@) (map (query_text cr) (name_queries es))) rest"
  using assms by (cases "es = []") (simp_all add: sorted_run buildQueryForVMNameOnlyMatches_def name_queries_def getVMsByVMNamesMatchQuery_def query_run append_funs)

lemma id_text:
  assumes "scoped cr" "\<forall>e \<in> set es. \<not> blank (MatchID e)"
  shows "add_query (buildQueryForVMIDOnlyMatches es [SubscriptionID cr] [TenantID cr] [az_region cr]) rest =
    map_sum id ((@) (map (query_text cr) (id_queries es))) rest"
  using assms by (cases "es = []") (simp_all add: sorted_run buildQueryForVMIDOnlyMatches_def id_queries_def getVMsByVMIDsMatchQuery_def query_run append_funs)

lemma vpc_vm_text:
  assumes "scoped cr" "plain_vm e" "\<not> blank v"
  shows "vpc_vm_query v e [SubscriptionID cr] [TenantID cr] [az_region cr] = Inr (query_text cr (vpc_vm v e))"
proof -
  have one: "convertStrSliceToLowercaseCommaSeparatedStr [x] \<noteq> []" if "\<not> blank x" for x
    using comma_separated_nonempty [of x "[x]"] that by (simp add: not_blank_nonempty)
  have none: "convertStrSliceToLowercaseCommaSeparatedStr [] = []" by (simp add: convertStrSliceToLowercaseCommaSeparatedStr_def)
  show ?thesis
    using assms(2,3) one none
    by (auto simp: vpc_vm_query_def getVMsByVnetAndOtherMatchesQuery_def account_scope_run [OF assms(1)] comma_separated_def
        vpc_vm_def plain_vm_def query_text_def buildVmsTableQueryWithParams_def Let_def)
qed

lemma collect_queries_Inr: "(\<And>x. x \<in> set xs \<Longrightarrow> f x = Inr (h x)) \<Longrightarrow> collect_queries (map f xs) = Inr (map h xs)"
  by (induction xs) auto

lemma collect_queries_append:
  "collect_queries xs = Inr as \<Longrightarrow> collect_queries (xs @ ys) = map_sum id ((@) as) (collect_queries ys)"
proof (induction xs arbitrary: as)
  case Nil
  then show ?case by (simp add: append_funs sum.map_ident)
next
  case (Cons x xs)
  then obtain q bs where "x = Inr q" "collect_queries xs = Inr bs" "as = q # bs"
    by (cases x; cases "collect_queries xs") auto
  with Cons.IH show ?case by (simp add: sum.map_comp o_def)
qed

lemma other_text:
  assumes "scoped cr" "list_all wf_other ss"
  shows "buildFilterForVpcIDWithOtherMatches ss m [SubscriptionID cr] [TenantID cr] [az_region cr] =
    Inr (map (query_text cr) (other_queries ss m))"
  using assms(2)
proof (induction ss)
  case (Cons s ss)
  then obtain v where v: "VpcMatch s = Some v" "\<not> blank (MatchID v)" "\<forall>e \<in> set (VMMatch s). plain_vm e"
    by (cases "VpcMatch s") (auto simp: wf_other_def vpc_id_def split: if_splits)
  then have "collect_queries (map (\<lambda>e. vpc_vm_query (MatchID v) e [SubscriptionID cr] [TenantID cr] [az_region cr]) (VMMatch s)) =
      Inr (map (\<lambda>e. query_text cr (vpc_vm (MatchID v) e)) (VMMatch s))"
    using vpc_vm_text [OF assms(1)] by (intro collect_queries_Inr) simp
  with Cons v(1) show ?case
    by (simp add: buildFilterForVpcIDWithOtherMatches_def other_queries_def collect_queries_append o_def)
qed (simp add: buildFilterForVpcIDWithOtherMatches_def other_queries_def)

lemma buildQueries_text:
  assumes "scoped cr" "list_all azure_ok ss" "group_matches azure_group_match ss no_matches = Some g"
  shows "buildQueries ss [SubscriptionID cr] [TenantID cr] [az_region cr] = Inr (map (query_text cr) (group_queries g))"
proof -
  have wf: "wf_groups g" using azure_sel.group_wf [OF assms(2) _ assms(3)] by (simp add: wf_groups_def no_matches_def)
  have az: "azure_sorted g" using group_matches_azure [OF assms(3)] by (simp add: azure_sorted_def no_matches_def keys_def)
  show ?thesis
    using wf az vpc_text [OF assms(1)] name_text [OF assms(1)] id_text [OF assms(1)] other_text [OF assms(1)]
    by (simp add: buildQueries_def assms(3) wf_groups_def azure_sorted_def group_queries_def)
qed

section \<open>Meaning of the queries\<close>

lemma vpc_vm_matches:
  "plain_vm e \<Longrightarrow> row_matches (vpc_vm v e) vm \<longleftrightarrow> in_vpc (azure_machine vm) v \<and>
     entity_matches (has_id (azure_machine vm)) (has_name (azure_machine vm)) e"
  by (auto simp: plain_vm_matches row_matches_def vpc_vm_def in_values_def azure_machine_def plain_vm_def)

lemma simple_queries_match:
  "(\<exists>q \<in> set (vpc_queries m). row_matches q vm) \<longleftrightarrow> (\<exists>i \<in> keys m. in_vpc (azure_machine vm) i)"
  "(\<exists>q \<in> set (name_queries es). row_matches q vm) \<longleftrightarrow> (\<exists>e \<in> set es. has_name (azure_machine vm) (MatchName e))"
  "(\<exists>q \<in> set (id_queries es). row_matches q vm) \<longleftrightarrow> (\<exists>e \<in> set es. has_id (azure_machine vm) (MatchID e))"
  by (auto simp: vpc_queries_def name_queries_def id_queries_def every_vm_def row_matches_def in_values_def azure_machine_def keys_def)

lemma other_queries_match:
  assumes "list_all wf_other ss"
  shows "(\<exists>q \<in> set (other_queries ss m). row_matches q vm) \<longleftrightarrow>
    (\<exists>s \<in> set ss. \<not> has_key m (the (vpc_id s)) \<and> selects (azure_machine vm) s)"
  using assms
proof (induction ss)
  case (Cons s ss)
  then obtain v where v: "VpcMatch s = Some v" "vpc_id s = Some (MatchID v)" "vpc_name s = None" "VMMatch s \<noteq> []"
      "\<forall>e \<in> set (VMMatch s). plain_vm e"
    by (cases "VpcMatch s") (auto simp: wf_other_def vpc_id_def split: if_splits)
  have "(\<exists>q \<in> set (map (vpc_vm (MatchID v)) (VMMatch s)). row_matches q vm) \<longleftrightarrow> selects (azure_machine vm) s"
    using v vpc_vm_matches by (auto simp: selects_plain)
  with Cons v(1,2) show ?case by (simp add: other_queries_def bex_Un)
qed (simp add: other_queries_def)

lemma group_queries_match:
  assumes "wf_groups g" "azure_sorted g"
  shows "(\<exists>q \<in> set (group_queries g). row_matches q vm) \<longleftrightarrow> groups_select (azure_machine vm) g"
proof -
  let ?only = "vpcIDsWithVpcIDOnlyMatches g"
  have "\<exists>i \<in> keys ?only. in_vpc (azure_machine vm) i"
    if s: "s \<in> set (vpcIDWithOtherMatches g)" "has_key ?only (the (vpc_id s))" "selects (azure_machine vm) s" for s
  proof -
    obtain i where "vpc_id s = Some i" using s(1) assms(1) by (auto simp: wf_groups_def list_all_iff wf_other_def)
    with s(2,3) show ?thesis by (auto simp: has_key_iff selects_plain)
  qed
  moreover have "list_all wf_other (vpcIDWithOtherMatches g)" "vpcNameOnlyMatches g = []"
    using assms by (simp_all add: wf_groups_def azure_sorted_def)
  ultimately show ?thesis
    unfolding group_queries_def groups_select_def set_append bex_Un simple_queries_match
    by (simp add: other_queries_match) blast
qed

lemma group_queries_Nil:
  assumes "wf_groups g" "azure_sorted g" "group_queries g = []"
  shows "\<not> groups_select any_machine g"
proof -
  have only: "vpcIDsWithVpcIDOnlyMatches g = []" "vmNameOnlyMatches g = []" "vmIDOnlyMatches g = []" "vpcNameOnlyMatches g = []"
    using assms(2,3) by (auto simp: group_queries_def vpc_queries_def name_queries_def id_queries_def azure_sorted_def split: if_splits)
  moreover have "vpcIDWithOtherMatches g = []"
  proof (cases "vpcIDWithOtherMatches g")
    case (Cons s ss)
    then have "wf_other s" using assms(1) by (simp add: wf_groups_def)
    then obtain v where "VpcMatch s = Some v" "VMMatch s \<noteq> []"
      by (cases "VpcMatch s") (auto simp: wf_other_def vpc_id_def)
    with Cons only assms(3) show ?thesis by (simp add: group_queries_def other_queries_def has_key_def)
  qed
  ultimately show ?thesis by (simp add: groups_select_def keys_def)
qed

lemma selector_queries_match:
  assumes "list_all azure_ok ss"
  shows "(\<exists>q \<in> set (selector_queries ss). row_matches q vm) \<longleftrightarrow> ss = [] \<or> (\<exists>s \<in> set ss. selects (azure_machine vm) s)"
proof -
  have every: "row_matches every_vm vm" by (simp add: row_matches_def every_vm_def in_values_def)
  show ?thesis
  proof (cases "group_matches azure_group_match ss no_matches")
    case None
    then show ?thesis using azure_sel.group_all [OF assms None] every by (simp add: selector_queries_def)
  next
    case (Some g)
    have wf: "wf_groups g" using azure_sel.group_wf [OF assms _ Some] by (simp add: wf_groups_def no_matches_def)
    have az: "azure_sorted g" using group_matches_azure [OF Some] by (simp add: azure_sorted_def no_matches_def keys_def)
    have none: "\<not> groups_select m no_matches" for m by (simp add: groups_select_def no_matches_def keys_def)
    have sel: "groups_select m g \<longleftrightarrow> (\<exists>s \<in> set ss. selects m s)" for m
      using azure_sel.group_some [OF assms Some] none by blast
    show ?thesis
    proof (cases "group_queries g = []")
      case True
      then have "ss = []" using group_queries_Nil [OF wf az] sel selects_any_machine by (cases ss) auto
      then show ?thesis using every True Some by (simp add: selector_queries_def)
    next
      case False
      then have "ss \<noteq> []" using Some by (auto simp: no_matches_def group_queries_def vpc_queries_def name_queries_def id_queries_def other_queries_def)
      then show ?thesis using False Some group_queries_match [OF wf az] sel by (simp add: selector_queries_def)
    qed
  qed
qed

section \<open>The inventory\<close>

definition graph_answers ::
    "('c \<Rightarrow> virtualMachineTable list) \<Rightarrow> 'c compute_clients \<Rightarrow> azureAccountConfig \<Rightarrow> vm_query list \<Rightarrow> 'c \<Rightarrow> bool" where
  "graph_answers rows cl cr qs c \<longleftrightarrow>
     (\<forall>q \<in> set qs. graph_vms cl (query_text cr q) [SubscriptionID cr] c = Inr (filter (row_matches q) (rows c))) \<and>
     inj_on (\<lambda>vm. ToLower (vt_ID vm)) (set (rows c))"

lemma fetch_rows_answers:
  assumes "\<forall>q \<in> set qs. graph_vms cl (query_text cr q) subs c = Inr (filter (row_matches q) rs)"
  shows "\<exists>xs. fetch_rows cl subs c (map (query_text cr) qs) = Inr xs \<and> set xs = {vm \<in> set rs. \<exists>q \<in> set qs. row_matches q vm}"
  using assms by (induction qs) auto

definition azure_only :: "CloudEntitySelector \<Rightarrow> 'c computeServiceConfig \<Rightarrow> bool" where
  "azure_only sel cfg \<longleftrightarrow> keys (computeFilters cfg) \<subseteq> {sel_Name sel} \<and> wf_map (computeFilters cfg)"

definition azure_good :: "('c \<Rightarrow> virtualMachineTable list) \<Rightarrow> 'c \<Rightarrow> CloudEntitySelector \<Rightarrow> 'c computeServiceConfig \<Rightarrow> bool" where
  "azure_good rows c sel cfg \<longleftrightarrow> scoped (az_credentials cfg) \<and> list_all azure_ok (VMSelector sel) \<and> azure_only sel cfg \<and>
     graph_answers rows (az_clients cfg) (az_credentials cfg) (selector_queries (VMSelector sel)) c"

definition azure_chosen ::
    "('c \<Rightarrow> virtualMachineTable list) \<Rightarrow> string \<Rightarrow> 'c \<Rightarrow> CloudEntitySelector \<Rightarrow> 'c computeServiceConfig \<Rightarrow> VirtualMachineCRD option set" where
  "azure_chosen rows ns c sel cfg = (\<lambda>vm. computeInstanceToVirtualMachineCRD vm ns) `
     {vm \<in> set (rows c). VMSelector sel = [] \<or> (\<exists>s \<in> set (VMSelector sel). selects (azure_machine vm) s)}"

definition selector_filters :: "azureAccountConfig \<Rightarrow> CloudEntitySelector \<Rightarrow> string list" where
  "selector_filters cr sel = fst (convertSelectorToComputeQuery (Some sel) [SubscriptionID cr] [TenantID cr] [az_region cr])"

lemma set_filters:
  assumes "scoped (az_credentials cfg)" "list_all azure_ok (VMSelector sel)" "azure_only sel cfg"
  shows "azure_SetResourceFilters (Some sel) cfg = cfg\<lparr>computeFilters := [(sel_Name sel, selector_filters (az_credentials cfg) sel)]\<rparr>"
    and "selector_queries (VMSelector sel) = [every_vm] \<and> selector_filters (az_credentials cfg) sel = [] \<or>
      selector_filters (az_credentials cfg) sel \<noteq> [] \<and>
      selector_filters (az_credentials cfg) sel = map (query_text (az_credentials cfg)) (selector_queries (VMSelector sel))"
proof -
  have put: "put (sel_Name sel) f (computeFilters cfg) = [(sel_Name sel, f)]" for f
    using assms(3) by (simp add: azure_only_def put_only)
  show "azure_SetResourceFilters (Some sel) cfg = cfg\<lparr>computeFilters := [(sel_Name sel, selector_filters (az_credentials cfg) sel)]\<rparr>"
    using buildQueries_text [OF assms(1,2)]
    by (cases "group_matches azure_group_match (VMSelector sel) no_matches")
      (simp_all add: azure_SetResourceFilters_def selector_filters_def convertSelectorToComputeQuery_def put buildQueries_def)
  show "selector_queries (VMSelector sel) = [every_vm] \<and> selector_filters (az_credentials cfg) sel = [] \<or>
      selector_filters (az_credentials cfg) sel \<noteq> [] \<and>
      selector_filters (az_credentials cfg) sel = map (query_text (az_credentials cfg)) (selector_queries (VMSelector sel))"
    using buildQueries_text [OF assms(1,2)]
    by (cases "group_matches azure_group_match (VMSelector sel) no_matches")
      (auto simp: selector_queries_def selector_filters_def convertSelectorToComputeQuery_def buildQueries_def)
qed

lemma selector_resource_filters:
  assumes "is_order ord" "scoped (az_credentials cfg)" "list_all azure_ok (VMSelector sel)" "azure_only sel cfg"
  shows "getComputeResourceFilters ord (azure_SetResourceFilters (Some sel) cfg) =
    (Some (map (query_text (az_credentials cfg)) (selector_queries (VMSelector sel))), True)"
proof -
  have one: "range_map ord [(n, f)] = [(n, f)]" for n :: string and f :: "string list"
    using mset_range_map [OF assms(1), of "[(n, f)]"] by simp
  show ?thesis
    using set_filters [OF assms(2-4)] every_text [OF assms(2)]
    by (auto simp: getComputeResourceFilters_def one Let_def)
qed

lemma getVirtualMachines_selected:
  assumes "is_order ord" "azure_good rows c sel cfg"
  shows "\<exists>xs. getVirtualMachines ord c (azure_SetResourceFilters (Some sel) cfg) = Inr xs \<and>
    set xs = {vm \<in> set (rows c). VMSelector sel = [] \<or> (\<exists>s \<in> set (VMSelector sel). selects (azure_machine vm) s)}"
proof -
  let ?cr = "az_credentials cfg" and ?qs = "selector_queries (VMSelector sel)"
  have good: "scoped ?cr" "list_all azure_ok (VMSelector sel)" "azure_only sel cfg"
    using assms(2) by (simp_all add: azure_good_def)
  obtain xs where xs: "fetch_rows (az_clients cfg) [SubscriptionID ?cr] c (map (query_text ?cr) ?qs) = Inr xs"
      "set xs = {vm \<in> set (rows c). \<exists>q \<in> set ?qs. row_matches q vm}"
    using fetch_rows_answers [of ?qs "az_clients cfg" ?cr "[SubscriptionID ?cr]" c "rows c"] assms(2)
    unfolding azure_good_def graph_answers_def by blast
  have "az_clients (azure_SetResourceFilters (Some sel) cfg) = az_clients cfg"
      "az_credentials (azure_SetResourceFilters (Some sel) cfg) = ?cr"
    by (simp_all add: set_filters(1) [OF good])
  with xs show ?thesis
    by (simp add: getVirtualMachines_def selector_resource_filters [OF assms(1) good] selector_queries_match [OF good(2)])
qed

interpretation azure: cloud_service compute_service "azure_good rows" "azure_chosen rows" for rows :: "'c \<Rightarrow> virtualMachineTable list"
proof
  fix ord c sel and cfg :: "'c computeServiceConfig"
  assume "is_order ord" "azure_good rows c sel cfg"
  then show "fst (HasFiltersConfigured compute_service ord (SetResourceFilters compute_service (Some sel) cfg))"
    by (simp add: azure_good_def compute_service_def azure_HasFiltersConfigured_def selector_resource_filters)
next
  fix ord c sel ns and cfg :: "'c computeServiceConfig"
  assume ord: "is_order ord" and good: "azure_good rows c sel cfg"
  obtain xs where xs: "getVirtualMachines ord c (azure_SetResourceFilters (Some sel) cfg) = Inr xs"
      "set xs = {vm \<in> set (rows c). VMSelector sel = [] \<or> (\<exists>s \<in> set (VMSelector sel). selects (azure_machine vm) s)}"
    using getVirtualMachines_selected [OF ord good] by blast
  have "inj_on (\<lambda>vm. ToLower (vt_ID vm)) (set (rows c))" using good by (simp add: azure_good_def graph_answers_def)
  then have "inj_on (\<lambda>vm. ToLower (vt_ID vm)) (set xs)" by (rule inj_on_subset) (simp add: xs)
  from set_fold_put [OF this] xs ord show "\<exists>s'. DoResourceInventory compute_service ord c (SetResourceFilters compute_service (Some sel) cfg) = (None, s') \<and>
      set (GetResourceCRDs compute_service ord ns s') = azure_chosen rows ns c sel cfg"
    by (auto simp: compute_service_def azure_DoResourceInventory_def azure_GetResourceCRDs_def getCachedVirtualMachines_def
        azure_chosen_def image_image [symmetric])
qed (simp_all add: compute_service_def azure_GetResourceCRDs_def getCachedVirtualMachines_def)

section \<open>Selectors the webhook admits\<close>

lemma webhook_azure_ok:
  assumes "validateMatchSections env sel = None" "GetOwnerAccount env sel = Inr owner" "AWSConfig owner = None" "no_empty_match sel"
  shows "list_all azure_ok (VMSelector sel)"
proof -
  have "azure_ok s" if s: "s \<in> set (VMSelector sel)" for s
  proof -
    have both: "\<forall>e \<in> set (VMMatch s). \<not> both_set e"
      using assms(1) s by (auto simp: validateMatchSections_def split: if_splits)
    have named: "\<not> (case VpcMatch s of None \<Rightarrow> False | Some v \<Rightarrow> \<not> blank (MatchName v))"
      using assms(1-3) s by (auto simp: validateMatchSections_def GetAccountProviderType_def split: if_splits)
    have "plain_vm e" if "e \<in> set (VMMatch s)" for e
      using both assms(4) s that by (auto simp: plain_vm_def both_set_def no_empty_match_def list_all_iff)
    with named show ?thesis by (auto simp: azure_ok_def vpc_name_def split: option.splits)
  qed
  then show ?thesis by (simp add: list_all_iff)
qed


definition vnet_path :: "string \<Rightarrow> string" where
  "vnet_path n = ''/subscriptions/s/resourceGroups/g/providers/Microsoft.Network/virtualNetworks/'' @ n"

definition example_row :: "string \<Rightarrow> string \<Rightarrow> virtualMachineTable" where
  "example_row n vnet = \<lparr>vt_ID = n, vt_Name = n, vt_NetworkInterfaces = [], vt_Tags = [], vt_Status = None, vt_VnetID = vnet_path vnet\<rparr>"

definition example_rows :: "unit \<Rightarrow> virtualMachineTable list" where
  "example_rows _ = [example_row ''a'' ''v1'', example_row ''b'' ''v2'']"

definition example_clients :: "unit compute_clients" where
  "example_clients = \<lparr>nsg_get = (\<lambda>_ _ _. Inl (NotFound [])), nsg_createOrUpdate = (\<lambda>_ _ _ c. (Inl (Err []), c)),
     nsg_listAllComplete = (\<lambda>_. Inr []), asg_get = (\<lambda>_ _ _. Inl (NotFound [])), asg_createOrUpdate = (\<lambda>_ _ _ c. (Inl (Err []), c)),
     asg_listComplete = (\<lambda>_ _. Inr []), asg_listAllComplete = (\<lambda>_. Inr []), asg_delete = (\<lambda>_ _ c. (None, c)),
     nic_listAllComplete = (\<lambda>_. Inr []), nic_createOrUpdate = (\<lambda>_ _ _ c. (None, c)), graph_nwIntfs = (\<lambda>_ _ _. Inr []),
     vnet_listAllComplete = (\<lambda>_. Inr []), graph_vms = (\<lambda>_ _ _. Inr [example_row ''a'' ''v1''])\<rparr>"

definition example_azure :: "unit computeServiceConfig" where
  "example_azure = \<lparr>az_accountName = ''a'', az_clients = example_clients, az_cache = None,
     az_stats = \<lparr>totalPollCnt = 0, successPollCnt = 0, lastPollErr = None\<rparr>,
     az_credentials = \<lparr>SubscriptionID = ''s'', ClientID = ''c'', TenantID = ''t'', ClientKey = ''k'', az_region = ''r''\<rparr>, computeFilters = []\<rparr>"

definition example_azure_selector :: CloudEntitySelector where
  "example_azure_selector = \<lparr>sel_Name = ''s'', sel_Namespace = ''ns'', OwnerReferences = [''a''], AccountName = ''a'',
     VMSelector = [\<lparr>VpcMatch = Some \<lparr>MatchName = [], MatchID = vnet_path ''V1''\<rparr>, VMMatch = []\<rparr>]\<rparr>"

definition example_azure_account :: CloudProviderAccount where
  "example_azure_account = example_account\<lparr>AWSConfig := None, AzureConfig := AWSConfig example_account\<rparr>"

definition example_azure_accounts :: "(unit computeServiceConfig, unit) accounts" where
  "example_azure_accounts = [(\<lparr>nn_Namespace = ''ns'', nn_Name = ''a''\<rparr>,
     \<lparr>acc_namespacedName = \<lparr>nn_Namespace = ''ns'', nn_Name = ''a''\<rparr>, credentials = (), serviceConfigs = [(''COMPUTE'', example_azure)],
      inventoryPollInterval = 60, inventory_polling = False, Status_Error = []\<rparr>)]"


section \<open>Limits\<close>

text \<open>The public addresses of a machine are entered as internal ones.\<close>

lemma public_address_is_internal:
  "a \<in> set (PublicIps nic) \<Longrightarrow> \<lparr>ip_AddressType = AddressTypeInternalIP, ip_Address = a\<rparr> \<in> set (IPs (azure_nic nic)) \<and>
     (\<forall>ip \<in> set (IPs (azure_nic nic)). ip_AddressType ip \<noteq> AddressTypeExternalIP)"
  by (auto simp: azure_nic_def)

text \<open>The queries hold the subscription, the tenant and the region; new credentials leave the stored queries as they are.\<close>

lemma update_keeps_queries: "computeFilters (azure_UpdateServiceConfig new cfg) = computeFilters cfg"
  by (simp add: azure_UpdateServiceConfig_def)

end
