(* ===== verification/Azure_Security.thy ===== *)
theory Azure_Security
  imports Azure_Compute
begin

text \<open>
  Security groups in Azure (\<^verbatim>\<open>pkg/cloud-provider/cloudapi/azure/azure_security.go\<close>). The groups of a virtual network
  share one network security group; each has an application security group, and a tag on an interface says which
  applied-to groups it is a member of. The state is that of the cloud. The goroutines of one
  request run in the order given; a request that waits for more goroutines than it started hangs. The accounts
  that have no inventory after the wait of 30 seconds are left out of the view.
\<close>

section \<open>State\<close>

type_synonym ('c, 'a) azure_op = "('c, (go_error + 'a) outcome) state"

definition azure_ask :: "('c \<Rightarrow> go_error + 'a) \<Rightarrow> ('c, 'a) azure_op" where
  "azure_ask f = gets (\<lambda>c. Returns (f c))"

definition azure_call :: "('c, error) state \<Rightarrow> ('c, unit) azure_op" where
  "azure_call m = do { err \<leftarrow> m; case err of None \<Rightarrow> succeed () | Some e \<Rightarrow> fail e }"

text \<open>The name of the network security group of a virtual network.\<close>

definition perVnetNsgName :: "string \<Rightarrow> string" where
  "perVnetNsgName vnetID = GetCloudName \<lparr>id_Name = appliedToSecurityGroupNamePerVnet, id_Vpc = vnetID\<rparr> False @ ''-'' @
     last (Split vnetID (CHR ''/''))"

definition getNetworkInterfacesOfVnet ::
    "order \<Rightarrow> 'c computeServiceConfig \<Rightarrow> (string, unit) gomap \<Rightarrow> 'c \<Rightarrow> go_error + networkInterfaceTable list" where
  "getNetworkInterfacesOfVnet ord cfg vnetIDSet c =
     (let cr = az_credentials cfg
      in case getNwIntfsByVnetIDsAndSubscriptionIDsAndTenantIDsAndLocationsMatchQuery (map fst (range_map ord vnetIDSet))
           [SubscriptionID cr] [TenantID cr] [az_region cr] of
           Inl err \<Rightarrow> Inl err
         | Inr query \<Rightarrow> graph_nwIntfs (az_clients cfg) query [SubscriptionID cr] c)"

section \<open>Members\<close>

type_synonym nic_sets = "(string, unit) gomap \<times> (string, unit) gomap"

definition sort_nic ::
    "(string, unit) gomap \<Rightarrow> (string, unit) gomap \<Rightarrow> bool \<Rightarrow> string \<Rightarrow> networkInterfaceTable \<Rightarrow> nic_sets \<Rightarrow> nic_sets" where
  "sort_nic memberVMs memberNics attached vmID nic sets = (case sets of (toAttach, toDetach) \<Rightarrow>
     (let nicID = ToLower (nit_ID nic); isMember = has_key memberVMs (ToLower vmID) \<or> has_key memberNics nicID
      in if attached then (if \<not> isMember then (toAttach, put nicID () toDetach) else sets)
         else (if isMember then (put nicID () toAttach, toDetach) else sets)))"

definition attached_vm :: "networkInterfaceTable \<Rightarrow> string option" where
  "attached_vm nic = (case VirtualMachineID nic of None \<Rightarrow> None | Some vmID \<Rightarrow> if length vmID = 0 then None else Some vmID)"

definition nsg_attached :: "string \<Rightarrow> string \<Rightarrow> networkInterfaceTable \<Rightarrow> go_error + bool" where
  "nsg_attached nsgName tagKey nic = (case NetworkSecurityGroupID nic of
     None \<Rightarrow> Inr False
   | Some nsgID \<Rightarrow> if length nsgID = 0 then Inr False
       else (case extractFieldsFromAzureResourceID (ToLower nsgID) of
         Inl err \<Rightarrow> Inl err
       | Inr (_, _, name) \<Rightarrow> Inr (case nit_Tags nic of [] \<Rightarrow> False | tags # _ \<Rightarrow> name = nsgName \<and> has_key tags tagKey)))"

fun nsg_changes ::
    "string \<Rightarrow> string \<Rightarrow> (string, unit) gomap \<Rightarrow> (string, unit) gomap \<Rightarrow> networkInterfaceTable list \<Rightarrow> nic_sets \<Rightarrow> go_error + nic_sets" where
  "nsg_changes nsgName tagKey vms nics [] sets = Inr sets"
| "nsg_changes nsgName tagKey vms nics (nic # rest) sets = (case attached_vm nic of
     None \<Rightarrow> nsg_changes nsgName tagKey vms nics rest sets
   | Some vmID \<Rightarrow> (case nsg_attached nsgName tagKey nic of
       Inl err \<Rightarrow> Inl err
     | Inr attached \<Rightarrow> nsg_changes nsgName tagKey vms nics rest (sort_nic vms nics attached vmID nic sets)))"

definition asg_attached :: "string \<Rightarrow> networkInterfaceTable \<Rightarrow> bool" where
  "asg_attached asgName nic \<longleftrightarrow> (\<exists>asgID \<in> set (ApplicationSecurityGroupIDs nic).
     case extractFieldsFromAzureResourceID (ToLower asgID) of
       Inl _ \<Rightarrow> False
     | Inr (_, _, name) \<Rightarrow> (case IsNepheControllerCreatedSG name of (_, isAG, _) \<Rightarrow> isAG \<and> name = asgName))"

definition asg_changes ::
    "string \<Rightarrow> (string, unit) gomap \<Rightarrow> (string, unit) gomap \<Rightarrow> networkInterfaceTable list \<Rightarrow> nic_sets" where
  "asg_changes asgName vms nics table = fold (\<lambda>nic sets. case attached_vm nic of
     None \<Rightarrow> sets
   | Some vmID \<Rightarrow> sort_nic vms nics (asg_attached asgName nic) vmID nic sets) table ([], [])"

text \<open>
  The updates of the interfaces that were found. The wait group counts the interfaces that were asked for, so the channel
  is not closed when one of them is not there. An error of the listing is dropped.
\<close>

definition attach_detach ::
    "order \<Rightarrow> 'c compute_clients \<Rightarrow> nic_sets \<Rightarrow> (Interface \<Rightarrow> bool \<Rightarrow> ('c, error) state) \<Rightarrow> ('c, unit) azure_op" where
  "attach_detach ord cl sets upd = (case sets of (toAttach, toDetach) \<Rightarrow>
     (let allNwIntfIDs = mergeSet [toAttach, toDetach]
      in do {
        found \<leftarrow> gets (getNetworkInterfacesGivenIDs cl allNwIntfIDs);
        case found of
          Panics \<Rightarrow> panic
        | Hangs \<Rightarrow> ret Hangs
        | Returns (Inl _) \<Rightarrow> succeed ()
        | Returns (Inr objs) \<Rightarrow> do {
            errs \<leftarrow> for_fold (range_map ord objs) [] (\<lambda>(nicID, obj) errs. do {
              e \<leftarrow> upd obj (has_key toAttach nicID);
              ret (errs @ (case e of None \<Rightarrow> [] | Some err \<Rightarrow> [err]))
            });
            if length objs < length allNwIntfIDs then ret Hangs
            else ret (Returns (case multierr errs (\<lambda>es. Join es ''; '') of None \<Rightarrow> Inr () | Some e \<Rightarrow> Inl e))
          }
      }))"

definition processNsgAttachDetachConcurrently ::
    "order \<Rightarrow> 'c computeServiceConfig \<Rightarrow> NetworkSecurityGroup \<Rightarrow> ApplicationSecurityGroup \<Rightarrow> nic_sets \<Rightarrow> string \<Rightarrow> ('c, unit) azure_op" where
  "processNsgAttachDetachConcurrently ord cfg nsgObj asgObj sets tagKey = attach_detach ord (az_clients cfg) sets
     (\<lambda>obj isAttach. updateNetworkInterfaceNsg (az_clients cfg) obj nsgObj asgObj isAttach tagKey)"

definition processAsgAttachDetachConcurrently ::
    "order \<Rightarrow> 'c computeServiceConfig \<Rightarrow> ApplicationSecurityGroup \<Rightarrow> nic_sets \<Rightarrow> ('c, unit) azure_op" where
  "processAsgAttachDetachConcurrently ord cfg asgObj sets = attach_detach ord (az_clients cfg) sets
     (\<lambda>obj isAttach. updateNetworkInterfaceAsg (az_clients cfg) obj asgObj isAttach)"

definition processAppliedToMembership ::
    "order \<Rightarrow> 'c computeServiceConfig \<Rightarrow> CloudResourceID \<Rightarrow> networkInterfaceTable list \<Rightarrow> string \<Rightarrow>
     (string, unit) gomap \<Rightarrow> (string, unit) gomap \<Rightarrow> bool \<Rightarrow> ('c, unit) azure_op" where
  "processAppliedToMembership ord cfg gid table rgName vms nics isPeer =
     (let nsgName = perVnetNsgName (id_Vpc gid); cloudSgName = GetCloudName gid isPeer
      in and_then (azure_ask (nsg_get (az_clients cfg) rgName nsgName)) (\<lambda>nsgObj.
         and_then (azure_ask (asg_get (az_clients cfg) rgName cloudSgName)) (\<lambda>asgObj.
           case nsg_changes nsgName cloudSgName vms nics table ([], []) of
             Inl err \<Rightarrow> fail err
           | Inr sets \<Rightarrow> processNsgAttachDetachConcurrently ord cfg nsgObj asgObj sets (GetCloudName gid False))))"

definition processAddressGroupMembership ::
    "order \<Rightarrow> 'c computeServiceConfig \<Rightarrow> CloudResourceID \<Rightarrow> networkInterfaceTable list \<Rightarrow> string \<Rightarrow>
     (string, unit) gomap \<Rightarrow> (string, unit) gomap \<Rightarrow> ('c, unit) azure_op" where
  "processAddressGroupMembership ord cfg gid table rgName vms nics =
     (let cloudAsgName = GetCloudName gid True
      in and_then (azure_ask (asg_get (az_clients cfg) rgName cloudAsgName)) (\<lambda>asgObj.
           processAsgAttachDetachConcurrently ord cfg asgObj (asg_changes cloudAsgName vms nics table)))"

definition ifPeerProcessing :: "string \<Rightarrow> 'c computeServiceConfig \<Rightarrow> bool" where
  "ifPeerProcessing vnetID cfg \<longleftrightarrow> (\<exists>pair \<in> set (getVnetPeers vnetID cfg). has_key (getCachedVnetIDs cfg) (hd pair))"

definition azure_updateSecurityGroupMembers ::
    "order \<Rightarrow> 'c computeServiceConfig \<Rightarrow> CloudResourceID \<Rightarrow> CloudResource list \<Rightarrow> bool \<Rightarrow> ('c, unit) azure_op" where
  "azure_updateSecurityGroupMembers ord cfg gid resources membershipOnly =
     and_then (azure_ask (getNetworkInterfacesOfVnet ord cfg [(id_Vpc gid, ())])) (\<lambda>table.
       case FindResourcesBasedOnKind resources of (vms, nics) \<Rightarrow>
       (case extractFieldsFromAzureResourceID (id_Vpc gid) of
          Inl err \<Rightarrow> fail err
        | Inr (_, rgName, _) \<Rightarrow>
            if ifPeerProcessing (id_Vpc gid) cfg
            then (if membershipOnly then processAppliedToMembership ord cfg gid table rgName vms nics True else succeed ())
            else if membershipOnly then processAddressGroupMembership ord cfg gid table rgName vms nics
            else processAppliedToMembership ord cfg gid table rgName vms nics False))"

section \<open>Rules\<close>

text \<open>The rules of the other applied-to groups, by direction.\<close>

definition other_rules :: "string \<Rightarrow> SecurityRule list \<Rightarrow> SecurityRule list \<times> SecurityRule list" where
  "other_rules appliedToName rules =
     (let others = filter (\<lambda>rule. case Description rule of
            None \<Rightarrow> False
          | Some name \<Rightarrow> (case IsNepheControllerCreatedSG name of (_, _, isAT) \<Rightarrow> isAT \<and> name \<noteq> appliedToName)) rules
      in (filter (\<lambda>rule. sr_Direction rule = DirectionInbound) others, filter (\<lambda>rule. sr_Direction rule \<noteq> DirectionInbound) others))"

text \<open>The shape both variants share: \<open>convert\<close> translates the new rules given the groups of the resource group.\<close>

definition effective_rules ::
    "order \<Rightarrow> 'c computeServiceConfig \<Rightarrow> CloudResourceID \<Rightarrow> string \<Rightarrow> string \<Rightarrow>
     (asg_map \<times> asg_map \<Rightarrow> go_error + SecurityRule list) \<Rightarrow> (asg_map \<times> asg_map \<Rightarrow> go_error + SecurityRule list) \<Rightarrow>
     'c \<Rightarrow> (go_error + SecurityRule list) outcome" where
  "effective_rules ord cfg gid nsgName rgName convertIngress convertEgress c = (case nsg_get (az_clients cfg) rgName nsgName c of
     Inl err \<Rightarrow> Returns (Inl err)
   | Inr nsgObj \<Rightarrow> (case SecurityRules nsgObj of
       None \<Rightarrow> Panics
     | Some current \<Rightarrow> (case other_rules (GetCloudName gid False) current of (currentIngress, currentEgress) \<Rightarrow>
         Returns (case getNepheControllerCreatedAsgByNameForResourceGroup (az_clients cfg) rgName c of
           Inl err \<Rightarrow> Inl err
         | Inr asgs \<Rightarrow> (case convertIngress asgs of
             Inl err \<Rightarrow> Inl err
           | Inr newIngress \<Rightarrow> (case convertEgress asgs of
               Inl err \<Rightarrow> Inl err
             | Inr newEgress \<Rightarrow> Inr (updateSecurityRuleNameAndPriority ord currentIngress newIngress @
                 updateSecurityRuleNameAndPriority ord currentEgress newEgress)))))))"

definition buildEffectiveNSGSecurityRulesToApply ::
    "order \<Rightarrow> 'c computeServiceConfig \<Rightarrow> CloudResourceID \<Rightarrow> IngressRule option list \<Rightarrow> EgressRule option list \<Rightarrow> string \<Rightarrow> string \<Rightarrow>
     'c \<Rightarrow> (go_error + SecurityRule list) outcome" where
  "buildEffectiveNSGSecurityRulesToApply ord cfg gid irules erules nsgName rgName = effective_rules ord cfg gid nsgName rgName
     (\<lambda>(ag, at). convertIngressToAzureNsgSecurityRules gid irules ag at) (\<lambda>(ag, at). convertEgressToAzureNsgSecurityRules gid erules ag at)"

definition buildEffectivePeerNSGSecurityRulesToApply ::
    "order \<Rightarrow> 'c computeServiceConfig \<Rightarrow> CloudResourceID \<Rightarrow> IngressRule option list \<Rightarrow> EgressRule option list \<Rightarrow> string \<Rightarrow> string \<Rightarrow>
     string option \<Rightarrow> 'c \<Rightarrow> (go_error + SecurityRule list) outcome" where
  "buildEffectivePeerNSGSecurityRulesToApply ord cfg gid irules erules nsgName rgName ruleIP = effective_rules ord cfg gid nsgName rgName
     (\<lambda>(ag, _). convertIngressToAzurePeerNsgSecurityRules gid irules ag ruleIP)
     (\<lambda>(ag, _). convertEgressToAzurePeerNsgSecurityRules gid erules ag ruleIP)"

definition getAsgsToAdd :: "ApplicationSecurityGroup list \<Rightarrow> string \<Rightarrow> ApplicationSecurityGroup list option \<times> bool" where
  "getAsgsToAdd asgs name =
     (let named = concat (map (\<lambda>asg. case extractFieldsFromAzureResourceID (asg_ID asg) of
            Inl _ \<Rightarrow> [] | Inr (_, _, asgName) \<Rightarrow> [(asg, ToLower asgName)]) asgs);
          asgsToKeep = map fst (filter (\<lambda>(_, n). n \<noteq> name) named)
      in (if asgsToKeep = [] then None else Some asgsToKeep, \<exists>(_, n) \<in> set named. n = name))"

text \<open>Whether the groups of one side of a rule lose the group, and whether none is left then.\<close>

definition side_loses :: "ApplicationSecurityGroup list option \<Rightarrow> string \<Rightarrow> bool \<times> bool" where
  "side_loses asgs name = (case asgs of
     None \<Rightarrow> (False, False)
   | Some l \<Rightarrow> if length l = 0 then (False, False)
       else (case getAsgsToAdd l name of (kept, updated) \<Rightarrow> (updated, updated \<and> kept = None)))"

definition rule_loses :: "string \<Rightarrow> SecurityRule \<Rightarrow> bool \<times> bool" where
  "rule_loses name rule = (case (side_loses (SourceApplicationSecurityGroups rule) name, side_loses (DestinationApplicationSecurityGroups rule) name) of
     ((srcUpdated, srcEmpty), (dstUpdated, dstEmpty)) \<Rightarrow> (srcUpdated \<or> dstUpdated, srcEmpty \<or> dstEmpty))"

definition removeReferencesToSecurityGroup ::
    "'c computeServiceConfig \<Rightarrow> CloudResourceID \<Rightarrow> string \<Rightarrow> string \<Rightarrow> bool \<Rightarrow> ('c, unit) azure_op" where
  "removeReferencesToSecurityGroup cfg gid rgName location membershipOnly =
     (let nsgName = perVnetNsgName (id_Vpc gid);
          asgName = (if ifPeerProcessing (id_Vpc gid) cfg then GetCloudName gid False else GetCloudName gid membershipOnly)
      in and_then (azure_ask (nsg_get (az_clients cfg) rgName nsgName)) (\<lambda>nsgObj.
           case SecurityRules nsgObj of
             None \<Rightarrow> succeed ()
           | Some rules \<Rightarrow>
               if \<not> (\<exists>rule \<in> set rules. fst (rule_loses asgName rule)) then succeed ()
               else azure_call (updateNetworkSecurityGroupRules (az_clients cfg) location rgName nsgName
                 (filter (\<lambda>rule. \<not> snd (rule_loses asgName rule)) rules))))"

section \<open>View of the enforced groups\<close>

definition NetworkInterfaceCRDKind :: string where "NetworkInterfaceCRDKind = ''NetworkInterface''"

definition nic_resource :: "networkInterfaceTable \<Rightarrow> CloudResource" where
  "nic_resource nic = \<lparr>rsc_Type = CloudResourceTypeNIC, rsc_Name =
     \<lparr>id_Name = GenerateShortResourceIdentifier (nit_ID nic) NetworkInterfaceCRDKind, id_Vpc = ToLower (nit_VnetID nic)\<rparr>\<rparr>"

record at_view =
  at_members :: "(string, CloudResource list) gomap"
  at_names :: "(string, (string, unit) gomap) gomap"
  at_vnets :: "(string, string) gomap"

definition tag_groups :: "order \<Rightarrow> (string, string) gomap \<Rightarrow> string list" where
  "tag_groups ord tags = concat (map (\<lambda>(key, _). case IsNepheControllerCreatedSG key of (name, _, isAT) \<Rightarrow> if isAT then [name] else [])
     (range_map ord tags))"

text \<open>One interface; \<open>None\<close> is the panic on an interface of the network security group that has no tags.\<close>

definition view_at_nic :: "order \<Rightarrow> networkInterfaceTable \<Rightarrow> at_view \<Rightarrow> at_view option" where
  "view_at_nic ord nic v = (case (VirtualMachineID nic, NetworkSecurityGroupID nic) of
     (Some _, Some nsg) \<Rightarrow>
       (let nsgID = ToLower nsg
        in case extractFieldsFromAzureResourceID nsgID of
             Inl _ \<Rightarrow> Some v
           | Inr (_, _, nsgName) \<Rightarrow> (case IsNepheControllerCreatedSG nsgName of (sgName, _, isAT) \<Rightarrow>
               if \<not> isAT then Some v
               else let v1 = v\<lparr>at_vnets := put nsgID (ToLower (nit_VnetID nic)) (at_vnets v)\<rparr>
                    in if sgName \<noteq> ToLower appliedToSecurityGroupNamePerVnet then Some v1
                       else (case nit_Tags nic of
                         [] \<Rightarrow> None
                       | tags # _ \<Rightarrow>
                           (let names = tag_groups ord tags; new = fold (\<lambda>n. put n ()) names []
                            in Some (v1\<lparr>at_members := fold (\<lambda>n. append_at n [nic_resource nic]) names (at_members v1),
                                 at_names := (if length new > 0
                                   then put nsgID (mergeSet [get_or [] (at_names v1) nsgID, new]) (at_names v1) else at_names v1)\<rparr>)))))
   | _ \<Rightarrow> Some v)"

fun view_at_nics :: "order \<Rightarrow> networkInterfaceTable list \<Rightarrow> at_view \<Rightarrow> at_view option" where
  "view_at_nics ord [] v = Some v"
| "view_at_nics ord (nic # nics) v = (case view_at_nic ord nic v of None \<Rightarrow> None | Some v' \<Rightarrow> view_at_nics ord nics v')"

definition at_content :: "at_view \<Rightarrow> string \<Rightarrow> group_rules \<Rightarrow> string \<Rightarrow> SynchronizationContent" where
  "at_content v vnetID rules name = (case rules of (ingress, egress) \<Rightarrow>
     \<lparr>Resource = \<lparr>id_Name = name, id_Vpc = vnetID\<rparr>, MembershipOnly = False, Members = get_or [] (at_members v) name,
      MembersWithOtherSGAttached = [], IngressRules = get_or [] ingress name, EgressRules = get_or [] egress name\<rparr>)"

fun at_groups ::
    "order \<Rightarrow> at_view \<Rightarrow> NetworkSecurityGroup list \<Rightarrow> SynchronizationContent list \<times> (string, unit) gomap \<Rightarrow>
     (SynchronizationContent list \<times> (string, unit) gomap) option" where
  "at_groups ord v [] acc = Some acc"
| "at_groups ord v (nsg # nsgs) (contents, names) = (case nsg_ID nsg of
     None \<Rightarrow> None
   | Some i \<Rightarrow> (case map_of (at_names v) (ToLower i) of
       None \<Rightarrow> at_groups ord v nsgs (contents, names)
     | Some nameSet \<Rightarrow>
         (let vnetID = get_or [] (at_vnets v) (ToLower i)
          in case convertToNepheControllerRulesByAppliedToSGName (SecurityRules nsg) vnetID of
               None \<Rightarrow> None
             | Some rules \<Rightarrow> (let ns = map fst (range_map ord nameSet)
                 in at_groups ord v nsgs (contents @ map (at_content v vnetID rules) ns, fold (\<lambda>n. put n ()) ns names)))))"

definition getATGroupView ::
    "order \<Rightarrow> 'c computeServiceConfig \<Rightarrow> at_view \<Rightarrow> 'c \<Rightarrow> (go_error + SynchronizationContent list \<times> (string, unit) gomap) outcome" where
  "getATGroupView ord cfg v c = (case nsg_listAllComplete (az_clients cfg) c of
     Inl err \<Rightarrow> Returns (Inl err)
   | Inr nsgs \<Rightarrow> (case at_groups ord v nsgs ([], []) of None \<Rightarrow> Panics | Some r \<Rightarrow> Returns (Inr r)))"

definition processAndBuildATSgView ::
    "order \<Rightarrow> 'c computeServiceConfig \<Rightarrow> networkInterfaceTable list \<Rightarrow> 'c \<Rightarrow>
     (go_error + SynchronizationContent list \<times> (string, unit) gomap) outcome" where
  "processAndBuildATSgView ord cfg nics c =
     (case view_at_nics ord nics \<lparr>at_members = [], at_names = [], at_vnets = []\<rparr> of
        None \<Rightarrow> Panics
      | Some v \<Rightarrow> getATGroupView ord cfg v c)"

text \<open>The address groups: members by name, and the network of each application security group.\<close>

definition view_ag_nic ::
    "networkInterfaceTable \<Rightarrow> (string, CloudResource list) gomap \<times> (string, string) gomap \<Rightarrow>
     (string, CloudResource list) gomap \<times> (string, string) gomap" where
  "view_ag_nic nic acc = (if VirtualMachineID nic = None then acc
     else fold (\<lambda>asg (members, vnets).
       let asgID = ToLower asg
       in case extractFieldsFromAzureResourceID asgID of
            Inl _ \<Rightarrow> (members, vnets)
          | Inr (_, _, asgName) \<Rightarrow> (case IsNepheControllerCreatedSG asgName of (name, isAG, _) \<Rightarrow>
              if \<not> isAG then (members, vnets)
              else (append_at name [nic_resource nic] members, put asgID (ToLower (nit_VnetID nic)) vnets)))
       (ApplicationSecurityGroupIDs nic) acc)"

definition ag_content ::
    "(string, CloudResource list) gomap \<Rightarrow> (string, string) gomap \<Rightarrow> (string, unit) gomap \<Rightarrow> ApplicationSecurityGroup \<Rightarrow> SynchronizationContent list" where
  "ag_content members vnets atNames asg =
     (let asgID = ToLower (asg_ID asg)
      in case extractFieldsFromAzureResourceID asgID of
           Inl _ \<Rightarrow> []
         | Inr (_, _, asgName) \<Rightarrow> (case IsNepheControllerCreatedSG asgName of (name, isAG, _) \<Rightarrow>
             if \<not> isAG \<or> has_key atNames name then []
             else [\<lparr>Resource = \<lparr>id_Name = name, id_Vpc = get_or [] vnets asgID\<rparr>, MembershipOnly = True,
                    Members = get_or [] members name, MembersWithOtherSGAttached = [], IngressRules = [], EgressRules = []\<rparr>]))"

definition getAGGroupView ::
    "'c computeServiceConfig \<Rightarrow> (string, CloudResource list) gomap \<Rightarrow> (string, string) gomap \<Rightarrow> (string, unit) gomap \<Rightarrow>
     'c \<Rightarrow> go_error + SynchronizationContent list" where
  "getAGGroupView cfg members vnets atNames c = (case asg_listAllComplete (az_clients cfg) c of
     Inl err \<Rightarrow> Inl err
   | Inr asgs \<Rightarrow> Inr (concat (map (ag_content members vnets atNames) asgs)))"

definition processAndBuildAGSgView ::
    "'c computeServiceConfig \<Rightarrow> networkInterfaceTable list \<Rightarrow> (string, unit) gomap \<Rightarrow> 'c \<Rightarrow> go_error + SynchronizationContent list" where
  "processAndBuildAGSgView cfg nics atNames c = (case fold view_ag_nic nics ([], []) of (members, vnets) \<Rightarrow>
     getAGGroupView cfg members vnets atNames c)"

definition azure_getNepheControllerManagedSecurityGroupsCloudView ::
    "order \<Rightarrow> 'c computeServiceConfig \<Rightarrow> 'c \<Rightarrow> SynchronizationContent list outcome" where
  "azure_getNepheControllerManagedSecurityGroupsCloudView ord cfg c =
     (let vnetIDs = getCachedVnetIDs cfg
      in if length vnetIDs = 0 then Returns []
         else case getNetworkInterfacesOfVnet ord cfg vnetIDs c of
           Inl _ \<Rightarrow> Returns []
         | Inr nics \<Rightarrow> (case processAndBuildATSgView ord cfg nics c of
             Panics \<Rightarrow> Panics
           | Hangs \<Rightarrow> Hangs
           | Returns (Inl _) \<Rightarrow> Returns []
           | Returns (Inr (atView, atNames)) \<Rightarrow> (case processAndBuildAGSgView cfg nics atNames c of
               Inl _ \<Rightarrow> Returns []
             | Inr agView \<Rightarrow> Returns (atView @ agView))))"

section \<open>The plug-in\<close>

definition azureComputeServiceNameCompute :: string where "azureComputeServiceNameCompute = ''COMPUTE''"

type_synonym ('c, 'r) azure_accounts = "('c computeServiceConfig, 'r) accounts"

definition getVnetAccount :: "order \<Rightarrow> string \<Rightarrow> ('c, 'r) azure_accounts \<Rightarrow> ('c computeServiceConfig, 'r) cloudAccountConfig option" where
  "getVnetAccount ord vpcID accs = map_option snd (find (\<lambda>(_, acc).
     case GetServiceConfigByName azureComputeServiceNameCompute acc of
       Inl _ \<Rightarrow> False
     | Inr cfg \<Rightarrow> has_key (getCachedVnetIDs cfg) (ToLower vpcID)) (range_map ord accs))"

definition with_compute ::
    "order \<Rightarrow> string \<Rightarrow> ('c, 'r) azure_accounts \<Rightarrow> ('c computeServiceConfig \<Rightarrow> ('c, 'a) azure_op) \<Rightarrow> ('c, 'a) azure_op" where
  "with_compute ord vnetID accs body = (case getVnetAccount ord vnetID accs of
     None \<Rightarrow> fail (Err (''azure account not found managing virtual network ['' @ vnetID @ '']''))
   | Some acc \<Rightarrow> (case GetServiceConfigByName azureComputeServiceNameCompute acc of Inl err \<Rightarrow> fail err | Inr cfg \<Rightarrow> body cfg))"

text \<open>A failed call with a text around its error.\<close>

definition wrap_error :: "(string \<Rightarrow> string) \<Rightarrow> ('c, 'a) azure_op \<Rightarrow> ('c, 'a) azure_op" where
  "wrap_error msg m = do { r \<leftarrow> m; ret (case r of Returns (Inl e) \<Rightarrow> Returns (Inl (Err (msg (Error e)))) | _ \<Rightarrow> r) }"

definition azure_request :: "('c, go_error + 'a) state \<Rightarrow> ('c, 'a) azure_op" where
  "azure_request m = do { r \<leftarrow> m; ret (Returns r) }"

text \<open>A malformed identifier of the network is an error before the service is looked up; the account was found by it.\<close>

definition azure_CreateSecurityGroup :: "order \<Rightarrow> ('c, 'r) azure_accounts \<Rightarrow> CloudResourceID \<Rightarrow> bool \<Rightarrow> ('c, string) azure_op" where
  "azure_CreateSecurityGroup ord accs gid membershipOnly = with_compute ord (id_Vpc gid) accs (\<lambda>cfg.
     case extractFieldsFromAzureResourceID (id_Vpc gid) of
       Inl err \<Rightarrow> fail err
     | Inr (_, rgName, _) \<Rightarrow>
         (let location = az_region (az_credentials cfg); cl = az_clients cfg; cloudAsgName = GetCloudName gid membershipOnly
          in if \<not> membershipOnly
             then (let cloudNsgName = perVnetNsgName (id_Vpc gid)
               in and_then (wrap_error (\<lambda>e. ''azure per vnet nsg '' @ cloudNsgName @ '' create failed for AT sg '' @
                      appliedToSecurityGroupNamePerVnet @ '', reason: '' @ e)
                      (createOrGetNetworkSecurityGroup cl location rgName cloudNsgName)) (\<lambda>sgID.
                  and_then (wrap_error (\<lambda>e. ''azure asg '' @ cloudAsgName @ '' create failed for AT sg '' @ id_Name gid @ '', reason: '' @ e)
                      (azure_request (createOrGetApplicationSecurityGroup cl location rgName cloudAsgName))) (\<lambda>_. succeed sgID)))
             else wrap_error (\<lambda>e. ''azure asg '' @ cloudAsgName @ '' create failed for AG sg '' @ id_Name gid @ '', reason: '' @ e)
               (azure_request (createOrGetApplicationSecurityGroup cl location rgName cloudAsgName))))"

text \<open>The address that the rules of a peered network refer to: the first one of the first machine, when that is in the network.\<close>

definition peer_ruleIP :: "string \<Rightarrow> virtualMachineTable \<Rightarrow> string option outcome" where
  "peer_ruleIP vnetID vm = (if vt_VnetID vm \<noteq> vnetID then Returns None
     else (case vt_NetworkInterfaces vm of
       [] \<Rightarrow> Panics
     | nic # _ \<Rightarrow> (case PrivateIps nic of [] \<Rightarrow> Panics | ip # _ \<Rightarrow> Returns (Some ip))))"

definition rules_to_apply ::
    "order \<Rightarrow> 'c computeServiceConfig \<Rightarrow> CloudResourceID \<Rightarrow> IngressRule option list \<Rightarrow> EgressRule option list \<Rightarrow> string \<Rightarrow> ('c, SecurityRule list) azure_op" where
  "rules_to_apply ord cfg gid irules erules rgName =
     (let vnetID = id_Vpc gid; nsgName = perVnetNsgName vnetID;
          build = gets (buildEffectiveNSGSecurityRulesToApply ord cfg gid irules erules nsgName rgName);
          build_peer = (\<lambda>ip. gets (buildEffectivePeerNSGSecurityRulesToApply ord cfg gid irules erules nsgName rgName ip))
      in do {
        vms \<leftarrow> gets (\<lambda>c. case getVirtualMachines ord c cfg of Inl _ \<Rightarrow> [] | Inr vms \<Rightarrow> vms);
        if ifPeerProcessing vnetID cfg
        then (case vms of
            [] \<Rightarrow> and_then (build_peer None) (\<lambda>_. build)
          | vm # _ \<Rightarrow> (case peer_ruleIP vnetID vm of Returns ip \<Rightarrow> build_peer ip | Panics \<Rightarrow> panic | Hangs \<Rightarrow> ret Hangs))
        else build
      })"

definition azure_UpdateSecurityGroupRules ::
    "order \<Rightarrow> ('c, 'r) azure_accounts \<Rightarrow> CloudResourceID \<Rightarrow> IngressRule option list \<Rightarrow> EgressRule option list \<Rightarrow> ('c, unit) azure_op" where
  "azure_UpdateSecurityGroupRules ord accs gid irules erules = with_compute ord (id_Vpc gid) accs (\<lambda>cfg.
     case extractFieldsFromAzureResourceID (id_Vpc gid) of
       Inl err \<Rightarrow> fail err
     | Inr (_, rgName, _) \<Rightarrow> and_then (rules_to_apply ord cfg gid irules erules rgName) (\<lambda>rules.
         azure_call (updateNetworkSecurityGroupRules (az_clients cfg) (az_region (az_credentials cfg)) rgName (perVnetNsgName (id_Vpc gid)) rules)))"

definition azure_UpdateSecurityGroupMembers ::
    "order \<Rightarrow> ('c, 'r) azure_accounts \<Rightarrow> CloudResourceID \<Rightarrow> CloudResource list \<Rightarrow> bool \<Rightarrow> ('c, unit) azure_op" where
  "azure_UpdateSecurityGroupMembers ord accs gid members membershipOnly = with_compute ord (id_Vpc gid) accs (\<lambda>cfg.
     azure_updateSecurityGroupMembers ord cfg gid members membershipOnly)"

text \<open>The error of the update of the members is dropped.\<close>

definition azure_DeleteSecurityGroup :: "order \<Rightarrow> ('c, 'r) azure_accounts \<Rightarrow> CloudResourceID \<Rightarrow> bool \<Rightarrow> ('c, unit) azure_op" where
  "azure_DeleteSecurityGroup ord accs gid membershipOnly = with_compute ord (id_Vpc gid) accs (\<lambda>cfg. do {
     r \<leftarrow> azure_updateSecurityGroupMembers ord cfg gid [] membershipOnly;
     case r of
       Panics \<Rightarrow> panic
     | Hangs \<Rightarrow> ret Hangs
     | Returns _ \<Rightarrow> (case extractFieldsFromAzureResourceID (id_Vpc gid) of
         Inl err \<Rightarrow> fail err
       | Inr (_, rgName, _) \<Rightarrow>
           and_then (removeReferencesToSecurityGroup cfg gid rgName (az_region (az_credentials cfg)) membershipOnly) (\<lambda>_.
             azure_call (State (asg_delete (az_clients cfg) rgName
               (if ifPeerProcessing (id_Vpc gid) cfg then GetCloudName gid False else GetCloudName gid membershipOnly)))))
   })"

fun join_views :: "SynchronizationContent list outcome list \<Rightarrow> SynchronizationContent list outcome" where
  "join_views [] = Returns []"
| "join_views (v # vs) = (case v of
     Panics \<Rightarrow> Panics
   | Hangs \<Rightarrow> Hangs
   | Returns xs \<Rightarrow> (case join_views vs of Returns ys \<Rightarrow> Returns (xs @ ys) | Panics \<Rightarrow> Panics | Hangs \<Rightarrow> Hangs))"

definition azure_GetEnforcedSecurity :: "order \<Rightarrow> ('c, 'r) azure_accounts \<Rightarrow> 'c \<Rightarrow> SynchronizationContent list outcome" where
  "azure_GetEnforcedSecurity ord accs c = join_views (map (\<lambda>(_, acc). case GetServiceConfigByName azureComputeServiceNameCompute acc of
     Inl _ \<Rightarrow> Returns []
   | Inr cfg \<Rightarrow> if IsInventoryInitialized (az_stats cfg) then azure_getNepheControllerManagedSecurityGroupsCloudView ord cfg c else Returns [])
     (range_map ord accs))"

end
