(* ===== verification/Azure_Enforce.thy ===== *)
theory Azure_Enforce
  imports Azure_Security
begin

text \<open>
  What a network security group of Azure decides after the rules of an applied-to group were updated. The
  controller's own rules are allow rules and one deny rule for each direction, which is an invariant of the
  updates; the clients are documented to store what they are given.
\<close>

section \<open>Rules of the controller\<close>

definition is_managed :: "SecurityRule \<Rightarrow> bool" where
  "is_managed rule \<longleftrightarrow> (case Description rule of None \<Rightarrow> False | Some name \<Rightarrow> snd (snd (IsNepheControllerCreatedSG name)))"

definition managed_rules :: "SecurityRule list \<Rightarrow> bool" where
  "managed_rules rules \<longleftrightarrow> (\<forall>r \<in> set rules. is_managed r \<longrightarrow>
     (if is_default r then r = vnet_deny_rule (sr_Direction r) else Access r = AccessAllow))"

definition by_direction :: "SecurityRuleDirection \<Rightarrow> SecurityRule list \<Rightarrow> SecurityRule list" where
  "by_direction d rules = filter (\<lambda>r. sr_Direction r = d) rules"

text \<open>The rules of the other applied-to groups in one direction, without the deny rule.\<close>

definition rules_of_others :: "CloudResourceID \<Rightarrow> SecurityRuleDirection \<Rightarrow> SecurityRule list \<Rightarrow> SecurityRule list" where
  "rules_of_others gid d rules = filter (\<lambda>r. is_managed r \<and> Description r \<noteq> Some (GetCloudName gid False) \<and> \<not> is_default r)
     (by_direction d rules)"

lemma other_rules_eq:
  "other_rules name rules =
     (filter (\<lambda>r. is_managed r \<and> Description r \<noteq> Some name) (by_direction DirectionInbound rules),
      filter (\<lambda>r. is_managed r \<and> Description r \<noteq> Some name) (by_direction DirectionOutbound rules))"
proof -
  have "(case Description r of None \<Rightarrow> False | Some n \<Rightarrow> (case IsNepheControllerCreatedSG n of (_, _, isAT) \<Rightarrow> isAT \<and> n \<noteq> name)) \<longleftrightarrow>
      is_managed r \<and> Description r \<noteq> Some name" for r
    by (auto simp: is_managed_def split: option.splits prod.splits)
  moreover have "sr_Direction r \<noteq> DirectionInbound \<longleftrightarrow> sr_Direction r = DirectionOutbound" for r
    by (cases "sr_Direction r") auto
  ultimately show ?thesis
    by (auto simp: other_rules_def by_direction_def Let_def intro!: filter_cong)
qed

section \<open>New rules\<close>

lemma convert_rules_all:
  assumes "\<And>p r ys a. one p r = Inr ys \<Longrightarrow> a \<in> set ys \<Longrightarrow> P a"
  shows "convert_rules one p rs = Inr xs \<Longrightarrow> a \<in> set xs \<Longrightarrow> P a"
proof (induction rs arbitrary: p xs)
  case (Cons x rs)
  then show ?case using assms by (cases x) (auto split: sum.splits)
qed simp

lemma ingress_to_azure_shape:
  "ingress_to_azure dst desc ag p r = Inr xs \<Longrightarrow> a \<in> set xs \<Longrightarrow> sr_Direction a = DirectionInbound \<and> Description a = Some desc"
  by (auto simp: ingress_to_azure_def buildSecurityRule_def Let_def split: sum.splits if_splits option.splits prod.splits)

lemma egress_to_azure_shape:
  "egress_to_azure dst desc ag p r = Inr xs \<Longrightarrow> a \<in> set xs \<Longrightarrow> sr_Direction a = DirectionOutbound \<and> Description a = Some desc"
  by (auto simp: egress_to_azure_def buildSecurityRule_def Let_def split: sum.splits if_splits option.splits prod.splits)

lemma deny_rule_simps [simp]:
  "sr_Direction (vnet_deny_rule d) = d" "is_default (vnet_deny_rule d)" "Access (vnet_deny_rule d) = AccessDeny"
  by (simp_all add: vnet_deny_rule_def buildSecurityRule_def is_default_def)

lemma deny_rule_matches: "azure_matches vnet (vnet_deny_rule d) pk \<longleftrightarrow> pk_src pk \<in> vnet \<and> pk_dst pk \<in> vnet"
proof -
  have "parse_ipv4 virtualnetworkAddressPrefix = None" "CHR ''/'' \<notin> set virtualnetworkAddressPrefix"
      "virtualnetworkAddressPrefix \<noteq> emptyPort"
    by code_simp+
  then show ?thesis
    by (simp add: azure_matches_def vnet_deny_rule_def buildSecurityRule_def side_matches_def prefix_matches_def protocol_matches_def)
qed

lemma deny_rule_managed: "is_managed (vnet_deny_rule d)"
proof -
  have "snd (snd (IsNepheControllerCreatedSG vnetToVnetDenyRuleDescription))" by code_simp
  then show ?thesis by (simp add: is_managed_def vnet_deny_rule_def buildSecurityRule_def)
qed

text \<open>
  One direction of the network security group: \<open>ex\<close> are the rules of the other groups, \<open>us\<close> the allow rules of this one.
\<close>

lemma decides_update:
  assumes "is_order ord" "managed_rules ex" "\<forall>r \<in> set ex. is_managed r \<and> sr_Direction r = d"
    and "\<forall>r \<in> set us. Access r = AccessAllow \<and> \<not> is_default r"
    and "int (length ex + length us) \<le> vnetToVnetDenyRulePriority - ruleStartPriority"
  shows "decides vnet (updateSecurityRuleNameAndPriority ord ex (us @ [vnet_deny_rule d])) pk =
    (if (\<exists>r \<in> set ex. \<not> is_default r \<and> azure_matches vnet r pk) \<or> (\<exists>r \<in> set us. azure_matches vnet r pk) then Some AccessAllow
     else if pk_src pk \<in> vnet \<and> pk_dst pk \<in> vnet then Some AccessDeny else None)"
proof -
  let ?all = "ex @ us @ [vnet_deny_rule d]" and ?own = "filter (\<lambda>r. \<not> is_default r) (ex @ us @ [vnet_deny_rule d])"
  have own: "?own = filter (\<lambda>r. \<not> is_default r) ex @ us" using assms(4) by (simp add: filter_id_conv)
  have len: "length ?own \<le> length ex + length us" unfolding own by simp
  have deny: "r = vnet_deny_rule d" if "(n, r) \<in> set (default_rules ?all)" for n r
    using default_rules_entry [OF that] assms(2-4) by (auto simp: managed_rules_def)
  have "vnet_deny_rule d \<in> {r \<in> set ?all. is_default r}" by simp
  then have "sr_Name (vnet_deny_rule d) \<in> keys (default_rules ?all)" unfolding default_rules_names by (rule imageI)
  then obtain x where x: "x \<in> set (default_rules ?all)" unfolding keys_def by blast
  have only: "snd y = vnet_deny_rule d" if "y \<in> set (default_rules ?all)" for y
    using deny [of "fst y" "snd y"] that by simp
  have "(\<exists>y \<in> set (default_rules ?all). azure_matches vnet (snd y) pk) \<longleftrightarrow> azure_matches vnet (vnet_deny_rule d) pk"
    using only x by metis
  then have d: "(\<exists>(n, r) \<in> set (default_rules ?all). azure_matches vnet r pk) \<longleftrightarrow> pk_src pk \<in> vnet \<and> pk_dst pk \<in> vnet"
    unfolding split_beta deny_rule_matches .
  have "decides vnet (number ruleStartPriority ?own @ map snd (range_map ord (default_rules ?all))) pk =
      (if \<exists>r \<in> set ?own. azure_matches vnet r pk then Some AccessAllow
       else if \<exists>(n, r) \<in> set (default_rules ?all). azure_matches vnet r pk then Some AccessDeny else None)"
  proof (rule decides_numbered [OF assms(1)])
    show "int (length ?own) \<le> vnetToVnetDenyRulePriority - ruleStartPriority"
      by (rule order_trans [OF _ assms(5)]) (simp only: of_nat_le_iff len)
    show "\<forall>(n, r) \<in> set (default_rules ?all). is_default r \<and> Access r = AccessDeny"
      using only unfolding split_beta by simp
    show "\<forall>r \<in> set ?own. Access r = AccessAllow" unfolding own using assms(2-4) by (auto simp: managed_rules_def)
  qed
  moreover have "(\<exists>r \<in> set ?own. azure_matches vnet r pk) \<longleftrightarrow>
      (\<exists>r \<in> set ex. \<not> is_default r \<and> azure_matches vnet r pk) \<or> (\<exists>r \<in> set us. azure_matches vnet r pk)"
    unfolding own by auto
  ultimately show ?thesis unfolding update_number d by (simp only:)
qed

text \<open>The updated rules are managed rules again, of the right direction.\<close>

lemma number_managed:
  "r \<in> set (number p rs) \<Longrightarrow> \<exists>r' \<in> set rs. Access r = Access r' \<and> sr_Direction r = sr_Direction r' \<and> Description r = Description r'"
  using in_number [of r p rs] by (auto simp: renumber_def)

lemma update_rules_shape:
  assumes "is_order ord" "managed_rules ex" "\<forall>r \<in> set ex. is_managed r \<and> sr_Direction r = d"
    and "\<forall>r \<in> set us. Access r = AccessAllow \<and> \<not> is_default r \<and> sr_Direction r = d \<and> is_managed r"
    and "int (length ex + length us) \<le> vnetToVnetDenyRulePriority - ruleStartPriority"
    and "r \<in> set (updateSecurityRuleNameAndPriority ord ex (us @ [vnet_deny_rule d]))"
  shows "sr_Direction r = d \<and> (if is_default r then r = vnet_deny_rule d else Access r = AccessAllow)"
proof -
  let ?all = "ex @ us @ [vnet_deny_rule d]" and ?own = "filter (\<lambda>r. \<not> is_default r) (ex @ us @ [vnet_deny_rule d])"
  consider "r \<in> set (number ruleStartPriority ?own)" | "r \<in> snd ` set (default_rules ?all)"
    using assms(1,6) unfolding update_number by auto
  then show ?thesis
  proof cases
    case 1
    then obtain r' where r': "r' \<in> set ?own" "Access r = Access r'" "sr_Direction r = sr_Direction r'"
      using number_managed [OF 1] by blast
    have "?own = filter (\<lambda>r. \<not> is_default r) ex @ us" using assms(4) by (simp add: filter_id_conv)
    then have "length ?own \<le> length ex + length us" by (simp only: length_append) simp
    then have len: "int (length ?own) \<le> vnetToVnetDenyRulePriority - ruleStartPriority" using assms(5) by linarith
    have "Priority r \<in> set (map Priority (number ruleStartPriority ?own))" using 1 by simp
    then have "Priority r < vnetToVnetDenyRulePriority" using len unfolding number_priorities by simp
    moreover have "Access r' = AccessAllow" "sr_Direction r' = d"
      using r'(1) assms(2-4) by (auto simp: managed_rules_def)
    ultimately show ?thesis using r' by (simp add: is_default_def)
  next
    case 2
    then obtain n where "(n, r) \<in> set (default_rules ?all)" by force
    from default_rules_entry [OF this] assms(2-4) show ?thesis by (auto simp: managed_rules_def)
  qed
qed

section \<open>One direction\<close>

lemma convert_rules_length:
  assumes "\<And>p r ys. one p r = Inr ys \<Longrightarrow> length ys \<le> 2"
  shows "convert_rules one p rs = Inr xs \<Longrightarrow> length xs \<le> 2 * length rs"
proof (induction rs arbitrary: p xs)
  case (Cons x rs)
  show ?case
  proof (cases x)
    case None
    then show ?thesis using Cons by fastforce
  next
    case (Some r)
    then obtain ys zs where "one p r = Inr ys" "convert_rules one (p + int (length ys)) rs = Inr zs" "xs = ys @ zs"
      using Cons.prems by (auto split: sum.splits)
    then show ?thesis using Cons.IH assms by fastforce
  qed
qed simp

lemma to_azure_length:
  "ingress_to_azure dst desc ag p i = Inr ys \<Longrightarrow> length ys \<le> 2" "egress_to_azure dst desc ag p e = Inr ys \<Longrightarrow> length ys \<le> 2"
  by (auto simp: ingress_to_azure_def egress_to_azure_def Let_def split: sum.splits if_splits option.splits prod.splits)

definition room :: "SecurityRule list \<Rightarrow> 'r list \<Rightarrow> bool" where
  "room current rules \<longleftrightarrow> int (length current + 2 * length rules) \<le> vnetToVnetDenyRulePriority - ruleStartPriority"

definition kept_rules :: "CloudResourceID \<Rightarrow> SecurityRuleDirection \<Rightarrow> SecurityRule list \<Rightarrow> SecurityRule list" where
  "kept_rules gid d current = filter (\<lambda>r. is_managed r \<and> Description r \<noteq> Some (GetCloudName gid False)) (by_direction d current)"

lemma kept_rules_facts:
  assumes "managed_rules current"
  shows "managed_rules (kept_rules gid d current)" "\<forall>r \<in> set (kept_rules gid d current). is_managed r \<and> sr_Direction r = d"
    "length (kept_rules gid d current) \<le> length current"
    "(\<exists>r \<in> set (kept_rules gid d current). \<not> is_default r \<and> P r) \<longleftrightarrow> (\<exists>r \<in> set (rules_of_others gid d current). P r)"
proof -
  show "length (kept_rules gid d current) \<le> length current"
    unfolding kept_rules_def by_direction_def filter_filter by (rule length_filter_le)
qed (use assms in \<open>auto simp: kept_rules_def by_direction_def managed_rules_def rules_of_others_def\<close>)

text \<open>What both directions need of the new rules: their shape, their number and their priorities.\<close>

lemma new_rules:
  assumes "room current rs" "managed_rules current" "convert_rules one ruleStartPriority rs = Inr us"
    and "\<forall>p r ys. one p r = Inr ys \<longrightarrow> length ys \<le> 2" "map Priority us = [ruleStartPriority..ruleStartPriority + int (length us) - 1]"
    and "\<forall>a \<in> set us. Access a = AccessAllow"
  shows "int (length (kept_rules gid d current) + length us) \<le> vnetToVnetDenyRulePriority - ruleStartPriority"
    "\<forall>r \<in> set us. Access r = AccessAllow \<and> \<not> is_default r"
proof -
  have "length us \<le> 2 * length rs" using convert_rules_length [OF _ assms(3)] assms(4) by blast
  moreover have "length (kept_rules gid d current) \<le> length current" using kept_rules_facts(3) [OF assms(2)] .
  ultimately show room: "int (length (kept_rules gid d current) + length us) \<le> vnetToVnetDenyRulePriority - ruleStartPriority"
    using assms(1) unfolding room_def by linarith
  have "Priority r < vnetToVnetDenyRulePriority" if "r \<in> set us" for r
  proof -
    have "Priority r \<in> set (map Priority us)" using that by simp
    then show ?thesis unfolding assms(5) using room by simp
  qed
  then show "\<forall>r \<in> set us. Access r = AccessAllow \<and> \<not> is_default r" 
    using assms(6) unfolding is_default_def by (metis less_irrefl)
qed

lemma ingress_direction:
  assumes "is_order ord" "managed_rules current" "room current irules" "map_of at (ToLower (id_Name gid)) = Some asg"
    and "convertIngressToAzureNsgSecurityRules gid irules ag at = Inr xs" "\<And>r. Some r \<in> set irules \<Longrightarrow> valid_ingress r"
  defines "out \<equiv> updateSecurityRuleNameAndPriority ord (kept_rules gid DirectionInbound current) xs"
  shows "decides vnet out pk = (if (\<exists>r \<in> set (rules_of_others gid DirectionInbound current). azure_matches vnet r pk) \<or>
        (\<exists>r. Some r \<in> set irules \<and> azure_ingress asg ag r pk) then Some AccessAllow
      else if pk_src pk \<in> vnet \<and> pk_dst pk \<in> vnet then Some AccessDeny else None)"
    and "r \<in> set out \<Longrightarrow> sr_Direction r = DirectionInbound \<and> (if is_default r then r = vnet_deny_rule DirectionInbound else Access r = AccessAllow)"
proof -
  obtain us where us: "convert_rules (ingress_to_azure asg (GetCloudName gid False) ag) ruleStartPriority irules = Inr us"
      "xs = us @ [vnet_deny_rule DirectionInbound]"
    using assms(4,5) by (auto simp: convertIngressToAzureNsgSecurityRules_def split: sum.splits)
  have len: "\<forall>p r ys. ingress_to_azure asg (GetCloudName gid False) ag p r = Inr ys \<longrightarrow> length ys \<le> 2"
    using to_azure_length(1) by blast
  have allow: "\<forall>a \<in> set us. Access a = AccessAllow" using ing.convert_allow [OF us(1)] by blast
  note new = new_rules [OF assms(3,2) us(1) len ing.convert_priorities [OF us(1)] allow]
  have "\<forall>r \<in> set us. sr_Direction r = DirectionInbound \<and> is_managed r"
    using convert_rules_all [OF ingress_to_azure_shape us(1)] by (fastforce simp: is_managed_def)
  then have us': "\<forall>r \<in> set us. Access r = AccessAllow \<and> \<not> is_default r \<and> sr_Direction r = DirectionInbound \<and> is_managed r"
    using new(2) by blast
  show "decides vnet out pk = (if (\<exists>r \<in> set (rules_of_others gid DirectionInbound current). azure_matches vnet r pk) \<or>
        (\<exists>r. Some r \<in> set irules \<and> azure_ingress asg ag r pk) then Some AccessAllow
      else if pk_src pk \<in> vnet \<and> pk_dst pk \<in> vnet then Some AccessDeny else None)"
    unfolding out_def us(2) decides_update [OF assms(1) kept_rules_facts(1,2) [OF assms(2)] new(2,1)]
      kept_rules_facts(4) [OF assms(2)]
    using ing.convert_permits [OF us(1) assms(6), of vnet pk] by simp
  show "sr_Direction r = DirectionInbound \<and> (if is_default r then r = vnet_deny_rule DirectionInbound else Access r = AccessAllow)"
    if "r \<in> set out"
    using update_rules_shape [OF assms(1) kept_rules_facts(1,2) [OF assms(2)] us' new(1)] that unfolding out_def us(2) .
qed

lemma egress_direction:
  assumes "is_order ord" "managed_rules current" "room current erules" "map_of at (ToLower (id_Name gid)) = Some asg"
    and "convertEgressToAzureNsgSecurityRules gid erules ag at = Inr xs" "\<And>r. Some r \<in> set erules \<Longrightarrow> valid_egress r"
  defines "out \<equiv> updateSecurityRuleNameAndPriority ord (kept_rules gid DirectionOutbound current) xs"
  shows "decides vnet out pk = (if (\<exists>r \<in> set (rules_of_others gid DirectionOutbound current). azure_matches vnet r pk) \<or>
        (\<exists>r. Some r \<in> set erules \<and> azure_egress asg ag r pk) then Some AccessAllow
      else if pk_src pk \<in> vnet \<and> pk_dst pk \<in> vnet then Some AccessDeny else None)"
    and "r \<in> set out \<Longrightarrow> sr_Direction r = DirectionOutbound \<and> (if is_default r then r = vnet_deny_rule DirectionOutbound else Access r = AccessAllow)"
proof -
  obtain us where us: "convert_rules (egress_to_azure asg (GetCloudName gid False) ag) ruleStartPriority erules = Inr us"
      "xs = us @ [vnet_deny_rule DirectionOutbound]"
    using assms(4,5) by (auto simp: convertEgressToAzureNsgSecurityRules_def split: sum.splits)
  have len: "\<forall>p r ys. egress_to_azure asg (GetCloudName gid False) ag p r = Inr ys \<longrightarrow> length ys \<le> 2"
    using to_azure_length(2) by blast
  have allow: "\<forall>a \<in> set us. Access a = AccessAllow" using eg.convert_allow [OF us(1)] by blast
  note new = new_rules [OF assms(3,2) us(1) len eg.convert_priorities [OF us(1)] allow]
  have "\<forall>r \<in> set us. sr_Direction r = DirectionOutbound \<and> is_managed r"
    using convert_rules_all [OF egress_to_azure_shape us(1)] by (fastforce simp: is_managed_def)
  then have us': "\<forall>r \<in> set us. Access r = AccessAllow \<and> \<not> is_default r \<and> sr_Direction r = DirectionOutbound \<and> is_managed r"
    using new(2) by blast
  show "decides vnet out pk = (if (\<exists>r \<in> set (rules_of_others gid DirectionOutbound current). azure_matches vnet r pk) \<or>
        (\<exists>r. Some r \<in> set erules \<and> azure_egress asg ag r pk) then Some AccessAllow
      else if pk_src pk \<in> vnet \<and> pk_dst pk \<in> vnet then Some AccessDeny else None)"
    unfolding out_def us(2) decides_update [OF assms(1) kept_rules_facts(1,2) [OF assms(2)] new(2,1)]
      kept_rules_facts(4) [OF assms(2)]
    using eg.convert_permits [OF us(1) assms(6), of vnet pk] by simp
  show "sr_Direction r = DirectionOutbound \<and> (if is_default r then r = vnet_deny_rule DirectionOutbound else Access r = AccessAllow)"
    if "r \<in> set out"
    using update_rules_shape [OF assms(1) kept_rules_facts(1,2) [OF assms(2)] us' new(1)] that unfolding out_def us(2) .
qed

section \<open>The request\<close>

definition supported :: "int option \<Rightarrow> bool" where
  "supported p \<longleftrightarrow> p \<in> {None, Some 1, Some 6, Some 17}"

lemma supported_name: "supported p \<Longrightarrow> convertToAzureProtocolName p \<noteq> Inl e"
  by (auto simp: supported_def convertToAzureProtocolName_def protoNumAzureNameMap_def)

lemma convert_succeeds:
  assumes "map_of at (ToLower (id_Name gid)) = Some asg"
    and "\<And>r. Some r \<in> set irules \<Longrightarrow> supported (in_Protocol r)" "\<And>r. Some r \<in> set erules \<Longrightarrow> supported (eg_Protocol r)"
  shows "\<exists>xs. convertIngressToAzureNsgSecurityRules gid irules ag at = Inr xs" "\<exists>ys. convertEgressToAzureNsgSecurityRules gid erules ag at = Inr ys"
proof -
  have "\<nexists>e. convert_rules (ingress_to_azure asg (GetCloudName gid False) ag) ruleStartPriority irules = Inl e"
    unfolding ing.convert_error using assms(2) supported_name by blast
  then show "\<exists>xs. convertIngressToAzureNsgSecurityRules gid irules ag at = Inr xs"
    by (simp add: convertIngressToAzureNsgSecurityRules_def assms(1) split: sum.splits)
  have "\<nexists>e. convert_rules (egress_to_azure asg (GetCloudName gid False) ag) ruleStartPriority erules = Inl e"
    unfolding eg.convert_error using assms(3) supported_name by blast
  then show "\<exists>ys. convertEgressToAzureNsgSecurityRules gid erules ag at = Inr ys"
    by (simp add: convertEgressToAzureNsgSecurityRules_def assms(1) split: sum.splits)
qed

text \<open>The client creates or replaces a network security group and returns it afterwards with the rules it was given.\<close>

definition stores_rules :: "'c compute_clients \<Rightarrow> string \<Rightarrow> string \<Rightarrow> 'c \<Rightarrow> bool" where
  "stores_rules cl rgName nsgName c \<longleftrightarrow> (\<forall>nsg. \<exists>made c' nsg'. nsg_createOrUpdate cl rgName nsgName nsg c = (Inr made, c') \<and>
     nsg_get cl rgName nsgName c' = Inr nsg' \<and> SecurityRules nsg' = SecurityRules nsg)"

lemma by_direction_append:
  assumes "\<forall>r \<in> set xs. sr_Direction r = DirectionInbound" "\<forall>r \<in> set ys. sr_Direction r = DirectionOutbound"
  shows "by_direction DirectionInbound (xs @ ys) = xs" "by_direction DirectionOutbound (xs @ ys) = ys"
  using assms by (auto simp: by_direction_def filter_empty_conv)

lemma update_runs:
  assumes "getVnetAccount ord (id_Vpc gid) accs = Some acc" "GetServiceConfigByName azureComputeServiceNameCompute acc = Inr cfg"
    and "extractFieldsFromAzureResourceID (id_Vpc gid) = Inr (sub, rg, name)" "\<not> ifPeerProcessing (id_Vpc gid) cfg"
    and "buildEffectiveNSGSecurityRulesToApply ord cfg gid irules erules (perVnetNsgName (id_Vpc gid)) rg c = Returns (Inr rules)"
    and "stores_rules (az_clients cfg) rg (perVnetNsgName (id_Vpc gid)) c"
  shows "\<exists>c' nsg'. run_state (azure_UpdateSecurityGroupRules ord accs gid irules erules) c = (Returns (Inr ()), c') \<and>
    nsg_get (az_clients cfg) rg (perVnetNsgName (id_Vpc gid)) c' = Inr nsg' \<and> SecurityRules nsg' = Some rules"
proof -
  obtain made c' nsg' where made: "nsg_createOrUpdate (az_clients cfg) rg (perVnetNsgName (id_Vpc gid))
        \<lparr>nsg_ID = None, nsg_Name = Some (perVnetNsgName (id_Vpc gid)), nsg_Location = Some (az_region (az_credentials cfg)),
         SecurityRules = Some rules\<rparr> c = (Inr made, c')"
      "nsg_get (az_clients cfg) rg (perVnetNsgName (id_Vpc gid)) c' = Inr nsg'" "SecurityRules nsg' = Some rules"
    using assms(6) unfolding stores_rules_def by (metis NetworkSecurityGroup.select_convs(4))
  have "run_state (rules_to_apply ord cfg gid irules erules rg) c = (Returns (Inr rules), c)"
    using assms(4,5) by (simp add: rules_to_apply_def)
  with made(1) have "run_state (azure_UpdateSecurityGroupRules ord accs gid irules erules) c = (Returns (Inr ()), c')"
    using assms(1-3) by (simp add: azure_UpdateSecurityGroupRules_def with_compute_def run_and_then azure_call_def updateNetworkSecurityGroupRules_def)
  with made(2,3) show ?thesis by blast
qed

text \<open>
  C7: after the rules of an applied-to group were updated, the network security group of its virtual network decides every
  packet as the policies say. The network is managed by an account and not peered with another managed network, the group
  has its application security group, the protocols are those Azure has, and there is room for the rules; then the
  request succeeds, and in both directions a packet is allowed exactly when a rule of another group allowed it before
  or a rule of this group permits it, denied when it is neither and stays inside the network, and left to Azure's own rules
  otherwise. The rules are again such that the next update finds what it needs.
\<close>

theorem azure_rules_enforced:
  assumes "is_order ord" "getVnetAccount ord (id_Vpc gid) accs = Some acc"
    and "GetServiceConfigByName azureComputeServiceNameCompute acc = Inr cfg"
    and "extractFieldsFromAzureResourceID (id_Vpc gid) = Inr (sub, rg, name)" "\<not> ifPeerProcessing (id_Vpc gid) cfg"
    and "nsg_get (az_clients cfg) rg (perVnetNsgName (id_Vpc gid)) c = Inr nsg" "SecurityRules nsg = Some current"
    and "managed_rules current" "room current irules" "room current erules"
    and "getNepheControllerCreatedAsgByNameForResourceGroup (az_clients cfg) rg c = Inr (ag, at)"
    and "map_of at (ToLower (id_Name gid)) = Some asg"
    and "\<And>r. Some r \<in> set irules \<Longrightarrow> valid_ingress r \<and> supported (in_Protocol r)"
    and "\<And>r. Some r \<in> set erules \<Longrightarrow> valid_egress r \<and> supported (eg_Protocol r)"
    and "stores_rules (az_clients cfg) rg (perVnetNsgName (id_Vpc gid)) c"
  shows "\<exists>c' nsg' rules. run_state (azure_UpdateSecurityGroupRules ord accs gid irules erules) c = (Returns (Inr ()), c') \<and>
    nsg_get (az_clients cfg) rg (perVnetNsgName (id_Vpc gid)) c' = Inr nsg' \<and> SecurityRules nsg' = Some rules \<and> managed_rules rules \<and>
    (\<forall>vnet pk. decides vnet (by_direction DirectionInbound rules) pk =
      (if (\<exists>r \<in> set (rules_of_others gid DirectionInbound current). azure_matches vnet r pk) \<or>
          (\<exists>r. Some r \<in> set irules \<and> azure_ingress asg ag r pk) then Some AccessAllow
       else if pk_src pk \<in> vnet \<and> pk_dst pk \<in> vnet then Some AccessDeny else None)) \<and>
    (\<forall>vnet pk. decides vnet (by_direction DirectionOutbound rules) pk =
      (if (\<exists>r \<in> set (rules_of_others gid DirectionOutbound current). azure_matches vnet r pk) \<or>
          (\<exists>r. Some r \<in> set erules \<and> azure_egress asg ag r pk) then Some AccessAllow
       else if pk_src pk \<in> vnet \<and> pk_dst pk \<in> vnet then Some AccessDeny else None))"
proof -
  obtain xs ys where conv: "convertIngressToAzureNsgSecurityRules gid irules ag at = Inr xs" "convertEgressToAzureNsgSecurityRules gid erules ag at = Inr ys"
    using convert_succeeds [OF assms(12)] assms(13,14) by metis
  let ?in = "updateSecurityRuleNameAndPriority ord (kept_rules gid DirectionInbound current) xs"
  let ?out = "updateSecurityRuleNameAndPriority ord (kept_rules gid DirectionOutbound current) ys"
  have build: "buildEffectiveNSGSecurityRulesToApply ord cfg gid irules erules (perVnetNsgName (id_Vpc gid)) rg c = Returns (Inr (?in @ ?out))"
    by (simp add: buildEffectiveNSGSecurityRulesToApply_def effective_rules_def assms(6,7,11) other_rules_eq conv kept_rules_def)
  note ingr = ingress_direction [OF assms(1,8,9,12) conv(1)] and egr = egress_direction [OF assms(1,8,10,12) conv(2)]
  have dirs: "\<forall>r \<in> set ?in. sr_Direction r = DirectionInbound" "\<forall>r \<in> set ?out. sr_Direction r = DirectionOutbound"
    using ingr(2) egr(2) assms(13,14) by blast+
  have managed: "managed_rules (?in @ ?out)" using ingr(2) egr(2) assms(13,14) unfolding managed_rules_def by fastforce
  have inbound: "decides vnet (by_direction DirectionInbound (?in @ ?out)) pk =
      (if (\<exists>r \<in> set (rules_of_others gid DirectionInbound current). azure_matches vnet r pk) \<or>
          (\<exists>r. Some r \<in> set irules \<and> azure_ingress asg ag r pk) then Some AccessAllow
       else if pk_src pk \<in> vnet \<and> pk_dst pk \<in> vnet then Some AccessDeny else None)" for vnet pk
    unfolding by_direction_append(1) [OF dirs] by (rule ingr(1)) (simp add: assms(13))
  have outbound: "decides vnet (by_direction DirectionOutbound (?in @ ?out)) pk =
      (if (\<exists>r \<in> set (rules_of_others gid DirectionOutbound current). azure_matches vnet r pk) \<or>
          (\<exists>r. Some r \<in> set erules \<and> azure_egress asg ag r pk) then Some AccessAllow
       else if pk_src pk \<in> vnet \<and> pk_dst pk \<in> vnet then Some AccessDeny else None)" for vnet pk
    unfolding by_direction_append(2) [OF dirs] by (rule egr(1)) (simp add: assms(14))
  obtain c' nsg' where "run_state (azure_UpdateSecurityGroupRules ord accs gid irules erules) c = (Returns (Inr ()), c')"
      "nsg_get (az_clients cfg) rg (perVnetNsgName (id_Vpc gid)) c' = Inr nsg'" "SecurityRules nsg' = Some (?in @ ?out)"
    using update_runs [OF assms(2-5) build assms(15)] by blast
  with managed inbound outbound show ?thesis by blast
qed

definition vn_id :: string where
  "vn_id = ''/subscriptions/s/resourcegroups/g/providers/microsoft.network/virtualnetworks/v1''"

text \<open>A cloud that is one network security group.\<close>

definition vn_clients :: "NetworkSecurityGroup compute_clients" where
  "vn_clients = \<lparr>nsg_get = (\<lambda>_ _ c. Inr c), nsg_createOrUpdate = (\<lambda>_ _ nsg c. (Inr nsg, nsg)),
     nsg_listAllComplete = (\<lambda>c. Inr [c]), asg_get = (\<lambda>_ _ _. Inl (NotFound [])), asg_createOrUpdate = (\<lambda>_ _ _ c. (Inl (Err []), c)),
     asg_listComplete = (\<lambda>_ _. Inr [\<lparr>asg_ID = ''id-web'', asg_Name = Some ''nephe-at-web''\<rparr>, \<lparr>asg_ID = ''id-db'', asg_Name = Some ''nephe-ag-db''\<rparr>]),
     asg_listAllComplete = (\<lambda>_. Inr []), asg_delete = (\<lambda>_ _ c. (None, c)),
     nic_listAllComplete = (\<lambda>_. Inr []), nic_createOrUpdate = (\<lambda>_ _ _ c. (None, c)), graph_nwIntfs = (\<lambda>_ _ _. Inr []),
     vnet_listAllComplete = (\<lambda>_. Inr []), graph_vms = (\<lambda>_ _ _. Inr [])\<rparr>"

definition vn_service :: "NetworkSecurityGroup computeServiceConfig" where
  "vn_service = \<lparr>az_accountName = ''a'', az_clients = vn_clients,
     az_cache = Some \<lparr>snap_virtualMachines = [], snap_vnetIDs = [(vn_id, ())], vnetPeers = []\<rparr>,
     az_stats = \<lparr>totalPollCnt = 0, successPollCnt = 0, lastPollErr = None\<rparr>,
     az_credentials = \<lparr>SubscriptionID = ''s'', ClientID = ''c'', TenantID = ''t'', ClientKey = ''k'', az_region = ''r''\<rparr>, computeFilters = []\<rparr>"

definition vn_accounts :: "(NetworkSecurityGroup, unit) azure_accounts" where
  "vn_accounts = [(\<lparr>nn_Namespace = ''ns'', nn_Name = ''a''\<rparr>,
     \<lparr>acc_namespacedName = \<lparr>nn_Namespace = ''ns'', nn_Name = ''a''\<rparr>, credentials = (),
      serviceConfigs = [(azureComputeServiceNameCompute, vn_service)],
      inventoryPollInterval = 60, inventory_polling = False, Status_Error = []\<rparr>)]"

definition vn_nsg :: NetworkSecurityGroup where
  "vn_nsg = \<lparr>nsg_ID = Some ''nsg'', nsg_Name = None, nsg_Location = None, SecurityRules = Some []\<rparr>"

theorem azure_rules_enforced_witness:
  "(let pk = \<lparr>pk_proto = 6, pk_src = 1, pk_dst = 2, pk_srcPort = 1000, pk_dstPort = 443, pk_srcASGs = {''id-db''}, pk_dstASGs = {''id-web''}\<rparr>
    in \<exists>c' rules. run_state (azure_UpdateSecurityGroupRules in_order vn_accounts \<lparr>id_Name = ''web'', id_Vpc = vn_id\<rparr> [Some example_in] []) vn_nsg =
         (Returns (Inr ()), c') \<and> SecurityRules c' = Some rules \<and>
       decides UNIV (by_direction DirectionInbound rules) pk = Some AccessAllow \<and>
       decides UNIV (by_direction DirectionInbound rules) (pk\<lparr>pk_dstPort := 22\<rparr>) = Some AccessDeny)"
proof -
  let ?gid = "\<lparr>id_Name = ''web'', id_Vpc = vn_id\<rparr>" and ?acc = "snd (hd vn_accounts)" and ?n = "perVnetNsgName vn_id"
  let ?asg = "\<lparr>asg_ID = ''id-web'', asg_Name = Some ''nephe-at-web''\<rparr>"
  let ?pk = "\<lparr>pk_proto = 6, pk_src = 1, pk_dst = 2, pk_srcPort = 1000, pk_dstPort = 443, pk_srcASGs = {''id-db''}, pk_dstASGs = {''id-web''}\<rparr>"
  have lower: "ToLower vn_id = vn_id" "ToLower ''web'' = ''web''" "ToLower ''db'' = ''db''" by code_simp+
  have acc: "getVnetAccount in_order (id_Vpc ?gid) vn_accounts = Some ?acc" "GetServiceConfigByName azureComputeServiceNameCompute ?acc = Inr vn_service"
    by (simp_all add: getVnetAccount_def vn_accounts_def GetServiceConfigByName_def vn_service_def getCachedVnetIDs_def lower has_key_def)
  have fields: "extractFieldsFromAzureResourceID (id_Vpc ?gid) = Inr (''s'', ''g'', ''v1'')" unfolding CloudResourceID.select_convs by code_simp
  have peer: "\<not> ifPeerProcessing (id_Vpc ?gid) vn_service"
    by (simp add: ifPeerProcessing_def getVnetPeers_def vn_service_def get_or_def)
  have nsg: "nsg_get (az_clients vn_service) ''g'' (perVnetNsgName (id_Vpc ?gid)) vn_nsg = Inr vn_nsg" "SecurityRules vn_nsg = Some []"
    by (simp_all add: vn_service_def vn_clients_def vn_nsg_def)
  have rules: "managed_rules []" "room [] [Some example_in]" "room [] ([] :: EgressRule option list)"
    by (simp_all add: managed_rules_def room_def vnetToVnetDenyRulePriority_def ruleStartPriority_def)
  have asgs: "getNepheControllerCreatedAsgByNameForResourceGroup (az_clients vn_service) ''g'' vn_nsg = Inr (example_ag, example_at)" by code_simp
  have asg: "map_of example_at (ToLower (id_Name ?gid)) = Some ?asg" by (simp add: example_at_def lower)
  have stores: "stores_rules (az_clients vn_service) ''g'' (perVnetNsgName (id_Vpc ?gid)) vn_nsg"
    by (simp add: stores_rules_def vn_service_def vn_clients_def)
  have valid: "valid_ingress r \<and> supported (in_Protocol r)" if "Some r \<in> set [Some example_in]" for r
    using that by (simp add: valid_ingress_def supported_def example_in_def)
  have permits: "azure_ingress ?asg example_ag example_in ?pk" "\<not> azure_ingress ?asg example_ag example_in (?pk\<lparr>pk_dstPort := 22\<rparr>)"
    by (simp_all add: azure_ingress_def ingress_permits_def example_in_def matches_opt_def peer_matches_def azure_groups_def example_ag_def lower)
  obtain c' nsg' rs where r: "run_state (azure_UpdateSecurityGroupRules in_order vn_accounts ?gid [Some example_in] []) vn_nsg = (Returns (Inr ()), c')"
      "nsg_get (az_clients vn_service) ''g'' (perVnetNsgName (id_Vpc ?gid)) c' = Inr nsg'" "SecurityRules nsg' = Some rs"
      "\<And>vnet pk. decides vnet (by_direction DirectionInbound rs) pk =
        (if (\<exists>r \<in> set (rules_of_others ?gid DirectionInbound []). azure_matches vnet r pk) \<or>
            (\<exists>r. Some r \<in> set [Some example_in] \<and> azure_ingress ?asg example_ag r pk) then Some AccessAllow
         else if pk_src pk \<in> vnet \<and> pk_dst pk \<in> vnet then Some AccessDeny else None)"
    using azure_rules_enforced [OF is_order_in_order acc fields peer nsg rules asgs asg valid _ stores] by fastforce
  have "nsg' = c'" using r(2) by (simp add: vn_service_def vn_clients_def)
  moreover have "decides UNIV (by_direction DirectionInbound rs) ?pk = Some AccessAllow"
      "decides UNIV (by_direction DirectionInbound rs) (?pk\<lparr>pk_dstPort := 22\<rparr>) = Some AccessDeny"
    unfolding r(4) using permits by (simp_all add: rules_of_others_def by_direction_def)
  ultimately show ?thesis using r(1,3) unfolding Let_def by blast
qed

end
