(* ===== verification/Azure_Members.thy ===== *)
theory Azure_Members
  imports Azure_Enforce
begin

text \<open>
  Members of Azure groups. The interfaces of the cloud are a list that the client returns and whose entries it replaces, as the
  SDK documents; the table of the resource graph describes the interfaces of that list. An update of the members returns
  exactly when every interface it means to change is in the list, and it then changes those interfaces and no other.
\<close>

section \<open>Interfaces that were found\<close>

definition nic_key :: "Interface \<Rightarrow> string" where
  "nic_key n = ToLower (the (nic_ID n))"

definition nic_wf :: "Interface \<Rightarrow> bool" where
  "nic_wf n \<longleftrightarrow> (\<exists>i f. nic_ID n = Some i \<and> extractFieldsFromAzureResourceID i = Inr f)"

definition wf_nics :: "Interface list \<Rightarrow> bool" where
  "wf_nics ns \<longleftrightarrow> (\<forall>n \<in> set ns. nic_wf n) \<and> inj_on nic_key (set ns)"

lemma collect_nics:
  assumes "\<forall>n \<in> set ns. nic_wf n"
  shows "fold (collect_nic ids) ns (Some m) = Some (fold (\<lambda>n. put (nic_key n) n) (filter (\<lambda>n. has_key ids (nic_key n)) ns) m)"
  using assms by (induction ns arbitrary: m) (auto simp: collect_nic_def nic_key_def nic_wf_def)

definition found_nics :: "(string, unit) gomap \<Rightarrow> Interface list \<Rightarrow> (string, Interface) gomap" where
  "found_nics ids ns = fold (\<lambda>n. put (nic_key n) n) (filter (\<lambda>n. has_key ids (nic_key n)) ns) []"

lemma found_nics_wf: "wf_map (found_nics ids ns)"
  by (simp add: found_nics_def wf_fold_put)

lemma found_nics_keys: "keys (found_nics ids ns) = keys ids \<inter> nic_key ` set ns"
  by (auto simp: found_nics_def keys_fold_put has_key_iff)

lemma found_nics_entry: "(k, n) \<in> set (found_nics ids ns) \<Longrightarrow> n \<in> set ns \<and> nic_key n = k"
  unfolding in_set_map_of [OF found_nics_wf] by (auto simp: found_nics_def dest!: map_of_fold_putD)

lemma given_ids:
  assumes "nic_listAllComplete cl c = Inr ns" "wf_nics ns"
  shows "getNetworkInterfacesGivenIDs cl ids c = Returns (Inr (found_nics ids ns))"
  using assms collect_nics [of ns ids "[]"] by (simp add: getNetworkInterfacesGivenIDs_def wf_nics_def found_nics_def)

lemma wf_mergeSet:
  fixes ms :: "('k, unit) gomap list"
  shows "wf_map (mergeSet ms)"
proof -
  have put: "wf_map (fold (\<lambda>(k, v). put k v) m r)" if "wf_map r" for m r :: "('k, unit) gomap"
    using that by (induction m arbitrary: r) auto
  have "wf_map (fold (\<lambda>m result. fold (\<lambda>(k, v). put k v) m result) ms r)" if "wf_map r" for r :: "('k, unit) gomap"
    using that by (induction ms arbitrary: r) (auto simp: put)
  then show ?thesis by (simp add: mergeSet_def)
qed

lemma found_length:
  "length (found_nics (mergeSet ms) ns) < length (mergeSet ms) \<longleftrightarrow> \<not> (\<Union>m \<in> set ms. keys m) \<subseteq> nic_key ` set ns"
proof -
  let ?all = "mergeSet ms"
  have fin: "finite (keys ?all)" by (simp add: keys_def)
  have "length (found_nics ?all ns) = card (keys ?all \<inter> nic_key ` set ns)" "length ?all = card (keys ?all)"
    by (simp_all add: length_wf_map found_nics_wf wf_mergeSet found_nics_keys)
  moreover have "card (keys ?all \<inter> B) < card (keys ?all) \<longleftrightarrow> \<not> keys ?all \<subseteq> B" for B
  proof (cases "keys ?all \<subseteq> B")
    case False
    then have "keys ?all \<inter> B \<subset> keys ?all" by blast
    with False psubset_card_mono [OF fin] show ?thesis by blast
  qed (simp add: Int_absorb2)
  ultimately show ?thesis by (simp add: keys_mergeSet)
qed

section \<open>The loop\<close>

text \<open>\<open>g\<close> is the interface that an update writes.\<close>

definition replaces :: "('c \<Rightarrow> Interface list) \<Rightarrow> (Interface \<Rightarrow> bool \<Rightarrow> ('c, error) state) \<Rightarrow> (Interface \<Rightarrow> bool \<Rightarrow> Interface) \<Rightarrow> bool" where
  "replaces nics upd g \<longleftrightarrow> (\<forall>obj b c. nic_wf obj \<longrightarrow> nic_ID (g obj b) = nic_ID obj \<and>
     (\<exists>c'. run_state (upd obj b) c = (None, c') \<and> nics c' = map (\<lambda>n. if nic_ID n = nic_ID obj then g obj b else n) (nics c)))"

definition written :: "(Interface \<Rightarrow> bool \<Rightarrow> Interface) \<Rightarrow> (string, unit) gomap \<Rightarrow> string set \<Rightarrow> Interface \<Rightarrow> Interface" where
  "written g toAttach ks n = (if nic_key n \<in> ks then g n (has_key toAttach (nic_key n)) else n)"

lemma nic_update_loop:
  assumes "replaces nics upd g" "distinct (map fst objs)"
    and "\<forall>(k, obj) \<in> set objs. nic_wf obj \<and> nic_key obj = k \<and> (\<forall>n \<in> set (nics c). nic_key n = k \<longrightarrow> n = obj)"
  shows "\<exists>c'. run_state (for_fold objs [] (\<lambda>(nicID, obj) errs. do {
        e \<leftarrow> upd obj (has_key toAttach nicID);
        ret (errs @ (case e of None \<Rightarrow> [] | Some err \<Rightarrow> [err]))
      })) c = ([], c') \<and> nics c' = map (written g toAttach (fst ` set objs)) (nics c)"
  using assms(2,3)
proof (induction objs arbitrary: c)
  case Nil
  then show ?case by (simp add: written_def map_idI)
next
  case (Cons x objs)
  obtain k obj where x: "x = (k, obj)" by fastforce
  have obj: "nic_wf obj" "nic_key obj = k" "\<And>n. n \<in> set (nics c) \<Longrightarrow> nic_key n = k \<Longrightarrow> n = obj"
    using Cons.prems(2) x by auto
  let ?new = "g obj (has_key toAttach k)"
  obtain c1 where c1: "run_state (upd obj (has_key toAttach k)) c = (None, c1)" "nic_ID ?new = nic_ID obj"
      "nics c1 = map (\<lambda>n. if nic_ID n = nic_ID obj then ?new else n) (nics c)"
    using assms(1) obj(1) unfolding replaces_def by blast
  have same: "nic_ID n = nic_ID obj \<longleftrightarrow> nic_key n = k" if "n \<in> set (nics c)" for n
    using obj(2) obj(3) [OF that] by (auto simp: nic_key_def)
  have nics1: "nics c1 = map (\<lambda>n. if nic_key n = k then ?new else n) (nics c)"
    unfolding c1(3) by (rule map_cong) (simp_all add: same)
  have new: "nic_key ?new = k" using c1(2) obj(2) by (simp add: nic_key_def)
  have fresh: "k \<notin> fst ` set objs" "distinct (map fst objs)" using Cons.prems(1) x by auto
  have "nic_wf obj' \<and> nic_key obj' = k' \<and> (\<forall>n \<in> set (nics c1). nic_key n = k' \<longrightarrow> n = obj')"
    if in_objs: "(k', obj') \<in> set objs" for k' obj'
  proof -
    have "k' \<noteq> k" using in_objs fresh(1) by force
    moreover have "nic_wf obj'" "nic_key obj' = k'" "\<forall>n \<in> set (nics c). nic_key n = k' \<longrightarrow> n = obj'"
      using Cons.prems(2) in_objs by auto
    ultimately show ?thesis using new by (auto simp: nics1)
  qed
  then have "\<forall>(k', obj') \<in> set objs. nic_wf obj' \<and> nic_key obj' = k' \<and> (\<forall>n \<in> set (nics c1). nic_key n = k' \<longrightarrow> n = obj')"
    by blast
  from Cons.IH [OF fresh(2) this] obtain c' where c': "run_state (for_fold objs [] (\<lambda>(nicID, obj) errs. do {
        e \<leftarrow> upd obj (has_key toAttach nicID);
        ret (errs @ (case e of None \<Rightarrow> [] | Some err \<Rightarrow> [err]))
      })) c1 = ([], c')" "nics c' = map (written g toAttach (fst ` set objs)) (nics c1)" by blast
  have "written g toAttach (fst ` set objs) (if nic_key n = k then ?new else n) = written g toAttach (fst ` set (x # objs)) n"
    if "n \<in> set (nics c)" for n
    using obj(2) obj(3) [OF that] fresh(1) new by (cases "nic_key n = k") (simp_all add: written_def x)
  then show ?case using c' c1(1) by (auto simp: x nics1)
qed

lemma attach_detach_runs:
  assumes "is_order ord" "nic_listAllComplete cl c = Inr (nics c)" "wf_nics (nics c)" "replaces nics upd g"
    and "keys toAttach \<union> keys toDetach \<subseteq> nic_key ` set (nics c)"
  shows "\<exists>c'. run_state (attach_detach ord cl (toAttach, toDetach) upd) c = (Returns (Inr ()), c') \<and>
    nics c' = map (written g toAttach (keys toAttach \<union> keys toDetach)) (nics c)"
proof -
  let ?all = "mergeSet [toAttach, toDetach]" and ?objs = "found_nics (mergeSet [toAttach, toDetach]) (nics c)"
  have fst_keys: "fst ` set (range_map ord ?objs) = keys toAttach \<union> keys toDetach"
    using found_nics_keys [of ?all "nics c"] assms(1,5) by (auto simp: keys_def [symmetric] keys_mergeSet)
  have "nic_wf obj \<and> nic_key obj = k \<and> (\<forall>n \<in> set (nics c). nic_key n = k \<longrightarrow> n = obj)"
    if "(k, obj) \<in> set (range_map ord ?objs)" for k obj
    using that assms(1,3) found_nics_entry [of k obj ?all "nics c"] unfolding wf_nics_def inj_on_def by auto
  then have entries: "\<forall>(k, obj) \<in> set (range_map ord ?objs). nic_wf obj \<and> nic_key obj = k \<and> (\<forall>n \<in> set (nics c). nic_key n = k \<longrightarrow> n = obj)"
    by blast
  have full: "\<not> length ?objs < length ?all" using found_length [of "[toAttach, toDetach]" "nics c"] assms(5) by simp
  obtain c' where loop: "run_state (for_fold (range_map ord ?objs) [] (\<lambda>(nicID, obj) errs. do {
        e \<leftarrow> upd obj (has_key toAttach nicID);
        ret (errs @ (case e of None \<Rightarrow> [] | Some err \<Rightarrow> [err]))
      })) c = ([], c')" and nics': "nics c' = map (written g toAttach (keys toAttach \<union> keys toDetach)) (nics c)"
    using nic_update_loop [OF assms(4) distinct_range_map [OF assms(1) found_nics_wf] entries, of toAttach] unfolding fst_keys by blast
  have "run_state (attach_detach ord cl (toAttach, toDetach) upd) c = (Returns (Inr ()), c')"
    using full by (simp add: attach_detach_def Let_def given_ids [OF assms(2,3)] loop multierr_def)
  with nics' show ?thesis by blast
qed

text \<open>
  An interface that the table names and the listing does not have keeps the request waiting: the wait group counts it, and no
  goroutine is started for it.
\<close>

lemma attach_detach_hangs:
  assumes "nic_listAllComplete cl c = Inr ns" "wf_nics ns" "\<not> keys toAttach \<union> keys toDetach \<subseteq> nic_key ` set ns"
  shows "fst (run_state (attach_detach ord cl (toAttach, toDetach) upd) c) = Hangs"
proof -
  have "length (found_nics (mergeSet [toAttach, toDetach]) ns) < length (mergeSet [toAttach, toDetach])"
    using found_length [of "[toAttach, toDetach]" ns] assms(3) by simp
  then show ?thesis by (simp add: attach_detach_def Let_def given_ids [OF assms(1,2)] split_beta)
qed

end
