(* ===== verification/Azure_Membership.thy ===== *)
theory Azure_Membership
  imports Azure_Members
begin

text \<open>
  Membership in Azure groups is exact: what the updates of the interfaces write, which updates the table of the resource graph asks for,
  and the requests that set the members of an address group and of an applied-to group.
\<close>

section \<open>What an update writes\<close>

text \<open>The client lists the interfaces and replaces an interface by its identifier.\<close>

definition serves_nics :: "'c compute_clients \<Rightarrow> ('c \<Rightarrow> Interface list) \<Rightarrow> bool" where
  "serves_nics cl nics \<longleftrightarrow> (\<forall>c. nic_listAllComplete cl c = Inr (nics c)) \<and>
     (\<forall>n i sub rg name c. nic_ID n = Some i \<longrightarrow> extractFieldsFromAzureResourceID i = Inr (sub, rg, name) \<longrightarrow>
        (\<exists>c'. nic_createOrUpdate cl rg name n c = (None, c') \<and> nics c' = map (\<lambda>m. if nic_ID m = nic_ID n then n else m) (nics c)))"

definition asg_written :: "ApplicationSecurityGroup \<Rightarrow> Interface \<Rightarrow> bool \<Rightarrow> Interface" where
  "asg_written asg n isAttach = n\<lparr>IPConfigurations := getAsgUpdatedIPConfigurations n asg isAttach\<rparr>"

definition nsg_written :: "NetworkSecurityGroup \<Rightarrow> ApplicationSecurityGroup \<Rightarrow> string \<Rightarrow> Interface \<Rightarrow> bool \<Rightarrow> Interface" where
  "nsg_written nsg asg tag n isAttach = (asg_written asg n isAttach)
     \<lparr>nic_NSG := fst (getUpdatedNetworkInterfaceNsgAndTags n nsg isAttach tag), nic_Tags := snd (getUpdatedNetworkInterfaceNsgAndTags n nsg isAttach tag)\<rparr>"

lemma written_ID [simp]: "nic_ID (asg_written asg n b) = nic_ID n" "nic_ID (nsg_written nsg asg tag n b) = nic_ID n"
  by (simp_all add: asg_written_def nsg_written_def)

lemma serves_replaces:
  assumes "serves_nics cl nics" "\<forall>obj b. nic_ID (g obj b) = nic_ID obj"
    and "\<forall>obj b i rg name. nic_ID obj = Some i \<longrightarrow> nic_names i = (rg, name) \<longrightarrow> upd obj b = State (nic_createOrUpdate cl rg name (g obj b))"
  shows "replaces nics upd g"
  unfolding replaces_def
proof (intro allI impI)
  fix obj b c
  assume "nic_wf obj"
  then obtain i sub rg name where i: "nic_ID obj = Some i" "extractFieldsFromAzureResourceID i = Inr (sub, rg, name)"
    unfolding nic_wf_def by (metis prod_cases3)
  then have "nic_names i = (rg, name)" by (simp add: nic_names_def)
  with assms(3) i(1) have upd: "upd obj b = State (nic_createOrUpdate cl rg name (g obj b))" by blast
  have "nic_ID (g obj b) = Some i" using assms(2) i(1) by simp
  with assms(1) i(2) obtain c' where "nic_createOrUpdate cl rg name (g obj b) c = (None, c')"
      "nics c' = map (\<lambda>m. if nic_ID m = nic_ID (g obj b) then g obj b else m) (nics c)"
    unfolding serves_nics_def by blast
  with upd assms(2) show "nic_ID (g obj b) = nic_ID obj \<and> (\<exists>c'. run_state (upd obj b) c = (None, c') \<and>
      nics c' = map (\<lambda>n. if nic_ID n = nic_ID obj then g obj b else n) (nics c))"
    by simp
qed

lemma replaces_asg:
  assumes "serves_nics cl nics"
  shows "replaces nics (\<lambda>obj b. updateNetworkInterfaceAsg cl obj asg b) (asg_written asg)"
  by (rule serves_replaces [OF assms]) (auto simp: updateNetworkInterfaceAsg_def asg_written_def)

lemma replaces_nsg:
  assumes "serves_nics cl nics"
  shows "replaces nics (\<lambda>obj b. updateNetworkInterfaceNsg cl obj nsg asg b tag) (nsg_written nsg asg tag)"
  by (rule serves_replaces [OF assms]) (auto simp: updateNetworkInterfaceNsg_def nsg_written_def asg_written_def split: prod.splits)

text \<open>The groups of an interface are those of its primary configuration.\<close>

definition nic_asgs :: "Interface \<Rightarrow> string set" where
  "nic_asgs n = (\<lambda>asg. ToLower (asg_ID asg)) ` set (primary_asgs (IPConfigurations n))"

definition has_primary :: "Interface \<Rightarrow> bool" where
  "has_primary n \<longleftrightarrow> (\<exists>ipc \<in> set (IPConfigurations n). ipc_Primary ipc)"

lemma primary_asgs_update:
  "\<exists>ipc \<in> set ipcs. ipc_Primary ipc \<Longrightarrow> primary_asgs (map (\<lambda>ipc. ipc\<lparr>ipc_ASGs := Some asgs\<rparr>) ipcs) = asgs"
  by (induction ipcs) auto

lemma nic_asgs_written:
  assumes "has_primary n"
  shows "nic_asgs (asg_written asg n b) = (if b then insert (ToLower (asg_ID asg)) (nic_asgs n) else nic_asgs n - {ToLower (asg_ID asg)})"
    "nic_asgs (nsg_written nsg asg tag n b) = nic_asgs (asg_written asg n b)"
  using primary_asgs_update assms unfolding has_primary_def
  by (auto simp: nic_asgs_def asg_written_def nsg_written_def getAsgUpdatedIPConfigurations_def Let_def)

section \<open>What the table asks for\<close>

definition changes ::
    "(networkInterfaceTable \<Rightarrow> bool) \<Rightarrow> (string, unit) gomap \<Rightarrow> (string, unit) gomap \<Rightarrow> networkInterfaceTable list \<Rightarrow> nic_sets \<Rightarrow> nic_sets" where
  "changes attached vms nics = fold (\<lambda>nic sets. case attached_vm nic of
     None \<Rightarrow> sets
   | Some vmID \<Rightarrow> sort_nic vms nics (attached nic) vmID nic sets)"

lemma asg_changes_eq: "asg_changes name vms nics table = changes (asg_attached name) vms nics table ([], [])"
  by (simp add: asg_changes_def changes_def)

lemma nsg_changes_eq:
  assumes "\<forall>r \<in> set table. nsg_attached nsgName tag r = Inr (attached r)"
  shows "nsg_changes nsgName tag vms nics table sets = Inr (changes attached vms nics table sets)"
  using assms by (induction table arbitrary: sets) (simp_all add: changes_def split: option.splits)

definition row_key :: "networkInterfaceTable \<Rightarrow> string" where
  "row_key r = ToLower (nit_ID r)"

text \<open>The row of an attached interface whose membership is \<open>m\<close>, by the members of the request.\<close>

definition asked :: "CloudResource list \<Rightarrow> networkInterfaceTable \<Rightarrow> bool \<Rightarrow> bool" where
  "asked members r m \<longleftrightarrow> (\<exists>vm. attached_vm r = Some vm \<and> is_member members (ToLower vm) (row_key r) = m)"

lemma keys_changes:
  assumes "FindResourcesBasedOnKind members = (vms, nics)" "changes attached vms nics table (a, d) = (toAttach, toDetach)"
  shows "keys toAttach = keys a \<union> {row_key r |r. r \<in> set table \<and> asked members r True \<and> \<not> attached r}"
    "keys toDetach = keys d \<union> {row_key r |r. r \<in> set table \<and> asked members r False \<and> attached r}"
proof -
  have "keys toAttach = keys a \<union> {row_key r |r. r \<in> set table \<and> asked members r True \<and> \<not> attached r} \<and>
      keys toDetach = keys d \<union> {row_key r |r. r \<in> set table \<and> asked members r False \<and> attached r}"
    using assms(2)
  proof (induction table arbitrary: a d)
    case (Cons r table)
    obtain a1 d1 where step: "(case attached_vm r of None \<Rightarrow> (a, d) | Some vmID \<Rightarrow> sort_nic vms nics (attached r) vmID r (a, d)) = (a1, d1)"
      by fastforce
    then have "keys a1 = keys a \<union> (if asked members r True \<and> \<not> attached r then {row_key r} else {}) \<and>
        keys d1 = keys d \<union> (if asked members r False \<and> attached r then {row_key r} else {})"
      using is_member_iff [of members] assms(1)
      by (auto simp: sort_nic_def asked_def row_key_def Let_def split: option.splits if_splits)
    moreover have "changes attached vms nics table (a1, d1) = (toAttach, toDetach)"
      using Cons.prems step by (simp add: changes_def)
    ultimately show ?case using Cons.IH by auto
  qed (simp add: changes_def)
  then show "keys toAttach = keys a \<union> {row_key r |r. r \<in> set table \<and> asked members r True \<and> \<not> attached r}"
    "keys toDetach = keys d \<union> {row_key r |r. r \<in> set table \<and> asked members r False \<and> attached r}" by blast+
qed

section \<open>The table and the interfaces\<close>

text \<open>Each row of the table describes one of the interfaces.\<close>

definition row_of :: "networkInterfaceTable \<Rightarrow> Interface \<Rightarrow> bool" where
  "row_of r n \<longleftrightarrow> ToLower ` set (ApplicationSecurityGroupIDs r) = nic_asgs n \<and>
     map_option ToLower (NetworkSecurityGroupID r) = map_option ToLower (Option.bind (nic_NSG n) nsg_ID) \<and>
     nit_Tags r = (case nic_Tags n of None \<Rightarrow> [] | Some tags \<Rightarrow> [tags])"

definition describes :: "networkInterfaceTable list \<Rightarrow> Interface list \<Rightarrow> bool" where
  "describes rows ns \<longleftrightarrow> distinct (map row_key rows) \<and> (\<forall>r \<in> set rows. \<exists>n \<in> set ns. nic_key n = row_key r \<and> row_of r n)"

text \<open>The machine an interface of the table is attached to.\<close>

definition vm_of :: "networkInterfaceTable list \<Rightarrow> Interface \<Rightarrow> string option" where
  "vm_of rows n = Option.bind (find (\<lambda>r. row_key r = nic_key n) rows) attached_vm"

lemma vm_of_row:
  assumes "describes rows ns" "r \<in> set rows" "row_key r = nic_key n"
  shows "vm_of rows n = attached_vm r"
proof -
  obtain r' where r': "find (\<lambda>r. row_key r = nic_key n) rows = Some r'" "r' \<in> set rows" "row_key r' = nic_key n"
    using assms(2,3) by (cases "find (\<lambda>r. row_key r = nic_key n) rows") (auto simp: find_None_iff dest: find_SomeD)
  then have "r' = r" using assms unfolding describes_def distinct_map inj_on_def by metis
  with r'(1) show ?thesis by (simp add: vm_of_def)
qed

lemma vm_of_no_row: "\<nexists>r. r \<in> set rows \<and> row_key r = nic_key n \<Longrightarrow> vm_of rows n = None"
  unfolding vm_of_def by (subst iffD2 [OF find_None_iff]) auto

lemma row_of_nic:
  assumes "describes rows ns" "inj_on nic_key (set ns)" "n \<in> set ns" "r \<in> set rows" "row_key r = nic_key n"
  shows "row_of r n"
  using assms unfolding describes_def inj_on_def by metis

definition updated ::
    "networkInterfaceTable list \<Rightarrow> CloudResource list \<Rightarrow> (Interface \<Rightarrow> bool) \<Rightarrow> (Interface \<Rightarrow> bool \<Rightarrow> Interface) \<Rightarrow> Interface \<Rightarrow> Interface" where
  "updated rows members holds g n = (case vm_of rows n of
     None \<Rightarrow> n
   | Some vm \<Rightarrow> if holds n = is_member members (ToLower vm) (nic_key n) then n else g n (\<not> holds n))"

lemma written_updated:
  assumes "describes rows ns" "inj_on nic_key (set ns)" "n \<in> set ns" "FindResourcesBasedOnKind members = (vms, nics)"
    and "changes attached vms nics rows ([], []) = (toAttach, toDetach)"
    and "\<forall>r \<in> set rows. \<forall>n \<in> set ns. row_of r n \<longrightarrow> attached r = holds n"
  shows "written g toAttach (keys toAttach \<union> keys toDetach) n = updated rows members holds g n"
proof (cases "\<exists>r. r \<in> set rows \<and> row_key r = nic_key n")
  case True
  then obtain r where r: "r \<in> set rows" "row_key r = nic_key n" by blast
  have only: "r' = r" if "r' \<in> set rows" "row_key r' = nic_key n" for r'
    using that r assms(1) unfolding describes_def distinct_map inj_on_def by metis
  have same: "attached r = holds n" using row_of_nic [OF assms(1-3) r] assms(3,6) r(1) by blast
  have "nic_key n \<in> keys toAttach \<longleftrightarrow> asked members r True \<and> \<not> holds n" "nic_key n \<in> keys toDetach \<longleftrightarrow> asked members r False \<and> holds n"
    unfolding keys_changes [OF assms(4,5)] keys_Nil Un_empty_left mem_Collect_eq using only r same by metis+
  then show ?thesis
    by (cases "attached_vm r"; cases "holds n")
      (simp_all add: vm_of_row [OF assms(1) r] written_def updated_def asked_def has_key_iff r(2))
next
  case False
  then have "nic_key n \<notin> keys toAttach \<union> keys toDetach" unfolding keys_changes [OF assms(4,5)] keys_Nil by (simp, metis)
  then show ?thesis by (simp add: written_def updated_def vm_of_no_row [OF False])
qed

lemma keys_changes_known:
  assumes "describes rows ns" "FindResourcesBasedOnKind members = (vms, nics)" "changes attached vms nics rows ([], []) = (toAttach, toDetach)"
  shows "keys toAttach \<union> keys toDetach \<subseteq> nic_key ` set ns"
  using assms(1) unfolding keys_changes [OF assms(2,3)] describes_def by (force simp: image_iff)

text \<open>Both kinds of groups: the interfaces after the updates that the table asks for.\<close>

lemma membership_runs:
  assumes "is_order ord" "serves_nics cl nics" "wf_nics (nics c)" "describes rows (nics c)" "replaces nics upd g"
    and "FindResourcesBasedOnKind members = (vms, ns)"
    and "\<forall>r \<in> set rows. \<forall>n \<in> set (nics c). row_of r n \<longrightarrow> attached r = holds n"
  shows "\<exists>c'. run_state (attach_detach ord cl (changes attached vms ns rows ([], [])) upd) c = (Returns (Inr ()), c') \<and>
    nics c' = map (updated rows members holds g) (nics c)"
proof -
  obtain toAttach toDetach where sets: "changes attached vms ns rows ([], []) = (toAttach, toDetach)" by fastforce
  have listed: "nic_listAllComplete cl c = Inr (nics c)" and inj: "inj_on nic_key (set (nics c))"
    using assms(2,3) unfolding serves_nics_def wf_nics_def by blast+
  obtain c' where c': "run_state (attach_detach ord cl (toAttach, toDetach) upd) c = (Returns (Inr ()), c')"
      "nics c' = map (written g toAttach (keys toAttach \<union> keys toDetach)) (nics c)"
    using attach_detach_runs [OF assms(1) listed assms(3,5) keys_changes_known [OF assms(4,6) sets]] by blast
  have "map (written g toAttach (keys toAttach \<union> keys toDetach)) (nics c) = map (updated rows members holds g) (nics c)"
    using written_updated [OF assms(4) inj _ assms(6) sets assms(7)] by (simp add: map_eq_conv)
  with c' show ?thesis unfolding sets by metis
qed

section \<open>Address groups\<close>

text \<open>The identifier of the application security group has its name, and no other group of the interfaces has it.\<close>

definition named :: "ApplicationSecurityGroup \<Rightarrow> string \<Rightarrow> Interface list \<Rightarrow> bool" where
  "named asg name ns \<longleftrightarrow> (\<exists>sub rg. extractFieldsFromAzureResourceID (ToLower (asg_ID asg)) = Inr (sub, rg, name)) \<and>
     (\<forall>n \<in> set ns. \<forall>i \<in> nic_asgs n. \<forall>sub rg. extractFieldsFromAzureResourceID i = Inr (sub, rg, name) \<longrightarrow> i = ToLower (asg_ID asg))"

lemma asg_attached_iff:
  assumes "named asg (GetCloudName gid True) ns" "n \<in> set ns" "row_of r n"
  shows "asg_attached (GetCloudName gid True) r \<longleftrightarrow> ToLower (asg_ID asg) \<in> nic_asgs n"
proof -
  let ?name = "GetCloudName gid True"
  have "(case extractFieldsFromAzureResourceID i of Inl _ \<Rightarrow> False
      | Inr (_, _, name) \<Rightarrow> (case IsNepheControllerCreatedSG name of (_, isAG, _) \<Rightarrow> isAG \<and> name = ?name)) \<longleftrightarrow>
      (\<exists>sub rg. extractFieldsFromAzureResourceID i = Inr (sub, rg, ?name))" for i
  proof (cases "extractFieldsFromAzureResourceID i")
    case (Inr f)
    obtain sub rg name where "f = (sub, rg, name)" by (cases f)
    with Inr show ?thesis by (cases "name = ?name") (simp_all add: IsNephe_GetCloudName split_beta)
  qed simp
  then have "asg_attached ?name r \<longleftrightarrow> (\<exists>i \<in> ToLower ` set (ApplicationSecurityGroupIDs r). \<exists>sub rg. extractFieldsFromAzureResourceID i = Inr (sub, rg, ?name))"
    by (simp add: asg_attached_def)
  also have "\<dots> \<longleftrightarrow> (\<exists>i \<in> nic_asgs n. \<exists>sub rg. extractFieldsFromAzureResourceID i = Inr (sub, rg, ?name))"
    using assms(3) by (simp add: row_of_def)
  also have "\<dots> \<longleftrightarrow> ToLower (asg_ID asg) \<in> nic_asgs n" using assms(1,2) unfolding named_def by blast
  finally show ?thesis .
qed

lemma updated_asg:
  fixes asg rows members
  assumes "has_primary n"
  defines "n' \<equiv> updated rows members (\<lambda>n. ToLower (asg_ID asg) \<in> nic_asgs n) (asg_written asg) n"
  shows "nic_ID n' = nic_ID n" "nic_NSG n' = nic_NSG n" "nic_Tags n' = nic_Tags n"
    "nic_asgs n' = (case vm_of rows n of
        None \<Rightarrow> nic_asgs n
      | Some vm \<Rightarrow> if is_member members (ToLower vm) (nic_key n) then insert (ToLower (asg_ID asg)) (nic_asgs n)
          else nic_asgs n - {ToLower (asg_ID asg)})"
proof -
  show "nic_ID n' = nic_ID n" "nic_NSG n' = nic_NSG n" "nic_Tags n' = nic_Tags n"
    by (simp_all add: n'_def updated_def asg_written_def split: option.split)
  show "nic_asgs n' = (case vm_of rows n of
        None \<Rightarrow> nic_asgs n
      | Some vm \<Rightarrow> if is_member members (ToLower vm) (nic_key n) then insert (ToLower (asg_ID asg)) (nic_asgs n)
          else nic_asgs n - {ToLower (asg_ID asg)})"
    unfolding n'_def updated_def by (cases "vm_of rows n") (auto simp: nic_asgs_written(1) [OF assms(1)])
qed

lemma members_request:
  assumes "getVnetAccount ord (id_Vpc gid) accs = Some acc" "GetServiceConfigByName azureComputeServiceNameCompute acc = Inr cfg"
    and "extractFieldsFromAzureResourceID (id_Vpc gid) = Inr (sub, rg, vnet)" "\<not> ifPeerProcessing (id_Vpc gid) cfg"
    and "getNetworkInterfacesOfVnet ord cfg [(id_Vpc gid, ())] c = Inr rows" "FindResourcesBasedOnKind members = (vms, ns)"
  shows "run_state (azure_UpdateSecurityGroupMembers ord accs gid members membershipOnly) c = run_state (if membershipOnly
      then processAddressGroupMembership ord cfg gid rows rg vms ns else processAppliedToMembership ord cfg gid rows rg vms ns False) c"
  using assms
  by (simp add: azure_UpdateSecurityGroupMembers_def with_compute_def azure_updateSecurityGroupMembers_def azure_ask_def run_and_then)

text \<open>
  C9: an update of the members of an address group succeeds and leaves the application security group on exactly the
  interfaces of its members. The network is managed and not peered, the interfaces of the account have identifiers and a primary
  configuration, the table of the resource graph describes them, and the client lists and replaces them; then an interface
  that is attached to a machine has the group exactly when the machine or the interface is a member, its other groups, its
  network security group and its tags stay, and the interfaces that are not attached stay as they are.
\<close>

theorem azure_members_enforced:
  assumes "is_order ord" "getVnetAccount ord (id_Vpc gid) accs = Some acc"
    and "GetServiceConfigByName azureComputeServiceNameCompute acc = Inr cfg"
    and "extractFieldsFromAzureResourceID (id_Vpc gid) = Inr (sub, rg, vnet)" "\<not> ifPeerProcessing (id_Vpc gid) cfg"
    and "getNetworkInterfacesOfVnet ord cfg [(id_Vpc gid, ())] c = Inr rows" "describes rows (nics c)"
    and "serves_nics (az_clients cfg) nics" "wf_nics (nics c)" "\<forall>n \<in> set (nics c). has_primary n"
    and "asg_get (az_clients cfg) rg (GetCloudName gid True) c = Inr asg" "named asg (GetCloudName gid True) (nics c)"
  shows "\<exists>c'. run_state (azure_UpdateSecurityGroupMembers ord accs gid members True) c = (Returns (Inr ()), c') \<and>
    list_all2 (\<lambda>n n'. nic_ID n' = nic_ID n \<and> nic_NSG n' = nic_NSG n \<and> nic_Tags n' = nic_Tags n \<and>
      nic_asgs n' = (case vm_of rows n of
        None \<Rightarrow> nic_asgs n
      | Some vm \<Rightarrow> if is_member members (ToLower vm) (nic_key n) then insert (ToLower (asg_ID asg)) (nic_asgs n)
          else nic_asgs n - {ToLower (asg_ID asg)})) (nics c) (nics c')"
proof -
  let ?a = "ToLower (asg_ID asg)" and ?g = "asg_written asg"
  obtain vms ns where kinds: "FindResourcesBasedOnKind members = (vms, ns)" by fastforce
  have "\<forall>r \<in> set rows. \<forall>n \<in> set (nics c). row_of r n \<longrightarrow> asg_attached (GetCloudName gid True) r = (?a \<in> nic_asgs n)"
    using asg_attached_iff [OF assms(12)] by blast
  note runs = membership_runs [where attached = "asg_attached (GetCloudName gid True)" and holds = "\<lambda>n. ?a \<in> nic_asgs n",
      OF assms(1,8,9,7) replaces_asg [OF assms(8)] kinds this]
  obtain c' where c': "run_state (attach_detach ord (az_clients cfg) (asg_changes (GetCloudName gid True) vms ns rows)
        (\<lambda>obj isAttach. updateNetworkInterfaceAsg (az_clients cfg) obj asg isAttach)) c = (Returns (Inr ()), c')"
      "nics c' = map (updated rows members (\<lambda>n. ?a \<in> nic_asgs n) ?g) (nics c)"
    using runs unfolding asg_changes_eq by blast
  have run: "run_state (azure_UpdateSecurityGroupMembers ord accs gid members True) c = (Returns (Inr ()), c')"
    unfolding members_request [OF assms(2-6) kinds] using c'(1) assms(11)
    by (simp add: processAddressGroupMembership_def Let_def processAsgAttachDetachConcurrently_def azure_ask_def run_and_then)
  show ?thesis
    by (rule exI [of _ c'], rule conjI [OF run], unfold c'(2), rule list_all2_map)
      (simp add: updated_asg assms(10))
qed

section \<open>Applied-to groups\<close>

text \<open>
  An interface is in an applied-to group when it is under the network security group of the network and has the tag of the
  group.
\<close>

definition under_nsg :: "string \<Rightarrow> Interface \<Rightarrow> bool" where
  "under_nsg nsgName n \<longleftrightarrow> (\<exists>g i sub rg. nic_NSG n = Some g \<and> nsg_ID g = Some i \<and> extractFieldsFromAzureResourceID (ToLower i) = Inr (sub, rg, nsgName))"

definition nic_tags :: "Interface \<Rightarrow> (string, string) gomap" where
  "nic_tags n = (case nic_Tags n of None \<Rightarrow> [] | Some tags \<Rightarrow> tags)"

definition in_group :: "string \<Rightarrow> string \<Rightarrow> Interface \<Rightarrow> bool" where
  "in_group nsgName tag n \<longleftrightarrow> under_nsg nsgName n \<and> has_key (nic_tags n) tag"

definition wf_nsgs :: "Interface list \<Rightarrow> bool" where
  "wf_nsgs ns \<longleftrightarrow> (\<forall>n \<in> set ns. \<forall>g. nic_NSG n = Some g \<longrightarrow> (\<exists>i f. nsg_ID g = Some i \<and> extractFieldsFromAzureResourceID (ToLower i) = Inr f))"

lemma nsg_attached_iff:
  assumes "wf_nsgs ns" "n \<in> set ns" "row_of r n"
  shows "nsg_attached nsgName tag r = Inr (in_group nsgName tag n)"
proof (cases "nic_NSG n")
  case None
  then have "NetworkSecurityGroupID r = None" using assms(3) by (simp add: row_of_def)
  with None show ?thesis by (simp add: nsg_attached_def in_group_def under_nsg_def)
next
  case (Some g)
  then obtain i sub rg name where i: "nsg_ID g = Some i" "extractFieldsFromAzureResourceID (ToLower i) = Inr (sub, rg, name)"
    using assms(1,2) unfolding wf_nsgs_def by (metis prod_cases3)
  then obtain j where j: "NetworkSecurityGroupID r = Some j" "ToLower j = ToLower i"
    using assms(3) Some by (auto simp: row_of_def)
  have "extractFieldsFromAzureResourceID [] \<noteq> Inr f" for f by code_simp
  then have "j \<noteq> []" using i(2) j(2) by (metis ToLower_Nil)
  moreover have tags: "nit_Tags r = (case nic_Tags n of None \<Rightarrow> [] | Some tags \<Rightarrow> [tags])" using assms(3) by (simp add: row_of_def)
  ultimately show ?thesis using i j Some
    by (simp add: nsg_attached_def in_group_def under_nsg_def nic_tags_def has_key_def split: option.splits)
qed

lemma tags_written:
  "nic_tags (nsg_written nsg asg tag n b) = (if b then put tag ''true'' (nic_tags n) else del tag (nic_tags n))"
  by (auto simp: nic_tags_def nsg_written_def getUpdatedNetworkInterfaceNsgAndTags_def Let_def del_def split: option.splits)

lemma nsg_after:
  "nic_NSG (nsg_written nsg asg tag n True) = Some nsg"
  "has_key (del tag (nic_tags n)) key \<Longrightarrow> IsNepheControllerCreatedSG key = (sgName, ag, True) \<Longrightarrow>
     nic_NSG (nsg_written nsg asg tag n False) = nic_NSG n"
proof -
  show "nic_NSG (nsg_written nsg asg tag n True) = Some nsg"
    by (simp add: nsg_written_def getUpdatedNetworkInterfaceNsgAndTags_def)
  assume key: "has_key (del tag (nic_tags n)) key" "IsNepheControllerCreatedSG key = (sgName, ag, True)"
  then obtain tags where tags: "nic_Tags n = Some tags" "nic_tags n = tags" by (cases "nic_Tags n") (auto simp: nic_tags_def has_key_iff)
  then obtain v where "(key, v) \<in> set (del tag tags)" using key(1) by (auto simp: has_key_iff keys_def)
  then have "hasAnyNepheControllerSecurityGroupTags (Some (del tag tags))"
    using key(2) unfolding hasAnyNepheControllerSecurityGroupTags_def by force
  with tags(1) show "nic_NSG (nsg_written nsg asg tag n False) = nic_NSG n"
    by (simp add: nsg_written_def getUpdatedNetworkInterfaceNsgAndTags_def)
qed

lemma in_group_written:
  assumes "nsg_ID nsg = Some i" "extractFieldsFromAzureResourceID (ToLower i) = Inr (sub, rg, nsgName)"
  shows "in_group nsgName tag (nsg_written nsg asg tag n b) = b"
    "key \<noteq> tag \<Longrightarrow> IsNepheControllerCreatedSG key = (sgName, ag, True) \<Longrightarrow> in_group nsgName key n \<Longrightarrow>
       in_group nsgName key (nsg_written nsg asg tag n b)"
proof -
  have under: "under_nsg nsgName (nsg_written nsg asg tag n True)" using nsg_after(1) assms unfolding under_nsg_def by blast
  then show "in_group nsgName tag (nsg_written nsg asg tag n b) = b"
    by (cases b) (simp_all add: in_group_def tags_written has_key_iff)
  assume key: "key \<noteq> tag" "IsNepheControllerCreatedSG key = (sgName, ag, True)" "in_group nsgName key n"
  have "has_key (nic_tags (nsg_written nsg asg tag n b)) key" using key(1,3) by (simp add: in_group_def tags_written has_key_iff)
  moreover have "under_nsg nsgName (nsg_written nsg asg tag n b)"
  proof (cases b)
    case False
    have "has_key (del tag (nic_tags n)) key" using key(1,3) by (simp add: in_group_def has_key_iff)
    from nsg_after(2) [OF this key(2)] key(3) False show ?thesis by (simp add: in_group_def under_nsg_def)
  qed (simp add: under)
  ultimately show "in_group nsgName key (nsg_written nsg asg tag n b)" by (simp add: in_group_def)
qed

lemma updated_nsg:
  fixes asg nsg tag rows members nsgName
  assumes "has_primary n" "nsg_ID nsg = Some i" "extractFieldsFromAzureResourceID (ToLower i) = Inr (sub, rg, nsgName)"
    and "in_group nsgName tag n \<longleftrightarrow> ToLower (asg_ID asg) \<in> nic_asgs n"
  defines "n' \<equiv> updated rows members (in_group nsgName tag) (nsg_written nsg asg tag) n"
  shows "nic_ID n' = nic_ID n"
    "case vm_of rows n of
       None \<Rightarrow> n' = n
     | Some vm \<Rightarrow> in_group nsgName tag n' = is_member members (ToLower vm) (nic_key n) \<and>
         nic_asgs n' = (if is_member members (ToLower vm) (nic_key n) then insert (ToLower (asg_ID asg)) (nic_asgs n)
           else nic_asgs n - {ToLower (asg_ID asg)})"
    "\<forall>key sgName ag. key \<noteq> tag \<longrightarrow> IsNepheControllerCreatedSG key = (sgName, ag, True) \<longrightarrow> in_group nsgName key n \<longrightarrow> in_group nsgName key n'"
proof -
  note inside = in_group_written [OF assms(2,3)]
  show "nic_ID n' = nic_ID n" by (simp add: n'_def updated_def split: option.split)
  show "case vm_of rows n of
       None \<Rightarrow> n' = n
     | Some vm \<Rightarrow> in_group nsgName tag n' = is_member members (ToLower vm) (nic_key n) \<and>
         nic_asgs n' = (if is_member members (ToLower vm) (nic_key n) then insert (ToLower (asg_ID asg)) (nic_asgs n)
           else nic_asgs n - {ToLower (asg_ID asg)})"
    unfolding n'_def updated_def using assms(4)
    by (cases "vm_of rows n") (auto simp: nic_asgs_written [OF assms(1)] inside(1))
  show "\<forall>key sgName ag. key \<noteq> tag \<longrightarrow> IsNepheControllerCreatedSG key = (sgName, ag, True) \<longrightarrow> in_group nsgName key n \<longrightarrow> in_group nsgName key n'"
    unfolding n'_def updated_def using inside(2) by (auto split: option.split)
qed

text \<open>
  C10: an update of the members of an applied-to group succeeds and puts exactly the members under its rules. Where the tag of
  the group and its application security group go together before, they do so afterwards, and an interface that is
  attached to a machine is in the group exactly when the machine or the interface is a member; the interfaces that are not attached
  stay as they are. No interface leaves another applied-to group by it: the network security group is taken
  off an interface only when the tag was the last one.
\<close>

theorem azure_applied_enforced:
  assumes "is_order ord" "getVnetAccount ord (id_Vpc gid) accs = Some acc"
    and "GetServiceConfigByName azureComputeServiceNameCompute acc = Inr cfg"
    and "extractFieldsFromAzureResourceID (id_Vpc gid) = Inr (sub, rg, vnet)" "\<not> ifPeerProcessing (id_Vpc gid) cfg"
    and "getNetworkInterfacesOfVnet ord cfg [(id_Vpc gid, ())] c = Inr rows" "describes rows (nics c)"
    and "serves_nics (az_clients cfg) nics" "wf_nics (nics c)" "\<forall>n \<in> set (nics c). has_primary n" "wf_nsgs (nics c)"
    and "nsg_get (az_clients cfg) rg (perVnetNsgName (id_Vpc gid)) c = Inr nsg" "nsg_ID nsg = Some i"
    and "extractFieldsFromAzureResourceID (ToLower i) = Inr (sub', rg', perVnetNsgName (id_Vpc gid))"
    and "asg_get (az_clients cfg) rg (GetCloudName gid False) c = Inr asg"
    and "\<forall>n \<in> set (nics c). in_group (perVnetNsgName (id_Vpc gid)) (GetCloudName gid False) n \<longleftrightarrow> ToLower (asg_ID asg) \<in> nic_asgs n"
  shows "\<exists>c'. run_state (azure_UpdateSecurityGroupMembers ord accs gid members False) c = (Returns (Inr ()), c') \<and>
    list_all2 (\<lambda>n n'. nic_ID n' = nic_ID n \<and>
      (case vm_of rows n of
         None \<Rightarrow> n' = n
       | Some vm \<Rightarrow> in_group (perVnetNsgName (id_Vpc gid)) (GetCloudName gid False) n' = is_member members (ToLower vm) (nic_key n) \<and>
           nic_asgs n' = (if is_member members (ToLower vm) (nic_key n) then insert (ToLower (asg_ID asg)) (nic_asgs n)
             else nic_asgs n - {ToLower (asg_ID asg)})) \<and>
      (\<forall>key sgName ag. key \<noteq> GetCloudName gid False \<longrightarrow> IsNepheControllerCreatedSG key = (sgName, ag, True) \<longrightarrow>
         in_group (perVnetNsgName (id_Vpc gid)) key n \<longrightarrow> in_group (perVnetNsgName (id_Vpc gid)) key n')) (nics c) (nics c')"
proof -
  let ?nsg = "perVnetNsgName (id_Vpc gid)" and ?tag = "GetCloudName gid False"
  obtain vms ns where kinds: "FindResourcesBasedOnKind members = (vms, ns)" by fastforce
  let ?attached = "\<lambda>r. nsg_attached ?nsg ?tag r = Inr True"
  have inj: "inj_on nic_key (set (nics c))" using assms(9) by (simp add: wf_nics_def)
  have "\<forall>r \<in> set rows. \<forall>n \<in> set (nics c). row_of r n \<longrightarrow> ?attached r = in_group ?nsg ?tag n"
    using nsg_attached_iff [OF assms(11)] by simp
  note runs = membership_runs [where attached = ?attached and holds = "in_group ?nsg ?tag",
      OF assms(1,8,9,7) replaces_nsg [OF assms(8)] kinds this]
  have "nsg_attached ?nsg ?tag r = Inr (?attached r)" if "r \<in> set rows" for r
  proof -
    obtain n where "n \<in> set (nics c)" "row_of r n" using assms(7) \<open>r \<in> set rows\<close> unfolding describes_def by blast
    from nsg_attached_iff [OF assms(11) this] show ?thesis by simp
  qed
  then have sets: "nsg_changes ?nsg ?tag vms ns rows ([], []) = Inr (changes ?attached vms ns rows ([], []))"
    by (intro nsg_changes_eq) blast
  obtain c' where c': "run_state (attach_detach ord (az_clients cfg) (changes ?attached vms ns rows ([], []))
        (\<lambda>obj isAttach. updateNetworkInterfaceNsg (az_clients cfg) obj nsg asg isAttach ?tag)) c = (Returns (Inr ()), c')"
      "nics c' = map (updated rows members (in_group ?nsg ?tag) (nsg_written nsg asg ?tag)) (nics c)"
    using runs by blast
  have run: "run_state (azure_UpdateSecurityGroupMembers ord accs gid members False) c = (Returns (Inr ()), c')"
    unfolding members_request [OF assms(2-6) kinds] using c'(1) assms(12,15)
    by (simp add: processAppliedToMembership_def Let_def processNsgAttachDetachConcurrently_def azure_ask_def run_and_then sets)
  show ?thesis
    by (rule exI [of _ c'], rule conjI [OF run], unfold c'(2), rule list_all2_map, intro conjI updated_nsg [OF _ assms(13,14)])
      (use assms(10,16) in blast)+
qed

section \<open>Example\<close>

text \<open>A cloud that is a list of interfaces; the interface \<open>n\<close> is attached to the machine \<open>vm-n\<close>.\<close>

definition nw_id :: "string \<Rightarrow> string \<Rightarrow> string" where
  "nw_id kind name = ''/subscriptions/s/resourcegroups/g/providers/microsoft.network/'' @ kind @ ''/'' @ name"

definition nw_asg :: "string \<Rightarrow> ApplicationSecurityGroup" where
  "nw_asg name = \<lparr>asg_ID = nw_id ''applicationsecuritygroups'' name, asg_Name = Some name\<rparr>"

definition nw_nsg :: NetworkSecurityGroup where
  "nw_nsg = \<lparr>nsg_ID = Some (nw_id ''networksecuritygroups'' ''nephe-at-per-vnet-default-v1''), nsg_Name = None, nsg_Location = None, SecurityRules = Some []\<rparr>"

definition nw_nic :: "string \<Rightarrow> ApplicationSecurityGroup list \<Rightarrow> string list \<Rightarrow> Interface" where
  "nw_nic name asgs tags = \<lparr>nic_ID = Some (nw_id ''networkinterfaces'' name), IPConfigurations = [\<lparr>ipc_Primary = True, ipc_ASGs = Some asgs\<rparr>],
     nic_NSG = (if tags = [] then None else Some nw_nsg), nic_Tags = Some (map (\<lambda>t. (t, ''true'')) tags)\<rparr>"

definition nw_row :: "Interface \<Rightarrow> networkInterfaceTable" where
  "nw_row n = \<lparr>nit_ID = the (nic_ID n), nit_VnetID = vn_id, VirtualMachineID = Some (''vm-'' @ last (Split (the (nic_ID n)) (CHR ''/''))),
     NetworkSecurityGroupID = Option.bind (nic_NSG n) nsg_ID, ApplicationSecurityGroupIDs = map asg_ID (primary_asgs (IPConfigurations n)),
     nit_Tags = (case nic_Tags n of None \<Rightarrow> [] | Some tags \<Rightarrow> [tags])\<rparr>"

definition nw_clients :: "Interface list compute_clients" where
  "nw_clients = \<lparr>nsg_get = (\<lambda>_ _ _. Inr nw_nsg), nsg_createOrUpdate = (\<lambda>_ _ nsg c. (Inr nsg, c)), nsg_listAllComplete = (\<lambda>_. Inr [nw_nsg]),
     asg_get = (\<lambda>_ name _. Inr (nw_asg name)), asg_createOrUpdate = (\<lambda>_ name _ c. (Inr (nw_asg name), c)),
     asg_listComplete = (\<lambda>_ _. Inr []), asg_listAllComplete = (\<lambda>_. Inr []), asg_delete = (\<lambda>_ _ c. (None, c)),
     nic_listAllComplete = Inr, nic_createOrUpdate = (\<lambda>_ _ n c. (None, map (\<lambda>m. if nic_ID m = nic_ID n then n else m) c)),
     graph_nwIntfs = (\<lambda>_ _ c. Inr (map nw_row c)), vnet_listAllComplete = (\<lambda>_. Inr []), graph_vms = (\<lambda>_ _ _. Inr [])\<rparr>"

definition nw_service :: "Interface list computeServiceConfig" where
  "nw_service = \<lparr>az_accountName = ''a'', az_clients = nw_clients,
     az_cache = Some \<lparr>snap_virtualMachines = [], snap_vnetIDs = [(vn_id, ())], vnetPeers = []\<rparr>,
     az_stats = \<lparr>totalPollCnt = 0, successPollCnt = 0, lastPollErr = None\<rparr>,
     az_credentials = \<lparr>SubscriptionID = ''s'', ClientID = ''c'', TenantID = ''t'', ClientKey = ''k'', az_region = ''r''\<rparr>, computeFilters = []\<rparr>"

definition nw_account :: "(Interface list computeServiceConfig, unit) cloudAccountConfig" where
  "nw_account = \<lparr>acc_namespacedName = \<lparr>nn_Namespace = ''ns'', nn_Name = ''a''\<rparr>, credentials = (),
     serviceConfigs = [(azureComputeServiceNameCompute, nw_service)],
     inventoryPollInterval = 60, inventory_polling = False, Status_Error = []\<rparr>"

definition nw_accounts :: "(Interface list, unit) azure_accounts" where
  "nw_accounts = [(\<lparr>nn_Namespace = ''ns'', nn_Name = ''a''\<rparr>, nw_account)]"

lemma nw_serves: "serves_nics (az_clients nw_service) (\<lambda>c. c)"
  by (simp add: serves_nics_def nw_service_def nw_clients_def)

lemma nw_account_found:
  "getVnetAccount in_order vn_id nw_accounts = Some nw_account" "GetServiceConfigByName azureComputeServiceNameCompute nw_account = Inr nw_service"
  "\<not> ifPeerProcessing vn_id nw_service"
proof -
  have "ToLower vn_id = vn_id" by code_simp
  then show "getVnetAccount in_order vn_id nw_accounts = Some nw_account" "GetServiceConfigByName azureComputeServiceNameCompute nw_account = Inr nw_service"
    by (simp_all add: getVnetAccount_def nw_accounts_def nw_account_def GetServiceConfigByName_def nw_service_def getCachedVnetIDs_def has_key_def)
  show "\<not> ifPeerProcessing vn_id nw_service"
    by (simp add: ifPeerProcessing_def getVnetPeers_def nw_service_def get_or_def)
qed

definition nw_members :: "CloudResource list" where
  "nw_members = [\<lparr>rsc_Type = CloudResourceTypeVM, rsc_Name = \<lparr>id_Name = ''vm-n1'', id_Vpc = vn_id\<rparr>\<rparr>]"

definition nw_before :: "string \<Rightarrow> string list \<Rightarrow> Interface list" where
  "nw_before name tags = [nw_nic ''n1'' [] [], nw_nic ''n2'' [nw_asg name] tags]"

lemma nw_table: "getNetworkInterfacesOfVnet in_order nw_service [(vn_id, ())] c = Inr (map nw_row c)"
proof -
  have "case getNwIntfsByVnetIDsAndSubscriptionIDsAndTenantIDsAndLocationsMatchQuery [vn_id] [''s''] [''t''] [''r''] of Inl _ \<Rightarrow> False | Inr _ \<Rightarrow> True"
    by code_simp
  then show ?thesis by (simp add: getNetworkInterfacesOfVnet_def nw_service_def nw_clients_def Let_def split: sum.splits)
qed

lemma nw_fields: "extractFieldsFromAzureResourceID vn_id = Inr (''s'', ''g'', ''v1'')"
  by code_simp

text \<open>The same facts for a group of the network.\<close>

lemma nw_request:
  "getVnetAccount in_order (id_Vpc \<lparr>id_Name = name, id_Vpc = vn_id\<rparr>) nw_accounts = Some nw_account"
  "extractFieldsFromAzureResourceID (id_Vpc \<lparr>id_Name = name, id_Vpc = vn_id\<rparr>) = Inr (''s'', ''g'', ''v1'')"
  "\<not> ifPeerProcessing (id_Vpc \<lparr>id_Name = name, id_Vpc = vn_id\<rparr>) nw_service"
  "getNetworkInterfacesOfVnet in_order nw_service [(id_Vpc \<lparr>id_Name = name, id_Vpc = vn_id\<rparr>, ())] c = Inr (map nw_row c)"
  by (simp_all add: nw_account_found nw_fields nw_table)

lemma nw_row_of: "row_of (nw_row n) n" "row_key (nw_row n) = nic_key n"
  by (auto simp: row_of_def nw_row_def nic_asgs_def row_key_def nic_key_def image_image)

lemma nw_describes: "inj_on nic_key (set c) \<Longrightarrow> distinct c \<Longrightarrow> describes (map nw_row c) c"
  by (auto simp: describes_def distinct_map comp_def nw_row_of inj_on_def)

lemma nw_nic_key: "nic_key (nw_nic ''n1'' asgs tags) = nw_id ''networkinterfaces'' ''n1''" "nic_key (nw_nic ''n2'' asgs tags) = nw_id ''networkinterfaces'' ''n2''"
proof -
  have "ToLower (nw_id ''networkinterfaces'' ''n1'') = nw_id ''networkinterfaces'' ''n1''" "ToLower (nw_id ''networkinterfaces'' ''n2'') = nw_id ''networkinterfaces'' ''n2''"
    by code_simp+
  then show "nic_key (nw_nic ''n1'' asgs tags) = nw_id ''networkinterfaces'' ''n1''" "nic_key (nw_nic ''n2'' asgs tags) = nw_id ''networkinterfaces'' ''n2''"
    by (simp_all add: nic_key_def nw_nic_def)
qed

lemma nw_before_wf:
  "wf_nics (nw_before name tags)" "\<forall>n \<in> set (nw_before name tags). has_primary n"
  "describes (map nw_row (nw_before name tags)) (nw_before name tags)"
proof -
  have ids: "nw_id ''networkinterfaces'' ''n1'' \<noteq> nw_id ''networkinterfaces'' ''n2''" by (simp add: nw_id_def)
  then have inj: "inj_on nic_key (set (nw_before name tags))" by (auto simp: nw_before_def nw_nic_key inj_on_def)
  have "extractFieldsFromAzureResourceID (nw_id ''networkinterfaces'' ''n1'') = Inr (''s'', ''g'', ''n1'')"
      "extractFieldsFromAzureResourceID (nw_id ''networkinterfaces'' ''n2'') = Inr (''s'', ''g'', ''n2'')" by code_simp+
  then show "wf_nics (nw_before name tags)" using inj by (simp add: wf_nics_def nw_before_def nic_wf_def nw_nic_def)
  show "\<forall>n \<in> set (nw_before name tags). has_primary n" by (simp add: nw_before_def has_primary_def nw_nic_def)
  have "distinct (nw_before name tags)" using ids nw_nic_key by (simp add: nw_before_def) metis
  then show "describes (map nw_row (nw_before name tags)) (nw_before name tags)" by (rule nw_describes [OF inj])
qed

lemma nw_vm_of:
  defines "rows \<equiv> \<lambda>name tags. [nw_row (nw_nic ''n1'' [] []), nw_row (nw_nic ''n2'' [nw_asg name] tags)]"
  shows "vm_of (rows name tags) (nw_nic ''n1'' [] []) = Some ''vm-n1''" "vm_of (rows name tags) (nw_nic ''n2'' [nw_asg name] tags) = Some ''vm-n2''"
proof -
  have "last (Split (nw_id ''networkinterfaces'' ''n1'') (CHR ''/'')) = ''n1''" "last (Split (nw_id ''networkinterfaces'' ''n2'') (CHR ''/'')) = ''n2''"
    by code_simp+
  then have "attached_vm (nw_row (nw_nic ''n1'' [] [])) = Some ''vm-n1''" "attached_vm (nw_row (nw_nic ''n2'' [nw_asg name] tags)) = Some ''vm-n2''"
    by (simp_all add: attached_vm_def nw_row_def nw_nic_def)
  moreover have "vm_of (rows name tags) n = attached_vm (nw_row n)" if "n \<in> set (nw_before name tags)" for n
    using vm_of_row [OF nw_before_wf(3), of "nw_row n" name tags n] nw_row_of(2) that by (auto simp: rows_def nw_before_def)
  ultimately show "vm_of (rows name tags) (nw_nic ''n1'' [] []) = Some ''vm-n1''" "vm_of (rows name tags) (nw_nic ''n2'' [nw_asg name] tags) = Some ''vm-n2''"
    by (simp_all add: nw_before_def)
qed

lemma nw_is_member:
  "is_member nw_members (ToLower ''vm-n1'') k" "is_member nw_members (ToLower ''vm-n2'') k \<longleftrightarrow> False"
proof -
  have "ToLower ''vm-n1'' = ''vm-n1''" "ToLower ''vm-n2'' = ''vm-n2''" by code_simp+
  then show "is_member nw_members (ToLower ''vm-n1'') k" "is_member nw_members (ToLower ''vm-n2'') k \<longleftrightarrow> False"
    by (simp_all add: is_member_def nw_members_def CloudResourceTypeVM_def CloudResourceTypeNIC_def)
qed

lemma nw_nic_asgs: "nic_asgs (nw_nic m asgs tags) = (\<lambda>asg. ToLower (asg_ID asg)) ` set asgs"
  by (simp add: nic_asgs_def nw_nic_def)

theorem azure_members_enforced_witness:
  "\<exists>c'. run_state (azure_UpdateSecurityGroupMembers in_order nw_accounts \<lparr>id_Name = ''db'', id_Vpc = vn_id\<rparr> nw_members True)
       (nw_before ''nephe-ag-db'' []) = (Returns (Inr ()), c') \<and>
     map nic_asgs c' = [{nw_id ''applicationsecuritygroups'' ''nephe-ag-db''}, {}]"
proof -
  let ?gid = "\<lparr>id_Name = ''db'', id_Vpc = vn_id\<rparr>" and ?c = "nw_before ''nephe-ag-db'' []" and ?asg = "nw_asg ''nephe-ag-db''"
  have name: "GetCloudName ?gid True = ''nephe-ag-db''" by code_simp
  have lower: "ToLower (asg_ID ?asg) = nw_id ''applicationsecuritygroups'' ''nephe-ag-db''" by code_simp
  have "extractFieldsFromAzureResourceID (nw_id ''applicationsecuritygroups'' ''nephe-ag-db'') = Inr (''s'', ''g'', ''nephe-ag-db'')" by code_simp
  then have named: "named ?asg (GetCloudName ?gid True) ?c" by (simp add: named_def name lower nw_before_def nw_nic_asgs)
  have asg: "asg_get (az_clients nw_service) ''g'' (GetCloudName ?gid True) ?c = Inr ?asg"
    by (simp add: nw_service_def nw_clients_def name)
  obtain c' where c': "run_state (azure_UpdateSecurityGroupMembers in_order nw_accounts ?gid nw_members True) ?c = (Returns (Inr ()), c')"
      "list_all2 (\<lambda>n n'. nic_ID n' = nic_ID n \<and> nic_NSG n' = nic_NSG n \<and> nic_Tags n' = nic_Tags n \<and>
        nic_asgs n' = (case vm_of (map nw_row ?c) n of
          None \<Rightarrow> nic_asgs n
        | Some vm \<Rightarrow> if is_member nw_members (ToLower vm) (nic_key n) then insert (ToLower (asg_ID ?asg)) (nic_asgs n)
            else nic_asgs n - {ToLower (asg_ID ?asg)})) ?c c'"
    using azure_members_enforced [where nics = "\<lambda>c. c" and members = nw_members, OF is_order_in_order nw_request(1) nw_account_found(2)
        nw_request(2-4) nw_before_wf(3) nw_serves nw_before_wf(1,2) asg named] by blast
  then obtain n1 n2 where "c' = [n1, n2]" by (auto simp: nw_before_def list_all2_Cons1)
  with c' show ?thesis
    by (simp add: nw_before_def [of "''nephe-ag-db''" "[]"] nw_vm_of nw_is_member nw_nic_asgs lower)
qed

theorem azure_applied_enforced_witness:
  "\<exists>n1 n2. run_state (azure_UpdateSecurityGroupMembers in_order nw_accounts \<lparr>id_Name = ''web'', id_Vpc = vn_id\<rparr> nw_members False)
       (nw_before ''nephe-at-web'' [''nephe-at-web'', ''nephe-at-db'']) = (Returns (Inr ()), [n1, n2]) \<and>
     in_group (perVnetNsgName vn_id) ''nephe-at-web'' n1 \<and> \<not> in_group (perVnetNsgName vn_id) ''nephe-at-web'' n2 \<and>
     in_group (perVnetNsgName vn_id) ''nephe-at-db'' n2"
proof -
  let ?gid = "\<lparr>id_Name = ''web'', id_Vpc = vn_id\<rparr>" and ?tags = "[''nephe-at-web'', ''nephe-at-db'']"
  let ?c = "nw_before ''nephe-at-web'' ?tags" and ?asg = "nw_asg ''nephe-at-web''" and ?nsg = "perVnetNsgName vn_id"
  have name: "GetCloudName ?gid False = ''nephe-at-web''" by code_simp
  have lower: "ToLower (asg_ID ?asg) = nw_id ''applicationsecuritygroups'' ''nephe-at-web''" by code_simp
  have nsg: "nsg_get (az_clients nw_service) ''g'' (perVnetNsgName (id_Vpc ?gid)) ?c = Inr nw_nsg"
      "nsg_ID nw_nsg = Some (nw_id ''networksecuritygroups'' ''nephe-at-per-vnet-default-v1'')"
    by (simp_all add: nw_service_def nw_clients_def nw_nsg_def)
  have "extractFieldsFromAzureResourceID (ToLower (nw_id ''networksecuritygroups'' ''nephe-at-per-vnet-default-v1'')) = Inr (''s'', ''g'', ?nsg)"
    by code_simp
  then have fields: "extractFieldsFromAzureResourceID (ToLower (nw_id ''networksecuritygroups'' ''nephe-at-per-vnet-default-v1'')) =
      Inr (''s'', ''g'', perVnetNsgName (id_Vpc ?gid))" by simp
  have wf: "wf_nsgs ?c" using fields nsg(2) by (simp add: wf_nsgs_def nw_before_def nw_nic_def)
  have asg: "asg_get (az_clients nw_service) ''g'' (GetCloudName ?gid False) ?c = Inr ?asg"
    by (simp add: nw_service_def nw_clients_def name)
  have db: "in_group ?nsg t (nw_nic ''n2'' asgs ?tags)" if "t \<in> set ?tags" for t asgs
    using that fields nsg(2) by (auto simp: in_group_def under_nsg_def nic_tags_def nw_nic_def has_key_iff)
  have cons: "\<forall>n \<in> set ?c. in_group (perVnetNsgName (id_Vpc ?gid)) (GetCloudName ?gid False) n \<longleftrightarrow> ToLower (asg_ID ?asg) \<in> nic_asgs n"
    using db by (simp add: nw_before_def nw_nic_asgs name) (simp add: in_group_def under_nsg_def nw_nic_def)
  from azure_applied_enforced [where nics = "\<lambda>c. c" and members = nw_members, OF is_order_in_order nw_request(1) nw_account_found(2)
        nw_request(2-4) nw_before_wf(3) nw_serves nw_before_wf(1,2) wf nsg fields asg cons]
  obtain n1 n2 where c': "run_state (azure_UpdateSecurityGroupMembers in_order nw_accounts ?gid nw_members False) ?c = (Returns (Inr ()), [n1, n2])"
      "in_group ?nsg ''nephe-at-web'' n1" "\<not> in_group ?nsg ''nephe-at-web'' n2"
      "\<forall>key sgName ag. key \<noteq> ''nephe-at-web'' \<longrightarrow> IsNepheControllerCreatedSG key = (sgName, ag, True) \<longrightarrow>
         in_group ?nsg key (nw_nic ''n2'' [?asg] ?tags) \<longrightarrow> in_group ?nsg key n2"
    by (auto simp: name nw_before_def [of "''nephe-at-web''"] list_all2_Cons1 nw_vm_of nw_is_member)
  have other: "IsNepheControllerCreatedSG ''nephe-at-db'' = (''db'', False, True)" by code_simp
  have "in_group ?nsg ''nephe-at-db'' n2" by (rule c'(4) [rule_format, OF _ other db]) simp_all
  with c'(1-3) show ?thesis by blast
qed

end
