(* ===== verification/Aws_Filter.thy ===== *)
theory Aws_Filter
  imports Selector_Match
begin

text \<open>
  Selection of instances on AWS (\<^verbatim>\<open>pkg/cloud-provider/cloudapi/aws/aws_filter_helpers.go\<close>): the filters of a
  selector and what they select. Lists are sorted by \<^verbatim>\<open>strings.Compare\<close>, which makes the order in which Go
  ranges over a map irrelevant. A list of filter lists that is empty means no restriction.
\<close>

section \<open>Filters\<close>

record ec2_Filter =
  flt_Name :: string
  Values :: "string list"

definition awsFilterKeyVPCID :: string where "awsFilterKeyVPCID = ''vpc-id''"
definition awsFilterKeyVMID :: string where "awsFilterKeyVMID = ''instance-id''"
definition awsFilterKeyVMName :: string where "awsFilterKeyVMName = ''tag:Name''"
definition awsFilterKeyGroupName :: string where "awsFilterKeyGroupName = ''group-name''"
definition awsFilterKeyInstanceState :: string where "awsFilterKeyInstanceState = ''instance-state-code''"
definition awsCustomFilterKeyVPCName :: string where "awsCustomFilterKeyVPCName = ''vpc-name''"

lemmas filter_keys = awsFilterKeyVPCID_def awsFilterKeyVMID_def awsFilterKeyVMName_def awsFilterKeyGroupName_def
  awsFilterKeyInstanceState_def awsCustomFilterKeyVPCName_def

text \<open>Running, shutting down, stopped and stopping.\<close>

definition buildEc2FilterForValidInstanceStates :: ec2_Filter where
  "buildEc2FilterForValidInstanceStates = \<lparr>flt_Name = awsFilterKeyInstanceState, Values = [''16'', ''32'', ''80'', ''64'']\<rparr>"

definition buildAwsEc2FilterForVpcIDOnlyMatches :: "(string, unit) gomap \<Rightarrow> ec2_Filter list" where
  "buildAwsEc2FilterForVpcIDOnlyMatches vpcIDs =
     (if length vpcIDs = 0 then [] else [\<lparr>flt_Name = awsFilterKeyVPCID, Values = sort (map fst vpcIDs)\<rparr>])"

definition vpc_vm_filters :: "string \<Rightarrow> EntityMatch \<Rightarrow> ec2_Filter list" where
  "vpc_vm_filters vpcID vmMatch =
     [\<lparr>flt_Name = awsFilterKeyVPCID, Values = [vpcID]\<rparr>] @
     (if \<not> blank (MatchID vmMatch) then [\<lparr>flt_Name = awsFilterKeyVMID, Values = [MatchID vmMatch]\<rparr>] else []) @
     (if \<not> blank (MatchName vmMatch) then [\<lparr>flt_Name = awsFilterKeyVMName, Values = [MatchName vmMatch]\<rparr>] else []) @
     [buildEc2FilterForValidInstanceStates]"

text \<open>Every match in the list names a network, so its absence is never dereferenced.\<close>

definition buildAwsEc2FilterForVpcIDWithOtherMatches ::
    "VirtualMachineSelector list \<Rightarrow> (string, unit) gomap \<Rightarrow> ec2_Filter list list" where
  "buildAwsEc2FilterForVpcIDWithOtherMatches matches only = concat (map (\<lambda>match. case VpcMatch match of
       None \<Rightarrow> []
     | Some v \<Rightarrow> if has_key only (MatchID v) then [] else map (vpc_vm_filters (MatchID v)) (VMMatch match)) matches)"

definition buildAwsEc2FilterForVMIDOnlyMatches :: "EntityMatch list \<Rightarrow> ec2_Filter list" where
  "buildAwsEc2FilterForVMIDOnlyMatches matches = (if length matches = 0 then []
     else [\<lparr>flt_Name = awsFilterKeyVMID, Values = sort (map MatchID matches)\<rparr>, buildEc2FilterForValidInstanceStates])"

definition buildAwsEc2FilterForVMNameOnlyMatches :: "EntityMatch list \<Rightarrow> ec2_Filter list" where
  "buildAwsEc2FilterForVMNameOnlyMatches matches = (if length matches = 0 then []
     else [\<lparr>flt_Name = awsFilterKeyVMName, Values = sort (map MatchName matches)\<rparr>, buildEc2FilterForValidInstanceStates])"

definition buildAwsEc2FilterForVPCNameOnlyMatches :: "VirtualMachineSelector list \<Rightarrow> ec2_Filter list" where
  "buildAwsEc2FilterForVPCNameOnlyMatches matches = (if length matches = 0 then []
     else [\<lparr>flt_Name = awsCustomFilterKeyVPCName,
             Values = sort (map (\<lambda>s. case VpcMatch s of None \<Rightarrow> [] | Some v \<Rightarrow> MatchName v) matches)\<rparr>,
           buildEc2FilterForValidInstanceStates])"

text \<open>A name the map does not have reads as the empty string.\<close>

definition buildFilterForVPCIDFromFilterForVPCName :: "ec2_Filter list \<Rightarrow> (string, string) gomap \<Rightarrow> ec2_Filter list" where
  "buildFilterForVPCIDFromFilterForVPCName filters vpcNameToID = (if length filters = 0 then []
     else [\<lparr>flt_Name = awsFilterKeyVPCID,
             Values = sort (concat (map (\<lambda>f. if flt_Name f \<noteq> awsFilterKeyInstanceState
               then map (\<lambda>n. case map_of vpcNameToID n of None \<Rightarrow> [] | Some i \<Rightarrow> i) (Values f) else []) filters))\<rparr>,
           buildEc2FilterForValidInstanceStates])"

definition buildAwsEc2FilterForSecurityGroupNameMatches :: "order \<Rightarrow> string list \<Rightarrow> (string, unit) gomap \<Rightarrow> ec2_Filter list" where
  "buildAwsEc2FilterForSecurityGroupNameMatches ord vpcIDs cloudSGNames =
     [\<lparr>flt_Name = awsFilterKeyVPCID, Values = vpcIDs\<rparr>,
      \<lparr>flt_Name = awsFilterKeyGroupName, Values = map fst (range_map ord cloudSGNames)\<rparr>]"

definition aws_group_match :: "VirtualMachineSelector \<Rightarrow> match_groups \<Rightarrow> match_groups option" where
  "aws_group_match match g =
     (let isVpcIDPresent = vpc_id match \<noteq> None; isVpcNamePresent = vpc_name match \<noteq> None
      in if \<not> isVpcIDPresent \<and> length (VMMatch match) = 0 \<and> \<not> isVpcNamePresent then None
         else let g1 = (case vpc_id match of
                    Some i \<Rightarrow> if length (VMMatch match) = 0
                      then g\<lparr>vpcIDsWithVpcIDOnlyMatches := put i () (vpcIDsWithVpcIDOnlyMatches g)\<rparr> else g
                  | None \<Rightarrow> g);
                  g2 = (if isVpcNamePresent \<and> length (VMMatch match) = 0 \<and> \<not> isVpcIDPresent
                    then g1\<lparr>vpcNameOnlyMatches := vpcNameOnlyMatches g1 @ [match]\<rparr> else g1)
              in Some (group_vm_matches match (VMMatch match) g2))"

definition nonempty :: "'a list \<Rightarrow> 'a list list" where
  "nonempty xs = (if xs = [] then [] else [xs])"

definition group_filters :: "match_groups \<Rightarrow> ec2_Filter list list" where
  "group_filters g =
     (let vpcIDOnly = buildAwsEc2FilterForVpcIDOnlyMatches (vpcIDsWithVpcIDOnlyMatches g)
      in (if vpcIDOnly \<noteq> [] then [vpcIDOnly @ [buildEc2FilterForValidInstanceStates]] else []) @
         buildAwsEc2FilterForVpcIDWithOtherMatches (vpcIDWithOtherMatches g) (vpcIDsWithVpcIDOnlyMatches g) @
         nonempty (buildAwsEc2FilterForVMIDOnlyMatches (vmIDOnlyMatches g)) @
         nonempty (buildAwsEc2FilterForVMNameOnlyMatches (vmNameOnlyMatches g)) @
         nonempty (buildAwsEc2FilterForVPCNameOnlyMatches (vpcNameOnlyMatches g)))"

definition buildEc2Filters :: "VirtualMachineSelector list \<Rightarrow> ec2_Filter list list" where
  "buildEc2Filters vmSelector = (case group_matches aws_group_match vmSelector no_matches of
     None \<Rightarrow> []
   | Some g \<Rightarrow> group_filters g)"

definition convertSelectorToEC2InstanceFilters :: "CloudEntitySelector option \<Rightarrow> ec2_Filter list list \<times> bool" where
  "convertSelectorToEC2InstanceFilters selector = (case selector of
     None \<Rightarrow> ([], False)
   | Some s \<Rightarrow> (buildEc2Filters (VMSelector s), True))"

section \<open>Grouping\<close>

definition aws_ok :: "VirtualMachineSelector \<Rightarrow> bool" where
  "aws_ok s \<longleftrightarrow> (vpc_id s = None \<or> vpc_name s = None) \<and> (\<forall>e \<in> set (VMMatch s). plain_vm e) \<and>
     (vpc_name s = None \<or> VMMatch s = [])"

lemma aws_group_machines:
  assumes "aws_ok s" "aws_group_match s g = Some g'" "VMMatch s \<noteq> []"
  shows "g' = group_vm_matches s (VMMatch s) g" "\<forall>e \<in> set (VMMatch s). plain_vm e" "vpc_name s = None"
  using assms by (auto simp: aws_group_match_def aws_ok_def Let_def split: if_splits option.splits)

interpretation aws_sel: selector_grouping aws_group_match aws_ok
proof
  fix s g m
  assume "aws_ok s" "aws_group_match s g = None"
  then show "selects m s"
    by (auto simp: aws_group_match_def selects_plain Let_def split: if_splits)
next
  fix s g g' m
  assume ok: "aws_ok s" and one: "aws_group_match s g = Some g'"
  show "groups_select m g' \<longleftrightarrow> groups_select m g \<or> selects m s"
  proof (cases "VMMatch s = []")
    case True
    with ok one show ?thesis
      by (auto simp: aws_group_match_def aws_ok_def Let_def groups_select_def selects_plain split: if_splits option.splits) blast
  next
    case False
    from aws_group_machines [OF ok one False] group_vm_selects(1) [OF False] show ?thesis by simp
  qed
next
  fix s g g'
  assume ok: "aws_ok s" and wf: "wf_groups g" and one: "aws_group_match s g = Some g'"
  show "wf_groups g'"
  proof (cases "VMMatch s = []")
    case True
    with ok wf one show ?thesis
      by (auto simp: aws_group_match_def aws_ok_def Let_def wf_groups_def split: if_splits option.splits)
  next
    case False
    from aws_group_machines [OF ok one False] group_vm_selects(2) [OF False] wf show ?thesis by simp
  qed
qed

end
