(* ===== verification/Aws_Rules.thy ===== *)
theory Aws_Rules
  imports Security_Group
begin

text \<open>
  Translation of rules to the permissions of EC2 security groups and back
  (\<^verbatim>\<open>pkg/cloud-provider/cloudapi/aws/aws_converters.go\<close> and the loops of \<^verbatim>\<open>realizeIngressIPPermissions\<close> and
  \<^verbatim>\<open>realizeEgressIPPermissions\<close> in \<^verbatim>\<open>aws_security.go\<close>), with what a permission lets through. The fields EC2 fills in every
  object are plain values. A missing security group is dereferenced by the code; \<open>None\<close> is the panic.
\<close>

section \<open>Permissions and groups\<close>

record ec2_IpPermission =
  perm_FromPort :: "int option"
  perm_ToPort :: "int option"
  IpProtocol :: string
  IpRanges :: "string list"
  UserIdGroupPairs :: "string list"

record ec2_SecurityGroup =
  GroupId :: string
  GroupName :: string
  sg_VpcId :: string
  IpPermissions :: "ec2_IpPermission list"
  IpPermissionsEgress :: "ec2_IpPermission list"

definition awsAnyProtocolValue :: string where "awsAnyProtocolValue = ''-1''"
definition tcpUDPPortStart :: int where "tcpUDPPortStart = 0"
definition tcpUDPPortEnd :: int where "tcpUDPPortEnd = 65535"

section \<open>To EC2\<close>

definition convertToIPPermissionProtocol :: "int option \<Rightarrow> string" where
  "convertToIPPermissionProtocol protocol = (case protocol of None \<Rightarrow> awsAnyProtocolValue | Some p \<Rightarrow> Itoa p)"

definition convertToIPPermissionPort :: "int option \<Rightarrow> int option \<Rightarrow> int option \<times> int option" where
  "convertToIPPermissionPort port protocol = (case port of
     None \<Rightarrow> if protocol = Some 6 \<or> protocol = Some 17 then (Some tcpUDPPortStart, Some tcpUDPPortEnd) else (None, None)
   | Some p \<Rightarrow> (Some p, Some p))"

definition convertToEc2IpRanges :: "IPNet list \<Rightarrow> bool \<Rightarrow> string list" where
  "convertToEc2IpRanges ips ruleHasGroups =
     (if length ips = 0 \<and> \<not> ruleHasGroups then [''0.0.0.0/0''] else map IPNet_String ips)"

type_synonym sg_map = "(string, ec2_SecurityGroup) gomap"

definition buildEc2UserIDGroupPairs :: "CloudResourceID list \<Rightarrow> sg_map \<Rightarrow> string list option" where
  "buildEc2UserIDGroupPairs ids cloudSGNameToObj =
     those (map (\<lambda>i. map_option GroupId (map_of cloudSGNameToObj (GetCloudName i True))) ids)"

definition build_permission ::
    "sg_map \<Rightarrow> int option \<Rightarrow> int option \<Rightarrow> IPNet list \<Rightarrow> CloudResourceID list \<Rightarrow> ec2_IpPermission option" where
  "build_permission cloudSGNameToObj port protocol ips groups =
     (case buildEc2UserIDGroupPairs groups cloudSGNameToObj of
        None \<Rightarrow> None
      | Some idGroupPairs \<Rightarrow> (case convertToIPPermissionPort port protocol of (startPort, endPort) \<Rightarrow>
          Some \<lparr>perm_FromPort = startPort, perm_ToPort = endPort, IpProtocol = convertToIPPermissionProtocol protocol,
            IpRanges = convertToEc2IpRanges ips (length groups > 0), UserIdGroupPairs = idGroupPairs\<rparr>))"

text \<open>Nil rules are skipped.\<close>

definition rules_given :: "'r option list \<Rightarrow> 'r list" where
  "rules_given rules = concat (map (\<lambda>r. case r of None \<Rightarrow> [] | Some x \<Rightarrow> [x]) rules)"

definition ingress_permissions :: "sg_map \<Rightarrow> IngressRule option list \<Rightarrow> ec2_IpPermission list option" where
  "ingress_permissions sgs rules =
     those (map (\<lambda>r. build_permission sgs (FromPort r) (in_Protocol r) (FromSrcIP r) (FromSecurityGroups r)) (rules_given rules))"

definition egress_permissions :: "sg_map \<Rightarrow> EgressRule option list \<Rightarrow> ec2_IpPermission list option" where
  "egress_permissions sgs rules =
     those (map (\<lambda>r. build_permission sgs (ToPort r) (eg_Protocol r) (ToDstIP r) (ToSecurityGroups r)) (rules_given rules))"

section \<open>From EC2\<close>

definition convertFromIPRange :: "string list \<Rightarrow> IPNet list" where
  "convertFromIPRange ipRanges = concat (map (\<lambda>r. case ParseCIDR r of None \<Rightarrow> [] | Some ipNet \<Rightarrow> [ipNet]) ipRanges)"

definition convertFromSecurityGroupPair :: "string list \<Rightarrow> sg_map \<Rightarrow> sg_map \<Rightarrow> CloudResourceID list" where
  "convertFromSecurityGroupPair cloudGroups managedSGs unmanagedSGs = map (\<lambda>g.
     let res = (case map_of managedSGs g of
            None \<Rightarrow> \<lparr>id_Name = [], id_Vpc = []\<rparr>
          | Some sg \<Rightarrow> \<lparr>id_Name = fst (IsNepheControllerCreatedSG (GroupName sg)), id_Vpc = sg_VpcId sg\<rparr>)
     in case map_of unmanagedSGs g of
          None \<Rightarrow> res
        | Some sg \<Rightarrow> \<lparr>id_Name = GroupName sg, id_Vpc = sg_VpcId sg\<rparr>) cloudGroups"

definition convertFromIPPermissionPort :: "int option \<Rightarrow> int option \<Rightarrow> int option" where
  "convertFromIPPermissionPort startPort endPort = (case startPort of
     None \<Rightarrow> None
   | Some s \<Rightarrow> (case endPort of
       None \<Rightarrow> Some s
     | Some e \<Rightarrow> if s = -1 then None else if s = e then Some s else None))"

definition convertFromIPPermissionProtocol :: "string \<Rightarrow> int option" where
  "convertFromIPPermissionProtocol proto =
     (if proto = awsAnyProtocolValue then None else Some (get_or 0 ProtocolNameNumMap (ToLower proto)))"

definition convertFromIPPermissionToIngressRule :: "ec2_IpPermission list \<Rightarrow> sg_map \<Rightarrow> sg_map \<Rightarrow> IngressRule list" where
  "convertFromIPPermissionToIngressRule perms managedSGs unmanagedSGs = map (\<lambda>p.
     \<lparr>FromPort = convertFromIPPermissionPort (perm_FromPort p) (perm_ToPort p), FromSrcIP = convertFromIPRange (IpRanges p),
      FromSecurityGroups = convertFromSecurityGroupPair (UserIdGroupPairs p) managedSGs unmanagedSGs,
      in_Protocol = convertFromIPPermissionProtocol (IpProtocol p)\<rparr>) perms"

definition convertFromIPPermissionToEgressRule :: "ec2_IpPermission list \<Rightarrow> sg_map \<Rightarrow> sg_map \<Rightarrow> EgressRule list" where
  "convertFromIPPermissionToEgressRule perms managedSGs unmanagedSGs = map (\<lambda>p.
     \<lparr>ToPort = convertFromIPPermissionPort (perm_FromPort p) (perm_ToPort p), ToDstIP = convertFromIPRange (IpRanges p),
      ToSecurityGroups = convertFromSecurityGroupPair (UserIdGroupPairs p) managedSGs unmanagedSGs,
      eg_Protocol = convertFromIPPermissionProtocol (IpProtocol p)\<rparr>) perms"

section \<open>Meaning of a permission\<close>

text \<open>
  As EC2 documents it: the protocol is \<open>-1\<close> for all protocols, in which case the ports do not count, or a number;
  without ports all of them fit; the peer has an address in a range or is in one of the groups.
\<close>

definition permission_permits :: "ec2_IpPermission \<Rightarrow> int \<Rightarrow> int \<Rightarrow> ip4 \<Rightarrow> string set \<Rightarrow> bool" where
  "permission_permits p port proto a ids \<longleftrightarrow>
     (IpProtocol p = awsAnyProtocolValue \<or>
      IpProtocol p = Itoa proto \<and>
      (case (perm_FromPort p, perm_ToPort p) of (Some s, Some e) \<Rightarrow> s \<le> port \<and> port \<le> e | _ \<Rightarrow> True)) \<and>
     ((\<exists>r \<in> set (IpRanges p). \<exists>n. ParseCIDR r = Some n \<and> a \<in> addresses n) \<or> ids \<inter> set (UserIdGroupPairs p) \<noteq> {})"

text \<open>The address groups of a peer in terms of the EC2 groups its interfaces are in.\<close>

definition ec2_groups :: "sg_map \<Rightarrow> string set \<Rightarrow> CloudResourceID set" where
  "ec2_groups sgs ids = {i. \<exists>sg. map_of sgs (GetCloudName i True) = Some sg \<and> GroupId sg \<in> ids}"

definition valid_port :: "int option \<Rightarrow> int option \<Rightarrow> bool" where
  "valid_port port protocol \<longleftrightarrow> port = None \<or> protocol \<noteq> None"

lemma those_map_Some: "those (map f xs) = Some ys \<longleftrightarrow> map f xs = map Some ys"
  by (induction xs arbitrary: ys) (auto split: option.splits)

lemma group_pairs_ids:
  assumes "buildEc2UserIDGroupPairs gs sgs = Some pairs"
  shows "ids \<inter> set pairs \<noteq> {} \<longleftrightarrow> ec2_groups sgs ids \<inter> set gs \<noteq> {}"
proof -
  let ?f = "\<lambda>i. map_option GroupId (map_of sgs (GetCloudName i True))"
  have "?f ` set gs = Some ` set pairs"
    using assms by (simp add: buildEc2UserIDGroupPairs_def those_map_Some flip: set_map)
  then have "x \<in> set pairs \<longleftrightarrow> (\<exists>i \<in> set gs. ?f i = Some x)" for x by (metis (no_types, lifting) image_iff option.inject)
  then show ?thesis by (auto simp: ec2_groups_def set_eq_iff)
qed

lemma any_range: "ParseCIDR ''0.0.0.0/0'' = Some \<lparr>IP = V4 0, Mask = Some 0\<rparr>"
proof -
  have "nat_string 0 = ''0''" by code_simp
  then have "IPNet_String \<lparr>IP = V4 0, Mask = Some 0\<rparr> = ''0.0.0.0/0''"
    by (simp add: IPNet_String_def ip_string_def ip_octets_def)
  moreover have "masked \<lparr>IP = V4 0, Mask = Some 0\<rparr> = \<lparr>IP = V4 0, Mask = Some 0\<rparr>" by (simp add: masked_def)
  ultimately show ?thesis using ParseCIDR_String [of "\<lparr>IP = V4 0, Mask = Some 0\<rparr>"] by (simp add: valid_net_def)
qed

lemma any_range_addresses: "addresses \<lparr>IP = V4 0, Mask = Some 0\<rparr> = UNIV"
proof -
  have "a AND mask32 0 = 0" for a by (rule bit_word_eqI) (simp add: mask32_def bit_simps)
  then show ?thesis by (simp add: addresses_def IPNet_Contains_def)
qed

lemma ranges_match:
  assumes "\<forall>n \<in> set ips. valid_net n"
  shows "(\<exists>r \<in> set (convertToEc2IpRanges ips (length gs > 0)). \<exists>n. ParseCIDR r = Some n \<and> a \<in> addresses n) \<longleftrightarrow>
    ips = [] \<and> gs = [] \<or> a \<in> \<Union> (addresses ` set ips)"
  using assms by (cases "ips = [] \<and> gs = []")
    (auto simp: convertToEc2IpRanges_def any_range any_range_addresses ParseCIDR_String)

lemma protocol_match:
  assumes "\<forall>p. protocol = Some p \<longrightarrow> 0 \<le> p" "0 \<le> port" "port \<le> 65535" "valid_port rport protocol"
    and "convertToIPPermissionPort rport protocol = (s, e)"
  shows "convertToIPPermissionProtocol protocol = awsAnyProtocolValue \<or>
      convertToIPPermissionProtocol protocol = Itoa proto \<and>
      (case (s, e) of (Some s, Some e) \<Rightarrow> s \<le> port \<and> port \<le> e | _ \<Rightarrow> True) \<longleftrightarrow>
    matches_opt rport port \<and> matches_opt protocol proto"
proof -
  have any: "Itoa p \<noteq> awsAnyProtocolValue" if "0 \<le> p" for p
  proof
    assume "Itoa p = awsAnyProtocolValue"
    moreover have "awsAnyProtocolValue = Itoa (-1)" by code_simp
    ultimately have "p = -1" by (intro Itoa_inject [THEN iffD1]) (rule trans)
    with that show False by simp
  qed
  show ?thesis
    using assms any
    by (cases protocol; cases rport)
      (auto simp: convertToIPPermissionProtocol_def convertToIPPermissionPort_def matches_opt_def valid_port_def
        tcpUDPPortStart_def tcpUDPPortEnd_def split: if_splits)
qed

lemma build_permission_permits:
  assumes "build_permission sgs rport protocol ips gs = Some p" "\<forall>n \<in> set ips. valid_net n"
    and "\<forall>q. protocol = Some q \<longrightarrow> 0 \<le> q" "valid_port rport protocol" "0 \<le> port" "port \<le> 65535"
  shows "permission_permits p port proto a ids \<longleftrightarrow>
    matches_opt rport port \<and> matches_opt protocol proto \<and> peer_matches ips gs a (ec2_groups sgs ids)"
proof -
  obtain pairs where pairs: "buildEc2UserIDGroupPairs gs sgs = Some pairs"
    using assms(1) by (auto simp: build_permission_def split: option.splits)
  obtain s e where se: "convertToIPPermissionPort rport protocol = (s, e)" by fastforce
  have p: "p = \<lparr>perm_FromPort = s, perm_ToPort = e, IpProtocol = convertToIPPermissionProtocol protocol,
      IpRanges = convertToEc2IpRanges ips (length gs > 0), UserIdGroupPairs = pairs\<rparr>"
    using assms(1) by (simp add: build_permission_def pairs se)
  show ?thesis
    unfolding permission_permits_def p ec2_IpPermission.simps ranges_match [OF assms(2)] group_pairs_ids [OF pairs]
      protocol_match [OF assms(3,5,6,4) se] by (auto simp: peer_matches_def)
qed

section \<open>The permissions of a group\<close>

definition valid_rule :: "IPNet list \<Rightarrow> int option \<Rightarrow> int option \<Rightarrow> bool" where
  "valid_rule ips port protocol \<longleftrightarrow> list_all valid_net ips \<and> valid_port port protocol \<and> (\<forall>q. protocol = Some q \<longrightarrow> 0 \<le> q)"

lemma rules_given_iff: "r \<in> set (rules_given rules) \<longleftrightarrow> Some r \<in> set rules"
  by (auto simp: rules_given_def split: option.splits)

lemma permissions_permit:
  assumes "those (map (\<lambda>r. build_permission sgs (rport r) (rproto r) (ips r) (gs r)) rs) = Some perms"
    and "\<And>r. r \<in> set rs \<Longrightarrow> valid_rule (ips r) (rport r) (rproto r)" "0 \<le> port" "port \<le> 65535"
  shows "(\<exists>p \<in> set perms. permission_permits p port proto a ids) \<longleftrightarrow>
    (\<exists>r \<in> set rs. matches_opt (rport r) port \<and> matches_opt (rproto r) proto \<and> peer_matches (ips r) (gs r) a (ec2_groups sgs ids))"
proof -
  let ?b = "\<lambda>r. build_permission sgs (rport r) (rproto r) (ips r) (gs r)"
  have img: "?b ` set rs = Some ` set perms" using assms(1) by (simp add: those_map_Some flip: set_map)
  have one: "permission_permits p port proto a ids \<longleftrightarrow>
      matches_opt (rport r) port \<and> matches_opt (rproto r) proto \<and> peer_matches (ips r) (gs r) a (ec2_groups sgs ids)"
    if "r \<in> set rs" "?b r = Some p" for r p
    using build_permission_permits [OF that(2)] assms(2) [OF that(1)] assms(3,4) by (simp add: valid_rule_def list_all_iff)
  have "p \<in> set perms \<longleftrightarrow> (\<exists>r \<in> set rs. ?b r = Some p)" for p using img by (metis (no_types, lifting) image_iff option.inject)
  moreover have "\<exists>p. ?b r = Some p" if "r \<in> set rs" for r using img that by (metis (no_types, lifting) image_iff)
  ultimately show ?thesis using one by meson
qed


definition example_sgs :: sg_map where
  "example_sgs = [(GetCloudName \<lparr>id_Name = ''db'', id_Vpc = ''vpc''\<rparr> True, \<lparr>GroupId = ''sg-1'',
     GroupName = GetCloudName \<lparr>id_Name = ''db'', id_Vpc = ''vpc''\<rparr> True, sg_VpcId = ''vpc'', IpPermissions = [], IpPermissionsEgress = []\<rparr>)]"

definition example_rule :: IngressRule where
  "example_rule = \<lparr>FromPort = Some 443, FromSrcIP = [], FromSecurityGroups = [\<lparr>id_Name = ''db'', id_Vpc = ''vpc''\<rparr>], in_Protocol = Some 6\<rparr>"

lemma example_permission:
  "ingress_permissions example_sgs [None, Some example_rule] = Some [\<lparr>perm_FromPort = Some 443, perm_ToPort = Some 443,
     IpProtocol = Itoa 6, IpRanges = [], UserIdGroupPairs = [''sg-1'']\<rparr>]"
  by (simp add: ingress_permissions_def rules_given_def example_rule_def build_permission_def buildEc2UserIDGroupPairs_def
      example_sgs_def convertToIPPermissionPort_def convertToIPPermissionProtocol_def convertToEc2IpRanges_def)


section \<open>Reading the rules back\<close>

text \<open>EC2 returns the names of the protocols it has names for, and the permissions otherwise as they were sent.\<close>

definition protocol_name :: "string \<Rightarrow> string" where
  "protocol_name s = (if s = Itoa 1 then ''icmp'' else if s = Itoa 6 then ''tcp'' else if s = Itoa 17 then ''udp'' else s)"

definition returned_by_ec2 :: "(ec2_IpPermission \<Rightarrow> ec2_IpPermission) \<Rightarrow> bool" where
  "returned_by_ec2 f \<longleftrightarrow> (\<forall>p. f p = p\<lparr>IpProtocol := protocol_name (IpProtocol p)\<rparr>)"

definition known_group :: "sg_map \<Rightarrow> sg_map \<Rightarrow> sg_map \<Rightarrow> CloudResourceID \<Rightarrow> ec2_SecurityGroup \<Rightarrow> bool" where
  "known_group sgs managed unmanaged g sg \<longleftrightarrow> map_of sgs (GetCloudName g True) = Some sg \<and>
     map_of managed (GroupId sg) = Some sg \<and> map_of unmanaged (GroupId sg) = None \<and> GroupName sg = GetCloudName g True"

lemma groups_back:
  assumes "buildEc2UserIDGroupPairs gs sgs = Some pairs" "\<forall>g \<in> set gs. \<exists>sg. known_group sgs managed unmanaged g sg \<and> sg_VpcId sg = id_Vpc g"
  shows "convertFromSecurityGroupPair pairs managed unmanaged = map (\<lambda>g. g\<lparr>id_Name := ToLower (id_Name g)\<rparr>) gs"
  using assms unfolding buildEc2UserIDGroupPairs_def those_map_Some
proof (induction gs arbitrary: pairs)
  case (Cons g gs)
  then obtain sg where "known_group sgs managed unmanaged g sg" "sg_VpcId sg = id_Vpc g" by auto
  moreover from this Cons.prems(1) obtain ps where "pairs = GroupId sg # ps"
      "map (\<lambda>i. map_option GroupId (map_of sgs (GetCloudName i True))) gs = map Some ps"
    by (auto simp: known_group_def)
  ultimately show ?case using Cons by (simp add: convertFromSecurityGroupPair_def known_group_def)
qed (simp add: convertFromSecurityGroupPair_def)

lemma ranges_back:
  assumes "list_all valid_net ips"
  shows "convertFromIPRange (convertToEc2IpRanges ips b) =
    (if ips = [] \<and> \<not> b then [\<lparr>IP = V4 0, Mask = Some 0\<rparr>] else map masked ips)"
proof -
  have "convertFromIPRange (map IPNet_String ips) = map masked ips"
    using assms by (induction ips) (simp_all add: convertFromIPRange_def ParseCIDR_String)
  then show ?thesis by (simp add: convertToEc2IpRanges_def convertFromIPRange_def any_range)
qed

lemma protocol_back:
  assumes "protocol \<in> {None, Some 1, Some 6, Some 17}"
  shows "convertFromIPPermissionProtocol (protocol_name (convertToIPPermissionProtocol protocol)) = protocol"
proof -
  have "convertFromIPPermissionProtocol ''icmp'' = Some 1" "convertFromIPPermissionProtocol ''tcp'' = Some 6"
      "convertFromIPPermissionProtocol ''udp'' = Some 17" "convertFromIPPermissionProtocol awsAnyProtocolValue = None"
      "protocol_name awsAnyProtocolValue = awsAnyProtocolValue"
      "protocol_name (Itoa 1) = ''icmp''" "protocol_name (Itoa 6) = ''tcp''" "protocol_name (Itoa 17) = ''udp''"
    by code_simp+
  then show ?thesis using assms by (auto simp: convertToIPPermissionProtocol_def)
qed

lemma port_back:
  assumes "port \<noteq> Some (-1)" "convertToIPPermissionPort port protocol = (s, e)"
  shows "convertFromIPPermissionPort s e = port"
  using assms by (auto simp: convertToIPPermissionPort_def convertFromIPPermissionPort_def tcpUDPPortStart_def tcpUDPPortEnd_def
      split: option.splits if_splits)



text \<open>A protocol without a name in the table is read back as protocol 0.\<close>

lemma protocol_by_number_is_lost: "convertFromIPPermissionProtocol (Itoa 132) = Some 0"
  by code_simp

end
