(* ===== verification/Aws_Ec2.thy ===== *)
theory Aws_Ec2
  imports Aws_Filter Aws_Rules Cloud_Accounts
begin

text \<open>
  The compute service of AWS (\<^verbatim>\<open>pkg/cloud-provider/cloudapi/aws/aws_ec2.go\<close>, \<^verbatim>\<open>aws_crd_helpers.go\<close>): the filters
  of the selectors, the inventory of instances and the virtual machines made of them. The calls of
  the EC2 client are a parameter. Fields that EC2 fills in every instance are plain values; the service runs in a
  VPC, so an instance has one.
\<close>

section \<open>Objects and client\<close>

record ec2_PrivateIp =
  PrivateIpAddress :: string
  Association :: "string option"

record ec2_InstanceNic =
  NetworkInterfaceId :: string
  MacAddress :: string
  PrivateIpAddresses :: "ec2_PrivateIp list"

record ec2_Instance =
  InstanceId :: string
  VpcId :: string
  ec2_Tags :: "(string \<times> string) list"
  StateCode :: string
  StateName :: string
  inst_NetworkInterfaces :: "ec2_InstanceNic list"

record ec2_Vpc =
  vpc_VpcId :: string
  vpc_Tags :: "(string \<times> string) list"

record ec2_NetworkInterface =
  eni_Id :: string
  eni_VpcId :: string
  eni_InstanceId :: "string option"
  eni_Groups :: "(string \<times> string) list"

text \<open>
  A network interface lists the identifiers and names of its groups, and the instance it is attached to. The last two
  fields describe the back-off library: how often a call is tried again within two seconds, and the passing of
  time between two attempts.
\<close>

record 'c ec2_client =
  pagedDescribeInstances :: "ec2_Filter list \<Rightarrow> 'c \<Rightarrow> go_error + ec2_Instance list"
  describeVpcs :: "'c \<Rightarrow> go_error + ec2_Vpc list"
  describeVpcPeeringConnections :: "'c \<Rightarrow> go_error + (string \<times> string) list"
  pagedDescribeNetworkInterfaces :: "ec2_Filter list \<Rightarrow> 'c \<Rightarrow> go_error + ec2_NetworkInterface list"
  modifyNetworkInterfaceAttribute :: "string \<Rightarrow> string list \<Rightarrow> 'c \<Rightarrow> error \<times> 'c"
  createSecurityGroup :: "string \<Rightarrow> string \<Rightarrow> 'c \<Rightarrow> (go_error + string) \<times> 'c"
  describeSecurityGroups :: "ec2_Filter list \<Rightarrow> 'c \<Rightarrow> go_error + ec2_SecurityGroup list"
  deleteSecurityGroup :: "string \<Rightarrow> 'c \<Rightarrow> error \<times> 'c"
  authorizeSecurityGroupEgress :: "string \<Rightarrow> ec2_IpPermission list \<Rightarrow> 'c \<Rightarrow> error \<times> 'c"
  authorizeSecurityGroupIngress :: "string \<Rightarrow> ec2_IpPermission list \<Rightarrow> 'c \<Rightarrow> error \<times> 'c"
  revokeSecurityGroupEgress :: "string \<Rightarrow> ec2_IpPermission list \<Rightarrow> 'c \<Rightarrow> error \<times> 'c"
  revokeSecurityGroupIngress :: "string \<Rightarrow> ec2_IpPermission list \<Rightarrow> 'c \<Rightarrow> error \<times> 'c"
  retries :: nat
  elapse :: "'c \<Rightarrow> 'c"

record ec2ResourcesCacheSnapshot =
  snap_instances :: "(string, ec2_Instance) gomap"
  snap_vpcIDs :: "(string, unit) gomap"
  vpcNameToID :: "(string, string) gomap"
  vpcPeers :: "(string, string list) gomap"

record 'c ec2ServiceConfig =
  accountName :: string
  apiClient :: "'c ec2_client"
  resourcesCache :: "ec2ResourcesCacheSnapshot option"
  inventoryStats :: CloudServiceStats
  instanceFilters :: "(string, ec2_Filter list list) gomap"

definition newEC2ServiceConfig :: "string \<Rightarrow> go_error + 'c ec2_client \<Rightarrow> go_error + 'c ec2ServiceConfig" where
  "newEC2ServiceConfig name client = (case client of
     Inl err \<Rightarrow> Inl (Err (''error creating ec2 sdk api client for account : '' @ name @ '', err: '' @ Error err))
   | Inr cl \<Rightarrow> Inr \<lparr>accountName = name, apiClient = cl, resourcesCache = None,
       inventoryStats = \<lparr>totalPollCnt = 0, successPollCnt = 0, lastPollErr = None\<rparr>, instanceFilters = []\<rparr>)"

section \<open>Filters\<close>

text \<open>No filters mean that nothing is fetched when no selector is configured, and everything otherwise.\<close>

definition getInstanceResourceFilters :: "order \<Rightarrow> 'c ec2ServiceConfig \<Rightarrow> ec2_Filter list list option \<times> bool" where
  "getInstanceResourceFilters ord cfg =
     (if length (instanceFilters cfg) = 0 then (None, False)
      else if \<exists>(_, filters) \<in> set (instanceFilters cfg). length filters = 0 then (None, True)
      else (Some (concat (map snd (range_map ord (instanceFilters cfg)))), True))"

definition ec2_SetResourceFilters :: "CloudEntitySelector option \<Rightarrow> 'c ec2ServiceConfig \<Rightarrow> 'c ec2ServiceConfig" where
  "ec2_SetResourceFilters selector cfg = (case (convertSelectorToEC2InstanceFilters selector, selector) of
     ((filters, True), Some s) \<Rightarrow> cfg\<lparr>instanceFilters := put (sel_Name s) filters (instanceFilters cfg)\<rparr>
   | ((_, _), Some s) \<Rightarrow> cfg\<lparr>instanceFilters := del (sel_Name s) (instanceFilters cfg), resourcesCache := None\<rparr>
   | ((_, _), None) \<Rightarrow> cfg\<lparr>resourcesCache := None\<rparr>)"

definition ec2_HasFiltersConfigured :: "order \<Rightarrow> 'c ec2ServiceConfig \<Rightarrow> bool \<times> bool" where
  "ec2_HasFiltersConfigured ord cfg = (case getInstanceResourceFilters ord cfg of (filters, found) \<Rightarrow> (found, filters = None))"

section \<open>Cache\<close>

definition getCachedInstances :: "order \<Rightarrow> 'c ec2ServiceConfig \<Rightarrow> ec2_Instance list" where
  "getCachedInstances ord cfg = (case resourcesCache cfg of None \<Rightarrow> [] | Some snap \<Rightarrow> map snd (range_map ord (snap_instances snap)))"

definition getCachedVpcIDs :: "'c ec2ServiceConfig \<Rightarrow> (string, unit) gomap" where
  "getCachedVpcIDs cfg = (case resourcesCache cfg of None \<Rightarrow> [] | Some snap \<Rightarrow> snap_vpcIDs snap)"

definition getCachedVpcNameToID :: "'c ec2ServiceConfig \<Rightarrow> (string, string) gomap" where
  "getCachedVpcNameToID cfg = (case resourcesCache cfg of None \<Rightarrow> [] | Some snap \<Rightarrow> vpcNameToID snap)"

definition getVpcPeers :: "string \<Rightarrow> 'c ec2ServiceConfig \<Rightarrow> string list" where
  "getVpcPeers vpcID cfg = (case resourcesCache cfg of None \<Rightarrow> [] | Some snap \<Rightarrow> get_or [] (vpcPeers snap) vpcID)"

section \<open>Inventory\<close>

fun describe_all ::
    "'c ec2_client \<Rightarrow> (string, string) gomap \<Rightarrow> 'c \<Rightarrow> ec2_Filter list list \<Rightarrow> go_error + ec2_Instance list" where
  "describe_all cl names c [] = Inr []"
| "describe_all cl names c (flt # filters) =
     (let flt' = (case flt of
            [] \<Rightarrow> []
          | f # _ \<Rightarrow> if flt_Name f = awsCustomFilterKeyVPCName then buildFilterForVPCIDFromFilterForVPCName flt names else flt)
      in case pagedDescribeInstances cl flt' c of
           Inl e \<Rightarrow> Inl e
         | Inr found \<Rightarrow> (case describe_all cl names c filters of Inl e \<Rightarrow> Inl e | Inr rest \<Rightarrow> Inr (found @ rest)))"

definition getInstances :: "order \<Rightarrow> 'c \<Rightarrow> 'c ec2ServiceConfig \<Rightarrow> go_error + ec2_Instance list" where
  "getInstances ord c cfg = (case fst (getInstanceResourceFilters ord cfg) of
     None \<Rightarrow> pagedDescribeInstances (apiClient cfg) [buildEc2FilterForValidInstanceStates] c
   | Some filters \<Rightarrow> describe_all (apiClient cfg) (getCachedVpcNameToID cfg) c filters)"

text \<open>A network with tags but no name is entered under the empty name.\<close>

definition buildMapVpcNameToID :: "'c \<Rightarrow> 'c ec2ServiceConfig \<Rightarrow> (string, string) gomap" where
  "buildMapVpcNameToID c cfg = (case describeVpcs (apiClient cfg) c of
     Inl _ \<Rightarrow> []
   | Inr vpcs \<Rightarrow> fold (\<lambda>vpc m. if length (vpc_Tags vpc) = 0 then m
       else put (case find (\<lambda>(k, _). k = ''Name'') (vpc_Tags vpc) of None \<Rightarrow> [] | Some (_, v) \<Rightarrow> v) (vpc_VpcId vpc) m) vpcs [])"

definition buildMapVpcPeers :: "'c \<Rightarrow> 'c ec2ServiceConfig \<Rightarrow> (string, string list) gomap" where
  "buildMapVpcPeers c cfg = (case describeVpcPeeringConnections (apiClient cfg) c of
     Inl _ \<Rightarrow> []
   | Inr conns \<Rightarrow> fold (\<lambda>(accepterID, requesterID) m.
       append_at requesterID [accepterID] (append_at accepterID [requesterID] m)) conns [])"

definition ec2_DoResourceInventory :: "order \<Rightarrow> 'c \<Rightarrow> 'c ec2ServiceConfig \<Rightarrow> error \<times> 'c ec2ServiceConfig" where
  "ec2_DoResourceInventory ord c cfg = (case getInstances ord c cfg of
     Inl e \<Rightarrow> (Some e, cfg\<lparr>inventoryStats := UpdateInventoryPollStats (Some e) (inventoryStats cfg)\<rparr>)
   | Inr is \<Rightarrow> (None, cfg\<lparr>resourcesCache := Some
         \<lparr>snap_instances = fold (\<lambda>i. put (ToLower (InstanceId i)) i) is [],
          snap_vpcIDs = fold (\<lambda>i. put (ToLower (VpcId i)) ()) is [],
          vpcNameToID = buildMapVpcNameToID c cfg, vpcPeers = buildMapVpcPeers c cfg\<rparr>,
       inventoryStats := UpdateInventoryPollStats None (inventoryStats cfg)\<rparr>))"

section \<open>Virtual machines\<close>

definition ResourceNameTagKey :: string where "ResourceNameTagKey = ''Name''"

definition ec2_addresses :: "ec2_PrivateIp list \<Rightarrow> IPAddress list" where
  "ec2_addresses ips = concat (map (\<lambda>ip. \<lparr>ip_AddressType = AddressTypeInternalIP, ip_Address = PrivateIpAddress ip\<rparr> #
     (case Association ip of None \<Rightarrow> [] | Some pub \<Rightarrow> [\<lparr>ip_AddressType = AddressTypeExternalIP, ip_Address = pub\<rparr>])) ips)"

definition ec2InstanceToVirtualMachineCRD :: "ec2_Instance \<Rightarrow> string \<Rightarrow> VirtualMachineCRD" where
  "ec2InstanceToVirtualMachineCRD i namespace =
     (let tags = fold (\<lambda>(k, v). put k v) (ec2_Tags i) []
      in GenerateVirtualMachineCRD (InstanceId i) (get_or [] tags ResourceNameTagKey) (InstanceId i) namespace (VpcId i) (VpcId i)
           (StateName i) tags
           (map (\<lambda>nic. \<lparr>nif_Name = NetworkInterfaceId nic, MAC = MacAddress nic, IPs = ec2_addresses (PrivateIpAddresses nic)\<rparr>)
             (inst_NetworkInterfaces i))
           AWSCloudProvider)"

definition ec2_GetResourceCRDs :: "order \<Rightarrow> string \<Rightarrow> 'c ec2ServiceConfig \<Rightarrow> VirtualMachineCRD list" where
  "ec2_GetResourceCRDs ord namespace cfg = map (\<lambda>i. ec2InstanceToVirtualMachineCRD i namespace) (getCachedInstances ord cfg)"

definition ec2_ResetCachedState :: "'c ec2ServiceConfig \<Rightarrow> 'c ec2ServiceConfig" where
  "ec2_ResetCachedState cfg =
     (let cfg' = ec2_SetResourceFilters None cfg in cfg'\<lparr>inventoryStats := ResetInventoryPollStats (inventoryStats cfg')\<rparr>)"

definition ec2_UpdateServiceConfig :: "'c ec2ServiceConfig \<Rightarrow> 'c ec2ServiceConfig \<Rightarrow> 'c ec2ServiceConfig" where
  "ec2_UpdateServiceConfig new cfg = cfg\<lparr>apiClient := apiClient new\<rparr>"

definition ec2_service :: "('c ec2ServiceConfig, 'c, VirtualMachineCRD) CloudServiceInterface" where
  "ec2_service = \<lparr>UpdateServiceConfig = ec2_UpdateServiceConfig, SetResourceFilters = ec2_SetResourceFilters,
     HasFiltersConfigured = ec2_HasFiltersConfigured, DoResourceInventory = ec2_DoResourceInventory,
     map_InventoryStats = (\<lambda>f cfg. cfg\<lparr>inventoryStats := f (inventoryStats cfg)\<rparr>),
     GetResourceCRDs = ec2_GetResourceCRDs, GetType = (\<lambda>_. CloudServiceTypeCompute), ResetCachedState = ec2_ResetCachedState\<rparr>"

end
