(* ===== verification/Aws_Inventory.thy ===== *)
theory Aws_Inventory
  imports Aws_Ec2
begin

text \<open>
  What the inventory of an AWS account holds. The documented behaviour of \<^verbatim>\<open>DescribeInstances\<close> is stated over
  a pattern relation \<open>glob\<close> (a filter value may hold wildcards): an instance is returned when for every
  filter one of its values fits the attribute the filter names. The service is shown to meet
  the contract of the framework.
\<close>

section \<open>Behaviour of the client\<close>

definition attribute :: "ec2_Instance \<Rightarrow> string \<Rightarrow> string list" where
  "attribute i n =
     (if n = awsFilterKeyVPCID then [VpcId i]
      else if n = awsFilterKeyVMID then [InstanceId i]
      else if n = awsFilterKeyVMName then (case map_of (ec2_Tags i) ''Name'' of None \<Rightarrow> [] | Some v \<Rightarrow> [v])
      else if n = awsFilterKeyInstanceState then [StateCode i]
      else [])"

definition fits :: "(string \<Rightarrow> string \<Rightarrow> bool) \<Rightarrow> ec2_Instance \<Rightarrow> ec2_Filter \<Rightarrow> bool" where
  "fits glob i f \<longleftrightarrow> (\<exists>v \<in> set (Values f). \<exists>a \<in> set (attribute i (flt_Name f)). glob v a)"

definition answers :: "(string \<Rightarrow> string \<Rightarrow> bool) \<Rightarrow> ('c \<Rightarrow> ec2_Instance list) \<Rightarrow> 'c ec2_client \<Rightarrow> bool" where
  "answers glob insts cl \<longleftrightarrow>
     (\<forall>c fs. pagedDescribeInstances cl fs c = Inr (filter (\<lambda>i. list_all (fits glob i) fs) (insts c))) \<and>
     (\<forall>c. \<forall>i \<in> set (insts c). \<not> glob [] (VpcId i)) \<and>
     (\<forall>c. inj_on (\<lambda>i. ToLower (InstanceId i)) (set (insts c)))"

definition live :: "(string \<Rightarrow> string \<Rightarrow> bool) \<Rightarrow> ec2_Instance \<Rightarrow> bool" where
  "live glob i \<longleftrightarrow> fits glob i buildEc2FilterForValidInstanceStates"

definition machine_of :: "(string \<Rightarrow> string \<Rightarrow> bool) \<Rightarrow> (string, string) gomap \<Rightarrow> ec2_Instance \<Rightarrow> machine" where
  "machine_of glob names i = \<lparr>in_vpc = (\<lambda>v. glob v (VpcId i)),
     vpc_named = (\<lambda>n. \<exists>v. map_of names n = Some v \<and> glob v (VpcId i)),
     has_id = (\<lambda>v. glob v (InstanceId i)),
     has_name = (\<lambda>v. \<exists>a. map_of (ec2_Tags i) ''Name'' = Some a \<and> glob v a)\<rparr>"

section \<open>Filters of a group\<close>

definition resolved :: "(string, string) gomap \<Rightarrow> ec2_Filter list \<Rightarrow> ec2_Filter list" where
  "resolved names flt = (case flt of
     [] \<Rightarrow> []
   | f # _ \<Rightarrow> if flt_Name f = awsCustomFilterKeyVPCName then buildFilterForVPCIDFromFilterForVPCName flt names else flt)"

definition passes :: "(string \<Rightarrow> string \<Rightarrow> bool) \<Rightarrow> (string, string) gomap \<Rightarrow> ec2_Instance \<Rightarrow> ec2_Filter list list \<Rightarrow> bool" where
  "passes glob names i fltss \<longleftrightarrow> (\<exists>flt \<in> set fltss. list_all (fits glob i) (resolved names flt))"

lemma passes_append: "passes glob names i (xs @ ys) \<longleftrightarrow> passes glob names i xs \<or> passes glob names i ys"
  by (auto simp: passes_def)

lemma passes_Nil [simp]: "\<not> passes glob names i []"
  by (simp add: passes_def)

lemma fits_simps [simp]:
  "fits glob i \<lparr>flt_Name = awsFilterKeyVPCID, Values = vs\<rparr> \<longleftrightarrow> (\<exists>v \<in> set vs. glob v (VpcId i))"
  "fits glob i \<lparr>flt_Name = awsFilterKeyVMID, Values = vs\<rparr> \<longleftrightarrow> (\<exists>v \<in> set vs. glob v (InstanceId i))"
  "fits glob i \<lparr>flt_Name = awsFilterKeyVMName, Values = vs\<rparr> \<longleftrightarrow>
     (\<exists>v \<in> set vs. \<exists>a. map_of (ec2_Tags i) ''Name'' = Some a \<and> glob v a)"
  by (cases "map_of (ec2_Tags i) ''Name''"; auto simp: fits_def attribute_def filter_keys)+

lemma fits_live [simp]: "fits glob i buildEc2FilterForValidInstanceStates = live glob i"
  by (simp add: live_def)

lemma state_filter_Name [simp]: "flt_Name buildEc2FilterForValidInstanceStates = awsFilterKeyInstanceState"
  by (simp add: buildEc2FilterForValidInstanceStates_def)

lemma filter_key_distinct [simp]:
  "awsFilterKeyVPCID \<noteq> awsCustomFilterKeyVPCName" "awsFilterKeyVMID \<noteq> awsCustomFilterKeyVPCName"
  "awsFilterKeyVMName \<noteq> awsCustomFilterKeyVPCName" "awsCustomFilterKeyVPCName \<noteq> awsFilterKeyInstanceState"
  by (simp_all add: filter_keys)

lemma passes_vpc_only:
  "passes glob names i (if buildAwsEc2FilterForVpcIDOnlyMatches m \<noteq> []
      then [buildAwsEc2FilterForVpcIDOnlyMatches m @ [buildEc2FilterForValidInstanceStates]] else []) \<longleftrightarrow>
     live glob i \<and> (\<exists>v \<in> keys m. glob v (VpcId i))"
  by (auto simp: passes_def buildAwsEc2FilterForVpcIDOnlyMatches_def resolved_def keys_def)

lemma passes_vpc_vm:
  "list_all (fits glob i) (resolved names (vpc_vm_filters v e)) \<longleftrightarrow>
     live glob i \<and> glob v (VpcId i) \<and> entity_matches (has_id (machine_of glob names i)) (has_name (machine_of glob names i)) e"
  by (auto simp: vpc_vm_filters_def resolved_def entity_matches_def machine_of_def)

lemma passes_vpc_other:
  assumes "list_all wf_other ss"
  shows "passes glob names i (buildAwsEc2FilterForVpcIDWithOtherMatches ss m) \<longleftrightarrow>
    live glob i \<and> (\<exists>s \<in> set ss. \<not> has_key m (the (vpc_id s)) \<and> selects (machine_of glob names i) s)"
proof -
  have one: "passes glob names i (case VpcMatch s of None \<Rightarrow> []
      | Some v \<Rightarrow> if has_key m (MatchID v) then [] else map (vpc_vm_filters (MatchID v)) (VMMatch s)) \<longleftrightarrow>
      live glob i \<and> \<not> has_key m (the (vpc_id s)) \<and> selects (machine_of glob names i) s" if wf: "wf_other s" for s
  proof -
    obtain v where v: "VpcMatch s = Some v" "\<not> blank (MatchID v)" "blank (MatchName v)" "VMMatch s \<noteq> []"
      using wf by (cases "VpcMatch s") (auto simp: wf_other_def vpc_id_def vpc_name_def split: if_splits)
    then have "entity_matches (in_vpc (machine_of glob names i)) (vpc_named (machine_of glob names i)) v \<longleftrightarrow> glob (MatchID v) (VpcId i)"
      by (simp add: entity_matches_def machine_of_def)
    with v show ?thesis by (auto simp: passes_def passes_vpc_vm selects_def vpc_id_def)
  qed
  show ?thesis
    using assms
    by (induction ss) (auto simp: buildAwsEc2FilterForVpcIDWithOtherMatches_def passes_append one)
qed

lemma passes_machines:
  "passes glob names i (nonempty (buildAwsEc2FilterForVMIDOnlyMatches es)) \<longleftrightarrow>
     live glob i \<and> (\<exists>e \<in> set es. has_id (machine_of glob names i) (MatchID e))"
  "passes glob names i (nonempty (buildAwsEc2FilterForVMNameOnlyMatches es)) \<longleftrightarrow>
     live glob i \<and> (\<exists>e \<in> set es. has_name (machine_of glob names i) (MatchName e))"
  by (auto simp: passes_def nonempty_def resolved_def buildAwsEc2FilterForVMIDOnlyMatches_def
      buildAwsEc2FilterForVMNameOnlyMatches_def machine_of_def)

lemma passes_vpc_names:
  assumes "list_all (\<lambda>s. vpc_name s \<noteq> None) ss" "\<not> glob [] (VpcId i)"
  shows "passes glob names i (nonempty (buildAwsEc2FilterForVPCNameOnlyMatches ss)) \<longleftrightarrow>
    live glob i \<and> (\<exists>s \<in> set ss. \<exists>n. vpc_name s = Some n \<and> vpc_named (machine_of glob names i) n)"
proof -
  have lookup: "glob (case map_of names n of None \<Rightarrow> [] | Some v \<Rightarrow> v) (VpcId i) \<longleftrightarrow> vpc_named (machine_of glob names i) n" for n
    using assms(2) by (auto simp: machine_of_def split: option.splits)
  have name: "vpc_name s = Some n \<longleftrightarrow> n = (case VpcMatch s of None \<Rightarrow> [] | Some v \<Rightarrow> MatchName v)" if "s \<in> set ss" for s n
    using assms(1) that by (auto simp: list_all_iff vpc_name_def split: option.splits if_splits)
  have "passes glob names i (nonempty (buildAwsEc2FilterForVPCNameOnlyMatches ss)) \<longleftrightarrow>
      live glob i \<and> (\<exists>s \<in> set ss. vpc_named (machine_of glob names i) (case VpcMatch s of None \<Rightarrow> [] | Some v \<Rightarrow> MatchName v))"
    by (auto simp: passes_def nonempty_def resolved_def buildAwsEc2FilterForVPCNameOnlyMatches_def
        buildFilterForVPCIDFromFilterForVPCName_def lookup)
  then show ?thesis using name by auto
qed

lemma group_filters_select:
  assumes "wf_groups g" "\<not> glob [] (VpcId i)"
  shows "passes glob names i (group_filters g) \<longleftrightarrow> live glob i \<and> groups_select (machine_of glob names i) g"
proof -
  have super: "\<exists>v \<in> keys (vpcIDsWithVpcIDOnlyMatches g). glob v (VpcId i)"
    if s: "s \<in> set (vpcIDWithOtherMatches g)" "has_key (vpcIDsWithVpcIDOnlyMatches g) (the (vpc_id s))" "selects (machine_of glob names i) s" for s
  proof -
    obtain v where "vpc_id s = Some v" using s(1) assms(1) by (auto simp: wf_groups_def list_all_iff wf_other_def)
    with s(2,3) show ?thesis by (auto simp: has_key_iff selects_plain machine_of_def)
  qed
  have in_vpc: "in_vpc (machine_of glob names i) v = glob v (VpcId i)" for v by (simp add: machine_of_def)
  show ?thesis
    using assms super
    unfolding group_filters_def Let_def passes_append passes_vpc_only passes_machines groups_select_def wf_groups_def
    by (auto simp: passes_vpc_other passes_vpc_names in_vpc)
qed

text \<open>With at least one selector the grouping leaves a filter.\<close>

lemma group_filters_Nil:
  assumes "wf_groups g" "group_filters g = []"
  shows "\<not> groups_select any_machine g"
proof -
  let ?only = "vpcIDsWithVpcIDOnlyMatches g"
  have only: "?only = []"
    using assms(2) by (auto simp: group_filters_def buildAwsEc2FilterForVpcIDOnlyMatches_def Let_def split: if_splits)
  moreover have "vpcIDWithOtherMatches g = []"
  proof (cases "vpcIDWithOtherMatches g")
    case (Cons s ss)
    then have wf: "wf_other s" using assms(1) by (simp add: wf_groups_def)
    then obtain v where "VpcMatch s = Some v" "VMMatch s \<noteq> []"
      by (cases "VpcMatch s") (auto simp: wf_other_def vpc_id_def)
    with Cons only assms(2) show ?thesis
      by (auto simp: group_filters_def buildAwsEc2FilterForVpcIDWithOtherMatches_def has_key_def Let_def)
  qed
  ultimately show ?thesis
    using assms(2)
    by (auto simp: group_filters_def groups_select_def nonempty_def buildAwsEc2FilterForVMIDOnlyMatches_def
        buildAwsEc2FilterForVMNameOnlyMatches_def buildAwsEc2FilterForVPCNameOnlyMatches_def Let_def keys_def split: if_splits)
qed

lemma buildEc2Filters_select:
  assumes "list_all aws_ok ss" "buildEc2Filters ss \<noteq> []" "\<not> glob [] (VpcId i)"
  shows "passes glob names i (buildEc2Filters ss) \<longleftrightarrow> live glob i \<and> (\<exists>s \<in> set ss. selects (machine_of glob names i) s)"
proof -
  obtain g where g: "group_matches aws_group_match ss no_matches = Some g"
    using assms(2) by (auto simp: buildEc2Filters_def split: option.splits)
  have "wf_groups g" using aws_sel.group_wf [OF assms(1) _ g] by (simp add: wf_groups_def no_matches_def)
  then show ?thesis
    using group_filters_select [of g glob i names] assms(3) aws_sel.group_some [OF assms(1) g, of "machine_of glob names i"]
    by (simp add: buildEc2Filters_def g) (simp add: groups_select_def no_matches_def keys_def)
qed

lemma buildEc2Filters_all:
  assumes "list_all aws_ok ss" "buildEc2Filters ss = []"
  shows "ss = [] \<or> (\<exists>s \<in> set ss. selects m s)"
proof (cases "group_matches aws_group_match ss no_matches")
  case None
  then show ?thesis using aws_sel.group_all [OF assms(1)] by blast
next
  case (Some g)
  have "wf_groups g" using aws_sel.group_wf [OF assms(1) _ Some] by (simp add: wf_groups_def no_matches_def)
  then have "\<not> groups_select any_machine g" using group_filters_Nil assms(2) Some by (simp add: buildEc2Filters_def)
  then have "\<forall>s \<in> set ss. \<not> selects any_machine s" using aws_sel.group_some [OF assms(1) Some] by blast
  then show ?thesis by (cases ss) (auto simp: selects_any_machine)
qed

section \<open>The inventory\<close>

definition selected :: "(string \<Rightarrow> string \<Rightarrow> bool) \<Rightarrow> (string, string) gomap \<Rightarrow> CloudEntitySelector \<Rightarrow> ec2_Instance \<Rightarrow> bool" where
  "selected glob names sel i \<longleftrightarrow> live glob i \<and>
     (VMSelector sel = [] \<or> (\<exists>s \<in> set (VMSelector sel). selects (machine_of glob names i) s))"

lemma describe_all_answers:
  assumes "answers glob insts cl"
  shows "\<exists>xs. describe_all cl names c fltss = Inr xs \<and> set xs = {i \<in> set (insts c). passes glob names i fltss}"
proof (induction fltss)
  case (Cons flt fltss)
  have "pagedDescribeInstances cl (resolved names flt) c = Inr (filter (\<lambda>i. list_all (fits glob i) (resolved names flt)) (insts c))"
    using assms by (simp add: answers_def)
  with Cons show ?case
    by (auto simp: resolved_def [symmetric] Let_def passes_def)
qed simp

definition only_selector :: "CloudEntitySelector \<Rightarrow> 'c ec2ServiceConfig \<Rightarrow> bool" where
  "only_selector sel cfg \<longleftrightarrow> keys (instanceFilters cfg) \<subseteq> {sel_Name sel} \<and> wf_map (instanceFilters cfg)"

lemma only_selector_filters:
  assumes "only_selector sel cfg"
  shows "put (sel_Name sel) flt (instanceFilters cfg) = [(sel_Name sel, flt)]"
  using assms by (simp add: only_selector_def put_only)

lemma getInstances_selected:
  assumes "is_order ord" "answers glob insts (apiClient cfg)" "list_all aws_ok (VMSelector sel)" "only_selector sel cfg"
  shows "\<exists>xs. getInstances ord c (ec2_SetResourceFilters (Some sel) cfg) = Inr xs \<and>
    set xs = {i \<in> set (insts c). selected glob (getCachedVpcNameToID cfg) sel i}"
proof -
  let ?flt = "buildEc2Filters (VMSelector sel)"
  have cfg': "ec2_SetResourceFilters (Some sel) cfg = cfg\<lparr>instanceFilters := [(sel_Name sel, ?flt)]\<rparr>"
    by (simp add: ec2_SetResourceFilters_def convertSelectorToEC2InstanceFilters_def only_selector_filters [OF assms(4)])
  have one: "range_map ord [(sel_Name sel, ?flt)] = [(sel_Name sel, ?flt)]"
    using mset_range_map [OF assms(1), of "[(sel_Name sel, ?flt)]"] by simp
  have vpc: "\<not> glob [] (VpcId i)" if "i \<in> set (insts c)" for i using assms(2) that by (auto simp: answers_def)
  show ?thesis
  proof (cases "?flt = []")
    case True
    then show ?thesis
      using assms(2) buildEc2Filters_all [OF assms(3) True]
      by (auto simp: cfg' getInstances_def getInstanceResourceFilters_def answers_def selected_def)
  next
    case False
    then have "VMSelector sel \<noteq> []" by (auto simp: buildEc2Filters_def group_filters_def no_matches_def Let_def nonempty_def
        buildAwsEc2FilterForVpcIDOnlyMatches_def buildAwsEc2FilterForVpcIDWithOtherMatches_def buildAwsEc2FilterForVMIDOnlyMatches_def
        buildAwsEc2FilterForVMNameOnlyMatches_def buildAwsEc2FilterForVPCNameOnlyMatches_def)
    moreover have "getCachedVpcNameToID (cfg\<lparr>instanceFilters := f\<rparr>) = getCachedVpcNameToID cfg" for f
      by (simp add: getCachedVpcNameToID_def)
    moreover obtain xs where "describe_all (apiClient cfg) (getCachedVpcNameToID cfg) c ?flt = Inr xs"
        "set xs = {i \<in> set (insts c). passes glob (getCachedVpcNameToID cfg) i ?flt}"
      using describe_all_answers [OF assms(2)] by blast
    moreover have "{i \<in> set (insts c). passes glob names i ?flt} =
        {i \<in> set (insts c). live glob i \<and> (\<exists>s \<in> set (VMSelector sel). selects (machine_of glob names i) s)}" for names
      using buildEc2Filters_select [OF assms(3) False, where glob = glob] vpc by blast
    ultimately show ?thesis
      using False by (simp add: cfg' getInstances_def getInstanceResourceFilters_def one selected_def)
  qed
qed

section \<open>Contract of the framework\<close>

definition aws_good :: "(string \<Rightarrow> string \<Rightarrow> bool) \<Rightarrow> ('c \<Rightarrow> ec2_Instance list) \<Rightarrow> 'c \<Rightarrow> CloudEntitySelector \<Rightarrow> 'c ec2ServiceConfig \<Rightarrow> bool" where
  "aws_good glob insts c sel cfg \<longleftrightarrow>
     answers glob insts (apiClient cfg) \<and> list_all aws_ok (VMSelector sel) \<and> only_selector sel cfg"

definition aws_chosen ::
    "(string \<Rightarrow> string \<Rightarrow> bool) \<Rightarrow> ('c \<Rightarrow> ec2_Instance list) \<Rightarrow> string \<Rightarrow> 'c \<Rightarrow> CloudEntitySelector \<Rightarrow> 'c ec2ServiceConfig \<Rightarrow>
     VirtualMachineCRD set" where
  "aws_chosen glob insts ns c sel cfg = (\<lambda>i. ec2InstanceToVirtualMachineCRD i ns) `
     {i \<in> set (insts c). selected glob (getCachedVpcNameToID cfg) sel i}"

interpretation aws: cloud_service ec2_service "aws_good glob insts" "aws_chosen glob insts" for glob and insts :: "'c \<Rightarrow> ec2_Instance list"
proof
  fix ord c sel and cfg :: "'c ec2ServiceConfig"
  assume "is_order ord" "aws_good glob insts c sel cfg"
  then have "instanceFilters (ec2_SetResourceFilters (Some sel) cfg) = [(sel_Name sel, buildEc2Filters (VMSelector sel))]"
    by (simp add: ec2_SetResourceFilters_def convertSelectorToEC2InstanceFilters_def only_selector_filters aws_good_def)
  then show "fst (HasFiltersConfigured ec2_service ord (SetResourceFilters ec2_service (Some sel) cfg))"
    by (simp add: ec2_service_def ec2_HasFiltersConfigured_def getInstanceResourceFilters_def)
next
  fix ord c sel ns and cfg :: "'c ec2ServiceConfig"
  assume ord: "is_order ord" and good: "aws_good glob insts c sel cfg"
  obtain xs where xs: "getInstances ord c (ec2_SetResourceFilters (Some sel) cfg) = Inr xs"
      "set xs = {i \<in> set (insts c). selected glob (getCachedVpcNameToID cfg) sel i}"
    using getInstances_selected [OF ord, of glob insts cfg sel c] good unfolding aws_good_def by blast
  have "inj_on (\<lambda>i. ToLower (InstanceId i)) (set (insts c))" using good by (auto simp: aws_good_def answers_def)
  then have "inj_on (\<lambda>i. ToLower (InstanceId i)) (set xs)" by (rule inj_on_subset) (simp add: xs)
  from set_fold_put [OF this] xs ord show "\<exists>s'. DoResourceInventory ec2_service ord c (SetResourceFilters ec2_service (Some sel) cfg) = (None, s') \<and>
      set (GetResourceCRDs ec2_service ord ns s') = aws_chosen glob insts ns c sel cfg"
    by (auto simp: ec2_service_def ec2_DoResourceInventory_def ec2_GetResourceCRDs_def getCachedInstances_def aws_chosen_def image_image [symmetric])
qed (simp_all add: ec2_service_def ec2_GetResourceCRDs_def getCachedInstances_def)

section \<open>Selectors the webhook admits\<close>

lemma webhook_aws_ok:
  assumes "validateMatchSections env sel = None" "GetOwnerAccount env sel = Inr owner" "AWSConfig owner \<noteq> None" "no_empty_match sel"
  shows "list_all aws_ok (VMSelector sel)"
proof -
  have "aws_ok s" if s: "s \<in> set (VMSelector sel)" for s
  proof -
    have both: "\<not> (case VpcMatch s of None \<Rightarrow> False | Some v \<Rightarrow> both_set v)" "\<forall>e \<in> set (VMMatch s). \<not> both_set e"
      using assms(1) s by (auto simp: validateMatchSections_def split: if_splits)
    have named: "\<not> (case VpcMatch s of None \<Rightarrow> False | Some v \<Rightarrow> \<not> blank (MatchName v) \<and>
        (\<exists>e \<in> set (VMMatch s). \<not> blank (MatchID e) \<or> \<not> blank (MatchName e)))"
      using assms(1-3) s by (auto simp: validateMatchSections_def GetAccountProviderType_def split: if_splits)
    have empty: "\<not> (blank (MatchID e) \<and> blank (MatchName e))" if "e \<in> set (VMMatch s)" for e
      using assms(4) s that by (auto simp: no_empty_match_def list_all_iff)
    have "plain_vm e" if "e \<in> set (VMMatch s)" for e
      using both(2) empty that by (auto simp: plain_vm_def both_set_def)
    moreover have "vpc_id s = None \<or> vpc_name s = None"
      using both(1) by (auto simp: vpc_id_def vpc_name_def both_set_def split: option.splits)
    moreover have "vpc_name s = None \<or> VMMatch s = []"
      using named empty by (cases "VMMatch s") (auto simp: vpc_name_def split: option.splits)
    ultimately show ?thesis by (simp add: aws_ok_def)
  qed
  then show ?thesis by (simp add: list_all_iff)
qed


definition example_instance :: "string \<Rightarrow> string \<Rightarrow> ec2_Instance" where
  "example_instance i vpc = \<lparr>InstanceId = i, VpcId = vpc, ec2_Tags = [], StateCode = ''16'', StateName = ''running'',
     inst_NetworkInterfaces = []\<rparr>"

definition example_instances :: "unit \<Rightarrow> ec2_Instance list" where
  "example_instances _ = [example_instance ''i-1'' ''vpc-1'', example_instance ''i-2'' ''vpc-2'']"

definition example_ec2 :: "unit ec2ServiceConfig" where
  "example_ec2 = \<lparr>accountName = ''a'', apiClient = \<lparr>pagedDescribeInstances =
       (\<lambda>fs c. Inr (filter (\<lambda>i. list_all (fits (=) i) fs) (example_instances c))),
       describeVpcs = (\<lambda>_. Inr []), describeVpcPeeringConnections = (\<lambda>_. Inr []),
       pagedDescribeNetworkInterfaces = (\<lambda>_ _. Inr []), modifyNetworkInterfaceAttribute = (\<lambda>_ _ c. (None, c)),
       createSecurityGroup = (\<lambda>_ _ c. (Inr [], c)), describeSecurityGroups = (\<lambda>_ _. Inr []),
       deleteSecurityGroup = (\<lambda>_ c. (None, c)), authorizeSecurityGroupEgress = (\<lambda>_ _ c. (None, c)),
       authorizeSecurityGroupIngress = (\<lambda>_ _ c. (None, c)), revokeSecurityGroupEgress = (\<lambda>_ _ c. (None, c)),
       revokeSecurityGroupIngress = (\<lambda>_ _ c. (None, c)), retries = 0, elapse = id\<rparr>,
     resourcesCache = None, inventoryStats = \<lparr>totalPollCnt = 0, successPollCnt = 0, lastPollErr = None\<rparr>, instanceFilters = []\<rparr>"

definition example_selector :: CloudEntitySelector where
  "example_selector = \<lparr>sel_Name = ''s'', sel_Namespace = ''ns'', OwnerReferences = [''a''], AccountName = ''a'',
     VMSelector = [\<lparr>VpcMatch = Some \<lparr>MatchName = [], MatchID = ''vpc-1''\<rparr>, VMMatch = []\<rparr>]\<rparr>"

definition example_accounts :: "(unit ec2ServiceConfig, unit) accounts" where
  "example_accounts = [(\<lparr>nn_Namespace = ''ns'', nn_Name = ''a''\<rparr>,
     \<lparr>acc_namespacedName = \<lparr>nn_Namespace = ''ns'', nn_Name = ''a''\<rparr>, credentials = (), serviceConfigs = [(''EC2'', example_ec2)],
      inventoryPollInterval = 60, inventory_polling = False, Status_Error = []\<rparr>)]"


section \<open>Limits\<close>

text \<open>A network with an empty machine match selects the whole account, not the network.\<close>

lemma empty_match_selects_account:
  assumes "blank (MatchID e)" "blank (MatchName e)" "\<not> blank (MatchID v)"
  shows "buildEc2Filters [\<lparr>VpcMatch = Some v, VMMatch = [e]\<rparr>] = []"
  using assms
  by (auto simp: buildEc2Filters_def aws_group_match_def vpc_id_def vpc_name_def no_matches_def group_filters_def nonempty_def
      buildAwsEc2FilterForVpcIDOnlyMatches_def buildAwsEc2FilterForVpcIDWithOtherMatches_def buildAwsEc2FilterForVMIDOnlyMatches_def
      buildAwsEc2FilterForVMNameOnlyMatches_def buildAwsEc2FilterForVPCNameOnlyMatches_def Let_def)

text \<open>The first inventory knows no names of networks, so a selector by name selects nothing in it.\<close>

lemma first_inventory_by_name_is_empty:
  assumes "resourcesCache cfg = None" "VMSelector sel \<noteq> []" "\<forall>s \<in> set (VMSelector sel). vpc_name s \<noteq> None"
  shows "aws_chosen glob insts ns c sel cfg = {}"
  using assms by (fastforce simp: aws_chosen_def selected_def selects_plain machine_of_def getCachedVpcNameToID_def)

text \<open>Removing a selector keeps its filters, which the next selector of the account is added to.\<close>

lemma RemoveSelector_keeps_filters:
  assumes "map_of accs nn = Some acc" "map_of (serviceConfigs acc) name = Some cfg"
  shows "\<exists>acc' cfg'. map_of (RemoveSelector ec2_service nn sel accs) nn = Some acc' \<and>
    map_of (serviceConfigs acc') name = Some cfg' \<and> instanceFilters cfg' = instanceFilters cfg"
  using assms
  by (auto simp: RemoveSelector_def stopPeriodicInventorySync_def ec2_service_def ec2_ResetCachedState_def
      ec2_SetResourceFilters_def convertSelectorToEC2InstanceFilters_def map_of_map Let_def)

end
