(* ===== verification/Aws_Security.thy ===== *)
theory Aws_Security
  imports Aws_Ec2 Go_Monad
begin

text \<open>
  The security groups of AWS (\<^verbatim>\<open>pkg/cloud-provider/cloudapi/aws/aws_security.go\<close> and \<^verbatim>\<open>getVpcAccount\<close> of
  \<^verbatim>\<open>aws_account_mgmt.go\<close>). Programs run on the cloud and the package's cache of default groups. The mutex makes every
  operation of the plug-in atomic; goroutines run in the order given, and a panic in one of them ends the process.
  The lookup of an absent group in a Go map is nil, which the code dereferences: a panic.
\<close>

section \<open>State\<close>

record 'c aws_world =
  cloud :: 'c
  vpcIDToDefaultSecurityGroup :: "(string, string) gomap"

type_synonym ('c, 'a) aws_op = "('c aws_world, (go_error + 'a) outcome) state"

definition ask :: "('c \<Rightarrow> go_error + 'a) \<Rightarrow> ('c, 'a) aws_op" where
  "ask f = gets (\<lambda>w. Returns (f (cloud w)))"

definition call :: "('c \<Rightarrow> error \<times> 'c) \<Rightarrow> ('c, unit) aws_op" where
  "call f = State (\<lambda>w. case f (cloud w) of (err, c) \<Rightarrow>
     (Returns (case err of None \<Rightarrow> Inr () | Some e \<Rightarrow> Inl e), w\<lparr>cloud := c\<rparr>))"

definition request :: "('c \<Rightarrow> (go_error + 'a) \<times> 'c) \<Rightarrow> ('c, 'a) aws_op" where
  "request f = State (\<lambda>w. case f (cloud w) of (r, c) \<Rightarrow> (Returns r, w\<lparr>cloud := c\<rparr>))"

definition awsVpcDefaultSecurityGroupName :: string where "awsVpcDefaultSecurityGroupName = ''default''"

section \<open>Security groups by name\<close>

definition by_lower_name :: "ec2_SecurityGroup list \<Rightarrow> sg_map" where
  "by_lower_name sgs = fold (\<lambda>sg. put (ToLower (GroupName sg)) sg) sgs []"

definition getCloudSecurityGroupsWithNameFromCloud ::
    "order \<Rightarrow> 'c ec2ServiceConfig \<Rightarrow> string list \<Rightarrow> (string, unit) gomap \<Rightarrow> ('c, sg_map) aws_op" where
  "getCloudSecurityGroupsWithNameFromCloud ord cfg vpcIDs names =
     and_then (ask (describeSecurityGroups (apiClient cfg) (buildAwsEc2FilterForSecurityGroupNameMatches ord vpcIDs names)))
       (\<lambda>sgs. succeed (by_lower_name sgs))"

primrec retry :: "'c ec2ServiceConfig \<Rightarrow> nat \<Rightarrow> ('c, 'a) aws_op \<Rightarrow> ('c, 'a) aws_op" where
  "retry cfg 0 op = op"
| "retry cfg (Suc n) op = do {
     r \<leftarrow> op;
     case r of
       Returns (Inl _) \<Rightarrow> do { modify (\<lambda>w. w\<lparr>cloud := elapse (apiClient cfg) (cloud w)\<rparr>); retry cfg n op }
     | _ \<Rightarrow> ret r
   }"

definition waitForCloudSecurityGroupCreation :: "order \<Rightarrow> 'c ec2ServiceConfig \<Rightarrow> string \<Rightarrow> string \<Rightarrow> ('c, sg_map) aws_op" where
  "waitForCloudSecurityGroupCreation ord cfg cloudSGName vpcID = retry cfg (retries (apiClient cfg))
     (and_then (getCloudSecurityGroupsWithNameFromCloud ord cfg [vpcID] [(cloudSGName, ())])
       (\<lambda>out. if length out = 0 then fail (Err (''failed to find created cloud-security-group name '' @ cloudSGName))
              else succeed out))"

definition createCloudSecurityGroup :: "order \<Rightarrow> 'c ec2ServiceConfig \<Rightarrow> string \<Rightarrow> string \<Rightarrow> ('c, unit) aws_op" where
  "createCloudSecurityGroup ord cfg cloudSGName vpcID =
     and_then (request (createSecurityGroup (apiClient cfg) cloudSGName vpcID)) (\<lambda>groupId. do {
       out \<leftarrow> waitForCloudSecurityGroupCreation ord cfg cloudSGName vpcID;
       case out of
         Returns (Inl err) \<Rightarrow> do { call (deleteSecurityGroup (apiClient cfg) groupId); fail err }
       | Returns (Inr sgs) \<Rightarrow> (case map_of sgs cloudSGName of
           None \<Rightarrow> panic
         | Some sg \<Rightarrow> call (revokeSecurityGroupEgress (apiClient cfg) groupId (IpPermissionsEgress sg)))
       | Panics \<Rightarrow> panic
       | Hangs \<Rightarrow> ret Hangs
     })"

fun create_all :: "order \<Rightarrow> 'c ec2ServiceConfig \<Rightarrow> string \<Rightarrow> string list \<Rightarrow> ('c, unit) aws_op" where
  "create_all ord cfg vpcID [] = succeed ()"
| "create_all ord cfg vpcID (n # ns) = and_then (createCloudSecurityGroup ord cfg n vpcID) (\<lambda>_. create_all ord cfg vpcID ns)"

definition createOrGetSecurityGroups :: "order \<Rightarrow> 'c ec2ServiceConfig \<Rightarrow> string \<Rightarrow> (string, unit) gomap \<Rightarrow> ('c, sg_map) aws_op" where
  "createOrGetSecurityGroups ord cfg vpcID names =
     and_then (getCloudSecurityGroupsWithNameFromCloud ord cfg [vpcID] names) (\<lambda>found.
       let missing = filter (\<lambda>n. \<not> has_key found n) (map fst (range_map ord names))
       in and_then (create_all ord cfg vpcID missing) (\<lambda>_.
            if length missing = 0 then succeed found else getCloudSecurityGroupsWithNameFromCloud ord cfg [vpcID] names))"

text \<open>A nil rule is dereferenced here, before the loops that skip it.\<close>

definition buildEc2CloudSgNamesFromRules ::
    "CloudResourceID \<Rightarrow> IngressRule option list \<Rightarrow> EgressRule option list \<Rightarrow> (string, unit) gomap option" where
  "buildEc2CloudSgNamesFromRules gid irules erules =
     (if None \<in> set irules \<or> None \<in> set erules then None
      else Some (put (GetCloudName gid False) ()
        (fold (\<lambda>g. put (GetCloudName g True) ())
          (concat (map FromSecurityGroups (rules_given irules)) @ concat (map ToSecurityGroups (rules_given erules))) [])))"

section \<open>Rules\<close>

definition realize ::
    "(string \<Rightarrow> ec2_IpPermission list \<Rightarrow> 'c \<Rightarrow> error \<times> 'c) \<Rightarrow> (string \<Rightarrow> ec2_IpPermission list \<Rightarrow> 'c \<Rightarrow> error \<times> 'c) \<Rightarrow>
     string \<Rightarrow> ec2_IpPermission list \<Rightarrow> 'r option list \<Rightarrow> ec2_IpPermission list option \<Rightarrow> ('c, unit) aws_op" where
  "realize revoke authorize groupId old rules perms =
     and_then (if length old > 0 then call (revoke groupId old) else succeed ()) (\<lambda>_.
       if length rules > 0
       then (case perms of None \<Rightarrow> panic | Some ps \<Rightarrow> call (authorize groupId ps))
       else succeed ())"

definition realizeIngressIPPermissions ::
    "'c ec2ServiceConfig \<Rightarrow> ec2_SecurityGroup option \<Rightarrow> IngressRule option list \<Rightarrow> sg_map \<Rightarrow> ('c, unit) aws_op" where
  "realizeIngressIPPermissions cfg sgObj rules sgs = (case sgObj of
     None \<Rightarrow> panic
   | Some sg \<Rightarrow> realize (revokeSecurityGroupIngress (apiClient cfg)) (authorizeSecurityGroupIngress (apiClient cfg))
       (GroupId sg) (IpPermissions sg) rules (ingress_permissions sgs rules))"

definition realizeEgressIPPermissions ::
    "'c ec2ServiceConfig \<Rightarrow> ec2_SecurityGroup option \<Rightarrow> EgressRule option list \<Rightarrow> sg_map \<Rightarrow> ('c, unit) aws_op" where
  "realizeEgressIPPermissions cfg sgObj rules sgs = (case sgObj of
     None \<Rightarrow> panic
   | Some sg \<Rightarrow> realize (revokeSecurityGroupEgress (apiClient cfg)) (authorizeSecurityGroupEgress (apiClient cfg))
       (GroupId sg) (IpPermissionsEgress sg) rules (egress_permissions sgs rules))"

section \<open>Members\<close>

definition getVpcDefaultSecurityGroupID :: "order \<Rightarrow> 'c ec2ServiceConfig \<Rightarrow> string \<Rightarrow> ('c, string) aws_op" where
  "getVpcDefaultSecurityGroupID ord cfg vpcID = do {
     cached \<leftarrow> gets (\<lambda>w. map_of (vpcIDToDefaultSecurityGroup w) vpcID);
     case cached of
       Some sgID \<Rightarrow> succeed sgID
     | None \<Rightarrow> and_then (getCloudSecurityGroupsWithNameFromCloud ord cfg [vpcID] [(awsVpcDefaultSecurityGroupName, ())]) (\<lambda>out.
         case map_of out awsVpcDefaultSecurityGroupName of
           None \<Rightarrow> panic
         | Some sg \<Rightarrow> do {
             modify (\<lambda>w. w\<lparr>vpcIDToDefaultSecurityGroup := put vpcID (GroupId sg) (vpcIDToDefaultSecurityGroup w)\<rparr>);
             succeed (GroupId sg)
           })
   }"

definition updateNetworkInterfaceSecurityGroups ::
    "order \<Rightarrow> 'c ec2ServiceConfig \<Rightarrow> string \<Rightarrow> string \<Rightarrow> (string, unit) gomap \<Rightarrow> ('c, unit) aws_op" where
  "updateNetworkInterfaceSecurityGroups ord cfg interfaceID vpcID sgIDSet =
     and_then (if length sgIDSet = 0 then and_then (getVpcDefaultSecurityGroupID ord cfg vpcID) (\<lambda>sg. succeed [sg])
               else succeed (map fst (range_map ord sgIDSet)))
       (\<lambda>sgIDs. call (modifyNetworkInterfaceAttribute (apiClient cfg) interfaceID sgIDs))"

definition getNetworkInterfacesOfVpc :: "'c ec2ServiceConfig \<Rightarrow> (string, unit) gomap \<Rightarrow> ('c, ec2_NetworkInterface list) aws_op" where
  "getNetworkInterfacesOfVpc cfg vpcIDs = ask (pagedDescribeNetworkInterfaces (apiClient cfg) (buildAwsEc2FilterForVpcIDOnlyMatches vpcIDs))"

definition getSecurityGroupsOfVpc :: "'c ec2ServiceConfig \<Rightarrow> (string, unit) gomap \<Rightarrow> ('c, ec2_SecurityGroup list) aws_op" where
  "getSecurityGroupsOfVpc cfg vpcIDs = ask (describeSecurityGroups (apiClient cfg) (buildAwsEc2FilterForVpcIDOnlyMatches vpcIDs))"

definition buildEc2SgsToAttachForCaseMemberOnlySgWithNoATSgAttached ::
    "(string, unit) gomap \<Rightarrow> (string, unit) gomap \<Rightarrow> string \<Rightarrow> (string, unit) gomap" where
  "buildEc2SgsToAttachForCaseMemberOnlySgWithNoATSgAttached nepheSgs otherSgs vpcDefaultSgID =
     (let sgs = fold (\<lambda>(k, v). put k v) otherSgs (fold (\<lambda>(k, v). put k v) nepheSgs [])
      in if length otherSgs = 0 then put vpcDefaultSgID () sgs else sgs)"

text \<open>The groups of one interface: whether the group is attached, how many applied-to groups are, the controller's groups, the others.\<close>

record nic_groups =
  isGroupSgAttached :: bool
  numAppliedToGroupSgsAttached :: nat
  nepheSgsSet :: "(string, unit) gomap"
  otherSgsSet :: "(string, unit) gomap"

definition classify_group :: "string \<Rightarrow> string \<times> string \<Rightarrow> nic_groups \<Rightarrow> nic_groups" where
  "classify_group groupCloudSgName grp ng = (case grp of (gid, gname) \<Rightarrow>
     let cloudSgName = ToLower gname
     in case IsNepheControllerCreatedSG cloudSgName of (_, isAG, isAT) \<Rightarrow>
          if \<not> isAT \<and> \<not> isAG then ng\<lparr>otherSgsSet := put gid () (otherSgsSet ng)\<rparr>
          else ng\<lparr>numAppliedToGroupSgsAttached := numAppliedToGroupSgsAttached ng + (if isAT then 1 else 0),
                 isGroupSgAttached := isGroupSgAttached ng \<or> cloudSgName = groupCloudSgName,
                 nepheSgsSet := put gid () (nepheSgsSet ng)\<rparr>)"

definition classify_groups :: "string \<Rightarrow> ec2_NetworkInterface \<Rightarrow> nic_groups" where
  "classify_groups groupCloudSgName nic = fold (classify_group groupCloudSgName) (eni_Groups nic)
     \<lparr>isGroupSgAttached = False, numAppliedToGroupSgsAttached = 0, nepheSgsSet = [], otherSgsSet = []\<rparr>"

text \<open>The groups to attach to an interface; \<open>None\<close> when the interface stays as it is.\<close>

definition groups_to_attach ::
    "string \<Rightarrow> string \<Rightarrow> string \<Rightarrow> (string, unit) gomap \<Rightarrow> (string, unit) gomap \<Rightarrow> bool \<Rightarrow> ec2_NetworkInterface \<Rightarrow> (string, unit) gomap option" where
  "groups_to_attach groupCloudSgID groupCloudSgName vpcDefaultSgID memberVMs memberNICs membershipOnly nic = (case eni_InstanceId nic of
     None \<Rightarrow> None
   | Some instance \<Rightarrow>
       let ng = classify_groups groupCloudSgName nic;
           member = (has_key memberVMs instance \<or> has_key memberNICs (eni_Id nic))
       in if isGroupSgAttached ng
          then (if member then None
                else let kept = del groupCloudSgID (nepheSgsSet ng);
                         kept' = (if \<not> membershipOnly \<and> numAppliedToGroupSgsAttached ng = 1 then put vpcDefaultSgID () kept else kept)
                     in Some (if membershipOnly \<and> numAppliedToGroupSgsAttached ng = 0
                              then buildEc2SgsToAttachForCaseMemberOnlySgWithNoATSgAttached kept' (otherSgsSet ng) vpcDefaultSgID
                              else kept'))
          else (if \<not> member then None
                else let added = put groupCloudSgID () (nepheSgsSet ng)
                     in Some (if membershipOnly \<and> numAppliedToGroupSgsAttached ng = 0
                              then buildEc2SgsToAttachForCaseMemberOnlySgWithNoATSgAttached added (otherSgsSet ng) vpcDefaultSgID
                              else added)))"

fun modify_all ::
    "order \<Rightarrow> 'c ec2ServiceConfig \<Rightarrow> string \<Rightarrow> (string \<times> (string, unit) gomap) list \<Rightarrow> ('c, go_error list) aws_op" where
  "modify_all ord cfg vpcID [] = succeed []"
| "modify_all ord cfg vpcID ((nic, sgs) # rest) = do {
     r \<leftarrow> updateNetworkInterfaceSecurityGroups ord cfg nic vpcID sgs;
     case r of
       Returns e \<Rightarrow> and_then (modify_all ord cfg vpcID rest) (\<lambda>errs. succeed (case e of Inl err \<Rightarrow> err # errs | Inr _ \<Rightarrow> errs))
     | Panics \<Rightarrow> panic
     | Hangs \<Rightarrow> ret Hangs
   }"

definition processNetworkInterfaceModifyConcurrently ::
    "order \<Rightarrow> 'c ec2ServiceConfig \<Rightarrow> (string, (string, unit) gomap) gomap \<Rightarrow> string \<Rightarrow> ('c, unit) aws_op" where
  "processNetworkInterfaceModifyConcurrently ord cfg toModify vpcID =
     and_then (modify_all ord cfg vpcID (range_map ord toModify)) (\<lambda>errs.
       case multierr errs (\<lambda>es. Join es ''; '') of None \<Rightarrow> succeed () | Some e \<Rightarrow> fail e)"

definition updateSecurityGroupMembers ::
    "order \<Rightarrow> 'c ec2ServiceConfig \<Rightarrow> string \<Rightarrow> string \<Rightarrow> string \<Rightarrow> CloudResource list \<Rightarrow> bool \<Rightarrow> ('c, unit) aws_op" where
  "updateSecurityGroupMembers ord cfg groupCloudSgID groupCloudSgName vpcID members membershipOnly =
     and_then (getNetworkInterfacesOfVpc cfg [(vpcID, ())]) (\<lambda>nics.
     and_then (getVpcDefaultSecurityGroupID ord cfg vpcID) (\<lambda>vpcDefaultSgID.
       case FindResourcesBasedOnKind members of (memberVMs, memberNICs) \<Rightarrow>
         processNetworkInterfaceModifyConcurrently ord cfg
           (fold (\<lambda>nic m. case groups_to_attach groupCloudSgID groupCloudSgName vpcDefaultSgID memberVMs memberNICs membershipOnly nic of
              None \<Rightarrow> m | Some sgs \<Rightarrow> put (eni_Id nic) sgs m) nics []) vpcID))"

section \<open>What the cloud enforces\<close>

definition getCloudSecurityGroupsByType :: "ec2_SecurityGroup list \<Rightarrow> sg_map \<times> sg_map" where
  "getCloudSecurityGroupsByType sgs = fold (\<lambda>sg (managed, unmanaged).
     case IsNepheControllerCreatedSG (GroupName sg) of (_, isAG, isAT) \<Rightarrow>
       if isAG \<or> isAT then (put (GroupId sg) sg managed, unmanaged) else (managed, put (GroupId sg) sg unmanaged)) sgs ([], [])"

definition getMemberNicCloudResourcesAttachedToOtherSGs :: "CloudResource list \<Rightarrow> (string, unit) gomap \<Rightarrow> CloudResource list" where
  "getMemberNicCloudResourcesAttachedToOtherSGs members others =
     map (\<lambda>m. \<lparr>rsc_Type = CloudResourceTypeNIC, rsc_Name = \<lparr>id_Name = id_Name (rsc_Name m), id_Vpc = id_Vpc (rsc_Name m)\<rparr>\<rparr>)
       (filter (\<lambda>m. has_key others (id_Name (rsc_Name m))) members)"

definition view_group ::
    "sg_map \<Rightarrow> ec2_NetworkInterface \<Rightarrow> string \<times> string \<Rightarrow>
     (string, CloudResource list) gomap \<times> bool \<times> bool \<Rightarrow> (string, CloudResource list) gomap \<times> bool \<times> bool" where
  "view_group managed nic grp acc = (case (grp, acc) of ((sgID, _), (members, other, nephe)) \<Rightarrow>
     if \<not> has_key managed sgID then (members, True, nephe)
     else (append_at sgID [\<lparr>rsc_Type = CloudResourceTypeNIC, rsc_Name = \<lparr>id_Name = eni_Id nic, id_Vpc = eni_VpcId nic\<rparr>\<rparr>] members,
           other, True))"

definition view_nic ::
    "sg_map \<Rightarrow> ec2_NetworkInterface \<Rightarrow> (string, CloudResource list) gomap \<times> (string, unit) gomap \<Rightarrow>
     (string, CloudResource list) gomap \<times> (string, unit) gomap" where
  "view_nic managed nic acc = (case acc of (members, others) \<Rightarrow>
     (case fold (view_group managed nic) (eni_Groups nic) (members, False, False) of (members', other, nephe) \<Rightarrow>
        (members', if nephe \<and> other then put (eni_Id nic) () others else others)))"

definition sync_content ::
    "sg_map \<Rightarrow> sg_map \<Rightarrow> (string, CloudResource list) gomap \<Rightarrow> (string, unit) gomap \<Rightarrow> string \<times> ec2_SecurityGroup \<Rightarrow> SynchronizationContent" where
  "sync_content managed unmanaged members others entry = (case entry of (sgID, sg) \<Rightarrow>
     (case IsNepheControllerCreatedSG (GroupName sg) of (sgName, isAG, _) \<Rightarrow>
        \<lparr>Resource = \<lparr>id_Name = sgName, id_Vpc = sg_VpcId sg\<rparr>, MembershipOnly = isAG, Members = get_or [] members sgID,
         MembersWithOtherSGAttached = getMemberNicCloudResourcesAttachedToOtherSGs (get_or [] members sgID) others,
         IngressRules = convertFromIPPermissionToIngressRule (IpPermissions sg) managed unmanaged,
         EgressRules = convertFromIPPermissionToEgressRule (IpPermissionsEgress sg) managed unmanaged\<rparr>))"

definition ec2_getNepheControllerManagedSecurityGroupsCloudView :: "order \<Rightarrow> 'c ec2ServiceConfig \<Rightarrow> 'c \<Rightarrow> SynchronizationContent list" where
  "ec2_getNepheControllerManagedSecurityGroupsCloudView ord cfg c =
     (let vpcIDs = getCachedVpcIDs cfg; flt = buildAwsEc2FilterForVpcIDOnlyMatches vpcIDs
      in if length vpcIDs = 0 then []
         else case pagedDescribeNetworkInterfaces (apiClient cfg) flt c of
           Inl _ \<Rightarrow> []
         | Inr nics \<Rightarrow> (case describeSecurityGroups (apiClient cfg) flt c of
             Inl _ \<Rightarrow> []
           | Inr sgs \<Rightarrow> (case getCloudSecurityGroupsByType sgs of (managed, unmanaged) \<Rightarrow>
               (case fold (view_nic managed) nics ([], []) of (members, others) \<Rightarrow>
                  map (sync_content managed unmanaged members others) (range_map ord managed)))))"

section \<open>The plug-in\<close>

definition awsComputeServiceNameEC2 :: string where "awsComputeServiceNameEC2 = ''EC2''"

type_synonym ('c, 'r) aws_accounts = "('c ec2ServiceConfig, 'r) accounts"

definition aws_getVpcAccount :: "order \<Rightarrow> string \<Rightarrow> ('c, 'r) aws_accounts \<Rightarrow> ('c ec2ServiceConfig, 'r) cloudAccountConfig option" where
  "aws_getVpcAccount ord vpcID accs = map_option snd (find (\<lambda>(_, acc).
     case GetServiceConfigByName awsComputeServiceNameEC2 acc of
       Inl _ \<Rightarrow> False
     | Inr cfg \<Rightarrow> has_key (getCachedVpcIDs cfg) (ToLower vpcID)) (range_map ord accs))"

definition with_service :: "order \<Rightarrow> string \<Rightarrow> ('c, 'r) aws_accounts \<Rightarrow> ('c ec2ServiceConfig \<Rightarrow> ('c, 'a) aws_op) \<Rightarrow> ('c, 'a) aws_op" where
  "with_service ord vpcID accs body = (case aws_getVpcAccount ord vpcID accs of
     None \<Rightarrow> fail (Err (''aws account not found managing virtual private cloud ['' @ vpcID @ '']''))
   | Some acc \<Rightarrow> (case GetServiceConfigByName awsComputeServiceNameEC2 acc of Inl err \<Rightarrow> fail err | Inr cfg \<Rightarrow> body cfg))"

definition aws_CreateSecurityGroup :: "order \<Rightarrow> ('c, 'r) aws_accounts \<Rightarrow> CloudResourceID \<Rightarrow> bool \<Rightarrow> ('c, string) aws_op" where
  "aws_CreateSecurityGroup ord accs gid membershipOnly = with_service ord (id_Vpc gid) accs (\<lambda>cfg.
     let cloudSgName = GetCloudName gid membershipOnly
     in and_then (createOrGetSecurityGroups ord cfg (id_Vpc gid) [(cloudSgName, ())]) (\<lambda>resp.
          case map_of resp cloudSgName of None \<Rightarrow> panic | Some sg \<Rightarrow> succeed (GroupId sg)))"

definition aws_UpdateSecurityGroupRules ::
    "order \<Rightarrow> ('c, 'r) aws_accounts \<Rightarrow> CloudResourceID \<Rightarrow> IngressRule option list \<Rightarrow> EgressRule option list \<Rightarrow> ('c, unit) aws_op" where
  "aws_UpdateSecurityGroupRules ord accs gid irules erules = with_service ord (id_Vpc gid) accs (\<lambda>cfg.
     case buildEc2CloudSgNamesFromRules gid irules erules of
       None \<Rightarrow> panic
     | Some names \<Rightarrow>
         and_then (getCloudSecurityGroupsWithNameFromCloud ord cfg (id_Vpc gid # getVpcPeers (id_Vpc gid) cfg) names) (\<lambda>sgs.
           if length sgs \<noteq> length names then fail (Err ''failed to find security groups'')
           else let sgObj = map_of sgs (GetCloudName gid False)
                in and_then (realizeIngressIPPermissions cfg sgObj irules sgs) (\<lambda>_.
                     realizeEgressIPPermissions cfg sgObj erules sgs)))"

definition aws_UpdateSecurityGroupMembers ::
    "order \<Rightarrow> ('c, 'r) aws_accounts \<Rightarrow> CloudResourceID \<Rightarrow> CloudResource list \<Rightarrow> bool \<Rightarrow> ('c, unit) aws_op" where
  "aws_UpdateSecurityGroupMembers ord accs gid members membershipOnly = with_service ord (id_Vpc gid) accs (\<lambda>cfg.
     let groupCloudSgName = GetCloudName gid membershipOnly
     in and_then (getCloudSecurityGroupsWithNameFromCloud ord cfg [id_Vpc gid] [(groupCloudSgName, ())]) (\<lambda>out.
          if length out \<noteq> 1
          then fail (Err (''failed to find cloud sg ('' @ id_Name gid @ '') corresponding to address group ('' @ groupCloudSgName @ '')''))
          else case map_of out groupCloudSgName of
            None \<Rightarrow> panic
          | Some sg \<Rightarrow> updateSecurityGroupMembers ord cfg (GroupId sg) groupCloudSgName (id_Vpc gid) members membershipOnly))"

definition aws_DeleteSecurityGroup :: "order \<Rightarrow> ('c, 'r) aws_accounts \<Rightarrow> CloudResourceID \<Rightarrow> bool \<Rightarrow> ('c, unit) aws_op" where
  "aws_DeleteSecurityGroup ord accs gid membershipOnly = with_service ord (id_Vpc gid) accs (\<lambda>cfg.
     let name = GetCloudName gid membershipOnly
     in and_then (getCloudSecurityGroupsWithNameFromCloud ord cfg [id_Vpc gid] [(name, ())]) (\<lambda>out.
          if length out = 0 then succeed ()
          else case map_of out name of
            None \<Rightarrow> panic
          | Some sg \<Rightarrow> and_then (updateSecurityGroupMembers ord cfg (GroupId sg) name (id_Vpc gid) [] membershipOnly) (\<lambda>_.
              call (deleteSecurityGroup (apiClient cfg) (GroupId sg)))))"

text \<open>The accounts whose inventory is there when the wait of 30 seconds is over.\<close>

definition aws_GetEnforcedSecurity :: "order \<Rightarrow> ('c, 'r) aws_accounts \<Rightarrow> 'c \<Rightarrow> SynchronizationContent list" where
  "aws_GetEnforcedSecurity ord accs c = concat (map (\<lambda>(_, acc). case GetServiceConfigByName awsComputeServiceNameEC2 acc of
     Inl _ \<Rightarrow> []
   | Inr cfg \<Rightarrow> if IsInventoryInitialized (inventoryStats cfg) then ec2_getNepheControllerManagedSecurityGroupsCloudView ord cfg c else [])
     (range_map ord accs))"

end
