(* ===== verification/Aws_Groups.thy ===== *)
theory Aws_Groups
  imports Aws_Security
begin

text \<open>
  Properties of the security groups on AWS: which groups the interfaces end up with when the members of a group
  are updated, and which permissions a group ends up with when its rules are. The calls of EC2 are assumed to do what they
  document, as named hypotheses.
\<close>

section \<open>Members\<close>

definition created_by_nephe :: "string \<Rightarrow> bool" where
  "created_by_nephe name \<longleftrightarrow> (case IsNepheControllerCreatedSG (ToLower name) of (_, isAG, isAT) \<Rightarrow> isAG \<or> isAT)"

definition nephe_ids :: "ec2_NetworkInterface \<Rightarrow> string set" where
  "nephe_ids nic = fst ` {g \<in> set (eni_Groups nic). created_by_nephe (snd g)}"

definition other_ids :: "ec2_NetworkInterface \<Rightarrow> string set" where
  "other_ids nic = fst ` {g \<in> set (eni_Groups nic). \<not> created_by_nephe (snd g)}"

lemma classify_one:
  "keys (nepheSgsSet (classify_group name g ng)) = (if created_by_nephe (snd g) then {fst g} else {}) \<union> keys (nepheSgsSet ng)"
  "keys (otherSgsSet (classify_group name g ng)) = (if created_by_nephe (snd g) then {} else {fst g}) \<union> keys (otherSgsSet ng)"
  "isGroupSgAttached (classify_group name g ng) \<longleftrightarrow> isGroupSgAttached ng \<or> created_by_nephe (snd g) \<and> ToLower (snd g) = name"
  by (auto simp: classify_group_def created_by_nephe_def Let_def split: prod.splits)

lemma classify_fold:
  "keys (nepheSgsSet (fold (classify_group name) gs ng)) = keys (nepheSgsSet ng) \<union> fst ` {g \<in> set gs. created_by_nephe (snd g)}"
  "keys (otherSgsSet (fold (classify_group name) gs ng)) = keys (otherSgsSet ng) \<union> fst ` {g \<in> set gs. \<not> created_by_nephe (snd g)}"
  "isGroupSgAttached (fold (classify_group name) gs ng) \<longleftrightarrow>
     isGroupSgAttached ng \<or> (\<exists>g \<in> set gs. created_by_nephe (snd g) \<and> ToLower (snd g) = name)"
  by (induction gs arbitrary: ng) (auto simp: classify_one)

lemma classify_groups_sets:
  "keys (nepheSgsSet (classify_groups name nic)) = nephe_ids nic"
  "keys (otherSgsSet (classify_groups name nic)) = other_ids nic"
  "isGroupSgAttached (classify_groups name nic) \<longleftrightarrow> (\<exists>g \<in> set (eni_Groups nic). created_by_nephe (snd g) \<and> ToLower (snd g) = name)"
  by (simp_all add: classify_groups_def classify_fold nephe_ids_def other_ids_def)

lemma keys_member_only:
  "keys (buildEc2SgsToAttachForCaseMemberOnlySgWithNoATSgAttached n ot d) =
     keys n \<union> keys ot \<union> (if ot = [] then {d} else {})"
proof -
  have "keys (fold (\<lambda>(k, v). put k v) xs m) = keys xs \<union> keys m" for xs :: "(string, unit) gomap" and m
    by (induction xs arbitrary: m) auto
  then show ?thesis by (auto simp: buildEc2SgsToAttachForCaseMemberOnlySgWithNoATSgAttached_def Let_def)
qed

text \<open>The groups of an interface after the update: an empty set is replaced by the default group of the network.\<close>

definition groups_after ::
    "string \<Rightarrow> string \<Rightarrow> string \<Rightarrow> (string, unit) gomap \<Rightarrow> (string, unit) gomap \<Rightarrow> bool \<Rightarrow> ec2_NetworkInterface \<Rightarrow> string set" where
  "groups_after sg name deflt vms nics mo nic = (case groups_to_attach sg name deflt vms nics mo nic of
     None \<Rightarrow> fst ` set (eni_Groups nic)
   | Some sgs \<Rightarrow> if sgs = [] then {deflt} else keys sgs)"

definition group_on_nic :: "string \<Rightarrow> string \<Rightarrow> ec2_NetworkInterface \<Rightarrow> bool" where
  "group_on_nic sg name nic \<longleftrightarrow> list_all (\<lambda>g. ToLower (snd g) = name \<longleftrightarrow> fst g = sg) (eni_Groups nic)"

lemma keys_empty: "keys m = {} \<longleftrightarrow> m = []"
  by (auto simp: keys_def)

lemma groups_after_exact:
  fixes vms nics :: "(string, unit) gomap" and mo :: bool
  assumes "group_on_nic sg name nic" "created_by_nephe name" "ToLower name = name" "deflt \<noteq> sg"
    and "eni_InstanceId nic = Some i" "eni_Groups nic \<noteq> []"
  defines "after \<equiv> groups_after sg name deflt vms nics mo nic"
    and "member \<equiv> has_key vms i \<or> has_key nics (eni_Id nic)"
  shows "(sg \<in> after) = member \<and> nephe_ids nic - {sg} \<subseteq> after \<and> after \<noteq> {} \<and>
    after \<subseteq> insert deflt (insert sg (fst ` set (eni_Groups nic))) \<and>
    (member \<and> \<not> mo \<and> sg \<notin> fst ` set (eni_Groups nic) \<longrightarrow> after = insert sg (nephe_ids nic))"
proof -
  have all: "fst ` set (eni_Groups nic) = nephe_ids nic \<union> other_ids nic"
    by (auto simp: nephe_ids_def other_ids_def)
  have att: "isGroupSgAttached (classify_groups name nic) \<longleftrightarrow> sg \<in> fst ` set (eni_Groups nic)"
    using assms(1-3) by (force simp: classify_groups_sets group_on_nic_def list_all_iff created_by_nephe_def)
  have other: "sg \<notin> other_ids nic"
    using assms(1-3) by (force simp: other_ids_def group_on_nic_def list_all_iff created_by_nephe_def)
  have empty: "otherSgsSet (classify_groups name nic) = [] \<longleftrightarrow> other_ids nic = {}"
    using classify_groups_sets(2) [of name nic] keys_empty by metis
  have full: "nephe_ids nic \<noteq> {} \<or> other_ids nic \<noteq> {}" using assms(6) all by force
  show ?thesis
  proof (cases "sg \<in> fst ` set (eni_Groups nic)")
    case True
    then have "sg \<in> nephe_ids nic" using all other by blast
    with True att assms(4,5) full show ?thesis
      by (auto simp: after_def member_def groups_after_def groups_to_attach_def Let_def keys_member_only
          classify_groups_sets empty all other keys_empty [symmetric] split: if_splits)
  next
    case False
    with att assms(4,5) full show ?thesis
      by (auto simp: after_def member_def groups_after_def groups_to_attach_def Let_def keys_member_only
          classify_groups_sets empty all other keys_empty [symmetric] split: if_splits)
  qed
qed

section \<open>The update of the members\<close>

text \<open>
  What EC2 documents of interfaces, \<open>nicG\<close> being the groups each has: a successful modification sets the groups,
  a failed one changes nothing, and a description lists every interface once with its groups.
\<close>

definition nics_documented :: "'c ec2_client \<Rightarrow> ('c \<Rightarrow> string \<Rightarrow> string set) \<Rightarrow> bool" where
  "nics_documented cl nicG \<longleftrightarrow>
     (\<forall>n ids c e c'. modifyNetworkInterfaceAttribute cl n ids c = (e, c') \<longrightarrow>
        nicG c' = (if e = None then (nicG c)(n := set ids) else nicG c)) \<and>
     (\<forall>fs c l. pagedDescribeNetworkInterfaces cl fs c = Inr l \<longrightarrow>
        distinct (map eni_Id l) \<and> (\<forall>nic \<in> set l. fst ` set (eni_Groups nic) = nicG c (eni_Id nic)))"

lemma run_call: "run_state (call f) w =
    (Returns (case fst (f (cloud w)) of None \<Rightarrow> Inr () | Some e \<Rightarrow> Inl e), w\<lparr>cloud := snd (f (cloud w))\<rparr>)"
  by (simp add: call_def split: prod.splits)

lemma run_ask: "run_state (ask f) w = (Returns (f (cloud w)), w)"
  by (simp add: ask_def)

lemma default_cached:
  assumes "map_of (vpcIDToDefaultSecurityGroup w) vpcID = Some d"
  shows "run_state (getVpcDefaultSecurityGroupID ord cfg vpcID) w = (Returns (Inr d), w)"
  using assms by (simp add: getVpcDefaultSecurityGroupID_def)

lemma default_found:
  assumes "run_state (getVpcDefaultSecurityGroupID ord cfg vpcID) w = (Returns (Inr d), w')"
  shows "cloud w' = cloud w \<and> map_of (vpcIDToDefaultSecurityGroup w') vpcID = Some d"
proof (cases "map_of (vpcIDToDefaultSecurityGroup w) vpcID")
  case None
  with assms show ?thesis
    by (auto simp: getVpcDefaultSecurityGroupID_def and_then_succeed getCloudSecurityGroupsWithNameFromCloud_def run_ask
        split: option.splits)
qed (use assms in \<open>auto simp: default_cached\<close>)

definition attached :: "string \<Rightarrow> (string, unit) gomap \<Rightarrow> string set" where
  "attached d sgs = (if sgs = [] then {d} else keys sgs)"

lemma update_nic:
  assumes "nics_documented (apiClient cfg) nicG" "is_order ord" "map_of (vpcIDToDefaultSecurityGroup w) vpcID = Some d"
    and "run_state (updateNetworkInterfaceSecurityGroups ord cfg n vpcID sgs) w = (r, w')"
  shows "vpcIDToDefaultSecurityGroup w' = vpcIDToDefaultSecurityGroup w \<and>
    (r = Returns (Inr ()) \<longrightarrow> nicG (cloud w') = (nicG (cloud w))(n := attached d sgs))"
proof -
  define ids where "ids = (if sgs = [] then [d] else map fst (range_map ord sgs))"
  have "set ids = attached d sgs" using assms(2) by (simp add: ids_def attached_def keys_def)
  moreover have "run_state (updateNetworkInterfaceSecurityGroups ord cfg n vpcID sgs) w =
      run_state (call (modifyNetworkInterfaceAttribute (apiClient cfg) n ids)) w"
    by (simp add: updateNetworkInterfaceSecurityGroups_def run_and_then default_cached [OF assms(3)] ids_def)
  moreover obtain e c where ec: "modifyNetworkInterfaceAttribute (apiClient cfg) n ids (cloud w) = (e, c)" by fastforce
  moreover have "nicG c = (if e = None then (nicG (cloud w))(n := set ids) else nicG (cloud w))"
    using assms(1) ec unfolding nics_documented_def by blast
  ultimately show ?thesis using assms(4) by (auto simp: run_call split: option.splits)
qed

lemma modify_all_ok:
  assumes "nics_documented (apiClient cfg) nicG" "is_order ord" "map_of (vpcIDToDefaultSecurityGroup w) vpcID = Some d"
    and "distinct (map fst l)" "run_state (modify_all ord cfg vpcID l) w = (Returns (Inr []), w')"
  shows "nicG (cloud w') n = (case map_of l n of None \<Rightarrow> nicG (cloud w) n | Some sgs \<Rightarrow> attached d sgs) \<and>
    vpcIDToDefaultSecurityGroup w' = vpcIDToDefaultSecurityGroup w"
  using assms(3-5)
proof (induction l arbitrary: w)
  case (Cons p l)
  obtain m sgs where p: "p = (m, sgs)" by fastforce
  obtain r v where step: "run_state (updateNetworkInterfaceSecurityGroups ord cfg m vpcID sgs) w = (r, v)" by fastforce
  note upd = update_nic [OF assms(1,2) Cons.prems(1) step]
  have ran: "r = Returns (Inr ()) \<and> run_state (modify_all ord cfg vpcID l) v = (Returns (Inr []), w')"
  proof (cases r)
    case (Returns x)
    with Cons.prems(3) show ?thesis by (cases x) (auto simp: p step and_then_succeed)
  qed (use Cons.prems(3) in \<open>simp_all add: p step\<close>)
  have v: "map_of (vpcIDToDefaultSecurityGroup v) vpcID = Some d" using upd Cons.prems(1) by simp
  have "nicG (cloud w') n = (case map_of l n of None \<Rightarrow> nicG (cloud v) n | Some s \<Rightarrow> attached d s) \<and>
      vpcIDToDefaultSecurityGroup w' = vpcIDToDefaultSecurityGroup v"
    using Cons.IH [OF v _ conjunct2 [OF ran]] Cons.prems(2) by simp
  moreover have "map_of l m = None" using Cons.prems(2) by (simp add: p map_of_eq_None_iff)
  ultimately show ?case using upd ran by (cases "map_of l n") (auto simp: p)
qed auto

lemma to_modify:
  assumes "distinct (map eni_Id l)" "nic \<in> set l"
  shows "map_of (fold (\<lambda>nic m. case f nic of None \<Rightarrow> m | Some sgs \<Rightarrow> put (eni_Id nic) sgs m) l m0) (eni_Id nic) =
    (case f nic of None \<Rightarrow> map_of m0 (eni_Id nic) | Some sgs \<Rightarrow> Some sgs)"
  using assms
proof (induction l arbitrary: m0)
  case (Cons a l)
  have out: "map_of (fold (\<lambda>nic m. case f nic of None \<Rightarrow> m | Some sgs \<Rightarrow> put (eni_Id nic) sgs m) xs m) k = map_of m k"
    if "k \<notin> eni_Id ` set xs" for xs m k
    using that by (induction xs arbitrary: m) (auto split: option.splits)
  show ?case
  proof (cases "nic = a")
    case True
    with Cons.prems(1) show ?thesis by (auto simp: out split: option.splits)
  next
    case False
    with Cons.prems have "nic \<in> set l" "eni_Id nic \<noteq> eni_Id a" by (auto simp: image_iff)
    with Cons show ?thesis by (auto split: option.splits)
  qed
qed simp

lemma to_modify_wf: "wf_map m \<Longrightarrow> wf_map (fold (\<lambda>nic m. case f nic of None \<Rightarrow> m | Some sgs \<Rightarrow> put (eni_Id nic) sgs m) l m)"
  by (induction l arbitrary: m) (auto split: option.splits)

lemma multierr_None: "multierr errs j = None \<longleftrightarrow> errs = []"
  by (auto simp: multierr_def split: list.splits)

lemma updateMembers_sets_groups:
  assumes "nics_documented (apiClient cfg) nicG" "is_order ord"
    and "run_state (updateSecurityGroupMembers ord cfg sg name vpcID members mo) w = (Returns (Inr ()), w')"
    and "pagedDescribeNetworkInterfaces (apiClient cfg) (buildAwsEc2FilterForVpcIDOnlyMatches [(vpcID, ())]) (cloud w) = Inr l"
    and "nic \<in> set l" "FindResourcesBasedOnKind members = (vms, nics)"
    and d: "run_state (getVpcDefaultSecurityGroupID ord cfg vpcID) w = (Returns (Inr d), v)"
  shows "nicG (cloud w') (eni_Id nic) = groups_after sg name d vms nics mo nic"
proof -
  let ?f = "groups_to_attach sg name d vms nics mo"
  let ?m = "fold (\<lambda>nic m. case ?f nic of None \<Rightarrow> m | Some sgs \<Rightarrow> put (eni_Id nic) sgs m) l []"
  have run: "run_state (modify_all ord cfg vpcID (range_map ord ?m)) v = (Returns (Inr []), w')"
    using assms(3,4,6) d
    by (auto simp: updateSecurityGroupMembers_def and_then_succeed getNetworkInterfacesOfVpc_def run_ask
        processNetworkInterfaceModifyConcurrently_def multierr_None split: option.splits)
  note found = default_found [OF d]
  have wf: "wf_map ?m" by (rule to_modify_wf) (simp add: wf_map_def)
  have dist: "distinct (map eni_Id l)" and groups: "fst ` set (eni_Groups nic) = nicG (cloud w) (eni_Id nic)"
    using assms(1,4,5) by (auto simp: nics_documented_def)
  have same: "map_of (range_map ord ?m) (eni_Id nic) = ?f nic"
    using map_of_range_map [OF assms(2) wf] to_modify [OF dist assms(5), of ?f "[]"] by (auto split: option.splits)
  have "distinct (map fst (range_map ord ?m))" using assms(2) wf by (rule distinct_range_map)
  from modify_all_ok [OF assms(1,2) conjunct2 [OF found] this run, of "eni_Id nic"] found groups
  show ?thesis by (auto simp: same groups_after_def attached_def split: option.splits)
qed

text \<open>When every modification succeeds the update returns without an error.\<close>

definition nics_available :: "'c ec2_client \<Rightarrow> bool" where
  "nics_available cl \<longleftrightarrow> (\<forall>n ids c. fst (modifyNetworkInterfaceAttribute cl n ids c) = None)"

lemma modify_all_returns:
  assumes "nics_available (apiClient cfg)" "map_of (vpcIDToDefaultSecurityGroup w) vpcID = Some d"
  shows "\<exists>w'. run_state (modify_all ord cfg vpcID l) w = (Returns (Inr []), w')"
  using assms(2)
proof (induction l arbitrary: w)
  case (Cons p l)
  obtain m sgs where p: "p = (m, sgs)" by fastforce
  define ids where "ids = (if sgs = [] then [d] else map fst (range_map ord sgs))"
  let ?v = "w\<lparr>cloud := snd (modifyNetworkInterfaceAttribute (apiClient cfg) m ids (cloud w))\<rparr>"
  have "run_state (updateNetworkInterfaceSecurityGroups ord cfg m vpcID sgs) w = (Returns (Inr ()), ?v)"
    using assms(1)
    by (simp add: updateNetworkInterfaceSecurityGroups_def run_and_then default_cached [OF Cons.prems] ids_def run_call nics_available_def)
  moreover obtain w' where "run_state (modify_all ord cfg vpcID l) ?v = (Returns (Inr []), w')"
    using Cons.IH [of ?v] Cons.prems by auto
  ultimately show ?case by (simp add: p run_and_then)
qed simp

lemma updateMembers_returns:
  assumes "nics_available (apiClient cfg)"
    and "run_state (getVpcDefaultSecurityGroupID ord cfg vpcID) w = (Returns (Inr d), v)"
    and "pagedDescribeNetworkInterfaces (apiClient cfg) (buildAwsEc2FilterForVpcIDOnlyMatches [(vpcID, ())]) (cloud w) = Inr l"
  shows "\<exists>w'. run_state (updateSecurityGroupMembers ord cfg sg name vpcID members mo) w = (Returns (Inr ()), w')"
proof -
  obtain vms nics where f: "FindResourcesBasedOnKind members = (vms, nics)" by fastforce
  let ?m = "fold (\<lambda>nic m. case groups_to_attach sg name d vms nics mo nic of None \<Rightarrow> m | Some sgs \<Rightarrow> put (eni_Id nic) sgs m) l []"
  obtain w' where "run_state (modify_all ord cfg vpcID (range_map ord ?m)) v = (Returns (Inr []), w')"
    using modify_all_returns [OF assms(1) conjunct2 [OF default_found [OF assms(2)]]] by blast
  then have "run_state (updateSecurityGroupMembers ord cfg sg name vpcID members mo) w = (Returns (Inr ()), w')"
    using assms(2,3)
    by (auto simp: updateSecurityGroupMembers_def and_then_succeed getNetworkInterfacesOfVpc_def run_ask f
        processNetworkInterfaceModifyConcurrently_def multierr_def)
  then show ?thesis by blast
qed

text \<open>
  C8: updating the members of a security group on AWS returns and gives every interface that is attached to an
  instance exactly the groups it should have. It has the group if and only if it, or its instance, is a member; the
  other groups the controller made stay; it is never left without a group. An interface that joins an
  applied-to group leaves all groups that the controller did not make.
\<close>

theorem aws_members_enforced:
  fixes mo :: bool
  assumes "nics_documented (apiClient cfg) nicG" "nics_available (apiClient cfg)" "is_order ord"
    and "pagedDescribeNetworkInterfaces (apiClient cfg) (buildAwsEc2FilterForVpcIDOnlyMatches [(vpcID, ())]) (cloud w) = Inr l"
    and "run_state (getVpcDefaultSecurityGroupID ord cfg vpcID) w = (Returns (Inr d), v)" "d \<noteq> sg"
    and "nic \<in> set l" "eni_InstanceId nic = Some i" "eni_Groups nic \<noteq> []" "group_on_nic sg (GetCloudName gid mo) nic"
  shows "\<exists>w'. run_state (updateSecurityGroupMembers ord cfg sg (GetCloudName gid mo) vpcID members mo) w = (Returns (Inr ()), w') \<and>
    (let after = nicG (cloud w') (eni_Id nic); member = is_member members i (eni_Id nic)
     in (sg \<in> after) = member \<and> nephe_ids nic - {sg} \<subseteq> after \<and> after \<noteq> {} \<and>
        (member \<and> \<not> mo \<and> sg \<notin> fst ` set (eni_Groups nic) \<longrightarrow> after = insert sg (nephe_ids nic)))"
proof -
  let ?name = "GetCloudName gid mo"
  obtain vms nics where f: "FindResourcesBasedOnKind members = (vms, nics)" by fastforce
  obtain w' where w': "run_state (updateSecurityGroupMembers ord cfg sg ?name vpcID members mo) w = (Returns (Inr ()), w')"
    using updateMembers_returns [OF assms(2,5,4)] by blast
  have after: "nicG (cloud w') (eni_Id nic) = groups_after sg ?name d vms nics mo nic"
    by (rule updateMembers_sets_groups [OF assms(1,3) w' assms(4,7) f assms(5)])
  have name: "ToLower ?name = ?name" by (rule ToLower_GetCloudName)
  then have "created_by_nephe ?name" by (simp add: created_by_nephe_def)
  have member: "is_member members i (eni_Id nic) \<longleftrightarrow> has_key vms i \<or> has_key nics (eni_Id nic)"
    using is_member_iff [of members] f by simp
  from groups_after_exact [OF assms(10) \<open>created_by_nephe ?name\<close> name assms(6,8,9), of vms nics mo]
  show ?thesis using w' by (auto simp: after member Let_def)
qed

section \<open>A small cloud\<close>

text \<open>Three groups in one network and one interface, for the examples; the new permissions of a group may be refused.\<close>

record demo_cloud =
  demo_nics :: "string \<Rightarrow> (string \<times> string) list"
  demo_in :: "string \<Rightarrow> ec2_IpPermission list"
  demo_eg :: "string \<Rightarrow> ec2_IpPermission list"

definition demo_web :: CloudResourceID where "demo_web = \<lparr>id_Name = ''web'', id_Vpc = ''vpc''\<rparr>"

definition demo_db :: CloudResourceID where "demo_db = \<lparr>id_Name = ''db'', id_Vpc = ''vpc''\<rparr>"

definition demo_name :: "string \<Rightarrow> string" where
  "demo_name i = (if i = ''sg-1'' then GetCloudName demo_web False else if i = ''sg-2'' then GetCloudName demo_db True
     else awsVpcDefaultSecurityGroupName)"

definition demo_sg :: "demo_cloud \<Rightarrow> string \<Rightarrow> ec2_SecurityGroup" where
  "demo_sg c i = \<lparr>GroupId = i, GroupName = demo_name i, sg_VpcId = ''vpc'', IpPermissions = demo_in c i, IpPermissionsEgress = demo_eg c i\<rparr>"

definition demo_groups :: "ec2_Filter list \<Rightarrow> demo_cloud \<Rightarrow> ec2_SecurityGroup list" where
  "demo_groups fs c = filter (\<lambda>sg. list_all (\<lambda>f. flt_Name f = awsFilterKeyVPCID \<or> GroupName sg \<in> set (Values f)) fs)
     [demo_sg c ''sg-0'', demo_sg c ''sg-1'', demo_sg c ''sg-2'']"

definition demo_nic :: "demo_cloud \<Rightarrow> ec2_NetworkInterface" where
  "demo_nic c = \<lparr>eni_Id = ''eni-1'', eni_VpcId = ''vpc'', eni_InstanceId = Some ''i-1'', eni_Groups = demo_nics c ''eni-1''\<rparr>"

definition demo_authorize ::
    "error \<Rightarrow> (((string \<Rightarrow> ec2_IpPermission list) \<Rightarrow> string \<Rightarrow> ec2_IpPermission list) \<Rightarrow> demo_cloud \<Rightarrow> demo_cloud) \<Rightarrow>
     string \<Rightarrow> ec2_IpPermission list \<Rightarrow> demo_cloud \<Rightarrow> error \<times> demo_cloud" where
  "demo_authorize err upd g ps c = (if err = None then (None, upd (\<lambda>m. m(g := ps @ m g)) c) else (err, c))"

definition demo_revoke ::
    "(((string \<Rightarrow> ec2_IpPermission list) \<Rightarrow> string \<Rightarrow> ec2_IpPermission list) \<Rightarrow> demo_cloud \<Rightarrow> demo_cloud) \<Rightarrow>
     string \<Rightarrow> ec2_IpPermission list \<Rightarrow> demo_cloud \<Rightarrow> error \<times> demo_cloud" where
  "demo_revoke upd g ps c = (None, upd (\<lambda>m. m(g := filter (\<lambda>p. p \<notin> set ps) (m g))) c)"

definition demo_client :: "error \<Rightarrow> demo_cloud ec2_client" where
  "demo_client err = \<lparr>pagedDescribeInstances = (\<lambda>_ _. Inr []), describeVpcs = (\<lambda>_. Inr []), describeVpcPeeringConnections = (\<lambda>_. Inr []),
     pagedDescribeNetworkInterfaces = (\<lambda>_ c. Inr [demo_nic c]),
     modifyNetworkInterfaceAttribute = (\<lambda>n ids c. (None, demo_nics_update (\<lambda>m. m(n := map (\<lambda>i. (i, demo_name i)) ids)) c)),
     createSecurityGroup = (\<lambda>_ _ c. (Inl (Err ''limit''), c)), describeSecurityGroups = (\<lambda>fs c. Inr (demo_groups fs c)),
     deleteSecurityGroup = (\<lambda>_ c. (None, c)),
     authorizeSecurityGroupEgress = demo_authorize err demo_eg_update, authorizeSecurityGroupIngress = demo_authorize err demo_in_update,
     revokeSecurityGroupEgress = demo_revoke demo_eg_update, revokeSecurityGroupIngress = demo_revoke demo_in_update,
     retries = 0, elapse = (\<lambda>c. c)\<rparr>"

definition demo_service :: "error \<Rightarrow> demo_cloud ec2ServiceConfig" where
  "demo_service err = \<lparr>accountName = ''a'', apiClient = demo_client err,
     resourcesCache = Some \<lparr>snap_instances = [], snap_vpcIDs = [(''vpc'', ())], vpcNameToID = [], vpcPeers = []\<rparr>,
     inventoryStats = \<lparr>totalPollCnt = 1, successPollCnt = 1, lastPollErr = None\<rparr>, instanceFilters = []\<rparr>"

definition demo_world :: "demo_cloud aws_world" where
  "demo_world = \<lparr>cloud = \<lparr>demo_nics = (\<lambda>_. [(''sg-0'', ''default'')]),
     demo_in = (\<lambda>_. [\<lparr>perm_FromPort = Some 22, perm_ToPort = Some 22, IpProtocol = ''6'', IpRanges = [''0.0.0.0/0''], UserIdGroupPairs = []\<rparr>]),
     demo_eg = (\<lambda>_. [])\<rparr>, vpcIDToDefaultSecurityGroup = []\<rparr>"

lemma demo_nics_documented: "nics_documented (demo_client err) (\<lambda>c n. fst ` set (demo_nics c n))"
  by (auto simp: nics_documented_def demo_client_def demo_nic_def image_image fun_eq_iff)

theorem aws_members_enforced_witness:
  "\<exists>w'. run_state (updateSecurityGroupMembers in_order (demo_service None) ''sg-1'' (GetCloudName demo_web False) ''vpc''
      [\<lparr>rsc_Type = CloudResourceTypeVM, rsc_Name = \<lparr>id_Name = ''i-1'', id_Vpc = ''vpc''\<rparr>\<rparr>] False) demo_world = (Returns (Inr ()), w') \<and>
    fst ` set (demo_nics (cloud w') ''eni-1'') = {''sg-1''}"
proof -
  have lower: "ToLower ''default'' = ''default''" "ToLower ''i-1'' = ''i-1''" "\<not> created_by_nephe ''default''"
      "ToLower (GetCloudName demo_web False) \<noteq> ''default''" "ToLower (GetCloudName demo_db True) \<noteq> ''default''"
    by code_simp+
  have client: "apiClient (demo_service None) = demo_client None" by (simp add: demo_service_def)
  have names: "GetCloudName demo_web False \<noteq> ''default''" "GetCloudName demo_db True \<noteq> ''default''"
    using lower(4,5) lower(1) by auto
  have default: "run_state (getVpcDefaultSecurityGroupID in_order (demo_service None) ''vpc'') demo_world =
      (Returns (Inr ''sg-0''), demo_world\<lparr>vpcIDToDefaultSecurityGroup := [(''vpc'', ''sg-0'')]\<rparr>)"
    using lower names
    by (simp add: getVpcDefaultSecurityGroupID_def demo_world_def run_and_then getCloudSecurityGroupsWithNameFromCloud_def
        run_ask client demo_client_def demo_groups_def demo_sg_def demo_name_def buildAwsEc2FilterForSecurityGroupNameMatches_def
        awsVpcDefaultSecurityGroupName_def by_lower_name_def awsFilterKeyVPCID_def awsFilterKeyGroupName_def put_def)
  let ?nic = "demo_nic (cloud demo_world)" and ?vm = "\<lparr>rsc_Type = CloudResourceTypeVM, rsc_Name = \<lparr>id_Name = ''i-1'', id_Vpc = ''vpc''\<rparr>\<rparr>"
  have nic: "eni_InstanceId ?nic = Some ''i-1''" "eni_Groups ?nic = [(''sg-0'', ''default'')]" "eni_Id ?nic = ''eni-1''"
    by (simp_all add: demo_nic_def demo_world_def)
  have on: "group_on_nic ''sg-1'' (GetCloudName demo_web False) ?nic" using lower names(1) by (auto simp: group_on_nic_def nic)
  have listed: "pagedDescribeNetworkInterfaces (apiClient (demo_service None)) fs (cloud demo_world) = Inr [?nic]" for fs
    by (simp add: client demo_client_def)
  have ok: "nics_documented (apiClient (demo_service None)) (\<lambda>c n. fst ` set (demo_nics c n))" "nics_available (apiClient (demo_service None))"
    using demo_nics_documented by (simp_all add: client) (simp add: nics_available_def demo_client_def)
  have "is_member [?vm] ''i-1'' ''eni-1''" "nephe_ids ?nic = {}" using lower(2,3) by (auto simp: is_member_def nephe_ids_def nic)
  then show ?thesis
    using aws_members_enforced [OF ok is_order_in_order listed default _ _ nic(1) _ on, of "[?vm]"] by (auto simp: nic Let_def)
qed

end
