(* ===== verification/Aws_Enforce.thy ===== *)
theory Aws_Enforce
  imports Aws_Groups
begin

text \<open>
  The rules of security groups on AWS: what the permissions of a group are after its rules were updated, what
  is left of them when a call fails half-way, and the limits of finding groups by name.
\<close>

section \<open>Behaviour of the calls\<close>

text \<open>
  Revoking removes permissions and authorizing adds them, a failed call changes nothing, and a call for one direction
  leaves the other alone; \<open>P\<close> and \<open>Q\<close> are the permissions of every group in the two directions.
\<close>

definition permission_calls ::
    "(string \<Rightarrow> ec2_IpPermission list \<Rightarrow> 'c \<Rightarrow> error \<times> 'c) \<Rightarrow> (string \<Rightarrow> ec2_IpPermission list \<Rightarrow> 'c \<Rightarrow> error \<times> 'c) \<Rightarrow>
     ('c \<Rightarrow> string \<Rightarrow> ec2_IpPermission set) \<Rightarrow> ('c \<Rightarrow> string \<Rightarrow> ec2_IpPermission set) \<Rightarrow> bool" where
  "permission_calls revoke authorize P Q \<longleftrightarrow>
     (\<forall>g ps c e c'. revoke g ps c = (e, c') \<longrightarrow> P c' = (if e = None then (P c)(g := P c g - set ps) else P c) \<and> Q c' = Q c) \<and>
     (\<forall>g ps c e c'. authorize g ps c = (e, c') \<longrightarrow> P c' = (if e = None then (P c)(g := P c g \<union> set ps) else P c) \<and> Q c' = Q c)"

definition rules_documented ::
    "'c ec2_client \<Rightarrow> ('c \<Rightarrow> string \<Rightarrow> ec2_IpPermission set) \<Rightarrow> ('c \<Rightarrow> string \<Rightarrow> ec2_IpPermission set) \<Rightarrow> bool" where
  "rules_documented cl inP egP \<longleftrightarrow>
     permission_calls (revokeSecurityGroupIngress cl) (authorizeSecurityGroupIngress cl) inP egP \<and>
     permission_calls (revokeSecurityGroupEgress cl) (authorizeSecurityGroupEgress cl) egP inP \<and>
     (\<forall>fs c l. describeSecurityGroups cl fs c = Inr l \<longrightarrow>
        (\<forall>sg \<in> set l. set (IpPermissions sg) = inP c (GroupId sg) \<and> set (IpPermissionsEgress sg) = egP c (GroupId sg)))"

definition succeeds :: "(string \<Rightarrow> ec2_IpPermission list \<Rightarrow> 'c \<Rightarrow> error \<times> 'c) \<Rightarrow> bool" where
  "succeeds f \<longleftrightarrow> (\<forall>g ps c. fst (f g ps c) = None)"

definition rules_available :: "'c ec2_client \<Rightarrow> bool" where
  "rules_available cl \<longleftrightarrow> succeeds (revokeSecurityGroupIngress cl) \<and> succeeds (authorizeSecurityGroupIngress cl) \<and>
     succeeds (revokeSecurityGroupEgress cl) \<and> succeeds (authorizeSecurityGroupEgress cl)"

section \<open>One direction\<close>

lemma call_effect:
  assumes "permission_calls revoke authorize P Q"
  shows "run_state (call (revoke g ps)) w = (r, w') \<Longrightarrow>
      P (cloud w') = (if r = Returns (Inr ()) then (P (cloud w))(g := P (cloud w) g - set ps) else P (cloud w)) \<and> Q (cloud w') = Q (cloud w)"
    and "run_state (call (authorize g ps)) w = (r, w') \<Longrightarrow>
      P (cloud w') = (if r = Returns (Inr ()) then (P (cloud w))(g := P (cloud w) g \<union> set ps) else P (cloud w)) \<and> Q (cloud w') = Q (cloud w)"
proof -
  obtain e c e' c' where ec: "revoke g ps (cloud w) = (e, c)" "authorize g ps (cloud w) = (e', c')" by fastforce
  then have "P c = (if e = None then (P (cloud w))(g := P (cloud w) g - set ps) else P (cloud w)) \<and> Q c = Q (cloud w)"
      "P c' = (if e' = None then (P (cloud w))(g := P (cloud w) g \<union> set ps) else P (cloud w)) \<and> Q c' = Q (cloud w)"
    using assms unfolding permission_calls_def by blast+
  then show "run_state (call (revoke g ps)) w = (r, w') \<Longrightarrow>
      P (cloud w') = (if r = Returns (Inr ()) then (P (cloud w))(g := P (cloud w) g - set ps) else P (cloud w)) \<and> Q (cloud w') = Q (cloud w)"
    and "run_state (call (authorize g ps)) w = (r, w') \<Longrightarrow>
      P (cloud w') = (if r = Returns (Inr ()) then (P (cloud w))(g := P (cloud w) g \<union> set ps) else P (cloud w)) \<and> Q (cloud w') = Q (cloud w)"
    using ec by (auto simp: run_call split: option.splits)
qed

lemma call_succeeds: "succeeds f \<Longrightarrow> \<exists>w'. run_state (call (f g ps)) w = (Returns (Inr ()), w')"
  by (simp add: run_call succeeds_def)

lemma revoke_old:
  assumes "permission_calls revoke authorize P Q" "succeeds revoke" "set old = P (cloud w) g"
  obtains v where "run_state (if length old > 0 then call (revoke g old) else succeed ()) w = (Returns (Inr ()), v)"
    "P (cloud v) = (P (cloud w))(g := {})" "Q (cloud v) = Q (cloud w)"
proof (cases "old = []")
  case True
  then have "P (cloud w) = (P (cloud w))(g := {})" using assms(3) by (simp add: fun_upd_idem)
  with True show thesis using that [of w] by simp
next
  case False
  obtain v where "run_state (call (revoke g old)) w = (Returns (Inr ()), v)" using call_succeeds [OF assms(2)] by blast
  with call_effect(1) [OF assms(1) this] False show thesis using that [of v] by (simp add: assms(3))
qed

lemma realize_ok:
  assumes "permission_calls revoke authorize P Q" "succeeds revoke" "succeeds authorize" "set old = P (cloud w) g" "perms = Some ps"
  shows "\<exists>w'. run_state (realize revoke authorize g old rules perms) w = (Returns (Inr ()), w') \<and>
    P (cloud w') = (P (cloud w))(g := if rules = [] then {} else set ps) \<and> Q (cloud w') = Q (cloud w)"
proof -
  obtain v where v: "run_state (if length old > 0 then call (revoke g old) else succeed ()) w = (Returns (Inr ()), v)"
      "P (cloud v) = (P (cloud w))(g := {})" "Q (cloud v) = Q (cloud w)"
    by (rule revoke_old [OF assms(1,2,4)])
  show ?thesis
  proof (cases "rules = []")
    case True
    with v show ?thesis by (simp add: realize_def run_and_then)
  next
    case False
    obtain w' where w': "run_state (call (authorize g ps)) v = (Returns (Inr ()), w')" using call_succeeds [OF assms(3)] by blast
    with call_effect(2) [OF assms(1) w'] v False show ?thesis by (simp add: realize_def run_and_then assms(5))
  qed
qed

section \<open>Both directions\<close>

lemma build_permission_exists:
  assumes "\<forall>g \<in> set gs. GetCloudName g True \<in> keys sgs"
  shows "\<exists>p. build_permission sgs port protocol ips gs = Some p"
proof -
  have "\<exists>pairs. buildEc2UserIDGroupPairs gs sgs = Some pairs"
    using assms by (induction gs) (auto simp: buildEc2UserIDGroupPairs_def keys_iff)
  then show ?thesis by (auto simp: build_permission_def split: prod.splits)
qed

lemma those_exists: "(\<And>x. x \<in> set xs \<Longrightarrow> \<exists>y. f x = Some y) \<Longrightarrow> \<exists>ys. those (map f xs) = Some ys"
  by (induction xs) (auto, force)

lemma names_of_rules:
  assumes "buildEc2CloudSgNamesFromRules gid irules erules = Some names"
  shows "wf_map names" "GetCloudName gid False \<in> keys names"
    and "\<And>r g. Some r \<in> set irules \<Longrightarrow> g \<in> set (FromSecurityGroups r) \<Longrightarrow> GetCloudName g True \<in> keys names"
    and "\<And>r g. Some r \<in> set erules \<Longrightarrow> g \<in> set (ToSecurityGroups r) \<Longrightarrow> GetCloudName g True \<in> keys names"
  using assms
  by (auto simp: buildEc2CloudSgNamesFromRules_def wf_fold_put keys_fold_put split: if_splits)
    (metis (no_types, lifting) UN_I image_eqI rules_given_iff)+

lemma permissions_exist:
  assumes "buildEc2CloudSgNamesFromRules gid irules erules = Some names" "keys sgs = keys names"
  shows "\<exists>ps. ingress_permissions sgs irules = Some ps" "\<exists>ps. egress_permissions sgs erules = Some ps"
  unfolding ingress_permissions_def egress_permissions_def using names_of_rules [OF assms(1)] assms(2)
  by (auto intro!: those_exists build_permission_exists simp: rules_given_iff)

lemma keys_by_lower_name: "keys (by_lower_name l) = (ToLower \<circ> GroupName) ` set l"
  by (auto simp: by_lower_name_def keys_fold_put)

lemma wf_by_lower_name: "wf_map (by_lower_name l)"
  by (simp add: by_lower_name_def wf_fold_put)

lemma by_lower_name_listed:
  assumes "map_of (by_lower_name l) k = Some sg"
  shows "sg \<in> set l \<and> ToLower (GroupName sg) = k"
proof -
  have "map_of (fold (\<lambda>sg. put (ToLower (GroupName sg)) sg) l m) k = Some sg \<Longrightarrow>
      sg \<in> set l \<and> ToLower (GroupName sg) = k \<or> map_of m k = Some sg" for m
    by (induction l arbitrary: m) (fastforce split: if_splits)+
  from this [of "[]"] assms show ?thesis by (simp add: by_lower_name_def)
qed

text \<open>The groups an update of rules works with: those the rules name and the group itself, all found and nothing else.\<close>

definition groups_found ::
    "order \<Rightarrow> 'c ec2ServiceConfig \<Rightarrow> 'c \<Rightarrow> CloudResourceID \<Rightarrow> IngressRule option list \<Rightarrow> EgressRule option list \<Rightarrow> ec2_SecurityGroup list \<Rightarrow> bool" where
  "groups_found ord cfg c gid irules erules l \<longleftrightarrow> (case buildEc2CloudSgNamesFromRules gid irules erules of
     None \<Rightarrow> False
   | Some names \<Rightarrow> describeSecurityGroups (apiClient cfg)
       (buildAwsEc2FilterForSecurityGroupNameMatches ord (id_Vpc gid # getVpcPeers (id_Vpc gid) cfg) names) c = Inr l \<and>
       (ToLower \<circ> GroupName) ` set l = keys names)"

lemma update_rules_runs:
  assumes "aws_getVpcAccount ord (id_Vpc gid) accs = Some acc" "GetServiceConfigByName awsComputeServiceNameEC2 acc = Inr cfg"
    and "groups_found ord cfg (cloud w) gid irules erules l"
  shows "run_state (aws_UpdateSecurityGroupRules ord accs gid irules erules) w = run_state
      (let sgs = by_lower_name l; sgObj = map_of sgs (GetCloudName gid False)
       in and_then (realizeIngressIPPermissions cfg sgObj irules sgs) (\<lambda>_. realizeEgressIPPermissions cfg sgObj erules sgs)) w"
proof -
  obtain names where names: "buildEc2CloudSgNamesFromRules gid irules erules = Some names"
    using assms(3) by (auto simp: groups_found_def split: option.splits)
  have keys: "keys (by_lower_name l) = keys names"
    using assms(3) by (simp add: groups_found_def names keys_by_lower_name)
  then have "length (by_lower_name l) = length names"
    using wf_by_lower_name names_of_rules(1) [OF names] by (metis length_wf_map)
  then show ?thesis using assms
    by (simp add: aws_UpdateSecurityGroupRules_def with_service_def names run_and_then getCloudSecurityGroupsWithNameFromCloud_def
        run_ask groups_found_def Let_def)
qed

lemma groups_found_D:
  assumes "groups_found ord cfg c gid irules erules l"
  obtains names where "buildEc2CloudSgNamesFromRules gid irules erules = Some names" "keys (by_lower_name l) = keys names"
    "describeSecurityGroups (apiClient cfg)
       (buildAwsEc2FilterForSecurityGroupNameMatches ord (id_Vpc gid # getVpcPeers (id_Vpc gid) cfg) names) c = Inr l"
  using assms that by (auto simp: groups_found_def keys_by_lower_name split: option.splits)

lemma described_permissions:
  assumes "rules_documented (apiClient cfg) inP egP" "groups_found ord cfg c gid irules erules l" "sg \<in> set l"
  shows "set (IpPermissions sg) = inP c (GroupId sg)" "set (IpPermissionsEgress sg) = egP c (GroupId sg)"
  using assms unfolding rules_documented_def by (blast elim: groups_found_D)+

lemma update_rules_sets:
  assumes "aws_getVpcAccount ord (id_Vpc gid) accs = Some acc" "GetServiceConfigByName awsComputeServiceNameEC2 acc = Inr cfg"
    and "rules_documented (apiClient cfg) inP egP" "rules_available (apiClient cfg)"
    and "groups_found ord cfg (cloud w) gid irules erules l" "map_of (by_lower_name l) (GetCloudName gid False) = Some sg"
    and "ingress_permissions (by_lower_name l) irules = Some ips" "egress_permissions (by_lower_name l) erules = Some eps"
  shows "\<exists>w'. run_state (aws_UpdateSecurityGroupRules ord accs gid irules erules) w = (Returns (Inr ()), w') \<and>
    inP (cloud w') = (inP (cloud w))(GroupId sg := if irules = [] then {} else set ips) \<and>
    egP (cloud w') = (egP (cloud w))(GroupId sg := if erules = [] then {} else set eps)"
proof -
  note old = described_permissions [OF assms(3,5) conjunct1 [OF by_lower_name_listed [OF assms(6)]]]
  have calls: "permission_calls (revokeSecurityGroupIngress (apiClient cfg)) (authorizeSecurityGroupIngress (apiClient cfg)) inP egP"
      "permission_calls (revokeSecurityGroupEgress (apiClient cfg)) (authorizeSecurityGroupEgress (apiClient cfg)) egP inP"
    using assms(3) by (simp_all add: rules_documented_def)
  have good: "succeeds (revokeSecurityGroupIngress (apiClient cfg))" "succeeds (authorizeSecurityGroupIngress (apiClient cfg))"
      "succeeds (revokeSecurityGroupEgress (apiClient cfg))" "succeeds (authorizeSecurityGroupEgress (apiClient cfg))"
    using assms(4) by (simp_all add: rules_available_def)
  obtain v where v: "run_state (realizeIngressIPPermissions cfg (Some sg) irules (by_lower_name l)) w = (Returns (Inr ()), v)"
      "inP (cloud v) = (inP (cloud w))(GroupId sg := if irules = [] then {} else set ips)" "egP (cloud v) = egP (cloud w)"
    using realize_ok [OF calls(1) good(1,2) old(1) assms(7), of irules] assms(7) by (auto simp: realizeIngressIPPermissions_def)
  have "set (IpPermissionsEgress sg) = egP (cloud v) (GroupId sg)" using old(2) v(3) by simp
  then obtain w' where w':
      "run_state (realizeEgressIPPermissions cfg (Some sg) erules (by_lower_name l)) v = (Returns (Inr ()), w')"
      "egP (cloud w') = (egP (cloud v))(GroupId sg := if erules = [] then {} else set eps)" "inP (cloud w') = inP (cloud v)"
    using realize_ok [OF calls(2) good(3,4) _ assms(8), of "IpPermissionsEgress sg" v "GroupId sg" erules] assms(8)
    by (auto simp: realizeEgressIPPermissions_def)
  with v(1) have "run_state (aws_UpdateSecurityGroupRules ord accs gid irules erules) w = (Returns (Inr ()), w')"
    using update_rules_runs [OF assms(1,2,5)] assms(6) by (simp add: run_and_then Let_def)
  with v w' show ?thesis by auto
qed


section \<open>Failures\<close>

text \<open>
  C21: the old ingress permissions are revoked before the new ones are sent, so when EC2 refuses the new ones the update
  returns the error with the group left without any ingress permission, whatever it had before; its egress
  permissions are not touched.
\<close>

theorem aws_rules_lost_on_error:
  assumes "aws_getVpcAccount ord (id_Vpc gid) accs = Some acc" "GetServiceConfigByName awsComputeServiceNameEC2 acc = Inr cfg"
    and "rules_documented (apiClient cfg) inP egP" "succeeds (revokeSecurityGroupIngress (apiClient cfg))"
    and "groups_found ord cfg (cloud w) gid irules erules l" "map_of (by_lower_name l) (GetCloudName gid False) = Some sg"
    and "irules \<noteq> []" "\<And>ps c. fst (authorizeSecurityGroupIngress (apiClient cfg) (GroupId sg) ps c) = Some e"
  shows "\<exists>w'. run_state (aws_UpdateSecurityGroupRules ord accs gid irules erules) w = (Returns (Inl e), w') \<and>
    inP (cloud w') = (inP (cloud w))(GroupId sg := {}) \<and> egP (cloud w') = egP (cloud w)"
proof -
  obtain names where names: "buildEc2CloudSgNamesFromRules gid irules erules = Some names" "keys (by_lower_name l) = keys names"
    by (rule groups_found_D [OF assms(5)])
  obtain ips where perms: "ingress_permissions (by_lower_name l) irules = Some ips" using permissions_exist(1) [OF names] by blast
  note old = described_permissions(1) [OF assms(3,5) conjunct1 [OF by_lower_name_listed [OF assms(6)]]]
  have calls: "permission_calls (revokeSecurityGroupIngress (apiClient cfg)) (authorizeSecurityGroupIngress (apiClient cfg)) inP egP"
    using assms(3) by (simp add: rules_documented_def)
  obtain v where v: "run_state (if length (IpPermissions sg) > 0 then call (revokeSecurityGroupIngress (apiClient cfg) (GroupId sg) (IpPermissions sg))
        else succeed ()) w = (Returns (Inr ()), v)"
      "inP (cloud v) = (inP (cloud w))(GroupId sg := {})" "egP (cloud v) = egP (cloud w)"
    by (rule revoke_old [OF calls assms(4) old])
  obtain w' where w': "run_state (call (authorizeSecurityGroupIngress (apiClient cfg) (GroupId sg) ips)) v = (Returns (Inl e), w')"
    using assms(8) by (simp add: run_call)
  with call_effect(2) [OF calls w'] v show ?thesis
    using update_rules_runs [OF assms(1,2,5)] assms(6,7) perms
    by (simp add: run_and_then realizeIngressIPPermissions_def realize_def Let_def)
qed

section \<open>An example\<close>

text \<open>Secure web traffic from the members of another group, in place of a rule for remote logins.\<close>

definition demo_rule :: IngressRule where
  "demo_rule = \<lparr>FromPort = Some 443, FromSrcIP = [], FromSecurityGroups = [demo_db], in_Protocol = Some 6\<rparr>"

definition demo_account :: "error \<Rightarrow> (demo_cloud ec2ServiceConfig, unit) cloudAccountConfig" where
  "demo_account err = \<lparr>acc_namespacedName = \<lparr>nn_Namespace = ''ns'', nn_Name = ''a''\<rparr>, credentials = (),
     serviceConfigs = [(''EC2'', demo_service err)], inventoryPollInterval = 60, inventory_polling = True, Status_Error = []\<rparr>"

definition demo_accounts :: "error \<Rightarrow> (demo_cloud, unit) aws_accounts" where
  "demo_accounts err = [(\<lparr>nn_Namespace = ''ns'', nn_Name = ''a''\<rparr>, demo_account err)]"

lemma demo_service_found:
  "GetServiceConfigByName awsComputeServiceNameEC2 (demo_account err) = Inr (demo_service err)"
  "aws_getVpcAccount in_order (id_Vpc demo_web) (demo_accounts err) = Some (demo_account err)"
proof -
  show found: "GetServiceConfigByName awsComputeServiceNameEC2 (demo_account err) = Inr (demo_service err)"
    by (simp add: GetServiceConfigByName_def demo_account_def awsComputeServiceNameEC2_def)
  have "ToLower ''vpc'' = ''vpc''" by code_simp
  then show "aws_getVpcAccount in_order (id_Vpc demo_web) (demo_accounts err) = Some (demo_account err)"
    by (simp add: aws_getVpcAccount_def demo_accounts_def found demo_web_def demo_service_def getCachedVpcIDs_def has_key_iff)
qed

lemma demo_rules_documented:
  "rules_documented (demo_client err) (\<lambda>c g. set (demo_in c g)) (\<lambda>c g. set (demo_eg c g))"
  by (auto simp: rules_documented_def permission_calls_def demo_client_def demo_authorize_def demo_revoke_def demo_groups_def
      demo_sg_def fun_eq_iff)

lemma demo_names:
  "ToLower (demo_name i) = demo_name i" "demo_name ''sg-0'' \<noteq> demo_name ''sg-1''" "demo_name ''sg-0'' \<noteq> demo_name ''sg-2''"
  "demo_name ''sg-1'' \<noteq> demo_name ''sg-2''" "demo_name ''sg-1'' = GetCloudName demo_web False" "demo_name ''sg-2'' = GetCloudName demo_db True"
proof -
  have "ToLower awsVpcDefaultSecurityGroupName = awsVpcDefaultSecurityGroupName" by code_simp
  then show "ToLower (demo_name i) = demo_name i" by (simp add: demo_name_def ToLower_GetCloudName)
qed code_simp+

abbreviation demo_found :: "ec2_SecurityGroup list" where
  "demo_found \<equiv> [demo_sg (cloud demo_world) ''sg-1'', demo_sg (cloud demo_world) ''sg-2'']"

lemma demo_groups_found:
  "groups_found in_order (demo_service err) (cloud demo_world) demo_web [Some demo_rule] [] demo_found"
  "map_of (by_lower_name demo_found) (GetCloudName demo_web False) = Some (demo_sg (cloud demo_world) ''sg-1'')"
  "map_of (by_lower_name demo_found) (GetCloudName demo_db True) = Some (demo_sg (cloud demo_world) ''sg-2'')"
proof -
  let ?names = "put (GetCloudName demo_web False) () (put (GetCloudName demo_db True) () [])"
  have n: "buildEc2CloudSgNamesFromRules demo_web [Some demo_rule] [] = Some ?names"
    by (simp add: buildEc2CloudSgNamesFromRules_def rules_given_def demo_rule_def)
  have k: "keys ?names = {demo_name ''sg-1'', demo_name ''sg-2''}" using demo_names(5,6) by simp
  have "demo_groups (buildAwsEc2FilterForSecurityGroupNameMatches in_order vpcs ?names) c =
      filter (\<lambda>sg. GroupName sg \<in> keys ?names) [demo_sg c ''sg-0'', demo_sg c ''sg-1'', demo_sg c ''sg-2'']" for vpcs c
    by (simp add: demo_groups_def buildAwsEc2FilterForSecurityGroupNameMatches_def awsFilterKeyVPCID_def awsFilterKeyGroupName_def
        keys_def)
  moreover have "filter (\<lambda>sg. GroupName sg \<in> keys ?names) [demo_sg c ''sg-0'', demo_sg c ''sg-1'', demo_sg c ''sg-2''] =
      [demo_sg c ''sg-1'', demo_sg c ''sg-2'']" for c
    unfolding k using demo_names(2,3) by (simp add: demo_sg_def)
  moreover have "(ToLower \<circ> GroupName) ` set demo_found = keys ?names" unfolding k by (simp add: demo_sg_def demo_names(1))
  ultimately show "groups_found in_order (demo_service err) (cloud demo_world) demo_web [Some demo_rule] [] demo_found"
    unfolding groups_found_def n by (simp add: demo_service_def demo_client_def)
  show "map_of (by_lower_name demo_found) (GetCloudName demo_web False) = Some (demo_sg (cloud demo_world) ''sg-1'')"
    "map_of (by_lower_name demo_found) (GetCloudName demo_db True) = Some (demo_sg (cloud demo_world) ''sg-2'')"
    using demo_names(4-6) ToLower_GetCloudName by (simp_all add: by_lower_name_def demo_sg_def)
qed


theorem aws_rules_lost_on_error_witness:
  "\<exists>w'. run_state (aws_UpdateSecurityGroupRules in_order (demo_accounts (Some (Err ''limit''))) demo_web [Some demo_rule] []) demo_world =
      (Returns (Inl (Err ''limit'')), w') \<and>
    demo_in (cloud demo_world) ''sg-1'' \<noteq> [] \<and> demo_in (cloud w') ''sg-1'' = []"
proof -
  let ?svc = "demo_service (Some (Err ''limit''))"
  have fails: "succeeds (revokeSecurityGroupIngress (apiClient ?svc))"
      "fst (authorizeSecurityGroupIngress (apiClient ?svc) g ps c) = Some (Err ''limit'')" for g ps c
    by (simp_all add: succeeds_def demo_service_def demo_client_def demo_authorize_def demo_revoke_def)
  have doc: "rules_documented (apiClient ?svc) (\<lambda>c g. set (demo_in c g)) (\<lambda>c g. set (demo_eg c g))"
    using demo_rules_documented by (simp add: demo_service_def)
  have "GroupId (demo_sg (cloud demo_world) ''sg-1'') = ''sg-1''" "demo_in (cloud demo_world) ''sg-1'' \<noteq> []"
    by (simp_all add: demo_sg_def demo_world_def)
  then show ?thesis
    using aws_rules_lost_on_error [OF demo_service_found(2,1) doc fails(1) demo_groups_found(1,2) _ fails(2)]
    by (metis (no_types, lifting) fun_upd_same list.distinct(1) set_empty)
qed

end
