(* ===== verification/Aws_Paging.thy ===== *)
theory Aws_Paging
  imports Go_Prelude
begin

text \<open>
  The paged descriptions of EC2 (\<^verbatim>\<open>pkg/cloud-provider/cloudapi/aws/aws_api_wrappers.go\<close>). Each loop asks for the next page
  until the token it gets is empty, which need not happen: not returning is the value \<open>None\<close>. The call of the
  SDK is a parameter; it gets the token of the page and returns the items of the page with the next token.
\<close>

partial_function (option) paged ::
    "string \<Rightarrow> (string \<Rightarrow> go_error + 'a list \<times> string option) \<Rightarrow> string \<Rightarrow> 'a list \<Rightarrow> (go_error + 'a list) option" where
  "paged msg describe token items = (case describe token of
     Inl err \<Rightarrow> Some (Inl (Err (msg @ quoted (Error err))))
   | Inr (page, next_token) \<Rightarrow>
       (let items' = items @ page; t = (case next_token of None \<Rightarrow> [] | Some s \<Rightarrow> s)
        in if t = [] then Some (Inr items') else paged msg describe t items'))"

declare paged.simps [code]

text \<open>A reservation holds several instances.\<close>

definition pagedDescribeInstancesWrapper ::
    "(string \<Rightarrow> go_error + 'a list list \<times> string option) \<Rightarrow> (go_error + 'a list) option" where
  "pagedDescribeInstancesWrapper DescribeInstances =
     paged ''error describing ec2 instances : ''
       (\<lambda>t. case DescribeInstances t of Inl err \<Rightarrow> Inl err | Inr (reservations, nt) \<Rightarrow> Inr (concat reservations, nt)) [] []"

definition pagedDescribeNetworkInterfaces_impl ::
    "(string \<Rightarrow> go_error + 'a list \<times> string option) \<Rightarrow> (go_error + 'a list) option" where
  "pagedDescribeNetworkInterfaces_impl DescribeNetworkInterfaces =
     paged ''error describing ec2 network interfaces: '' DescribeNetworkInterfaces [] []"

section \<open>Termination\<close>

text \<open>
  What EC2 documents: the answer to the token of a page is the page with the token of the next one, and the last page has
  no token or an empty one.
\<close>

fun pages_from :: "(string \<Rightarrow> go_error + 'a list \<times> string option) \<Rightarrow> string \<Rightarrow> 'a list list \<Rightarrow> bool" where
  "pages_from describe token [] \<longleftrightarrow> False"
| "pages_from describe token [p] \<longleftrightarrow> describe token = Inr (p, None) \<or> describe token = Inr (p, Some [])"
| "pages_from describe token (p # ps) \<longleftrightarrow> (case describe token of
     Inr (q, Some t) \<Rightarrow> q = p \<and> t \<noteq> [] \<and> pages_from describe t ps | _ \<Rightarrow> False)"

lemma paged_pages: "pages_from describe token ps \<Longrightarrow> paged msg describe token items = Some (Inr (items @ concat ps))"
proof (induction describe token ps arbitrary: items rule: pages_from.induct)
  case (2 describe token p)
  then show ?case by (subst paged.simps) auto
next
  case (3 describe token p q ps)
  from "3.prems" obtain t where "describe token = Inr (p, Some t)" "t \<noteq> []" "pages_from describe t (q # ps)"
    by (auto split: sum.splits option.splits)
  with "3.IH" show ?case by (subst paged.simps) simp
qed simp

text \<open>
  C26: the paged descriptions end whenever the service has finitely many pages, and return the items of all of
  them in order, the instances of every reservation included.
\<close>

theorem paged_describe_returns:
  assumes "pages_from (\<lambda>t. case DescribeInstances t of Inl err \<Rightarrow> Inl err | Inr (rs, nt) \<Rightarrow> Inr (concat rs, nt)) [] instances"
    and "pages_from DescribeNetworkInterfaces [] interfaces"
  shows "pagedDescribeInstancesWrapper DescribeInstances = Some (Inr (concat instances)) \<and>
    pagedDescribeNetworkInterfaces_impl DescribeNetworkInterfaces = Some (Inr (concat interfaces))"
  using paged_pages [OF assms(1)] paged_pages [OF assms(2)]
  by (simp add: pagedDescribeInstancesWrapper_def pagedDescribeNetworkInterfaces_impl_def)

theorem paged_describe_returns_witness:
  "pagedDescribeInstancesWrapper (\<lambda>t. if t = [] then Inr ([[1, 2], [3]], Some ''a'') else Inr ([[4 :: nat]], None)) =
     Some (Inr [1, 2, 3, 4])"
  using paged_describe_returns [of "\<lambda>t. if t = [] then Inr ([[1, 2], [3]], Some ''a'') else Inr ([[4 :: nat]], None)"
      "[[1, 2, 3], [4]]" "\<lambda>_. Inr ([], None)" "[[] :: nat list]"]
  by simp

text \<open>A service that always has another page keeps the loop going.\<close>

lemma paged_same_token_hangs:
  fixes items :: "'a list"
  shows "paged msg (\<lambda>_. Inr ([], Some ''a'')) token items = None"
proof (rule ccontr)
  let ?d = "(\<lambda>_. Inr ([], Some ''a'')) :: string \<Rightarrow> go_error + 'a list \<times> string option"
  assume "paged msg ?d token items \<noteq> None"
  then obtain y where "paged msg ?d token items = Some y" by blast
  then have "?d \<noteq> ?d"
    by (rule paged.raw_induct [where P = "\<lambda>_ describe _ _ _. describe \<noteq> ?d", rotated])
      (auto split: sum.splits prod.splits if_splits simp: Let_def)
  then show False by simp
qed

end
