(* ===== verification/Vm_Poller.thy ===== *)
theory Vm_Poller
  imports Cloud_Accounts Go_Monad
begin

text \<open>
  The poller of a selector (\<^verbatim>\<open>pkg/controllers/cloud/account_poller.go\<close>): it compares the virtual machines discovered in the
  cloud with the resources of the selector in Kubernetes and creates, updates and deletes resources. The Kubernetes client
  is a record of calls on its state \<open>'k\<close>. Addresses of pointers are never equal: \<^verbatim>\<open>&s1 == &s2\<close> compares
  two parameters.
\<close>

section \<open>Resources\<close>

text \<open>A resource has the names and kinds of its owners besides what the cloud says.\<close>

record VirtualMachine = VirtualMachineCRD +
  vm_OwnerReferences :: "(string \<times> string) list"

definition CloudEntitySelectorKind :: string where "CloudEntitySelectorKind = ''CloudEntitySelector''"

definition isVirtualMachineOwnedBy :: "VirtualMachine \<Rightarrow> (string, CloudEntitySelector) gomap \<Rightarrow> bool" where
  "isVirtualMachineOwnedBy virtualMachine ownerSelector \<longleftrightarrow>
     (\<exists>(vmOwnerName, vmOwnerKind) \<in> set (vm_OwnerReferences virtualMachine).
        has_key ownerSelector vmOwnerName \<and> vmOwnerKind = CloudEntitySelectorKind)"

section \<open>Comparison of what was discovered\<close>

definition areTagsSame :: "(string, string) gomap \<Rightarrow> (string, string) gomap \<Rightarrow> bool" where
  "areTagsSame s1 s2 \<longleftrightarrow> list_all (\<lambda>(key1, value1). case map_of s2 key1 of
     None \<Rightarrow> False | Some value2 \<Rightarrow> ToLower value1 = ToLower value2) s1"

definition AddressType_String :: "AddressType \<Rightarrow> string" where
  "AddressType_String t = (case t of AddressTypeHostName \<Rightarrow> ''HostName'' | AddressTypeInternalIP \<Rightarrow> ''InternalIP''
     | AddressTypeExternalIP \<Rightarrow> ''ExternalIP'')"

definition convertAddressToMap :: "IPAddress list \<Rightarrow> (string, unit) gomap" where
  "convertAddressToMap addrs = fold (\<lambda>a. put (AddressType_String (ip_AddressType a) @ '':'' @ ip_Address a) ()) addrs []"

definition areIPAddressesSame :: "IPAddress list \<Rightarrow> IPAddress list \<Rightarrow> bool" where
  "areIPAddressesSame s1 s2 \<longleftrightarrow> list_all (\<lambda>(key1, _). has_key (convertAddressToMap s2) key1) (convertAddressToMap s1)"

definition convertNetworkInterfacesToMap :: "NetworkInterface list \<Rightarrow> (string, NetworkInterface) gomap" where
  "convertNetworkInterfacesToMap nwInterfaces = fold (\<lambda>n. put (nif_Name n) n) nwInterfaces []"

definition areNetworkInterfacesSame :: "NetworkInterface list \<Rightarrow> NetworkInterface list \<Rightarrow> bool" where
  "areNetworkInterfacesSame s1 s2 \<longleftrightarrow> length s1 = length s2 \<and>
     list_all (\<lambda>(key1, value1). case map_of (convertNetworkInterfacesToMap s2) key1 of
       None \<Rightarrow> False
     | Some value2 \<Rightarrow> ToLower (nif_Name value1) = ToLower (nif_Name value2) \<and> ToLower (MAC value1) = ToLower (MAC value2) \<and>
         length (IPs value1) = length (IPs value2) \<and> areIPAddressesSame (IPs value1) (IPs value2))
       (convertNetworkInterfacesToMap s1)"

definition areDiscoveredFieldsSameVirtualMachineStatus ::
    "'a VirtualMachineCRD_scheme \<Rightarrow> 'b VirtualMachineCRD_scheme \<Rightarrow> bool" where
  "areDiscoveredFieldsSameVirtualMachineStatus s1 s2 \<longleftrightarrow>
     crd_Provider s1 = crd_Provider s2 \<and> crd_State s1 = crd_State s2 \<and> VirtualPrivateCloud s1 = VirtualPrivateCloud s2 \<and>
     length (crd_Tags s1) = length (crd_Tags s2) \<and> length (NetworkInterfaces s1) = length (NetworkInterfaces s2) \<and>
     areTagsSame (crd_Tags s1) (crd_Tags s2) \<and> areNetworkInterfacesSame (NetworkInterfaces s1) (NetworkInterfaces s2)"

definition updateCloudDiscoveredFieldsOfVirtualMachineStatus :: "'a VirtualMachineCRD_scheme \<Rightarrow> 'b VirtualMachineCRD_scheme \<Rightarrow> 'a VirtualMachineCRD_scheme" where
  "updateCloudDiscoveredFieldsOfVirtualMachineStatus current discovered =
     current\<lparr>crd_Provider := crd_Provider discovered, crd_State := crd_State discovered,
             NetworkInterfaces := NetworkInterfaces discovered, VirtualPrivateCloud := VirtualPrivateCloud discovered,
             crd_Tags := crd_Tags discovered\<rparr>"

section \<open>Operations\<close>

record 'k vm_client =
  vm_List :: "string \<Rightarrow> 'k \<Rightarrow> go_error + VirtualMachine list"
  vm_Get :: "NamespacedName \<Rightarrow> 'k \<Rightarrow> go_error + VirtualMachine"
  vm_Create :: "VirtualMachine \<Rightarrow> 'k \<Rightarrow> error \<times> 'k"
  vm_StatusUpdate :: "VirtualMachine \<Rightarrow> 'k \<Rightarrow> error \<times> 'k"
  vm_Delete :: "NamespacedName \<Rightarrow> 'k \<Rightarrow> error \<times> 'k"
  vm_SetControllerReference :: "CloudEntitySelector \<Rightarrow> VirtualMachine \<Rightarrow> go_error + VirtualMachine"

definition vm_key :: "'a VirtualMachineCRD_scheme \<Rightarrow> NamespacedName" where
  "vm_key vm = \<lparr>nn_Namespace = crd_Namespace vm, nn_Name = crd_Name vm\<rparr>"

text \<open>\<^verbatim>\<open>client.IgnoreNotFound\<close>.\<close>

definition IgnoreNotFound :: "error \<Rightarrow> error" where
  "IgnoreNotFound err = (case err of Some (NotFound _) \<Rightarrow> None | _ \<Rightarrow> err)"

definition getCurrentVirtualMachinesByName ::
    "'k vm_client \<Rightarrow> CloudEntitySelector \<Rightarrow> 'k \<Rightarrow> go_error + (string, VirtualMachine) gomap" where
  "getCurrentVirtualMachinesByName cl selector k = (case vm_List cl (sel_Namespace selector) k of
     Inl err \<Rightarrow> Inl err
   | Inr items \<Rightarrow> Inr (fold (\<lambda>vm. put (crd_Name vm) vm)
       (filter (\<lambda>vm. isVirtualMachineOwnedBy vm [(sel_Name selector, selector)]) items) []))"

text \<open>The lists of machines to create and to update, and the resources that no discovered machine has had yet.\<close>

definition sort_discovered ::
    "VirtualMachine \<Rightarrow> VirtualMachine list \<times> VirtualMachine list \<times> (string, VirtualMachine) gomap \<Rightarrow>
     VirtualMachine list \<times> VirtualMachine list \<times> (string, VirtualMachine) gomap" where
  "sort_discovered discovered acc = (case acc of (toCreate, toUpdate, current) \<Rightarrow>
     (case map_of current (crd_Name discovered) of
        None \<Rightarrow> (toCreate @ [discovered], toUpdate, current)
      | Some cur \<Rightarrow> (toCreate, if areDiscoveredFieldsSameVirtualMachineStatus cur discovered then toUpdate else toUpdate @ [discovered],
          del (crd_Name cur) current)))"

record vm_operations =
  accountResourceToCreate :: "VirtualMachine list"
  accountResourceToDelete :: "VirtualMachine list"
  accountResourceToUpdate :: "VirtualMachine list"

definition findVirtualMachinesByOperation ::
    "'k vm_client \<Rightarrow> order \<Rightarrow> CloudEntitySelector \<Rightarrow> VirtualMachine list \<Rightarrow> 'k \<Rightarrow> go_error + vm_operations" where
  "findVirtualMachinesByOperation cl ord selector discovered k = (case getCurrentVirtualMachinesByName cl selector k of
     Inl err \<Rightarrow> Inl err
   | Inr current \<Rightarrow>
       if length current = 0
       then Inr \<lparr>accountResourceToCreate = discovered, accountResourceToDelete = [], accountResourceToUpdate = []\<rparr>
       else (case fold sort_discovered discovered ([], [], current) of (toCreate, toUpdate, left_over) \<Rightarrow>
         Inr \<lparr>accountResourceToCreate = toCreate, accountResourceToDelete = map snd (range_map ord left_over),
              accountResourceToUpdate = toUpdate\<rparr>))"

text \<open>The bodies of the three loops, with the error each appends.\<close>

definition kube :: "('k \<Rightarrow> error \<times> 'k) \<Rightarrow> ('k, error) state" where
  "kube f = State f"

definition create_vm :: "'k vm_client \<Rightarrow> CloudEntitySelector \<Rightarrow> VirtualMachine \<Rightarrow> ('k, error) state" where
  "create_vm cl selector vm = (case vm_SetControllerReference cl selector vm of
     Inl e \<Rightarrow> ret (Some e)
   | Inr owned \<Rightarrow> do {
       e \<leftarrow> kube (vm_Create cl owned);
       if e \<noteq> None then ret e else kube (vm_StatusUpdate cl owned)
     })"

definition delete_vm :: "'k vm_client \<Rightarrow> VirtualMachine \<Rightarrow> ('k, error) state" where
  "delete_vm cl vm = do { e \<leftarrow> kube (vm_Delete cl (vm_key vm)); ret (IgnoreNotFound e) }"

text \<open>A machine that is not found any more is updated as a resource without a name.\<close>

definition update_vm :: "'k vm_client \<Rightarrow> VirtualMachine \<Rightarrow> ('k, error) state" where
  "update_vm cl vm = do {
     found \<leftarrow> gets (vm_Get cl (vm_key vm));
     case found of
       Inr currentVM \<Rightarrow> kube (vm_StatusUpdate cl (updateCloudDiscoveredFieldsOfVirtualMachineStatus currentVM vm))
     | Inl e \<Rightarrow>
         if IgnoreNotFound (Some e) \<noteq> None then ret (Some e)
         else kube (vm_StatusUpdate cl (vm\<lparr>crd_Name := [], crd_Namespace := [], crd_Annotations := [], vm_OwnerReferences := []\<rparr>))
   }"

definition collect_errors :: "('a \<Rightarrow> ('k, error) state) \<Rightarrow> 'a list \<Rightarrow> go_error list \<Rightarrow> ('k, go_error list) state" where
  "collect_errors f xs errs = for_fold xs errs (\<lambda>x errs. do { e \<leftarrow> f x; ret (errs @ (case e of None \<Rightarrow> [] | Some err \<Rightarrow> [err])) })"

definition doVirtualMachineOperations ::
    "'k vm_client \<Rightarrow> order \<Rightarrow> CloudEntitySelector \<Rightarrow> VirtualMachine list \<Rightarrow> ('k, error) state" where
  "doVirtualMachineOperations cl ord selector virtualMachines = do {
     found \<leftarrow> gets (findVirtualMachinesByOperation cl ord selector virtualMachines);
     case found of
       Inl err \<Rightarrow> ret (Some err)
     | Inr ops \<Rightarrow> do {
         errs \<leftarrow> collect_errors (create_vm cl selector) (accountResourceToCreate ops) [];
         errs \<leftarrow> collect_errors (delete_vm cl) (accountResourceToDelete ops) errs;
         errs \<leftarrow> collect_errors (update_vm cl) (accountResourceToUpdate ops) errs;
         ret (multierr errs (\<lambda>es. Join es ''; ''))
       }
   }"

end
