(* ===== verification/Vm_Reconcile.thy ===== *)
theory Vm_Reconcile
  imports Vm_Poller
begin

text \<open>
  What polling achieves: when the calls of Kubernetes do what they document and succeed, the resources of a selector
  are those of the discovered machines.
\<close>

section \<open>Behaviour of the Kubernetes client\<close>

text \<open>
  \<open>store\<close> is the resource of every name. Creating a resource keeps its metadata and drops its status, updating the status keeps
  the metadata. The controller of a resource that has no owner can be set.
\<close>

definition same_metadata :: "VirtualMachine \<Rightarrow> VirtualMachine \<Rightarrow> bool" where
  "same_metadata v w \<longleftrightarrow> crd_Name v = crd_Name w \<and> crd_Namespace v = crd_Namespace w \<and> crd_Annotations v = crd_Annotations w \<and>
     vm_OwnerReferences v = vm_OwnerReferences w"

definition as_owned :: "CloudEntitySelector \<Rightarrow> VirtualMachine \<Rightarrow> VirtualMachine" where
  "as_owned selector vm = vm\<lparr>vm_OwnerReferences := [(sel_Name selector, CloudEntitySelectorKind)]\<rparr>"

type_synonym 'k vm_store = "'k \<Rightarrow> NamespacedName \<Rightarrow> VirtualMachine option"

definition vm_documented :: "'k vm_client \<Rightarrow> 'k vm_store \<Rightarrow> bool" where
  "vm_documented cl store \<longleftrightarrow>
     (\<forall>ns k l. vm_List cl ns k = Inr l \<longrightarrow> set l = {vm. \<exists>nn. store k nn = Some vm \<and> nn_Namespace nn = ns}) \<and>
     (\<forall>nn k vm. vm_Get cl nn k = Inr vm \<longrightarrow> store k nn = Some vm) \<and>
     (\<forall>vm k k'. vm_Create cl vm k = (None, k') \<longrightarrow> (\<exists>vm'. same_metadata vm' vm \<and> store k' = (store k)(vm_key vm \<mapsto> vm'))) \<and>
     (\<forall>vm k k' cur. vm_StatusUpdate cl vm k = (None, k') \<longrightarrow> store k (vm_key vm) = Some cur \<longrightarrow>
        store k' = (store k)(vm_key vm \<mapsto> updateCloudDiscoveredFieldsOfVirtualMachineStatus cur vm)) \<and>
     (\<forall>nn k k'. vm_Delete cl nn k = (None, k') \<longrightarrow> store k' = (store k)(nn := None)) \<and>
     (\<forall>sel vm. vm_OwnerReferences vm = [] \<longrightarrow> vm_SetControllerReference cl sel vm = Inr (as_owned sel vm))"

definition vm_available :: "'k vm_client \<Rightarrow> 'k vm_store \<Rightarrow> bool" where
  "vm_available cl store \<longleftrightarrow>
     (\<forall>ns k. \<exists>l. vm_List cl ns k = Inr l) \<and>
     (\<forall>nn k vm. store k nn = Some vm \<longrightarrow> vm_Get cl nn k = Inr vm) \<and>
     (\<forall>vm k. store k (vm_key vm) = None \<longrightarrow> fst (vm_Create cl vm k) = None) \<and>
     (\<forall>vm k. store k (vm_key vm) \<noteq> None \<longrightarrow> fst (vm_StatusUpdate cl vm k) = None) \<and>
     (\<forall>nn k. store k nn \<noteq> None \<longrightarrow> fst (vm_Delete cl nn k) = None)"

lemma key_update [simp]: "vm_key (updateCloudDiscoveredFieldsOfVirtualMachineStatus cur vm) = vm_key cur"
  by (simp add: vm_key_def updateCloudDiscoveredFieldsOfVirtualMachineStatus_def)

lemma key_owned [simp]: "vm_key (as_owned sel vm) = vm_key vm"
  by (simp add: vm_key_def as_owned_def)

lemma update_created: "same_metadata vm' vm \<Longrightarrow> updateCloudDiscoveredFieldsOfVirtualMachineStatus vm' vm = vm"
  by (cases vm) (simp add: same_metadata_def updateCloudDiscoveredFieldsOfVirtualMachineStatus_def)

section \<open>Loops\<close>

lemma collect_loop:
  assumes "\<And>x k. x \<in> set xs \<Longrightarrow> pre x (store k (key x)) \<Longrightarrow>
      \<exists>k'. run_state (f x) k = (None, k') \<and> store k' = (store k)(key x := post x (store k (key x)))"
    and "distinct (map key xs)" "\<And>x. x \<in> set xs \<Longrightarrow> pre x (store k (key x))"
  shows "\<exists>k'. run_state (collect_errors f xs errs) k = (errs, k') \<and>
    (\<forall>x \<in> set xs. store k' (key x) = post x (store k (key x))) \<and> (\<forall>nn. nn \<notin> key ` set xs \<longrightarrow> store k' nn = store k nn)"
  using assms
proof (induction xs arbitrary: k)
  case (Cons x xs)
  obtain v where v: "run_state (f x) k = (None, v)" "store v = (store k)(key x := post x (store k (key x)))"
    using Cons.prems(1) [of x k, OF _ Cons.prems(3) [of x]] by fastforce
  have other: "key y \<noteq> key x" if "y \<in> set xs" for y using Cons.prems(2) that by (auto simp: image_iff)
  obtain k' where "run_state (collect_errors f xs errs) v = (errs, k')"
      "\<forall>y \<in> set xs. store k' (key y) = post y (store v (key y))" "\<forall>nn. nn \<notin> key ` set xs \<longrightarrow> store k' nn = store v nn"
    using Cons.IH [of v] Cons.prems v(2) other by auto
  then show ?case using v other Cons.prems(2) by (auto simp: collect_errors_def)
qed (simp add: collect_errors_def)

lemma create_step:
  assumes "vm_documented cl store" "vm_available cl store" "vm_OwnerReferences vm = []" "store k (vm_key vm) = None"
  shows "\<exists>k'. run_state (create_vm cl sel vm) k = (None, k') \<and> store k' = (store k)(vm_key vm := Some (as_owned sel vm))"
proof -
  obtain v where v: "vm_Create cl (as_owned sel vm) k = (None, v)"
    using assms(2,4) by (metis key_owned prod.collapse vm_available_def)
  then obtain vm' where vm': "same_metadata vm' (as_owned sel vm)" "store v = (store k)(vm_key vm \<mapsto> vm')"
    using assms(1) unfolding vm_documented_def by (metis key_owned)
  then have cur: "store v (vm_key (as_owned sel vm)) = Some vm'" by simp
  obtain k' where k': "vm_StatusUpdate cl (as_owned sel vm) v = (None, k')"
    using assms(2) cur unfolding vm_available_def by (metis option.distinct(1) prod.collapse)
  have "store k' = (store v)(vm_key (as_owned sel vm) \<mapsto> updateCloudDiscoveredFieldsOfVirtualMachineStatus vm' (as_owned sel vm))"
    using assms(1) k' cur unfolding vm_documented_def by blast
  moreover have "vm_SetControllerReference cl sel vm = Inr (as_owned sel vm)" using assms(1,3) by (simp add: vm_documented_def)
  ultimately show ?thesis using v vm' k' by (simp add: create_vm_def kube_def update_created)
qed

lemma delete_step:
  assumes "vm_documented cl store" "vm_available cl store" "store k (vm_key vm) \<noteq> None"
  shows "\<exists>k'. run_state (delete_vm cl vm) k = (None, k') \<and> store k' = (store k)(vm_key vm := None)"
proof -
  obtain k' where k': "vm_Delete cl (vm_key vm) k = (None, k')"
    using assms(2,3) unfolding vm_available_def by (metis prod.collapse)
  then have "store k' = (store k)(vm_key vm := None)" using assms(1) unfolding vm_documented_def by blast
  with k' show ?thesis by (simp add: delete_vm_def kube_def IgnoreNotFound_def)
qed

lemma update_step:
  assumes "vm_documented cl store" "vm_available cl store" "store k (vm_key vm) = Some cur" "vm_key cur = vm_key vm"
  shows "\<exists>k'. run_state (update_vm cl vm) k = (None, k') \<and>
    store k' = (store k)(vm_key vm := Some (updateCloudDiscoveredFieldsOfVirtualMachineStatus cur vm))"
proof -
  let ?new = "updateCloudDiscoveredFieldsOfVirtualMachineStatus cur vm"
  have get: "vm_Get cl (vm_key vm) k = Inr cur" using assms(2,3) by (simp add: vm_available_def)
  obtain k' where k': "vm_StatusUpdate cl ?new k = (None, k')"
    using assms(2-4) unfolding vm_available_def by (metis key_update option.distinct(1) prod.collapse)
  then have "store k' = (store k)(vm_key vm \<mapsto> updateCloudDiscoveredFieldsOfVirtualMachineStatus cur ?new)"
    using assms(1,3,4) unfolding vm_documented_def by (metis key_update)
  then show ?thesis
    using k' by (simp add: update_vm_def get kube_def updateCloudDiscoveredFieldsOfVirtualMachineStatus_def)
qed

lemma create_loop:
  assumes "vm_documented cl store" "vm_available cl store" "distinct (map vm_key ds)"
    and "\<And>d. d \<in> set ds \<Longrightarrow> vm_OwnerReferences d = [] \<and> store k (vm_key d) = None"
  shows "\<exists>k'. run_state (collect_errors (create_vm cl sel) ds errs) k = (errs, k') \<and>
    (\<forall>d \<in> set ds. store k' (vm_key d) = Some (as_owned sel d)) \<and> (\<forall>nn. nn \<notin> vm_key ` set ds \<longrightarrow> store k' nn = store k nn)"
  by (rule collect_loop [where pre = "\<lambda>d s. vm_OwnerReferences d = [] \<and> s = None" and post = "\<lambda>d _. Some (as_owned sel d)"])
    (use assms create_step [OF assms(1,2)] in blast)+

lemma delete_loop:
  assumes "vm_documented cl store" "vm_available cl store" "distinct (map vm_key ds)"
    and "\<And>d. d \<in> set ds \<Longrightarrow> store k (vm_key d) \<noteq> None"
  shows "\<exists>k'. run_state (collect_errors (delete_vm cl) ds errs) k = (errs, k') \<and>
    (\<forall>d \<in> set ds. store k' (vm_key d) = None) \<and> (\<forall>nn. nn \<notin> vm_key ` set ds \<longrightarrow> store k' nn = store k nn)"
  by (rule collect_loop [where pre = "\<lambda>d s. s \<noteq> None" and post = "\<lambda>d _. None"])
    (use assms delete_step [OF assms(1,2)] in blast)+

lemma update_loop:
  assumes "vm_documented cl store" "vm_available cl store" "distinct (map vm_key ds)"
    and "\<And>d. d \<in> set ds \<Longrightarrow> \<exists>cur. store k (vm_key d) = Some cur \<and> vm_key cur = vm_key d"
  shows "\<exists>k'. run_state (collect_errors (update_vm cl) ds errs) k = (errs, k') \<and>
    (\<forall>d \<in> set ds. store k' (vm_key d) = Some (updateCloudDiscoveredFieldsOfVirtualMachineStatus (the (store k (vm_key d))) d)) \<and>
    (\<forall>nn. nn \<notin> vm_key ` set ds \<longrightarrow> store k' nn = store k nn)"
proof (rule collect_loop [where pre = "\<lambda>d s. \<exists>cur. s = Some cur \<and> vm_key cur = vm_key d"
      and post = "\<lambda>d s. Some (updateCloudDiscoveredFieldsOfVirtualMachineStatus (the s) d)"])
  fix d :: VirtualMachine and k assume "\<exists>cur. store k (vm_key d) = Some cur \<and> vm_key cur = vm_key d"
  then obtain cur where cur: "store k (vm_key d) = Some cur" "vm_key cur = vm_key d" by blast
  show "\<exists>k'. run_state (update_vm cl d) k = (None, k') \<and>
      store k' = (store k)(vm_key d := Some (updateCloudDiscoveredFieldsOfVirtualMachineStatus (the (store k (vm_key d))) d))"
    using update_step [OF assms(1,2) cur] unfolding cur(1) option.sel .
qed (use assms(3,4) in blast)+

lemma three_loops:
  assumes doc: "vm_documented cl store" "vm_available cl store"
    and dist: "distinct (map vm_key C)" "distinct (map vm_key D)" "distinct (map vm_key U)"
    and C: "\<And>d. d \<in> set C \<Longrightarrow> vm_OwnerReferences d = [] \<and> store k (vm_key d) = None"
    and D: "\<And>d. d \<in> set D \<Longrightarrow> store k (vm_key d) \<noteq> None"
    and U: "\<And>d. d \<in> set U \<Longrightarrow> \<exists>cur. store k (vm_key d) = Some cur \<and> vm_key cur = vm_key d"
    and disjoint: "vm_key ` set D \<inter> vm_key ` set U = {}"
  shows "\<exists>k' x v. run_state (collect_errors (create_vm cl sel) C []) k = ([], v) \<and> run_state (collect_errors (delete_vm cl) D []) v = ([], x) \<and>
    run_state (collect_errors (update_vm cl) U []) x = ([], k') \<and>
    (\<forall>d \<in> set C. store k' (vm_key d) = Some (as_owned sel d)) \<and> (\<forall>d \<in> set D. store k' (vm_key d) = None) \<and>
    (\<forall>d \<in> set U. store k' (vm_key d) = Some (updateCloudDiscoveredFieldsOfVirtualMachineStatus (the (store k (vm_key d))) d)) \<and>
    (\<forall>nn. nn \<notin> vm_key ` (set C \<union> set D \<union> set U) \<longrightarrow> store k' nn = store k nn)"
proof -
  obtain v where v: "run_state (collect_errors (create_vm cl sel) C []) k = ([], v)"
      "\<forall>d \<in> set C. store v (vm_key d) = Some (as_owned sel d)" "\<forall>nn. nn \<notin> vm_key ` set C \<longrightarrow> store v nn = store k nn"
    using create_loop [OF doc dist(1) C] by blast
  have notC: "vm_key d \<notin> vm_key ` set C" if "d \<in> set D \<union> set U" for d
  proof
    assume "vm_key d \<in> vm_key ` set C"
    with C have "store k (vm_key d) = None" by auto
    with that D U show False by (metis UnE option.distinct(1))
  qed
  then have "store v (vm_key d) \<noteq> None" if "d \<in> set D" for d using D [OF that] v(3) that by auto
  then obtain x where x: "run_state (collect_errors (delete_vm cl) D []) v = ([], x)"
      "\<forall>d \<in> set D. store x (vm_key d) = None" "\<forall>nn. nn \<notin> vm_key ` set D \<longrightarrow> store x nn = store v nn"
    using delete_loop [OF doc dist(2)] by blast
  have same: "store x (vm_key d) = store k (vm_key d)" if "d \<in> set U" for d
    using x(3) v(3) notC [of d] that disjoint by (metis IntI UnCI empty_iff imageI)
  then have "\<exists>cur. store x (vm_key d) = Some cur \<and> vm_key cur = vm_key d" if "d \<in> set U" for d using U [OF that] that by simp
  then obtain k' where k': "run_state (collect_errors (update_vm cl) U []) x = ([], k')"
      "\<forall>d \<in> set U. store k' (vm_key d) = Some (updateCloudDiscoveredFieldsOfVirtualMachineStatus (the (store x (vm_key d))) d)"
      "\<forall>nn. nn \<notin> vm_key ` set U \<longrightarrow> store k' nn = store x nn"
    using update_loop [OF doc dist(3)] by blast
  have "vm_key d \<notin> vm_key ` (set D \<union> set U)" if "d \<in> set C" for d using notC that by (metis imageE imageI)
  then have "\<forall>d \<in> set C. store k' (vm_key d) = Some (as_owned sel d)" using k'(3) x(3) v(2) by (simp add: image_Un)
  moreover have "\<forall>d \<in> set D. store k' (vm_key d) = None" using k'(3) x(2) disjoint by (metis IntI empty_iff imageI)
  moreover have "\<forall>nn. nn \<notin> vm_key ` (set C \<union> set D \<union> set U) \<longrightarrow> store k' nn = store k nn" using k'(3) x(3) v(3) by (simp add: image_Un)
  ultimately show ?thesis using v(1) x(1) k'(1,2) same by auto
qed

section \<open>What is to be done\<close>

lemma sort_all:
  assumes "distinct (map crd_Name ds)" "wf_map cur" "\<And>n vm. map_of cur n = Some vm \<Longrightarrow> crd_Name vm = n"
  shows "\<exists>left_over. fold sort_discovered ds (c, u, cur) = (c @ filter (\<lambda>d. map_of cur (crd_Name d) = None) ds,
      u @ filter (\<lambda>d. case map_of cur (crd_Name d) of None \<Rightarrow> False | Some x \<Rightarrow> \<not> areDiscoveredFieldsSameVirtualMachineStatus x d) ds,
      left_over) \<and> wf_map left_over \<and> (\<forall>n. map_of left_over n = (if n \<in> crd_Name ` set ds then None else map_of cur n))"
  using assms
proof (induction ds arbitrary: c u cur)
  case (Cons d ds)
  show ?case
  proof (cases "map_of cur (crd_Name d)")
    case None
    then show ?thesis using Cons.IH [of cur "c @ [d]" u] Cons.prems by (auto simp: sort_discovered_def)
  next
    case (Some x)
    let ?cur = "del (crd_Name d) cur"
    have name: "crd_Name x = crd_Name d" using Cons.prems(3) [OF Some] .
    have same: "map_of ?cur (crd_Name y) = map_of cur (crd_Name y)" if "y \<in> set ds" for y
      using that Cons.prems(1) by (auto simp: image_iff)
    let ?same = "areDiscoveredFieldsSameVirtualMachineStatus" and ?new = "\<lambda>m d. map_of m (crd_Name d) = None"
    let ?old = "\<lambda>m d. case map_of m (crd_Name d) of None \<Rightarrow> False | Some x \<Rightarrow> \<not> ?same x d"
    define u' where "u' = (if ?same x d then u else u @ [d])"
    have step: "sort_discovered d (c, u, cur) = (c, u', ?cur)" using Some name by (simp add: sort_discovered_def u'_def)
    have prems: "distinct (map crd_Name ds)" "wf_map ?cur" "\<And>n vm. map_of ?cur n = Some vm \<Longrightarrow> crd_Name vm = n"
      using Cons.prems by (auto split: if_splits)
    obtain left_over where l: "fold sort_discovered ds (c, u', ?cur) = (c @ filter (?new ?cur) ds, u' @ filter (?old ?cur) ds, left_over)"
        "wf_map left_over" "\<forall>n. map_of left_over n = (if n \<in> crd_Name ` set ds then None else map_of ?cur n)"
      using Cons.IH [OF prems, of c u'] by blast
    have "filter (?new ?cur) ds = filter (?new cur) (d # ds)" "u' @ filter (?old ?cur) ds = u @ filter (?old cur) (d # ds)"
      using same Some by (simp_all add: u'_def cong: filter_cong)
    with l step show ?thesis by (intro exI [of _ left_over]) auto
  qed
qed simp

lemma find_sorted:
  assumes "getCurrentVirtualMachinesByName cl sel k = Inr cur" "is_order ord"
  shows "findVirtualMachinesByOperation cl ord sel ds k = (case fold sort_discovered ds ([], [], cur) of (toCreate, toUpdate, left_over) \<Rightarrow>
    Inr \<lparr>accountResourceToCreate = toCreate, accountResourceToDelete = map snd (range_map ord left_over), accountResourceToUpdate = toUpdate\<rparr>)"
proof -
  have "fold sort_discovered ds (c, u, []) = (c @ ds, u, [])" for c u
    by (induction ds arbitrary: c) (simp_all add: sort_discovered_def)
  moreover have "range_map ord ([] :: (string \<times> VirtualMachine) list) = []" using mset_range_map [OF assms(2)] by (metis mset_zero_iff)
  ultimately show ?thesis using assms(1) by (cases cur) (simp_all add: findVirtualMachinesByOperation_def)
qed

definition wf_store :: "(NamespacedName \<Rightarrow> VirtualMachine option) \<Rightarrow> bool" where
  "wf_store st \<longleftrightarrow> (\<forall>nn vm. st nn = Some vm \<longrightarrow> vm_key vm = nn)"

abbreviation owned :: "CloudEntitySelector \<Rightarrow> VirtualMachine \<Rightarrow> bool" where
  "owned sel vm \<equiv> isVirtualMachineOwnedBy vm [(sel_Name sel, sel)]"

lemma current_machines:
  assumes "vm_documented cl store" "vm_available cl store" "wf_store (store k)"
  shows "\<exists>cur. getCurrentVirtualMachinesByName cl sel k = Inr cur \<and> wf_map cur \<and>
    (\<forall>n vm. map_of cur n = Some vm \<longleftrightarrow> store k \<lparr>nn_Namespace = sel_Namespace sel, nn_Name = n\<rparr> = Some vm \<and> owned sel vm)"
proof -
  obtain l where l: "vm_List cl (sel_Namespace sel) k = Inr l" using assms(2) unfolding vm_available_def by blast
  have items: "vm \<in> set l \<longleftrightarrow> store k (vm_key vm) = Some vm \<and> crd_Namespace vm = sel_Namespace sel" for vm
    using assms(1,3) l unfolding vm_documented_def wf_store_def by (fastforce simp: vm_key_def)
  let ?xs = "filter (owned sel) l" and ?cur = "fold (\<lambda>vm. put (crd_Name vm) vm) (filter (owned sel) l) []"
  have "map_of ?cur n = Some vm \<longleftrightarrow> vm \<in> set ?xs \<and> crd_Name vm = n" for n vm
  proof
    assume "map_of ?cur n = Some vm"
    then show "vm \<in> set ?xs \<and> crd_Name vm = n" using map_of_fold_putD [of crd_Name "\<lambda>x. x" ?xs "[]" n vm] by auto
  next
    assume vm: "vm \<in> set ?xs \<and> crd_Name vm = n"
    then have "n \<in> keys ?cur" by (auto simp: keys_fold_put)
    then obtain v where v: "map_of ?cur n = Some v" by (auto simp: keys_iff)
    then have "v \<in> set ?xs" "crd_Name v = n" using map_of_fold_putD [of crd_Name "\<lambda>x. x" ?xs "[]" n v] by auto
    with vm have "store k (vm_key v) = Some v" "store k (vm_key vm) = Some vm" "vm_key v = vm_key vm"
      using items [of v] items [of vm] by (simp_all, simp add: vm_key_def)
    then have "v = vm" by (metis option.inject)
    with v show "map_of ?cur n = Some vm" by simp
  qed
  moreover have "wf_map ?cur" by (simp add: wf_fold_put)
  moreover have "vm \<in> set ?xs \<and> crd_Name vm = n \<longleftrightarrow>
      store k \<lparr>nn_Namespace = sel_Namespace sel, nn_Name = n\<rparr> = Some vm \<and> owned sel vm" for n vm
    using items [of vm] assms(3) by (auto simp: vm_key_def wf_store_def)
  ultimately show ?thesis using l by (simp add: getCurrentVirtualMachinesByName_def)
qed

lemma same_fields:
  assumes "wf_map (crd_Tags d)" "crd_Provider v = crd_Provider d" "crd_State v = crd_State d" "crd_Tags v = crd_Tags d"
    "VirtualPrivateCloud v = VirtualPrivateCloud d" "NetworkInterfaces v = NetworkInterfaces d"
  shows "areDiscoveredFieldsSameVirtualMachineStatus v d"
proof -
  have "wf_map (convertNetworkInterfacesToMap ns)" for ns by (simp add: convertNetworkInterfacesToMap_def wf_fold_put)
  moreover have "areIPAddressesSame ips ips" for ips
    by (force simp: areIPAddressesSame_def list_all_iff has_key_iff keys_def)
  ultimately have "areNetworkInterfacesSame ns ns" for ns
    using in_set_map_of [of "convertNetworkInterfacesToMap ns"]
    by (auto simp: areNetworkInterfacesSame_def list_all_iff split: option.splits)
  moreover have "areTagsSame (crd_Tags d) (crd_Tags d)"
    using in_set_map_of [OF assms(1)] by (auto simp: areTagsSame_def list_all_iff split: option.splits)
  ultimately show ?thesis using assms by (simp add: areDiscoveredFieldsSameVirtualMachineStatus_def)
qed

section \<open>Reconciliation\<close>

text \<open>
  The discovered machines have different names, belong to the namespace of the selector, and none of them has the
  name of a resource that is not the selector's.
\<close>

definition discovered_ok :: "(NamespacedName \<Rightarrow> VirtualMachine option) \<Rightarrow> CloudEntitySelector \<Rightarrow> VirtualMachine list \<Rightarrow> bool" where
  "discovered_ok st sel ds \<longleftrightarrow> distinct (map crd_Name ds) \<and>
     list_all (\<lambda>d. crd_Namespace d = sel_Namespace sel \<and> vm_OwnerReferences d = [] \<and> wf_map (crd_Tags d) \<and>
       (case st (vm_key d) of None \<Rightarrow> True | Some vm \<Rightarrow> owned sel vm)) ds"

lemma operations_found:
  assumes "vm_documented cl store" "vm_available cl store" "is_order ord" "wf_store (store k)" "discovered_ok (store k) sel ds"
  shows "\<exists>ops. findVirtualMachinesByOperation cl ord sel ds k = Inr ops \<and>
    accountResourceToCreate ops = filter (\<lambda>d. store k (vm_key d) = None) ds \<and>
    accountResourceToUpdate ops = filter (\<lambda>d. case store k (vm_key d) of None \<Rightarrow> False
      | Some x \<Rightarrow> \<not> areDiscoveredFieldsSameVirtualMachineStatus x d) ds \<and>
    distinct (map vm_key (accountResourceToDelete ops)) \<and>
    (\<forall>vm. vm \<in> set (accountResourceToDelete ops) \<longleftrightarrow> store k (vm_key vm) = Some vm \<and> crd_Namespace vm = sel_Namespace sel \<and>
       owned sel vm \<and> vm_key vm \<notin> vm_key ` set ds)"
proof -
  obtain cur where cur: "getCurrentVirtualMachinesByName cl sel k = Inr cur" "wf_map cur"
      "\<And>n vm. map_of cur n = Some vm \<longleftrightarrow> store k \<lparr>nn_Namespace = sel_Namespace sel, nn_Name = n\<rparr> = Some vm \<and> owned sel vm"
    using current_machines [OF assms(1,2,4)] by blast
  have key: "vm_key d = \<lparr>nn_Namespace = sel_Namespace sel, nn_Name = crd_Name d\<rparr>" if "d \<in> set ds" for d
    using that assms(5) by (auto simp: discovered_ok_def list_all_iff vm_key_def)
  have stored: "map_of cur (crd_Name d) = store k (vm_key d)" if "d \<in> set ds" for d
    using that assms(5) key [OF that] cur(3) [of "crd_Name d"]
    by (auto simp: discovered_ok_def list_all_iff split: option.splits) (metis option.exhaust)
  have named: "crd_Name vm = n" if "map_of cur n = Some vm" for n vm
    using that cur(3) assms(4) by (fastforce simp: wf_store_def vm_key_def)
  have dist: "distinct (map crd_Name ds)" using assms(5) by (simp add: discovered_ok_def)
  obtain left_over where l: "fold sort_discovered ds ([], [], cur) = (filter (\<lambda>d. map_of cur (crd_Name d) = None) ds,
      filter (\<lambda>d. case map_of cur (crd_Name d) of None \<Rightarrow> False | Some x \<Rightarrow> \<not> areDiscoveredFieldsSameVirtualMachineStatus x d) ds,
      left_over)" "wf_map left_over" "\<And>n. map_of left_over n = (if n \<in> crd_Name ` set ds then None else map_of cur n)"
    using sort_all [OF dist cur(2) named, of "[]" "[]"] by auto
  let ?del = "map snd (range_map ord left_over)"
  have inset: "(n, vm) \<in> set (range_map ord left_over) \<longleftrightarrow> n \<notin> crd_Name ` set ds \<and> map_of cur n = Some vm" for n vm
    using assms(3) in_set_map_of [OF l(2), of n vm] l(3) by (simp split: if_splits)
  have keyed: "map vm_key ?del = map (\<lambda>(n, _). \<lparr>nn_Namespace = sel_Namespace sel, nn_Name = n\<rparr>) (range_map ord left_over)"
    using inset cur(3) assms(4) by (auto simp: wf_store_def)
  have "distinct (map vm_key ?del)"
    unfolding keyed using distinct_range_map [OF assms(3) l(2)] by (auto simp: distinct_map inj_on_def split_beta)
  moreover have "vm \<in> set ?del \<longleftrightarrow> store k (vm_key vm) = Some vm \<and> crd_Namespace vm = sel_Namespace sel \<and> owned sel vm \<and>
      vm_key vm \<notin> vm_key ` set ds" for vm
  proof
    assume "vm \<in> set ?del"
    then obtain n where n: "n \<notin> crd_Name ` set ds" "map_of cur n = Some vm" using inset by (auto simp del: set_range_map)
    with cur(3) assms(4) have "vm_key vm = \<lparr>nn_Namespace = sel_Namespace sel, nn_Name = n\<rparr>" by (auto simp: wf_store_def)
    with n cur(3) key show "store k (vm_key vm) = Some vm \<and> crd_Namespace vm = sel_Namespace sel \<and> owned sel vm \<and>
      vm_key vm \<notin> vm_key ` set ds" by (auto simp: vm_key_def)
  next
    assume vm: "store k (vm_key vm) = Some vm \<and> crd_Namespace vm = sel_Namespace sel \<and> owned sel vm \<and> vm_key vm \<notin> vm_key ` set ds"
    then have "map_of cur (crd_Name vm) = Some vm" using cur(3) by (auto simp: vm_key_def)
    moreover have "crd_Name vm \<notin> crd_Name ` set ds" using vm key by (auto simp: vm_key_def image_iff)
    ultimately show "vm \<in> set ?del" using inset by (force simp del: set_range_map)
  qed
  ultimately show ?thesis
    using stored by (simp add: find_sorted [OF cur(1) assms(3)] l(1) cong: filter_cong)
qed

lemma owned_as_owned: "owned sel (as_owned sel d)"
  by (simp add: isVirtualMachineOwnedBy_def as_owned_def has_key_def)

lemma owned_update: "owned sel (updateCloudDiscoveredFieldsOfVirtualMachineStatus cur d) = owned sel cur"
  by (simp add: isVirtualMachineOwnedBy_def updateCloudDiscoveredFieldsOfVirtualMachineStatus_def)

lemma distinct_keys: "distinct (map crd_Name ds) \<Longrightarrow> distinct (map vm_key (filter P ds))"
  by (induction ds) (auto simp: vm_key_def image_iff)

definition polled :: "CloudEntitySelector \<Rightarrow> VirtualMachine option \<Rightarrow> VirtualMachine \<Rightarrow> VirtualMachine" where
  "polled sel s d = (case s of
     None \<Rightarrow> as_owned sel d
   | Some cur \<Rightarrow> if areDiscoveredFieldsSameVirtualMachineStatus cur d then cur
       else updateCloudDiscoveredFieldsOfVirtualMachineStatus cur d)"

lemma polled_same:
  assumes "wf_map (crd_Tags d)" "case s of None \<Rightarrow> True | Some vm \<Rightarrow> owned sel vm"
  shows "areDiscoveredFieldsSameVirtualMachineStatus (polled sel s d) d \<and> owned sel (polled sel s d)"
proof (cases s)
  case None
  have "areDiscoveredFieldsSameVirtualMachineStatus (as_owned sel d) d" by (rule same_fields [OF assms(1)]) (simp_all add: as_owned_def)
  with None show ?thesis by (simp add: polled_def owned_as_owned)
next
  case (Some cur)
  have "areDiscoveredFieldsSameVirtualMachineStatus (updateCloudDiscoveredFieldsOfVirtualMachineStatus cur d) d"
    by (rule same_fields [OF assms(1)]) (simp_all add: updateCloudDiscoveredFieldsOfVirtualMachineStatus_def)
  with Some assms(2) show ?thesis by (simp add: polled_def owned_update)
qed

lemma polled_result:
  assumes "d \<in> set ds" "\<And>d e. d \<in> set ds \<Longrightarrow> e \<in> set ds \<Longrightarrow> vm_key d = vm_key e \<Longrightarrow> d = e"
    and "set C \<subseteq> set ds" "set U \<subseteq> set ds" "vm_key ` set D \<inter> vm_key ` set ds = {}"
    and "\<forall>d \<in> set C. s' (vm_key d) = Some (as_owned sel d)" "\<forall>d \<in> set D. s' (vm_key d) = None"
    and "\<forall>d \<in> set U. s' (vm_key d) = Some (updateCloudDiscoveredFieldsOfVirtualMachineStatus (the (s (vm_key d))) d)"
    and "\<forall>nn. nn \<notin> vm_key ` (set C \<union> set D \<union> set U) \<longrightarrow> s' nn = s nn"
    and "C = filter (\<lambda>d. s (vm_key d) = None) ds"
    and "U = filter (\<lambda>d. case s (vm_key d) of None \<Rightarrow> False | Some x \<Rightarrow> \<not> areDiscoveredFieldsSameVirtualMachineStatus x d) ds"
  shows "s' (vm_key d) = Some (polled sel (s (vm_key d)) d)"
proof (cases "s (vm_key d)")
  case None
  then have "d \<in> set C" using assms(1,10) by simp
  then show ?thesis using assms(6) None by (simp add: polled_def)
next
  case (Some cur)
  show ?thesis
  proof (cases "areDiscoveredFieldsSameVirtualMachineStatus cur d")
    case True
    have "vm_key d \<notin> vm_key ` set C" using Some assms(10) by auto
    moreover have "vm_key d \<notin> vm_key ` set D" using assms(1,5) by blast
    moreover have "vm_key d \<notin> vm_key ` set U"
    proof
      assume "vm_key d \<in> vm_key ` set U"
      then obtain e where e: "e \<in> set U" "vm_key d = vm_key e" by blast
      then have "d = e" using assms(1,2,4) by blast
      with e(1) Some True show False by (simp add: assms(11))
    qed
    ultimately show ?thesis using assms(9) Some True by (simp add: image_Un polled_def)
  next
    case False
    then have "d \<in> set U" using Some assms(1,11) by simp
    then show ?thesis using assms(8) Some False by (simp add: polled_def)
  qed
qed

lemma operations_effect:
  assumes "vm_documented cl store" "vm_available cl store" "is_order ord" "wf_store (store k)" "discovered_ok (store k) sel ds"
  shows "\<exists>k'. run_state (doVirtualMachineOperations cl ord sel ds) k = (None, k') \<and>
    (\<forall>d \<in> set ds. store k' (vm_key d) = Some (polled sel (store k (vm_key d)) d)) \<and>
    (\<forall>nn. nn \<notin> vm_key ` set ds \<longrightarrow> store k' nn = (case store k nn of
       None \<Rightarrow> None | Some vm \<Rightarrow> if nn_Namespace nn = sel_Namespace sel \<and> owned sel vm then None else Some vm))"
proof -
  obtain ops where ops: "findVirtualMachinesByOperation cl ord sel ds k = Inr ops"
      "accountResourceToCreate ops = filter (\<lambda>d. store k (vm_key d) = None) ds"
      "accountResourceToUpdate ops = filter (\<lambda>d. case store k (vm_key d) of None \<Rightarrow> False
        | Some x \<Rightarrow> \<not> areDiscoveredFieldsSameVirtualMachineStatus x d) ds"
      "distinct (map vm_key (accountResourceToDelete ops))"
      "\<And>vm. vm \<in> set (accountResourceToDelete ops) \<longleftrightarrow> store k (vm_key vm) = Some vm \<and> crd_Namespace vm = sel_Namespace sel \<and>
         owned sel vm \<and> vm_key vm \<notin> vm_key ` set ds"
    using operations_found [OF assms] by blast
  let ?C = "accountResourceToCreate ops" and ?D = "accountResourceToDelete ops" and ?U = "accountResourceToUpdate ops"
  have ok: "distinct (map crd_Name ds)" "\<And>d. d \<in> set ds \<Longrightarrow> vm_OwnerReferences d = []"
    using assms(5) by (auto simp: discovered_ok_def list_all_iff)
  have inj: "d = e" if "d \<in> set ds" "e \<in> set ds" "vm_key d = vm_key e" for d e
    using that ok(1) by (simp add: distinct_map inj_on_def vm_key_def)
  have sub: "set ?C \<subseteq> set ds" "set ?U \<subseteq> set ds" by (auto simp: ops(2,3))
  have U: "\<exists>cur. store k (vm_key d) = Some cur \<and> vm_key cur = vm_key d" if "d \<in> set ?U" for d
    using that assms(4) by (auto simp: ops(3) wf_store_def split: option.splits)
  have dist: "distinct (map vm_key ?C)" "distinct (map vm_key ?U)" unfolding ops(2,3) by (rule distinct_keys [OF ok(1)])+
  have C: "vm_OwnerReferences d = [] \<and> store k (vm_key d) = None" if "d \<in> set ?C" for d using that ok(2) by (simp add: ops(2))
  have D: "vm_key ` set ?D \<inter> vm_key ` set ds = {}" using ops(5) by auto
  then have disj: "vm_key ` set ?D \<inter> vm_key ` set ?U = {}" using sub(2) by blast
  obtain k' x v where run: "run_state (collect_errors (create_vm cl sel) ?C []) k = ([], v)"
      "run_state (collect_errors (delete_vm cl) ?D []) v = ([], x)" "run_state (collect_errors (update_vm cl) ?U []) x = ([], k')"
    and k': "\<forall>d \<in> set ?C. store k' (vm_key d) = Some (as_owned sel d)" "\<forall>d \<in> set ?D. store k' (vm_key d) = None"
      "\<forall>d \<in> set ?U. store k' (vm_key d) = Some (updateCloudDiscoveredFieldsOfVirtualMachineStatus (the (store k (vm_key d))) d)"
      "\<forall>nn. nn \<notin> vm_key ` (set ?C \<union> set ?D \<union> set ?U) \<longrightarrow> store k' nn = store k nn"
    using three_loops [OF assms(1,2) dist(1) ops(4) dist(2) C _ U disj] ops(5) by blast
  have "store k' (vm_key d) = Some (polled sel (store k (vm_key d)) d)" if d: "d \<in> set ds" for d
    by (rule polled_result [OF d inj sub D k' ops(2,3)])
  moreover have "store k' nn = (case store k nn of None \<Rightarrow> None
      | Some vm \<Rightarrow> if nn_Namespace nn = sel_Namespace sel \<and> owned sel vm then None else Some vm)" if nn: "nn \<notin> vm_key ` set ds" for nn
  proof -
    have "nn \<in> vm_key ` set ?D \<longleftrightarrow> (\<exists>vm. store k nn = Some vm \<and> nn_Namespace nn = sel_Namespace sel \<and> owned sel vm)"
      using nn ops(5) assms(4) by (fastforce simp: wf_store_def vm_key_def)
    moreover have "nn \<notin> vm_key ` set ?C" "nn \<notin> vm_key ` set ?U" using nn sub by blast+
    ultimately show ?thesis using k'(2,4) by (cases "nn \<in> vm_key ` set ?D") (auto simp: image_Un split: option.splits)
  qed
  ultimately show ?thesis using run by (auto simp: doVirtualMachineOperations_def ops(1) multierr_def)
qed


text \<open>A store that is an association list, in which one machine is stale and another one has gone.\<close>

definition demo_vm :: "string \<Rightarrow> string \<Rightarrow> VirtualMachine" where
  "demo_vm name st = \<lparr>crd_Name = name, crd_Namespace = ''ns'', crd_Annotations = [], crd_Provider = AWSCloudProvider,
     VirtualPrivateCloud = ''vpc'', crd_Tags = [], crd_State = st, NetworkInterfaces = [], vm_OwnerReferences = []\<rparr>"

definition demo_selector :: CloudEntitySelector where
  "demo_selector = \<lparr>sel_Name = ''s'', sel_Namespace = ''ns'', OwnerReferences = [], AccountName = ''a'', VMSelector = []\<rparr>"

definition demo_list :: "string \<Rightarrow> (NamespacedName, VirtualMachine) gomap \<Rightarrow> VirtualMachine list" where
  "demo_list ns k = concat (map (\<lambda>(nn, _). case map_of k nn of None \<Rightarrow> [] | Some vm \<Rightarrow> if nn_Namespace nn = ns then [vm] else []) k)"

definition demo_kube :: "(NamespacedName, VirtualMachine) gomap vm_client" where
  "demo_kube = \<lparr>vm_List = (\<lambda>ns k. Inr (demo_list ns k)),
     vm_Get = (\<lambda>nn k. case map_of k nn of None \<Rightarrow> Inl (NotFound []) | Some vm \<Rightarrow> Inr vm),
     vm_Create = (\<lambda>vm k. if has_key k (vm_key vm) then (Some (Err ''exists''), k) else (None, put (vm_key vm) (vm\<lparr>crd_State := []\<rparr>) k)),
     vm_StatusUpdate = (\<lambda>vm k. case map_of k (vm_key vm) of None \<Rightarrow> (Some (NotFound []), k)
       | Some cur \<Rightarrow> (None, put (vm_key vm) (updateCloudDiscoveredFieldsOfVirtualMachineStatus cur vm) k)),
     vm_Delete = (\<lambda>nn k. (None, del nn k)), vm_SetControllerReference = (\<lambda>sel vm. Inr (as_owned sel vm))\<rparr>"

lemma demo_kube_documented: "vm_documented demo_kube map_of" "vm_available demo_kube map_of"
proof -
  have list: "set (demo_list ns k) = {vm. \<exists>nn. map_of k nn = Some vm \<and> nn_Namespace nn = ns}" for ns k
    by (force simp: demo_list_def split: option.splits if_splits dest: map_of_SomeD)
  have created: "\<exists>vm'. same_metadata vm' vm \<and> m(n \<mapsto> vm\<lparr>crd_State := []\<rparr>) = m(n \<mapsto> vm')" for vm and m :: "NamespacedName \<Rightarrow> VirtualMachine option" and n
    by (rule exI [of _ "vm\<lparr>crd_State := []\<rparr>"]) (simp add: same_metadata_def)
  show "vm_documented demo_kube map_of"
    unfolding vm_documented_def demo_kube_def vm_client.simps
    by (auto simp: list has_key_def split: option.splits if_splits intro: created)
  show "vm_available demo_kube map_of"
    unfolding vm_available_def demo_kube_def vm_client.simps by (auto simp: has_key_def split: option.splits)
qed

definition demo_resources :: "(NamespacedName, VirtualMachine) gomap" where
  "demo_resources = map (\<lambda>vm. (vm_key vm, vm)) [as_owned demo_selector (demo_vm ''old'' ''running''), as_owned demo_selector (demo_vm ''kept'' ''stopped'')]"


end
