(* ===== verification/Cloud_Interface.thy ===== *)
theory Cloud_Interface
  imports Cloud_Accounts Go_Monad
begin

text \<open>
  The interface of a cloud plug-in (\<^verbatim>\<open>pkg/cloud-provider/cloudapi/common/cloud.go\<close>), the table of the plug-ins
  (\<^verbatim>\<open>pkg/cloud-provider/plugins.go\<close>) and the requests of the network policy controller, which go to the plug-in
  that manages the virtual network of a group (\<^verbatim>\<open>pkg/cloud-provider/securitygroup_impl.go\<close>). \<open>'w\<close> is the state of the
  plug-ins and of their clouds. A request runs in a goroutine that sends one value on its channel: the value of the program.
\<close>

section \<open>Plug-ins\<close>

record 'w CloudInterface =
  Instances :: "'w \<Rightarrow> VirtualMachineCRD option list \<times> error"
  InstancesGivenProviderAccount :: "NamespacedName \<Rightarrow> 'w \<Rightarrow> go_error + VirtualMachineCRD option list"
  IsVirtualPrivateCloudPresent :: "string \<Rightarrow> 'w \<Rightarrow> bool"
  AddProviderAccount :: "CloudProviderAccount \<Rightarrow> ('w, error outcome) state"
  RemoveProviderAccount :: "NamespacedName \<Rightarrow> ('w, unit) state"
  AddAccountResourceSelector :: "NamespacedName \<Rightarrow> CloudEntitySelector \<Rightarrow> ('w, error) state"
  RemoveAccountResourcesSelector :: "NamespacedName \<Rightarrow> string \<Rightarrow> ('w, unit) state"
  GetAccountStatus :: "NamespacedName \<Rightarrow> 'w \<Rightarrow> go_error + string"
  ci_CreateSecurityGroup :: "CloudResourceID \<Rightarrow> bool \<Rightarrow> ('w, (go_error + string) outcome) state"
  ci_UpdateSecurityGroupRules :: "CloudResourceID \<Rightarrow> IngressRule list \<Rightarrow> EgressRule list \<Rightarrow> ('w, (go_error + unit) outcome) state"
  ci_UpdateSecurityGroupMembers :: "CloudResourceID \<Rightarrow> CloudResource list \<Rightarrow> bool \<Rightarrow> ('w, (go_error + unit) outcome) state"
  ci_DeleteSecurityGroup :: "CloudResourceID \<Rightarrow> bool \<Rightarrow> ('w, (go_error + unit) outcome) state"
  ci_GetEnforcedSecurity :: "'w \<Rightarrow> SynchronizationContent list"

type_synonym 'w plugins = "(string, 'w CloudInterface) gomap"

definition ProviderType :: "CloudProvider \<Rightarrow> string" where
  "ProviderType p = (case p of AzureCloudProvider \<Rightarrow> ''Azure'' | AWSCloudProvider \<Rightarrow> ''AWS'')"

definition registerCloudProvider :: "string \<Rightarrow> 'w CloudInterface \<Rightarrow> 'w plugins \<Rightarrow> 'w plugins" where
  "registerCloudProvider providerType cloud providers =
     (if has_key providers providerType then providers else put providerType cloud providers)"

definition GetCloudInterface :: "string \<Rightarrow> 'w plugins \<Rightarrow> go_error + 'w CloudInterface" where
  "GetCloudInterface providerType providers = (case map_of providers providerType of
     None \<Rightarrow> Inl (Err (''unsupported cloudv1alpha1 provider '' @ quoted providerType))
   | Some cloud \<Rightarrow> Inr cloud)"

definition GetSupportedCloudProviderTypes :: "order \<Rightarrow> 'w plugins \<Rightarrow> string list" where
  "GetSupportedCloudProviderTypes ord providers = map fst (range_map ord providers)"

section \<open>Requests\<close>

fun first_present :: "'w plugins \<Rightarrow> string \<Rightarrow> 'w \<Rightarrow> string list \<Rightarrow> 'w CloudInterface option" where
  "first_present providers vpc w [] = None"
| "first_present providers vpc w (t # ts) = (case GetCloudInterface t providers of
     Inl _ \<Rightarrow> first_present providers vpc w ts
   | Inr cloud \<Rightarrow> if IsVirtualPrivateCloudPresent cloud vpc w then Some cloud else first_present providers vpc w ts)"

definition getCloudInterfaceForCloudResource :: "order \<Rightarrow> 'w plugins \<Rightarrow> CloudResourceID \<Rightarrow> 'w \<Rightarrow> go_error + 'w CloudInterface" where
  "getCloudInterfaceForCloudResource ord providers gid w =
     (let providerTypes = GetSupportedCloudProviderTypes ord providers
      in case first_present providers (id_Vpc gid) w providerTypes of
           Some cloud \<Rightarrow> Inr cloud
         | None \<Rightarrow> Inl (Err (''virtual private cloud ['' @ id_Vpc gid @ ''] not managed by supported clouds ['' @
             fmt_strings providerTypes @ '']'')))"

definition with_plugin ::
    "order \<Rightarrow> 'w plugins \<Rightarrow> CloudResourceID \<Rightarrow> ('w CloudInterface \<Rightarrow> ('w, (go_error + 'a) outcome) state) \<Rightarrow> ('w, (go_error + 'a) outcome) state" where
  "with_plugin ord providers gid f = do {
     found \<leftarrow> gets (getCloudInterfaceForCloudResource ord providers gid);
     case found of Inl err \<Rightarrow> fail err | Inr cloud \<Rightarrow> f cloud
   }"

definition impl_CreateSecurityGroup :: "order \<Rightarrow> 'w plugins \<Rightarrow> CloudResourceID \<Rightarrow> bool \<Rightarrow> ('w, (go_error + unit) outcome) state" where
  "impl_CreateSecurityGroup ord providers gid membershipOnly =
     with_plugin ord providers gid (\<lambda>cloud. and_then (ci_CreateSecurityGroup cloud gid membershipOnly) (\<lambda>_. succeed ()))"

definition impl_UpdateSecurityGroupMembers ::
    "order \<Rightarrow> 'w plugins \<Rightarrow> CloudResourceID \<Rightarrow> CloudResource list \<Rightarrow> bool \<Rightarrow> ('w, (go_error + unit) outcome) state" where
  "impl_UpdateSecurityGroupMembers ord providers gid members membershipOnly =
     with_plugin ord providers gid (\<lambda>cloud. ci_UpdateSecurityGroupMembers cloud gid members membershipOnly)"

definition impl_UpdateSecurityGroupRules ::
    "order \<Rightarrow> 'w plugins \<Rightarrow> CloudResourceID \<Rightarrow> IngressRule list \<Rightarrow> EgressRule list \<Rightarrow> ('w, (go_error + unit) outcome) state" where
  "impl_UpdateSecurityGroupRules ord providers gid ingressRules egressRules =
     with_plugin ord providers gid (\<lambda>cloud. ci_UpdateSecurityGroupRules cloud gid ingressRules egressRules)"

definition impl_DeleteSecurityGroup :: "order \<Rightarrow> 'w plugins \<Rightarrow> CloudResourceID \<Rightarrow> bool \<Rightarrow> ('w, (go_error + unit) outcome) state" where
  "impl_DeleteSecurityGroup ord providers gid membershipOnly =
     with_plugin ord providers gid (\<lambda>cloud. ci_DeleteSecurityGroup cloud gid membershipOnly)"

definition GetSecurityGroupSyncChan :: "order \<Rightarrow> 'w plugins \<Rightarrow> 'w \<Rightarrow> SynchronizationContent list" where
  "GetSecurityGroupSyncChan ord providers w = concat (map (\<lambda>t. case GetCloudInterface t providers of
     Inl _ \<Rightarrow> [] | Inr cloud \<Rightarrow> ci_GetEnforcedSecurity cloud w) (GetSupportedCloudProviderTypes ord providers))"

section \<open>Dispatch\<close>

lemma first_present_iff:
  "first_present providers vpc w ts = Some cloud \<Longrightarrow> IsVirtualPrivateCloudPresent cloud vpc w \<and> (\<exists>t \<in> set ts. map_of providers t = Some cloud)"
  by (induction ts) (auto simp: GetCloudInterface_def split: option.splits sum.splits if_splits)

lemma first_present_None:
  "first_present providers vpc w ts = None \<longleftrightarrow>
     (\<forall>t \<in> set ts. \<forall>cloud. map_of providers t = Some cloud \<longrightarrow> \<not> IsVirtualPrivateCloudPresent cloud vpc w)"
  by (induction ts) (auto simp: GetCloudInterface_def split: option.splits)

lemma supported_types: "is_order ord \<Longrightarrow> set (GetSupportedCloudProviderTypes ord providers) = keys providers"
  by (simp add: GetSupportedCloudProviderTypes_def keys_def)

lemma plugin_found:
  assumes "is_order ord" "map_of providers t = Some cloud" "IsVirtualPrivateCloudPresent cloud (id_Vpc gid) w"
    and "\<And>t' cloud'. map_of providers t' = Some cloud' \<Longrightarrow> IsVirtualPrivateCloudPresent cloud' (id_Vpc gid) w \<Longrightarrow> t' = t"
  shows "getCloudInterfaceForCloudResource ord providers gid w = Inr cloud"
proof -
  let ?ts = "GetSupportedCloudProviderTypes ord providers"
  have "t \<in> set ?ts" using assms(1,2) by (auto simp: supported_types keys_iff)
  then have "first_present providers (id_Vpc gid) w ?ts \<noteq> None" using assms(2,3) unfolding first_present_None by blast
  then obtain c where c: "first_present providers (id_Vpc gid) w ?ts = Some c" by blast
  then obtain t' where t': "map_of providers t' = Some c" "IsVirtualPrivateCloudPresent c (id_Vpc gid) w"
    using first_present_iff [OF c] by blast
  from assms(4) [OF t'] t'(1) assms(2) have "c = cloud" by simp
  with c show ?thesis by (simp add: getCloudInterfaceForCloudResource_def)
qed

lemma no_plugin:
  assumes "is_order ord" "\<And>t cloud. map_of providers t = Some cloud \<Longrightarrow> \<not> IsVirtualPrivateCloudPresent cloud (id_Vpc gid) w"
  shows "\<exists>e. getCloudInterfaceForCloudResource ord providers gid w = Inl e"
proof -
  have "first_present providers (id_Vpc gid) w (GetSupportedCloudProviderTypes ord providers) = None"
    using assms(2) by (simp add: first_present_None)
  then show ?thesis by (simp add: getCloudInterfaceForCloudResource_def)
qed

lemma run_with_plugin:
  "getCloudInterfaceForCloudResource ord providers gid w = Inr cloud \<Longrightarrow> run_state (with_plugin ord providers gid f) w = run_state (f cloud) w"
  by (simp add: with_plugin_def)

end
