(* ===== verification/Spec2Isabelle.thy ===== *)
theory Spec2Isabelle
  imports Np_Findings Azure_Inventory Azure_Membership Aws_Inventory Aws_Enforce Aws_Paging Short_Identifier Vm_Reconcile Cloud_Interface
begin

text \<open>
  Nephe, the Antrea cloud controller, verified.
\<close>

section \<open>The life of security groups\<close>



text \<open>
  C14: before the three initial bookmarks have arrived the controller is silent. It has asked the
  cloud for nothing, awaits nothing, and every group it knows is in its initial state.
\<close>

theorem silent_before_bookmarks:
  assumes "reachable ix (SetupWithManager i) r" "bookmarkCnt r < npSyncReadyBookMarkCnt"
  shows "\<not> syncedWithCloud r \<and> requests r = [] \<and> calls r = [] \<and> cloudResponse r = [] \<and>
    (\<forall>c. sg_state (sg_impl r c) = securityGroupStateInit)"
  using reachable_inv [OF assms(1)] assms(2) by (simp add: lifecycle_inv_def quiet_def abs_lc_def)

theorem silent_before_bookmarks_witness:
  "requests (run_actions example_env (take 2 bookmarks @ [add_group, add_addr_group]) start) = []"
proof -
  have "bookmarkCnt (run_actions example_env (take 2 bookmarks @ [add_group, add_addr_group]) start) < npSyncReadyBookMarkCnt"
    by code_simp
  then show ?thesis
    using silent_before_bookmarks [OF reachable_run [of example_env, unfolded start_def]] by (simp add: start_def)
qed

text \<open>
  C2: every request the controller ever makes fits the state of its group at that moment:
  creation only once synchronized, members and rules only for a created group, deletion only for a
  retired one, always under the group's own identifier and never while an operation of the group
  waits to be retried.
\<close>

theorem requests_in_state:
  assumes "reachable ix (SetupWithManager i) r" "q \<in> set (requests r)"
  shows "request_ok q"
  using reachable_inv [OF assms(1)] assms(2) by (simp add: lifecycle_inv_def abs_lc_def)

theorem requests_in_state_witness:
  "list_all request_ok example_requests"
  using requests_in_state [OF reachable_example [unfolded start_def]] by (simp add: example_state_def list_all_iff)



end
